(* ===== verification/Prelude.thy ===== *)
theory Prelude
  imports "HOL-Library.Word" "HOL-Library.Multiset" "HOL-Library.AList"
begin

text \<open>
  Shared vocabulary of the development: the machine integers and byte strings of the Rust
  sources, \<open>Result\<close> as a sum with the \<open>?\<close> operator as \<open>and_then\<close>, the panics of the
  language as an outcome of their own, and the operations of \<open>str\<close> and \<open>u64\<close> from the
  standard library that the orchestrator calls.

  A Rust \<open>String\<close> is a \<open>string\<close> whose characters are its UTF-8 bytes, so \<open>length\<close> is
  \<open>str::len\<close>.
\<close>

named_theorems result_simps
  "evaluation of the combinators on Result"

section \<open>Machine integers and bytes\<close>

type_synonym u8 = "8 word"
type_synonym u32 = "32 word"
type_synonym i32 = "32 word"
type_synonym u64 = "64 word"
type_synonym i64 = "64 word"
type_synonym u128 = "128 word"
type_synonym bytes = "8 word list"

text \<open>\<open>as_bytes\<close> and its inverse on the bytes of a string.\<close>

definition as_bytes :: "string \<Rightarrow> bytes" where
  "as_bytes s = map (\<lambda>c. word_of_nat (of_char c)) s"

definition of_bytes :: "bytes \<Rightarrow> string" where
  "of_bytes bs = map (\<lambda>b. char_of (unat b)) bs"

lemma of_bytes_as_bytes [simp]: "of_bytes (as_bytes s) = s"
proof -
  have "char_of (unat (word_of_nat (of_char c) :: u8)) = c" for c
  proof -
    have "(of_char c :: nat) < 2 ^ 8"
      using nat_of_char_less_256 [of c] by simp
    then have "unat (word_of_nat (of_char c) :: u8) = of_char c"
      by (simp add: unat_of_nat)
    then show ?thesis by simp
  qed
  then show ?thesis
    by (simp add: as_bytes_def of_bytes_def o_def)
qed

lemma length_as_bytes [simp]: "length (as_bytes s) = length s"
  by (simp add: as_bytes_def)

lemma length_of_bytes [simp]: "length (of_bytes bs) = length bs"
  by (simp add: of_bytes_def)

lemma as_bytes_of_bytes [simp]: "as_bytes (of_bytes bs) = bs"
proof -
  have "word_of_nat (of_char (char_of (unat b) :: char)) = b" for b :: u8
  proof -
    have "unat b < 256" using unsigned_less [of b, where ?'a = nat] by simp
    then show ?thesis by simp
  qed
  then show ?thesis
    by (simp add: as_bytes_def of_bytes_def o_def)
qed

text \<open>\<open>as\<close> casts between unsigned widths: reduction modulo the target, exact when wider.\<close>

lemma unat_ucast_down: "unat (ucast (w::'a::len word) :: 'b::len word) = unat w mod 2 ^ LENGTH('b)"
  by (simp add: unsigned_ucast_eq unsigned_take_bit_eq take_bit_eq_mod)

lemma unat_ucast_up: "LENGTH('a) \<le> LENGTH('b) \<Longrightarrow> unat (ucast (w::'a::len word) :: 'b::len word) = unat w"
proof -
  assume "LENGTH('a) \<le> LENGTH('b)"
  then have "(2::nat) ^ LENGTH('a) \<le> 2 ^ LENGTH('b)" by simp
  then have "unat w < 2 ^ LENGTH('b)"
    using unsigned_less [of w, where ?'a = nat] by linarith
  then show ?thesis by (simp add: unat_ucast_down)
qed

section \<open>Result, the question-mark operator, and panics\<close>

abbreviation Ok :: "'a \<Rightarrow> 'e + 'a" where "Ok \<equiv> Inr"
abbreviation Err :: "'e \<Rightarrow> 'e + 'a" where "Err \<equiv> Inl"

fun and_then :: "'e + 'a \<Rightarrow> ('a \<Rightarrow> 'e + 'b) \<Rightarrow> 'e + 'b" where
  "and_then (Inl e) f = Inl e"
| "and_then (Inr x) f = f x"

fun map_err :: "('e \<Rightarrow> 'f) \<Rightarrow> 'e + 'a \<Rightarrow> 'f + 'a" where
  "map_err f (Inl e) = Inl (f e)"
| "map_err f (Inr x) = Inr x"

fun ok_or :: "'e \<Rightarrow> 'a option \<Rightarrow> 'e + 'a" where
  "ok_or e None = Inl e"
| "ok_or e (Some x) = Inr x"

fun result_ok :: "'e + 'a \<Rightarrow> 'a option" where
  "result_ok (Inl e) = None"
| "result_ok (Inr x) = Some x"

fun is_ok :: "'e + 'a \<Rightarrow> bool" where
  "is_ok (Inl e) = False"
| "is_ok (Inr x) = True"

fun unwrap_or :: "'a \<Rightarrow> 'a option \<Rightarrow> 'a" where
  "unwrap_or d None = d"
| "unwrap_or d (Some x) = x"

lemma and_then_Ok_iff [result_simps]:
  "and_then r f = Ok y \<longleftrightarrow> (\<exists>x. r = Ok x \<and> f x = Ok y)"
  by (cases r) auto

lemma and_then_Err_iff [result_simps]:
  "and_then r f = Err e \<longleftrightarrow> r = Err e \<or> (\<exists>x. r = Ok x \<and> f x = Err e)"
  by (cases r) auto

lemma map_err_Ok_iff [result_simps]: "map_err f r = Ok x \<longleftrightarrow> r = Ok x"
  by (cases r) auto

lemma map_err_Err_iff [result_simps]: "map_err f r = Err e \<longleftrightarrow> (\<exists>d. r = Err d \<and> e = f d)"
  by (cases r) auto

lemma ok_or_Ok_iff [result_simps]: "ok_or e r = Ok x \<longleftrightarrow> r = Some x"
  by (cases r) auto

lemma ok_or_Err_iff [result_simps]: "ok_or e r = Err d \<longleftrightarrow> r = None \<and> d = e"
  by (cases r) auto

lemma is_ok_iff [result_simps]: "is_ok r \<longleftrightarrow> (\<exists>x. r = Ok x)"
  by (cases r) auto

lemma result_ok_Some_iff [result_simps]: "result_ok r = Some x \<longleftrightarrow> r = Ok x"
  by (cases r) auto

text \<open>A computation of the language either returns or panics.\<close>

datatype 'a run = Return 'a | Panic

fun run_bind :: "'a run \<Rightarrow> ('a \<Rightarrow> 'b run) \<Rightarrow> 'b run" where
  "run_bind (Return x) f = f x"
| "run_bind Panic f = Panic"

section \<open>Strings of the standard library\<close>

fun starts_with :: "string \<Rightarrow> string \<Rightarrow> bool" where
  "starts_with [] s = True"
| "starts_with (p # ps) [] = False"
| "starts_with (p # ps) (c # s) = (p = c \<and> starts_with ps s)"

lemma starts_with_iff: "starts_with p s \<longleftrightarrow> (\<exists>t. s = p @ t)"
  by (induction p s rule: starts_with.induct) auto

text \<open>\<open>str::contains\<close> with a string pattern.\<close>

fun str_contains :: "string \<Rightarrow> string \<Rightarrow> bool" where
  "str_contains pat [] = (pat = [])"
| "str_contains pat (c # s) = (starts_with pat (c # s) \<or> str_contains pat s)"

lemma str_contains_iff: "str_contains pat s \<longleftrightarrow> (\<exists>a b. s = a @ pat @ b)"
proof (induction s)
  case Nil
  then show ?case by auto
next
  case (Cons c s)
  have "(\<exists>a b. c # s = a @ pat @ b) \<longleftrightarrow> (\<exists>b. c # s = pat @ b) \<or> (\<exists>a b. s = a @ pat @ b)"
  proof
    assume "\<exists>a b. c # s = a @ pat @ b"
    then obtain a b where "c # s = a @ pat @ b" by blast
    then show "(\<exists>b. c # s = pat @ b) \<or> (\<exists>a b. s = a @ pat @ b)"
      by (cases a) auto
  next
    assume "(\<exists>b. c # s = pat @ b) \<or> (\<exists>a b. s = a @ pat @ b)"
    then show "\<exists>a b. c # s = a @ pat @ b"
      by (metis append_Cons append_Nil)
  qed
  with Cons show ?case by (simp add: starts_with_iff)
qed

text \<open>\<open>trim_start_matches\<close> strips the pattern as often as it stands at the front.\<close>

function trim_start_matches :: "string \<Rightarrow> string \<Rightarrow> string" where
  "trim_start_matches pat s =
     (if pat \<noteq> [] \<and> starts_with pat s then trim_start_matches pat (drop (length pat) s) else s)"
  by pat_completeness auto
termination
  by (relation "measure (\<lambda>(pat, s). length s)") (auto simp: starts_with_iff)

declare trim_start_matches.simps [simp del]

definition trim_end_matches_char :: "char \<Rightarrow> string \<Rightarrow> string" where
  "trim_end_matches_char c s = rev (dropWhile (\<lambda>x. x = c) (rev s))"

definition trim_start_matches_char :: "char \<Rightarrow> string \<Rightarrow> string" where
  "trim_start_matches_char c s = dropWhile (\<lambda>x. x = c) s"

lemma trim_start_matches_none: "\<not> starts_with pat s \<Longrightarrow> trim_start_matches pat s = s"
  by (subst trim_start_matches.simps) simp

lemma trim_start_matches_strip:
  "pat \<noteq> [] \<Longrightarrow> trim_start_matches pat (pat @ s) = trim_start_matches pat s"
  by (subst trim_start_matches.simps) (simp add: starts_with_iff)

text \<open>
  White space of Unicode (property \<open>White_Space\<close>), as the UTF-8 byte sequences of its
  characters. \<open>str::trim\<close> strips these at both ends.
\<close>

definition ws_chars :: "string list" where
  "ws_chars =
     [[CHR 0x09], [CHR 0x0A], [CHR 0x0B], [CHR 0x0C], [CHR 0x0D], [CHR 0x20],
      [CHR 0xC2, CHR 0x85], [CHR 0xC2, CHR 0xA0], [CHR 0xE1, CHR 0x9A, CHR 0x80],
      [CHR 0xE2, CHR 0x80, CHR 0x80], [CHR 0xE2, CHR 0x80, CHR 0x81],
      [CHR 0xE2, CHR 0x80, CHR 0x82], [CHR 0xE2, CHR 0x80, CHR 0x83],
      [CHR 0xE2, CHR 0x80, CHR 0x84], [CHR 0xE2, CHR 0x80, CHR 0x85],
      [CHR 0xE2, CHR 0x80, CHR 0x86], [CHR 0xE2, CHR 0x80, CHR 0x87],
      [CHR 0xE2, CHR 0x80, CHR 0x88], [CHR 0xE2, CHR 0x80, CHR 0x89],
      [CHR 0xE2, CHR 0x80, CHR 0x8A], [CHR 0xE2, CHR 0x80, CHR 0xA8],
      [CHR 0xE2, CHR 0x80, CHR 0xA9], [CHR 0xE2, CHR 0x80, CHR 0xAF],
      [CHR 0xE2, CHR 0x81, CHR 0x9F], [CHR 0xE3, CHR 0x80, CHR 0x80]]"

definition ws_ascii :: "string" where
  "ws_ascii = [CHR 0x09, CHR 0x0A, CHR 0x0B, CHR 0x0C, CHR 0x0D, CHR 0x20]"

fun strip_any :: "string list \<Rightarrow> string \<Rightarrow> string option" where
  "strip_any [] s = None"
| "strip_any (p # ps) s =
     (if p \<noteq> [] \<and> starts_with p s then Some (drop (length p) s) else strip_any ps s)"

lemma strip_any_shorter: "strip_any ps s = Some t \<Longrightarrow> length t < length s"
proof (induction ps)
  case (Cons p ps)
  then show ?case by (cases "p \<noteq> [] \<and> starts_with p s") (auto simp: starts_with_iff)
qed simp

function strip_all :: "string list \<Rightarrow> string \<Rightarrow> string" where
  "strip_all ps s = (case strip_any ps s of None \<Rightarrow> s | Some t \<Rightarrow> strip_all ps t)"
  by pat_completeness auto
termination
  by (relation "measure (\<lambda>(ps, s). length s)") (auto dest: strip_any_shorter)

declare strip_all.simps [simp del]

definition trim_start :: "string \<Rightarrow> string" where
  "trim_start s = strip_all ws_chars s"

definition trim_end :: "string \<Rightarrow> string" where
  "trim_end s = rev (strip_all (map rev ws_chars) (rev s))"

definition trim :: "string \<Rightarrow> string" where
  "trim s = trim_end (trim_start s)"

lemma strip_all_none: "strip_any ps s = None \<Longrightarrow> strip_all ps s = s"
  by (subst strip_all.simps) simp

lemma strip_all_Nil [simp]: "strip_all ps [] = []"
proof -
  have "strip_any ps [] = None"
    by (induction ps) (auto simp: starts_with_iff)
  then show ?thesis by (rule strip_all_none)
qed

text \<open>A character of the visible ASCII range neither starts nor ends white space.\<close>

definition visible :: "char \<Rightarrow> bool" where
  "visible c = (let n = of_char c :: nat in 32 < n \<and> n < 128)"

lemma strip_any_hd:
  "(\<And>p. p \<in> set ps \<Longrightarrow> hd p \<noteq> c) \<Longrightarrow> strip_any ps (c # s) = None"
proof (induction ps)
  case (Cons p ps)
  have "hd p \<noteq> c" using Cons.prems by simp
  moreover have "strip_any ps (c # s) = None" using Cons by simp
  ultimately show ?case by (cases p) auto
qed simp

lemma ws_ends_invisible:
  "list_all (\<lambda>p. \<not> visible (hd p)) ws_chars"
  "list_all (\<lambda>p. \<not> visible (hd p)) (map rev ws_chars)"
  by (simp_all add: ws_chars_def visible_def)

lemma strip_any_visible:
  assumes "visible c"
  shows "strip_any ws_chars (c # s) = None" "strip_any (map rev ws_chars) (c # s) = None"
proof -
  have "hd p \<noteq> c" if "p \<in> set ws_chars \<union> set (map rev ws_chars)" for p
    using ws_ends_invisible assms that by (auto simp only: list_all_iff Un_iff)
  then show "strip_any ws_chars (c # s) = None" "strip_any (map rev ws_chars) (c # s) = None"
    by (intro strip_any_hd; blast)+
qed

lemma trim_start_visible: "visible c \<Longrightarrow> trim_start (c # s) = c # s"
  by (simp add: trim_start_def strip_all_none strip_any_visible)

lemma trim_start_Nil [simp]: "trim_start [] = []"
  by (simp add: trim_start_def)

lemma trim_start_space: "trim_start (CHR '' '' # s) = trim_start s"
  unfolding trim_start_def
  by (subst strip_all.simps) (simp add: ws_chars_def)

lemma trim_end_visible: "visible c \<Longrightarrow> trim_end (s @ [c]) = s @ [c]"
  by (simp add: trim_end_def strip_all_none strip_any_visible)

lemma trim_end_Nil [simp]: "trim_end [] = []"
  by (simp add: trim_end_def)

lemma trim_visible: "visible c \<Longrightarrow> visible d \<Longrightarrow> trim (c # s @ [d]) = c # s @ [d]"
  using trim_end_visible [of d "c # s"] by (simp add: trim_def trim_start_visible)

lemma trim_visible_all:
  assumes "s \<noteq> []" "\<And>c. c \<in> set s \<Longrightarrow> visible c"
  shows "trim s = s"
proof -
  obtain c t where s: "s = c # t" using assms(1) by (cases s) auto
  have hd: "trim_start s = s" using assms(2) s by (simp add: trim_start_visible)
  obtain u d where u: "s = u @ [d]" using assms(1) by (cases s rule: rev_cases) auto
  have "trim_end s = s" using assms(2) u by (simp add: trim_end_visible)
  with hd show ?thesis by (simp add: trim_def)
qed

lemma trim_space: "trim (CHR '' '' # s) = trim s"
  by (simp add: trim_def trim_start_space)

text \<open>
  The white-space sequences are prefix-free, so stripping them reduces a string to nothing
  exactly when it is a concatenation of them.
\<close>

lemma strip_any_sound:
  "strip_any ps s = Some t \<Longrightarrow> \<exists>p \<in> set ps. p \<noteq> [] \<and> s = p @ t"
  by (induction ps) (auto simp: starts_with_iff split: if_splits)

lemma strip_any_None: "strip_any ps s = None \<Longrightarrow> p \<in> set ps \<Longrightarrow> p \<noteq> [] \<Longrightarrow> s \<noteq> p @ t"
  by (induction ps) (auto simp: starts_with_iff split: if_splits)

lemma ws_prefix_free_list:
  "list_all (\<lambda>p. list_all (\<lambda>q. starts_with p q \<longrightarrow> p = q) ws_chars) ws_chars"
  by code_simp

lemma ws_prefix_free:
  assumes "p \<in> set ws_chars" "q \<in> set ws_chars" "p @ s = q @ t"
  shows "p = q \<and> s = t"
proof -
  have "starts_with p q \<or> starts_with q p"
    using assms(3) by (auto simp: starts_with_iff append_eq_append_conv2)
  with assms(1,2) ws_prefix_free_list have "p = q"
    by (auto simp only: list_all_iff)
  with assms(3) show ?thesis by simp
qed

lemma ws_nonempty_list: "list_all (\<lambda>p. p \<noteq> []) ws_chars"
  by (simp add: ws_chars_def)

lemma ws_nonempty: "p \<in> set ws_chars \<Longrightarrow> p \<noteq> []"
  using ws_nonempty_list by (auto simp only: list_all_iff)

lemma strip_any_ws: "p \<in> set ws_chars \<Longrightarrow> strip_any ws_chars (p @ s) = Some s"
proof (cases "strip_any ws_chars (p @ s)")
  case None
  assume "p \<in> set ws_chars"
  with None show ?thesis
    using strip_any_None [OF None] ws_nonempty by blast
next
  case (Some t)
  assume "p \<in> set ws_chars"
  with strip_any_sound [OF Some] ws_prefix_free Some show ?thesis by metis
qed

lemma trim_start_ws: "p \<in> set ws_chars \<Longrightarrow> trim_start (p @ s) = trim_start s"
  unfolding trim_start_def by (subst strip_all.simps) (simp add: strip_any_ws)

lemma trim_start_concat: "set ps \<subseteq> set ws_chars \<Longrightarrow> trim_start (concat ps) = []"
  by (induction ps) (auto simp: trim_start_ws)

lemma strip_all_sound: "\<exists>qs. set qs \<subseteq> set ps \<and> s = concat qs @ strip_all ps s"
proof (induction ps s rule: strip_all.induct)
  case (1 ps s)
  show ?case
  proof (cases "strip_any ps s")
    case None
    then show ?thesis by (intro exI [of _ "[]"]) (simp add: strip_all_none)
  next
    case (Some t)
    then obtain p where p: "p \<in> set ps" "s = p @ t" using strip_any_sound by blast
    obtain qs where "set qs \<subseteq> set ps" "t = concat qs @ strip_all ps t"
      using 1 [OF Some] by blast
    moreover have "strip_all ps s = strip_all ps t"
      using Some by (subst strip_all.simps) simp
    ultimately show ?thesis
      using p by (intro exI [of _ "p # qs"]) simp
  qed
qed

lemma strip_any_strip_all: "strip_any ps (strip_all ps s) = None"
proof (induction ps s rule: strip_all.induct)
  case (1 ps s)
  then show ?case
    by (cases "strip_any ps s") (simp_all add: strip_all.simps [of ps s])
qed

lemma trim_end_empty_concat:
  assumes "trim_end s = []"
  shows "\<exists>ps. set ps \<subseteq> set ws_chars \<and> s = concat ps"
proof -
  obtain qs where qs: "set qs \<subseteq> set (map rev ws_chars)"
      "rev s = concat qs @ strip_all (map rev ws_chars) (rev s)"
    using strip_all_sound by blast
  then have "rev s = concat qs" using assms by (simp add: trim_end_def)
  then have "s = concat (rev (map rev qs))"
    by (metis rev_concat rev_map rev_rev_ident)
  moreover have "set (rev (map rev qs)) \<subseteq> set ws_chars"
    using qs(1) by auto
  ultimately show ?thesis by blast
qed

lemma trim_empty_iff: "trim s = [] \<longleftrightarrow> (\<exists>ps. set ps \<subseteq> set ws_chars \<and> s = concat ps)"
proof
  assume "trim s = []"
  then obtain ps where ps: "set ps \<subseteq> set ws_chars" "trim_start s = concat ps"
    using trim_end_empty_concat by (auto simp: trim_def)
  have "concat ps = []"
  proof (cases ps)
    case (Cons p qs)
    then have "strip_any ws_chars (trim_start s) = Some (concat qs)"
      using ps strip_any_ws [of p "concat qs"] by simp
    then show ?thesis
      by (simp add: trim_start_def strip_any_strip_all)
  qed simp
  then have "strip_all ws_chars s = []" using ps by (simp add: trim_start_def)
  then show "\<exists>ps. set ps \<subseteq> set ws_chars \<and> s = concat ps"
    using strip_all_sound [of ws_chars s] by auto
next
  assume "\<exists>ps. set ps \<subseteq> set ws_chars \<and> s = concat ps"
  then show "trim s = []"
    by (auto simp: trim_def trim_start_concat)
qed

text \<open>\<open>str::split\<close> by one character: never empty.\<close>

fun split_char :: "char \<Rightarrow> string \<Rightarrow> string list" where
  "split_char d [] = [[]]"
| "split_char d (c # s) =
     (if c = d then [] # split_char d s
      else (case split_char d s of [] \<Rightarrow> [[c]] | p # ps \<Rightarrow> (c # p) # ps))"

lemma split_char_nonempty [simp]: "split_char d s \<noteq> []"
  by (induction s) (auto split: list.splits)

lemma split_char_single: "d \<notin> set s \<Longrightarrow> split_char d s = [s]"
  by (induction s) auto

lemma split_char_append:
  "d \<notin> set s \<Longrightarrow> split_char d (s @ d # t) = s # split_char d t"
  by (induction s) auto

section \<open>Decimal numbers\<close>

text \<open>\<open>Display\<close> of an unsigned integer.\<close>

definition digit_char :: "nat \<Rightarrow> char" where
  "digit_char d = char_of (48 + d)"

fun dec :: "nat \<Rightarrow> string" where
  "dec n = (if n < 10 then [digit_char n] else dec (n div 10) @ [digit_char (n mod 10)])"

declare dec.simps [simp del]

text \<open>\<open>parse::<u64>\<close>: an optional plus sign, at least one digit, no overflow.\<close>

definition digit_val :: "char \<Rightarrow> nat option" where
  "digit_val c =
     (let n = of_char c :: nat in if 48 \<le> n \<and> n < 58 then Some (n - 48) else None)"

fun digits_val :: "nat \<Rightarrow> string \<Rightarrow> nat option" where
  "digits_val acc [] = Some acc"
| "digits_val acc (c # s) =
     (case digit_val c of None \<Rightarrow> None | Some d \<Rightarrow> digits_val (10 * acc + d) s)"

definition parse_unsigned :: "nat \<Rightarrow> string \<Rightarrow> nat option" where
  "parse_unsigned bound s =
     (let body = (case s of [] \<Rightarrow> [] | c # cs \<Rightarrow> if c = CHR ''+'' then cs else s)
      in if body = [] then None
         else (case digits_val 0 body of
                 None \<Rightarrow> None
               | Some n \<Rightarrow> if n < bound then Some n else None))"

definition parse_u64 :: "string \<Rightarrow> u64 option" where
  "parse_u64 s = map_option word_of_nat (parse_unsigned (2 ^ 64) s)"

definition parse_u32 :: "string \<Rightarrow> u32 option" where
  "parse_u32 s = map_option word_of_nat (parse_unsigned (2 ^ 32) s)"

lemma digit_val_digit_char [simp]: "d < 10 \<Longrightarrow> digit_val (digit_char d) = Some d"
  by (simp add: digit_val_def digit_char_def Let_def)

lemma digits_val_append:
  "digits_val acc (s @ t) =
     (case digits_val acc s of None \<Rightarrow> None | Some n \<Rightarrow> digits_val n t)"
  by (induction s arbitrary: acc) (auto split: option.splits)

lemma dec_nonempty [simp]: "dec n \<noteq> []"
  by (subst dec.simps) simp

lemma digits_val_dec: "digits_val 0 (dec n) = Some n"
proof (induction n rule: dec.induct)
  case (1 n)
  show ?case
  proof (cases "n < 10")
    case True
    then show ?thesis by (subst dec.simps) simp
  next
    case False
    with 1 have "digits_val 0 (dec (n div 10)) = Some (n div 10)" by simp
    with False show ?thesis
      by (subst dec.simps) (simp add: digits_val_append)
  qed
qed

lemma dec_digits: "c \<in> set (dec n) \<Longrightarrow> \<exists>d < 10. c = digit_char d"
proof (induction n rule: dec.induct)
  case (1 n)
  show ?case
  proof (cases "n < 10")
    case True
    with 1 show ?thesis by (auto simp: dec.simps [of n])
  next
    case False
    then have "n mod 10 < 10" by simp
    with False 1 show ?thesis
      by (auto simp: dec.simps [of n] intro: exI [of _ "n mod 10"])
  qed
qed

lemma digit_char_range: "d < 10 \<Longrightarrow> of_char (digit_char d) = 48 + d"
  by (simp add: digit_char_def)

lemma dec_not_in:
  assumes "of_char c < (48::nat) \<or> 57 < (of_char c :: nat)"
  shows "c \<notin> set (dec n)"
proof
  assume "c \<in> set (dec n)"
  then obtain d where "d < 10" "c = digit_char d"
    using dec_digits by blast
  then show False
    using assms digit_char_range [of d] by auto
qed

lemma dec_hd: "\<exists>d < 10. \<exists>t. dec n = digit_char d # t"
  using dec_digits [of "hd (dec n)" n]
  by (metis dec_nonempty list.collapse list.set_sel(1))

lemma parse_unsigned_dec: "n < b \<Longrightarrow> parse_unsigned b (dec n) = Some n"
proof -
  assume n: "n < b"
  have "CHR ''+'' \<notin> set (dec n)"
    by (rule dec_not_in) simp
  then have "(case dec n of [] \<Rightarrow> [] | c # cs \<Rightarrow> if c = CHR ''+'' then cs else dec n) = dec n"
    by (auto split: list.splits)
  with n show ?thesis
    by (simp add: parse_unsigned_def digits_val_dec)
qed

lemma parse_u64_dec: "parse_u64 (dec (unat w)) = Some w"
  using unsigned_less [of w, where ?'a = nat] by (simp add: parse_u64_def parse_unsigned_dec)

section \<open>Lower case, character boundaries, truncation\<close>

text \<open>
  \<open>to_lowercase\<close>. Every use in the sources compares the result with ASCII literals, so only
  the characters whose lower case is ASCII matter: A to Z, the Kelvin sign (U+212A) and the
  letter I with dot above (U+0130, two code points in lower case). Other characters keep at
  least one non-ASCII byte and are left as they are.
\<close>

definition ascii_lower :: "char \<Rightarrow> char" where
  "ascii_lower c =
     (let n = of_char c :: nat in if 65 \<le> n \<and> n < 91 then char_of (n + 32) else c)"

fun to_lowercase :: "string \<Rightarrow> string" where
  "to_lowercase [] = []"
| "to_lowercase (c # s) =
     (if starts_with [CHR 0xE2, CHR 0x84, CHR 0xAA] (c # s)
        then CHR ''k'' # to_lowercase (drop 2 s)
      else if starts_with [CHR 0xC4, CHR 0xB0] (c # s)
        then CHR ''i'' # CHR 0xCC # CHR 0x87 # to_lowercase (drop 1 s)
      else ascii_lower c # to_lowercase s)"

text \<open>A byte is a boundary unless it continues a UTF-8 sequence (80 to BF).\<close>

definition is_continuation :: "char \<Rightarrow> bool" where
  "is_continuation c = (let n = of_char c :: nat in 128 \<le> n \<and> n < 192)"

definition is_char_boundary :: "string \<Rightarrow> nat \<Rightarrow> bool" where
  "is_char_boundary s i =
     (i = 0 \<or> i = length s \<or> (i < length s \<and> \<not> is_continuation (s ! i)))"

text \<open>\<open>String::truncate\<close> panics when the new length is not a boundary.\<close>

definition truncate_str :: "nat \<Rightarrow> string \<Rightarrow> string run" where
  "truncate_str n s =
     (if n \<le> length s
      then (if is_char_boundary s n then Return (take n s) else Panic)
      else Return s)"

text \<open>The number of characters (\<open>char_length\<close> of Postgres) is at most the number of bytes.\<close>

definition char_count :: "string \<Rightarrow> nat" where
  "char_count s = length (filter (\<lambda>c. \<not> is_continuation c) s)"

lemma char_count_le_length: "char_count s \<le> length s"
  by (simp add: char_count_def)

text \<open>\<open>{:02x}\<close> of a byte.\<close>

definition hex_digit :: "nat \<Rightarrow> char" where
  "hex_digit d = (if d < 10 then char_of (48 + d) else char_of (87 + d))"

definition hex_byte :: "u8 \<Rightarrow> string" where
  "hex_byte b = [hex_digit (unat b div 16), hex_digit (unat b mod 16)]"

lemma of_char_hex_digit:
  "d < 16 \<Longrightarrow> of_char (hex_digit d) = (if d < 10 then 48 + d else 87 + d :: nat)"
  by (simp add: hex_digit_def)

lemma hex_digit_inj:
  assumes "hex_digit d = hex_digit e" "d < 16" "e < 16"
  shows "d = e"
proof -
  have "(if d < 10 then 48 + d else 87 + d :: nat) = (if e < 10 then 48 + e else 87 + e)"
    using assms of_char_hex_digit by metis
  then show ?thesis by (auto split: if_splits)
qed

lemma hex_byte_inj: "hex_byte a = hex_byte b \<Longrightarrow> a = b"
proof -
  assume eq: "hex_byte a = hex_byte b"
  have lt: "unat x < 256" for x :: u8
    using unsigned_less [of x, where ?'a = nat] by simp
  have "unat x div 16 < 16" for x :: u8
    using lt [of x] by (simp add: less_mult_imp_div_less)
  then have "unat a div 16 = unat b div 16"
    using eq by (intro hex_digit_inj) (simp_all add: hex_byte_def)
  moreover have "unat a mod 16 = unat b mod 16"
    using eq by (intro hex_digit_inj) (simp_all add: hex_byte_def)
  ultimately have "unat a div 16 = unat b div 16" "unat a mod 16 = unat b mod 16" by simp_all
  then have "unat a = unat b" by (metis mult_div_mod_eq)
  then show "a = b" by (simp add: word_unat_eq_iff)
qed

lemma length_hex_byte [simp]: "length (hex_byte b) = 2"
  by (simp add: hex_byte_def)

lemma hex_string_inj: "concat (map hex_byte bs) = concat (map hex_byte cs) \<Longrightarrow> bs = cs"
proof (induction bs arbitrary: cs)
  case Nil
  then show ?case by (cases cs) (auto simp: hex_byte_def)
next
  case (Cons b bs)
  then obtain c ds where cs: "cs = c # ds" by (cases cs) (auto simp: hex_byte_def)
  with Cons.prems have "hex_byte b = hex_byte c" "concat (map hex_byte bs) = concat (map hex_byte ds)"
    by (auto simp: append_eq_append_conv)
  with Cons.IH cs show ?case by (auto dest: hex_byte_inj)
qed

lemma length_hex_string: "length (concat (map hex_byte bs)) = 2 * length bs"
  by (induction bs) auto

section \<open>Association lists as hash maps\<close>

text \<open>
  A \<open>HashMap\<close> is an association list with distinct keys. Its iteration order is not
  specified; operations that iterate take the order as an argument, a permutation of the
  entries.
\<close>

definition map_wf :: "('k \<times> 'v) list \<Rightarrow> bool" where
  "map_wf m = distinct (map fst m)"

lemma map_wf_Nil [simp]: "map_wf []"
  by (simp add: map_wf_def)

lemma map_wf_update [simp]: "map_wf m \<Longrightarrow> map_wf (AList.update k v m)"
  by (simp add: map_wf_def distinct_update)

lemma map_of_update [simp]: "map_of (AList.update k v m) = (map_of m)(k \<mapsto> v)"
  by (rule update_conv')

lemma map_wf_count:
  assumes "map_wf m"
  shows "length (filter P (map snd m)) = card {k. \<exists>v. map_of m k = Some v \<and> P v}"
  using assms
proof (induction m)
  case (Cons kv m)
  obtain k v where kv: "kv = (k, v)" by (cases kv)
  have wf: "map_wf m" "map_of m k = None"
    using Cons.prems kv by (auto simp: map_wf_def map_of_eq_None_iff)
  let ?A = "{k. \<exists>v. map_of m k = Some v \<and> P v}"
  have "finite ?A"
    by (rule finite_subset [OF _ finite_dom_map_of [of m]]) auto
  moreover have "{k'. \<exists>v'. map_of (kv # m) k' = Some v' \<and> P v'}
      = (if P v then insert k ?A else ?A)"
    using wf(2) kv by (auto split: if_splits)
  moreover have "k \<notin> ?A" using wf(2) by simp
  ultimately show ?case
    using Cons.IH [OF wf(1)] kv by simp
qed simp

lemma map_wf_dom: "map_wf m \<Longrightarrow> card (dom (map_of m)) = length m"
  using map_wf_count [of m "\<lambda>_. True"] by (simp add: dom_def)

lemma mset_filter_count: "mset xs = mset ys \<Longrightarrow> length (filter P xs) = length (filter P ys)"
  by (metis mset_filter size_mset)

lemma map_wf_ran: "map_wf m \<Longrightarrow> ran (map_of m) = snd ` set m"
  by (simp add: map_wf_def ran_distinct)

lemma update_fresh: "k \<notin> fst ` set m \<Longrightarrow> AList.update k v m = m @ [(k, v)]"
  by (induction m) auto

lemma set_update: "set (AList.update k v m) \<subseteq> insert (k, v) (set m)"
  by (induction m) auto

lemma update_mem: "(k, v) \<in> set (AList.update k v m)"
  by (induction m) auto

lemma find_None_mset: "find P xs = None \<longleftrightarrow> (\<forall>x \<in># mset xs. \<not> P x)"
  by (auto simp: find_None_iff)

lemma find_SomeD: "find P xs = Some x \<Longrightarrow> x \<in> set xs \<and> P x"
  by (auto simp: find_Some_iff)

end
