(* ===== verification/Core_Types.thy ===== *)
theory Core_Types
  imports Prelude
begin

text \<open>
  The data of the crate \<open>ainur-core\<close>: identifiers (\<open>AgentId\<close>, \<open>TaskId\<close>), tasks, bids,
  results and their parts (src/crates/ainur-core/src/types.rs), the error enums with their
  \<open>Display\<close> text (errors.rs) and the integer protocol constants (constants.rs; the
  floating-point rates are not modelled). A fixed array is a byte list; its length is part of
  the well-formedness predicates.
\<close>

section \<open>Identifiers\<close>

datatype agent_id = AgentId (agent_bytes: bytes)
datatype task_id = TaskId (task_id_bytes: bytes)

definition agent_id_wf :: "agent_id \<Rightarrow> bool" where
  "agent_id_wf a = (length (agent_bytes a) = 32)"

definition task_id_wf :: "task_id \<Rightarrow> bool" where
  "task_id_wf t = (length (task_id_bytes t) = 32)"

section \<open>Errors\<close>

datatype core_error =
    InvalidLength nat nat \<comment> \<open>expected, actual\<close>
  | InvalidFormat string
  | OutOfRange u128 u128 u128 \<comment> \<open>value, min, max\<close>
  | MissingCapability string
  | InvalidStateTransition string string \<comment> \<open>from, to\<close>
  | DeadlineExceeded u64
  | InsufficientResources string
  | VerificationFailed string
  | EconomicConstraintViolation string
  | SerializationError string
  | CryptoError string
  | NetworkError string
  | StorageError string
  | Custom string

fun core_error_display :: "core_error \<Rightarrow> string" where
  "core_error_display (InvalidLength e a) =
     ''Invalid length: expected '' @ dec e @ '', got '' @ dec a"
| "core_error_display (InvalidFormat s) = ''Invalid format: '' @ s"
| "core_error_display (OutOfRange v lo hi) =
     ''Value out of range: '' @ dec (unat v) @ '' not in ['' @ dec (unat lo) @ '', ''
       @ dec (unat hi) @ '']''"
| "core_error_display (MissingCapability s) = ''Missing capability: '' @ s"
| "core_error_display (InvalidStateTransition f t) =
     ''Invalid state transition: '' @ f @ '' -> '' @ t"
| "core_error_display (DeadlineExceeded d) = ''Deadline exceeded: '' @ dec (unat d)"
| "core_error_display (InsufficientResources r) = ''Insufficient resources: '' @ r"
| "core_error_display (VerificationFailed r) = ''Verification failed: '' @ r"
| "core_error_display (EconomicConstraintViolation c) =
     ''Economic constraint violation: '' @ c"
| "core_error_display (SerializationError s) = ''Serialization error: '' @ s"
| "core_error_display (CryptoError s) = ''Cryptographic error: '' @ s"
| "core_error_display (NetworkError s) = ''Network error: '' @ s"
| "core_error_display (StorageError s) = ''Storage error: '' @ s"
| "core_error_display (Custom s) = s"

definition agent_id_from_slice :: "bytes \<Rightarrow> core_error + agent_id" where
  "agent_id_from_slice s =
     (if length s \<noteq> 32 then Err (InvalidLength 32 (length s)) else Ok (AgentId s))"

lemma agent_id_from_slice_Ok_iff [result_simps]:
  "agent_id_from_slice s = Ok a \<longleftrightarrow> a = AgentId s \<and> agent_id_wf a"
  by (auto simp: agent_id_from_slice_def agent_id_wf_def)

section \<open>Tasks\<close>

datatype task_type =
    Compute | DataProcessing | Inference | Training | Storage | Relay | CustomType string

datatype output_format = Binary | Json | Text | Structured string

datatype tee_type = SGX | SEV | TrustZone | OtherTEE string

datatype zk_system = Groth16 | PLONK | STARK | Bulletproofs | OtherZK string

datatype hardware_type =
    NvidiaGPU string | AmdGPU string | TPU string | FPGA string | ASIC string
  | OtherHardware string

datatype capability =
    TEE tee_type | ZKProofCap zk_system | Model string | Hardware hardware_type
  | Location string | CustomCap string string

datatype verification_level =
    NoVerification | BestEffort | Consensus u8 | TEEAttested | ZKProofLevel | TEEWithZK

record milestone =
  ms_id :: bytes \<comment> \<open>16 bytes\<close>
  ms_description :: string
  ms_criteria :: string

datatype payment_schedule =
    Upfront | OnCompletion | Milestones "(milestone \<times> u128) list" | Streaming u128

record task_spec =
  ts_description :: string
  ts_type :: task_type
  ts_input :: bytes
  ts_output_format :: output_format
  ts_metadata :: "(string \<times> string) list"

record requirements =
  rq_min_memory :: "u64 option"
  rq_min_cpu_cores :: "u32 option"
  rq_gpu_required :: bool
  rq_min_bandwidth :: "u64 option"
  rq_capabilities :: "capability list"

record budget =
  bg_max_cost :: u128
  bg_payment_schedule :: payment_schedule
  bg_escrow_required :: bool

record task =
  tk_id :: task_id
  tk_requester :: agent_id
  tk_specification :: task_spec
  tk_requirements :: requirements
  tk_budget :: budget
  tk_deadline :: u64
  tk_verification_level :: verification_level

section \<open>Reputation, bids and results\<close>

datatype domain =
    NLP | Vision | DataAnalysis | CodeGen | Scientific | Creative | OtherDomain string

record reputation =
  rp_quality :: u32
  rp_reliability :: u32
  rp_speed :: u32
  rp_cost_efficiency :: u32
  rp_specializations :: "(domain \<times> u32) list"
  rp_stake :: u128

datatype refund_policy = NoRefund | FullRefund | PartialRefund u32 | TimeBased "(u64 \<times> u32) list"

datatype guarantee =
    CompletionTime u64 | QualityScore u32 | SLA string | RefundPolicy refund_policy

record bid =
  bd_agent_id :: agent_id
  bd_task_id :: task_id
  bd_value :: u128
  bd_quality_score :: u32
  bd_completion_time :: u64
  bd_guarantees :: "guarantee list"

datatype execution_proof =
    NoProof | TEEAttestation bytes | ZKProof bytes | Combined bytes bytes \<comment> \<open>tee, zk\<close>

record resource_usage =
  ru_cpu_time_ms :: u64
  ru_memory_bytes :: u64
  ru_storage_bytes :: u64
  ru_bandwidth_bytes :: u64
  ru_gpu_time_ms :: "u64 option"

record task_result =
  tr_task_id :: task_id
  tr_executor :: agent_id
  tr_output :: bytes
  tr_proof :: "execution_proof option"
  tr_resources_used :: resource_usage
  tr_completed_at :: u64

section \<open>The errors of the subsystems\<close>

datatype reputation_error =
    InvalidScore u32
  | InsufficientStake u128 u128 \<comment> \<open>required, available\<close>
  | SlashingTriggered string

fun reputation_error_display :: "reputation_error \<Rightarrow> string" where
  "reputation_error_display (InvalidScore n) =
     ''Invalid reputation score: '' @ dec (unat n) @ '' (must be 0-100)''"
| "reputation_error_display (InsufficientStake r a) =
     ''Insufficient stake: required '' @ dec (unat r) @ '', available '' @ dec (unat a)"
| "reputation_error_display (SlashingTriggered r) =
     ''Slashing condition triggered: '' @ r"

datatype auction_error =
    InsufficientBids nat nat \<comment> \<open>available, required\<close>
  | InvalidBid string
  | AlreadyFinalized
  | BiddingExpired

fun auction_error_display :: "auction_error \<Rightarrow> string" where
  "auction_error_display (InsufficientBids a r) =
     ''Insufficient bids: '' @ dec a @ '' bids for '' @ dec r @ '' tasks''"
| "auction_error_display (InvalidBid s) = ''Invalid bid: '' @ s"
| "auction_error_display AlreadyFinalized = ''Auction already finalized''"
| "auction_error_display BiddingExpired = ''Bidding period expired''"

datatype verification_error =
    InvalidProof string
  | ProofVerificationFailed string
  | UntrustedAttestation string
  | MissingVerifier string

fun verification_error_display :: "verification_error \<Rightarrow> string" where
  "verification_error_display (InvalidProof s) = ''Invalid proof format: '' @ s"
| "verification_error_display (ProofVerificationFailed s) = ''Proof verification failed: '' @ s"
| "verification_error_display (UntrustedAttestation s) = ''Untrusted attestation: '' @ s"
| "verification_error_display (MissingVerifier s) = ''Missing verifier for type: '' @ s"

datatype task_error =
    NotFoundTask task_id
  | AlreadyExists task_id
  | InvalidSpecification string
  | AlreadyAssigned agent_id
  | ExecutionFailed string

text \<open>The derived \<open>Debug\<close> of a byte array inside a tuple struct.\<close>

fun debug_bytes :: "bytes \<Rightarrow> string" where
  "debug_bytes [] = ''''"
| "debug_bytes [b] = dec (unat b)"
| "debug_bytes (b # bs) = dec (unat b) @ '', '' @ debug_bytes bs"

fun task_error_display :: "task_error \<Rightarrow> string" where
  "task_error_display (NotFoundTask t) =
     ''Task not found: TaskId(['' @ debug_bytes (task_id_bytes t) @ ''])''"
| "task_error_display (AlreadyExists t) =
     ''Task already exists: TaskId(['' @ debug_bytes (task_id_bytes t) @ ''])''"
| "task_error_display (InvalidSpecification s) = ''Invalid task specification: '' @ s"
| "task_error_display (AlreadyAssigned a) =
     ''Task already assigned to agent AgentId(['' @ debug_bytes (agent_bytes a) @ ''])''"
| "task_error_display (ExecutionFailed s) = ''Task execution failed: '' @ s"

section \<open>Protocol constants\<close>

definition MAX_MESSAGE_SIZE :: nat where "MAX_MESSAGE_SIZE = 1024 * 1024"
definition DEFAULT_MESSAGE_TTL :: u8 where "DEFAULT_MESSAGE_TTL = 64"
definition TARGET_BLOCK_TIME :: u64 where "TARGET_BLOCK_TIME = 6"
definition BLOCKS_PER_ERA :: u64 where "BLOCKS_PER_ERA = 14400"
definition MAX_BLOCK_SIZE :: nat where "MAX_BLOCK_SIZE = 5 * 1024 * 1024"
definition MAX_EXTRINSIC_SIZE :: nat where "MAX_EXTRINSIC_SIZE = 1024 * 1024"
definition TOKEN_DECIMALS :: nat where "TOKEN_DECIMALS = 18"
definition MIN_VALIDATOR_STAKE :: u128 where "MIN_VALIDATOR_STAKE = 10000 * 10 ^ TOKEN_DECIMALS"
definition MIN_AGENT_STAKE :: u128 where "MIN_AGENT_STAKE = 100 * 10 ^ TOKEN_DECIMALS"
definition INITIAL_SCORE :: u32 where "INITIAL_SCORE = 50"
definition MAX_SCORE :: u32 where "MAX_SCORE = 100"
definition MIN_SCORE :: u32 where "MIN_SCORE = 0"
definition MAX_DESCRIPTION_LENGTH :: nat where "MAX_DESCRIPTION_LENGTH = 10 * 1024"
definition MAX_INPUT_SIZE :: nat where "MAX_INPUT_SIZE = 100 * 1024 * 1024"
definition DEFAULT_TIMEOUT :: u64 where "DEFAULT_TIMEOUT = 3600"
definition MAX_TIMEOUT :: u64 where "MAX_TIMEOUT = 86400"
definition MIN_BID_DURATION :: u64 where "MIN_BID_DURATION = 300"
definition DEFAULT_BID_DURATION :: u64 where "DEFAULT_BID_DURATION = 1800"
definition CONSENSUS_THRESHOLD_NUMERATOR :: u32 where "CONSENSUS_THRESHOLD_NUMERATOR = 2"
definition CONSENSUS_THRESHOLD_DENOMINATOR :: u32 where "CONSENSUS_THRESHOLD_DENOMINATOR = 3"
definition MIN_VERIFIERS :: u8 where "MIN_VERIFIERS = 3"
definition MAX_MEMORY_BYTES :: u64 where "MAX_MEMORY_BYTES = 16 * 1024 * 1024 * 1024"
definition MAX_STORAGE_BYTES :: u64 where "MAX_STORAGE_BYTES = 100 * 1024 * 1024 * 1024"
definition MAX_BANDWIDTH_BYTES :: u64 where "MAX_BANDWIDTH_BYTES = 1024 * 1024 * 1024 * 1024"

lemmas constant_defs =
  MAX_MESSAGE_SIZE_def DEFAULT_MESSAGE_TTL_def TARGET_BLOCK_TIME_def BLOCKS_PER_ERA_def
  MAX_BLOCK_SIZE_def MAX_EXTRINSIC_SIZE_def TOKEN_DECIMALS_def MIN_VALIDATOR_STAKE_def
  MIN_AGENT_STAKE_def INITIAL_SCORE_def MAX_SCORE_def MIN_SCORE_def MAX_DESCRIPTION_LENGTH_def
  MAX_INPUT_SIZE_def DEFAULT_TIMEOUT_def MAX_TIMEOUT_def MIN_BID_DURATION_def
  DEFAULT_BID_DURATION_def CONSENSUS_THRESHOLD_NUMERATOR_def
  CONSENSUS_THRESHOLD_DENOMINATOR_def MIN_VERIFIERS_def MAX_MEMORY_BYTES_def
  MAX_STORAGE_BYTES_def MAX_BANDWIDTH_BYTES_def

text \<open>
  No product of the constants overflows its type: each has the value it has over the
  natural numbers.
\<close>

lemma stakes_exact:
  "unat MIN_VALIDATOR_STAKE = 10000 * 10 ^ 18" "unat MIN_AGENT_STAKE = 100 * 10 ^ 18"
  by (simp_all add: constant_defs)

lemma resource_limits_exact:
  "unat MAX_MEMORY_BYTES = 16 * 2 ^ 30" "unat MAX_STORAGE_BYTES = 100 * 2 ^ 30"
  "unat MAX_BANDWIDTH_BYTES = 2 ^ 40"
  by (simp_all add: constant_defs)

lemma constants_consistent:
  "MIN_SCORE < INITIAL_SCORE" "INITIAL_SCORE < MAX_SCORE" "DEFAULT_TIMEOUT < MAX_TIMEOUT"
  "MIN_AGENT_STAKE < MIN_VALIDATOR_STAKE"
  by (simp_all add: constant_defs)

end
