(* ===== verification/Extern.thy ===== *)
theory Extern
  imports Core_Types
begin

text \<open>
  The records of the orchestrator's model (src/orchestrator/api/src/model.rs) and the code the
  orchestrator calls but does not contain. Every third-party crate is a field of the record
  \<open>libs\<close>, a parameter of the definitions that use it: base64, blake3, hex, uuid, serde_json
  (the type \<open>serde_json::Value\<close> is the type variable \<open>'j\<close>) and the SS58 decoder of
  subxt. What the code relies on is stated by the predicates at the end, one per crate.
\<close>

section \<open>Requests, stored records and views\<close>

record agent_registration =
  ar_id :: string
  ar_label :: string

datatype task_status = Pending | Completed

record task_submission =
  sub_client_task_id :: "string option"
  sub_requester_id :: string
  sub_description :: string
  sub_task_type :: string
  sub_input_base64 :: string
  sub_max_budget :: u128
  sub_deadline :: u64

record bid_submission =
  bsub_task_id :: string
  bsub_agent_id :: string
  bsub_value :: u128
  bsub_quality_score :: u32
  bsub_completion_time :: u64

record result_submission =
  rsub_task_id :: string
  rsub_agent_id :: string
  rsub_output_base64 :: string

record stored_task =
  st_id :: string
  st_client_task_id :: "string option"
  st_task :: task
  st_status :: task_status
  st_created_at :: u64

record stored_bid =
  sb_id :: string
  sb_task_id :: string
  sb_agent_id :: string
  sb_bid :: bid
  sb_created_at :: u64

record stored_result =
  sr_id :: string
  sr_task_id :: string
  sr_agent_id :: string
  sr_result :: task_result
  sr_created_at :: u64

record task_view =
  tv_id :: string
  tv_requester_id :: string
  tv_description :: string
  tv_status :: task_status
  tv_deadline :: u64
  tv_max_budget :: u128

record bid_view =
  bv_id :: string
  bv_task_id :: string
  bv_agent_id :: string
  bv_value :: u128
  bv_quality_score :: u32
  bv_completion_time :: u64

record result_view =
  rv_id :: string
  rv_task_id :: string
  rv_agent_id :: string
  rv_output_base64 :: string
  rv_completed_at :: u64

record dashboard_view =
  dv_total_agents :: nat
  dv_total_tasks :: nat
  dv_completed_tasks :: nat
  dv_pending_tasks :: nat

record 'a response_with_correlation =
  rc_correlation_id :: "string option"
  rc_data :: 'a

text \<open>
  The status of a task is ordered by progress, so that "a completed task stays completed" is
  monotonicity.
\<close>

instantiation task_status :: linorder
begin

definition less_eq_task_status :: "task_status \<Rightarrow> task_status \<Rightarrow> bool" where
  "less_eq_task_status a b = (a = Pending \<or> b = Completed)"

definition less_task_status :: "task_status \<Rightarrow> task_status \<Rightarrow> bool" where
  "less_task_status a b = (a = Pending \<and> b = Completed)"

instance
proof
  fix x y z :: task_status
  show "(x < y) = (x \<le> y \<and> \<not> y \<le> x)"
    by (cases x; cases y) (simp_all add: less_eq_task_status_def less_task_status_def)
  show "x \<le> x"
    by (cases x) (simp_all add: less_eq_task_status_def)
  show "x \<le> y \<Longrightarrow> y \<le> z \<Longrightarrow> x \<le> z"
    by (auto simp: less_eq_task_status_def)
  show "x \<le> y \<Longrightarrow> y \<le> x \<Longrightarrow> x = y"
    by (auto simp: less_eq_task_status_def)
  show "x \<le> y \<or> y \<le> x"
    by (cases x; cases y) (simp_all add: less_eq_task_status_def)
qed

end

lemma Completed_top [simp]: "(s::task_status) \<le> Completed"
  by (simp add: less_eq_task_status_def)

lemma Completed_le [simp]: "Completed \<le> s \<longleftrightarrow> s = Completed"
  by (auto simp: less_eq_task_status_def)

section \<open>The external crates\<close>

type_synonym uuid = "128 word"

record 'j libs =
  b64_encode :: "bytes \<Rightarrow> string"
  b64_decode :: "string \<Rightarrow> bytes option"
  blake3_hash :: "bytes \<Rightarrow> bytes"
  hex_encode :: "bytes \<Rightarrow> string"
  hex_decode :: "string \<Rightarrow> string + bytes"
  uuid_to_string :: "uuid \<Rightarrow> string"
  uuid_as_bytes :: "uuid \<Rightarrow> bytes"
  uuid_parse_str :: "string \<Rightarrow> uuid option"
  json_from_str :: "string \<Rightarrow> string + 'j"
  json_to_string :: "'j \<Rightarrow> string"
  json_get :: "'j \<Rightarrow> string \<Rightarrow> 'j option"
  json_as_str :: "'j \<Rightarrow> string option"
  json_as_u64 :: "'j \<Rightarrow> u64 option"
  json_as_array :: "'j \<Rightarrow> 'j list option"
  json_null :: 'j
  json_is_null :: "'j \<Rightarrow> bool"
  json_is_empty_object :: "'j \<Rightarrow> bool"
  json_insert :: "'j \<Rightarrow> string \<Rightarrow> 'j \<Rightarrow> 'j option" \<comment> \<open>\<open>Map::insert\<close>; None unless an object\<close>
  json_object :: "(string \<times> 'j) list \<Rightarrow> 'j"
  json_string :: "string \<Rightarrow> 'j"
  json_array :: "'j list \<Rightarrow> 'j"
  json_u64 :: "u64 \<Rightarrow> 'j"
  json_i64 :: "i64 \<Rightarrow> 'j"
  json_u128 :: "u128 \<Rightarrow> 'j option" \<comment> \<open>\<open>to_value\<close> of a u128\<close>
  ser_task :: "stored_task \<Rightarrow> string + 'j"
  de_task :: "'j \<Rightarrow> string + stored_task"
  ser_bid :: "stored_bid \<Rightarrow> string + 'j"
  de_bid :: "'j \<Rightarrow> string + stored_bid"
  ser_result :: "stored_result \<Rightarrow> string + 'j"
  de_result :: "'j \<Rightarrow> string + stored_result"
  ser_task_type :: "task_type \<Rightarrow> string option" \<comment> \<open>\<open>to_string(..).ok()\<close>\<close>
  rfc3339 :: "int \<Rightarrow> string" \<comment> \<open>chrono\<close>
  ss58_decode :: "string \<Rightarrow> string + bytes"

section \<open>What the code relies on\<close>

text \<open>base64: the standard engine decodes what it encodes.\<close>

definition b64_ok :: "'j libs \<Rightarrow> bool" where
  "b64_ok L = (\<forall>bs. b64_decode L (b64_encode L bs) = Some bs)"

text \<open>blake3: a digest has 32 bytes.\<close>

definition blake3_ok :: "'j libs \<Rightarrow> bool" where
  "blake3_ok L = (\<forall>bs. length (blake3_hash L bs) = 32)"

text \<open>hex: the encoder writes lower-case hexadecimal digits and the decoder inverts it.\<close>

definition hex_alphabet :: "char set" where
  "hex_alphabet = set ''0123456789abcdef''"

definition hex_ok :: "'j libs \<Rightarrow> bool" where
  "hex_ok L = (\<forall>bs. hex_decode L (hex_encode L bs) = Ok bs
     \<and> set (hex_encode L bs) \<subseteq> hex_alphabet)"

text \<open>uuid: 16 bytes, and the parser reads the hyphenated form back.\<close>

definition uuid_ok :: "'j libs \<Rightarrow> bool" where
  "uuid_ok L = (\<forall>u. uuid_parse_str L (uuid_to_string L u) = Some u
     \<and> length (uuid_as_bytes L u) = 16)"

text \<open>
  serde_json: the accessors invert the constructors of the \<open>json!\<close> macro, and a value built
  from strings, integers, arrays and objects is read back from its text. A \<open>u128\<close> becomes a
  number exactly when it fits a \<open>u64\<close>.
\<close>

inductive json_built :: "'j libs \<Rightarrow> 'j \<Rightarrow> bool" for L where
  built_string: "json_built L (json_string L s)"
| built_u64: "json_built L (json_u64 L n)"
| built_i64: "json_built L (json_i64 L n)"
| built_array: "(\<And>v. v \<in> set vs \<Longrightarrow> json_built L v) \<Longrightarrow> json_built L (json_array L vs)"
| built_object:
    "distinct (map fst kvs) \<Longrightarrow> (\<And>k v. (k, v) \<in> set kvs \<Longrightarrow> json_built L v)
     \<Longrightarrow> json_built L (json_object L kvs)"
| built_insert:
    "json_built L v \<Longrightarrow> json_built L w \<Longrightarrow> json_insert L v k w = Some v' \<Longrightarrow> json_built L v'"

definition json_ok :: "'j libs \<Rightarrow> bool" where
  "json_ok L =
     ((\<forall>kvs k. distinct (map fst kvs) \<longrightarrow> json_get L (json_object L kvs) k = map_of kvs k)
      \<and> (\<forall>s. json_as_str L (json_string L s) = Some s)
      \<and> (\<forall>n. json_as_u64 L (json_u64 L n) = Some n)
      \<and> (\<forall>n. json_as_u64 L (json_i64 L n) = (if 0 \<le> sint n then Some n else None))
      \<and> (\<forall>n. json_as_str L (json_u64 L n) = None)
      \<and> (\<forall>n. json_as_str L (json_i64 L n) = None)
      \<and> (\<forall>vs. json_as_array L (json_array L vs) = Some vs)
      \<and> (\<forall>n. json_u128 L n = (if unat n < 2 ^ 64 then Some (json_u64 L (ucast n)) else None))
      \<and> (\<forall>v k w v' l. json_insert L v k w = Some v' \<longrightarrow>
            json_get L v' l = (if l = k then Some w else json_get L v l))
      \<and> (\<forall>kvs k w. json_insert L (json_object L kvs) k w \<noteq> None)
      \<and> (\<forall>v. json_built L v \<longrightarrow> json_from_str L (json_to_string L v) = Ok v))"

text \<open>serde: a stored record that serializes is read back unchanged.\<close>

definition serde_ok :: "'j libs \<Rightarrow> bool" where
  "serde_ok L =
     ((\<forall>t j. ser_task L t = Ok j \<longrightarrow> de_task L j = Ok t)
      \<and> (\<forall>b j. ser_bid L b = Ok j \<longrightarrow> de_bid L j = Ok b)
      \<and> (\<forall>r j. ser_result L r = Ok j \<longrightarrow> de_result L j = Ok r))"

lemma json_okD:
  assumes "json_ok L"
  shows json_get_object: "distinct (map fst kvs) \<Longrightarrow> json_get L (json_object L kvs) k = map_of kvs k"
    and json_as_str_string: "json_as_str L (json_string L s) = Some s"
    and json_as_u64_u64: "json_as_u64 L (json_u64 L n) = Some n"
    and json_as_u64_i64: "json_as_u64 L (json_i64 L m) = (if 0 \<le> sint m then Some m else None)"
    and json_as_array_array: "json_as_array L (json_array L vs) = Some vs"
    and json_u128_eq: "json_u128 L w = (if unat w < 2 ^ 64 then Some (json_u64 L (ucast w)) else None)"
    and json_get_insert: "json_insert L v k' x = Some v' \<Longrightarrow>
      json_get L v' l = (if l = k' then Some x else json_get L v l)"
    and json_insert_object: "json_insert L (json_object L kvs) k x \<noteq> None"
    and json_text_roundtrip: "json_built L v \<Longrightarrow> json_from_str L (json_to_string L v) = Ok v"
  using assms unfolding json_ok_def by blast+

end
