(* ===== verification/Api_Model.thy ===== *)
theory Api_Model
  imports Extern
begin

text \<open>
  The error type of the HTTP surface (src/orchestrator/api/src/error.rs) and the conversions
  between requests, stored records and views (model.rs). Fresh UUIDs and the clock are
  arguments, in the order in which the code draws them.
\<close>

section \<open>Errors and HTTP status\<close>

datatype api_error = BadRequest string | NotFound string | Internal string

fun api_error_display :: "api_error \<Rightarrow> string" where
  "api_error_display (BadRequest s) = ''bad request: '' @ s"
| "api_error_display (NotFound s) = ''not found: '' @ s"
| "api_error_display (Internal s) = ''internal server error: '' @ s"

text \<open>\<open>into_response\<close>: status code, error category, message.\<close>

fun into_response :: "api_error \<Rightarrow> nat \<times> string \<times> string" where
  "into_response (BadRequest msg) = (400, ''bad_request'', msg)"
| "into_response (NotFound msg) = (404, ''not_found'', msg)"
| "into_response (Internal msg) = (500, ''internal_error'', msg)"

fun from_core_error :: "core_error \<Rightarrow> api_error" where
  "from_core_error (SerializationError e) = Internal e"
| "from_core_error (CryptoError e) = Internal e"
| "from_core_error (NetworkError e) = Internal e"
| "from_core_error (StorageError e) = Internal e"
| "from_core_error (Custom e) = Internal e"
| "from_core_error err = BadRequest (core_error_display err)"

fun with_msg :: "api_error \<Rightarrow> string \<Rightarrow> api_error" where
  "with_msg (Internal _) msg = Internal msg"
| "with_msg other msg = other"

section \<open>Views\<close>

definition requester_hex :: "task \<Rightarrow> string" where
  "requester_hex t = concat (map hex_byte (agent_bytes (tk_requester t)))"

definition task_to_view :: "stored_task \<Rightarrow> task_view" where
  "task_to_view s =
     \<lparr>tv_id = st_id s,
      tv_requester_id = requester_hex (st_task s),
      tv_description = ts_description (tk_specification (st_task s)),
      tv_status = st_status s,
      tv_deadline = tk_deadline (st_task s),
      tv_max_budget = bg_max_cost (tk_budget (st_task s))\<rparr>"

definition bid_to_view :: "stored_bid \<Rightarrow> bid_view" where
  "bid_to_view s =
     \<lparr>bv_id = sb_id s, bv_task_id = sb_task_id s, bv_agent_id = sb_agent_id s,
      bv_value = bd_value (sb_bid s),
      bv_quality_score = bd_quality_score (sb_bid s),
      bv_completion_time = bd_completion_time (sb_bid s)\<rparr>"

definition result_to_view :: "'j libs \<Rightarrow> stored_result \<Rightarrow> result_view" where
  "result_to_view L s =
     \<lparr>rv_id = sr_id s, rv_task_id = sr_task_id s, rv_agent_id = sr_agent_id s,
      rv_output_base64 = b64_encode L (tr_output (sr_result s)),
      rv_completed_at = tr_completed_at (sr_result s)\<rparr>"

section \<open>Building the core records\<close>

text \<open>\<open>copy_from_slice\<close> of the first 32 bytes of the digest of a name.\<close>

definition hashed_agent_id :: "'j libs \<Rightarrow> string \<Rightarrow> agent_id" where
  "hashed_agent_id L name = AgentId (take 32 (blake3_hash L (as_bytes name)))"

text \<open>A zeroed 32-byte array whose first 16 bytes are those of a fresh UUID.\<close>

definition fresh_task_id :: "'j libs \<Rightarrow> uuid \<Rightarrow> task_id" where
  "fresh_task_id L u = TaskId (uuid_as_bytes L u @ replicate 16 0)"

definition build_core_task :: "'j libs \<Rightarrow> uuid \<Rightarrow> task_submission \<Rightarrow> bytes \<Rightarrow> task" where
  "build_core_task L u sub input =
     \<lparr>tk_id = fresh_task_id L u,
      tk_requester = hashed_agent_id L (sub_requester_id sub),
      tk_specification =
        \<lparr>ts_description = sub_description sub,
         ts_type = CustomType (sub_task_type sub),
         ts_input = input,
         ts_output_format = Binary,
         ts_metadata = []\<rparr>,
      tk_requirements =
        \<lparr>rq_min_memory = None, rq_min_cpu_cores = None, rq_gpu_required = False,
         rq_min_bandwidth = None, rq_capabilities = []\<rparr>,
      tk_budget =
        \<lparr>bg_max_cost = sub_max_budget sub, bg_payment_schedule = OnCompletion,
         bg_escrow_required = True\<rparr>,
      tk_deadline = sub_deadline sub,
      tk_verification_level = BestEffort\<rparr>"

definition build_core_bid :: "'j libs \<Rightarrow> bid_submission \<Rightarrow> task \<Rightarrow> bid" where
  "build_core_bid L sub t =
     \<lparr>bd_agent_id = hashed_agent_id L (bsub_agent_id sub),
      bd_task_id = tk_id t,
      bd_value = bsub_value sub,
      bd_quality_score = bsub_quality_score sub,
      bd_completion_time = bsub_completion_time sub,
      bd_guarantees = []\<rparr>"

definition build_core_result ::
    "'j libs \<Rightarrow> u64 \<Rightarrow> result_submission \<Rightarrow> task \<Rightarrow> bytes \<Rightarrow> task_result" where
  "build_core_result L now sub t output =
     \<lparr>tr_task_id = tk_id t,
      tr_executor = hashed_agent_id L (rsub_agent_id sub),
      tr_output = output,
      tr_proof = None,
      tr_resources_used =
        \<lparr>ru_cpu_time_ms = 0, ru_memory_bytes = 0, ru_storage_bytes = 0,
         ru_bandwidth_bytes = 0, ru_gpu_time_ms = None\<rparr>,
      tr_completed_at = now\<rparr>"

text \<open>\<open>current_unix_timestamp\<close>: seconds since the epoch, 0 for a clock set before it.\<close>

definition current_unix_timestamp :: "int \<Rightarrow> u64" where
  "current_unix_timestamp clock = (if 0 \<le> clock then word_of_int clock else 0)"

section \<open>Validating a submission\<close>

definition is_blank :: "string \<Rightarrow> bool" where
  "is_blank s = (trim s = [])"

definition task_from_submission ::
    "'j libs \<Rightarrow> uuid \<Rightarrow> uuid \<Rightarrow> u64 \<Rightarrow> task_submission \<Rightarrow> api_error + stored_task" where
  "task_from_submission L u_task u_id now sub =
     (if is_blank (sub_description sub)
      then Err (BadRequest ''task description must not be empty'')
      else and_then
        (ok_or (BadRequest ''input_base64 must be valid base64'')
           (b64_decode L (sub_input_base64 sub)))
        (\<lambda>raw_input.
           Ok \<lparr>st_id = uuid_to_string L u_id,
               st_client_task_id = sub_client_task_id sub,
               st_task = build_core_task L u_task sub raw_input,
               st_status = Pending,
               st_created_at = now\<rparr>))"

definition bid_from_submission ::
    "'j libs \<Rightarrow> uuid \<Rightarrow> u64 \<Rightarrow> bid_submission \<Rightarrow> stored_task \<Rightarrow> api_error + stored_bid" where
  "bid_from_submission L u_id now sub t =
     (if is_blank (bsub_agent_id sub)
      then Err (BadRequest ''agent_id must not be empty'')
      else Ok \<lparr>sb_id = uuid_to_string L u_id,
               sb_task_id = st_id t,
               sb_agent_id = bsub_agent_id sub,
               sb_bid = build_core_bid L sub (st_task t),
               sb_created_at = now\<rparr>)"

definition result_from_submission ::
    "'j libs \<Rightarrow> uuid \<Rightarrow> u64 \<Rightarrow> result_submission \<Rightarrow> stored_task \<Rightarrow> api_error + stored_result" where
  "result_from_submission L u_id now sub t =
     (if is_blank (rsub_agent_id sub)
      then Err (BadRequest ''agent_id must not be empty'')
      else and_then
        (ok_or (BadRequest ''output_base64 must be valid base64'')
           (b64_decode L (rsub_output_base64 sub)))
        (\<lambda>output.
           let result = build_core_result L now sub (st_task t) output
           in Ok \<lparr>sr_id = uuid_to_string L u_id,
                  sr_task_id = st_id t,
                  sr_agent_id = rsub_agent_id sub,
                  sr_result = result,
                  sr_created_at = tr_completed_at result\<rparr>))"

end
