(* ===== verification/Storage_Spec.thy ===== *)
theory Storage_Spec
  imports Api_Model
begin

text \<open>
  The two trait interfaces of src/orchestrator/api/src/storage.rs: \<open>Storage\<close> and
  \<open>ChainEventSink\<close>. A trait object is a record of operations; the state \<open>'s\<close> is the whole
  store, and \<open>'e\<close> is what the environment decides in one call (a database failure, the
  iteration order of a hash map, the order of unsorted rows). A failing operation returns no
  state: the store is unchanged.

  The locales state what callers rely on. Tasks are compared by \<open>key\<close>, which is the identity
  in memory and UUID parsing in Postgres; \<open>task_of\<close>, \<open>agent_of\<close>, \<open>bids_of\<close> and
  \<open>results_of\<close> are the abstract content of the store. \<open>ok\<close> collects the assumptions of a
  backend on the crates it calls and on its schema.
\<close>

section \<open>The traits as records of operations\<close>

record ('s, 'e) storage_ops =
  op_register_agent :: "'e \<Rightarrow> agent_registration \<Rightarrow> 's \<Rightarrow> api_error + 's"
  op_get_agent :: "'e \<Rightarrow> string \<Rightarrow> 's \<Rightarrow> api_error + agent_registration"
  op_list_agents :: "'e \<Rightarrow> 's \<Rightarrow> api_error + agent_registration list"
  op_insert_task :: "'e \<Rightarrow> stored_task \<Rightarrow> 's \<Rightarrow> api_error + 's"
  op_upsert_task :: "'e \<Rightarrow> stored_task \<Rightarrow> 's \<Rightarrow> api_error + 's"
  op_get_task :: "'e \<Rightarrow> string \<Rightarrow> 's \<Rightarrow> api_error + stored_task"
  op_list_tasks :: "'e \<Rightarrow> 's \<Rightarrow> api_error + stored_task list"
  op_insert_bid :: "'e \<Rightarrow> stored_bid \<Rightarrow> 's \<Rightarrow> api_error + 's"
  op_get_bids_for_task :: "'e \<Rightarrow> string \<Rightarrow> 's \<Rightarrow> api_error + stored_bid list"
  op_insert_result :: "'e \<Rightarrow> stored_result \<Rightarrow> 's \<Rightarrow> api_error + 's"
  op_get_result_for_task :: "'e \<Rightarrow> string \<Rightarrow> 's \<Rightarrow> api_error + stored_result"
  op_dashboard_counts :: "'e \<Rightarrow> 's \<Rightarrow> api_error + nat \<times> nat \<times> nat \<times> nat"

record ('s, 'e) sink_ops =
  op_record_chain_event ::
    "'e \<Rightarrow> u64 \<Rightarrow> u32 \<Rightarrow> string \<Rightarrow> string \<Rightarrow> string \<Rightarrow> string option \<Rightarrow> 's \<Rightarrow> api_error + 's"
  op_update_chain_cursor :: "'e \<Rightarrow> u64 \<Rightarrow> u32 \<Rightarrow> 's \<Rightarrow> api_error + 's"
  op_last_chain_cursor :: "'e \<Rightarrow> 's \<Rightarrow> api_error + (u64 \<times> u32) option"
  op_record_outbound_extrinsic ::
    "'e \<Rightarrow> string \<Rightarrow> string \<Rightarrow> string \<Rightarrow> string option \<Rightarrow> string \<Rightarrow> 's \<Rightarrow> api_error + 's"

section \<open>The contract of Storage\<close>

definition task_not_found :: "string \<Rightarrow> api_error" where
  "task_not_found i = NotFound (''task '' @ i @ '' not found'')"

definition agent_not_found :: "string \<Rightarrow> api_error" where
  "agent_not_found i = NotFound (''agent '' @ i @ '' not found'')"

definition result_not_found :: "string \<Rightarrow> api_error" where
  "result_not_found i = NotFound (''no result for task '' @ i)"

locale storage =
  fixes S :: "'x \<Rightarrow> ('s, 'e) storage_ops"
    and ok :: "'x \<Rightarrow> bool"
    and healthy :: "'e \<Rightarrow> bool"
    and inv :: "'x \<Rightarrow> 's \<Rightarrow> bool"
    and key :: "'x \<Rightarrow> string \<Rightarrow> 'k option"
    and agent_of :: "'s \<Rightarrow> string \<Rightarrow> agent_registration option"
    and task_of :: "'x \<Rightarrow> 's \<Rightarrow> 'k \<Rightarrow> stored_task option"
    and bids_of :: "'x \<Rightarrow> 's \<Rightarrow> 'k \<Rightarrow> stored_bid multiset"
    and results_of :: "'x \<Rightarrow> 's \<Rightarrow> 'k \<Rightarrow> stored_result set"
    and storable_name :: "'x \<Rightarrow> string \<Rightarrow> bool"
    and storable :: "'x \<Rightarrow> stored_task \<Rightarrow> bool"
    and bid_free :: "'x \<Rightarrow> 's \<Rightarrow> stored_bid \<Rightarrow> bool"
  assumes register_agent:
      "\<lbrakk>ok x; inv x s; op_register_agent (S x) e a s = Ok s'\<rbrakk> \<Longrightarrow>
         inv x s' \<and> agent_of s' = (agent_of s)(ar_id a \<mapsto> a)
         \<and> task_of x s' = task_of x s \<and> bids_of x s' = bids_of x s
         \<and> results_of x s' = results_of x s"
    and register_agent_total:
      "\<lbrakk>ok x; healthy e; inv x s; storable_name x (ar_id a); storable_name x (ar_label a)\<rbrakk> \<Longrightarrow>
         \<exists>s'. op_register_agent (S x) e a s = Ok s'"
    and get_agent:
      "\<lbrakk>ok x; healthy e; inv x s; storable_name x i\<rbrakk> \<Longrightarrow>
         op_get_agent (S x) e i s = ok_or (agent_not_found i) (agent_of s i)"
    and insert_task:
      "\<lbrakk>ok x; inv x s; op_insert_task (S x) e t s = Ok s'; key x (st_id t) = Some k;
        task_of x s k = None\<rbrakk> \<Longrightarrow>
         inv x s' \<and> task_of x s' = (task_of x s)(k \<mapsto> t)
         \<and> agent_of s' = agent_of s \<and> bids_of x s' = bids_of x s
         \<and> results_of x s' = results_of x s"
    and insert_task_total:
      "\<lbrakk>ok x; healthy e; inv x s; storable x t\<rbrakk> \<Longrightarrow> \<exists>s'. op_insert_task (S x) e t s = Ok s'"
    and upsert_task:
      "\<lbrakk>ok x; inv x s; op_upsert_task (S x) e t s = Ok s'; key x (st_id t) = Some k\<rbrakk> \<Longrightarrow>
         inv x s' \<and> task_of x s' = (task_of x s)(k \<mapsto> t)
         \<and> agent_of s' = agent_of s \<and> bids_of x s' = bids_of x s
         \<and> results_of x s' = results_of x s"
    and upsert_task_total:
      "\<lbrakk>ok x; healthy e; inv x s; storable x t\<rbrakk> \<Longrightarrow> \<exists>s'. op_upsert_task (S x) e t s = Ok s'"
    and get_task:
      "\<lbrakk>ok x; healthy e; inv x s; key x i = Some k\<rbrakk> \<Longrightarrow>
         op_get_task (S x) e i s = ok_or (task_not_found i) (task_of x s k)"
    and get_task_Ok:
      "\<lbrakk>ok x; inv x s; op_get_task (S x) e i s = Ok t\<rbrakk> \<Longrightarrow>
         \<exists>k. key x i = Some k \<and> task_of x s k = Some t"
    and stored_key:
      "\<lbrakk>ok x; inv x s; task_of x s k = Some t\<rbrakk> \<Longrightarrow> key x (st_id t) = Some k"
    and list_tasks:
      "\<lbrakk>ok x; healthy e; inv x s\<rbrakk> \<Longrightarrow>
         \<exists>ts. op_list_tasks (S x) e s = Ok ts \<and> set ts = ran (task_of x s)"
    and insert_bid:
      "\<lbrakk>ok x; inv x s; op_insert_bid (S x) e b s = Ok s'; key x (sb_task_id b) = Some k;
        bid_free x s b\<rbrakk> \<Longrightarrow>
         inv x s' \<and> bids_of x s' = (bids_of x s)(k := add_mset b (bids_of x s k))
         \<and> task_of x s' = task_of x s \<and> agent_of s' = agent_of s
         \<and> results_of x s' = results_of x s"
    and get_bids:
      "\<lbrakk>ok x; healthy e; inv x s; key x i = Some k\<rbrakk> \<Longrightarrow>
         \<exists>bs. op_get_bids_for_task (S x) e i s = Ok bs \<and> mset bs = bids_of x s k"
    and insert_result:
      "\<lbrakk>ok x; inv x s; op_insert_result (S x) e r s = Ok s'; key x (sr_task_id r) = Some k\<rbrakk> \<Longrightarrow>
         inv x s' \<and> r \<in> results_of x s' k
         \<and> task_of x s' = task_of x s \<and> agent_of s' = agent_of s \<and> bids_of x s' = bids_of x s"
    and get_result:
      "\<lbrakk>ok x; healthy e; inv x s; key x i = Some k\<rbrakk> \<Longrightarrow>
         (if results_of x s k = {} then op_get_result_for_task (S x) e i s = Err (result_not_found i)
          else \<exists>r \<in> results_of x s k. op_get_result_for_task (S x) e i s = Ok r)"
    and dashboard:
      "\<lbrakk>ok x; healthy e; inv x s\<rbrakk> \<Longrightarrow>
         op_dashboard_counts (S x) e s =
           Ok (card (dom (agent_of s)), card (dom (task_of x s)),
               card {k. \<exists>t. task_of x s k = Some t \<and> st_status t = Completed},
               card {k. \<exists>t. task_of x s k = Some t \<and> st_status t = Pending})"
begin

text \<open>A written task is read back; other tasks are untouched.\<close>

lemma upsert_get:
  assumes "ok x" "inv x s" "op_upsert_task (S x) e t s = Ok s'" "key x (st_id t) = Some k"
    "healthy e'"
  shows "op_get_task (S x) e' (st_id t) s' = Ok t"
  using assms upsert_task [OF assms(1,2,3,4)] get_task [of x e' s' "st_id t" k] by simp

lemma upsert_other:
  assumes "ok x" "inv x s" "op_upsert_task (S x) e t s = Ok s'" "key x (st_id t) = Some k"
    "healthy e'" "key x i = Some l" "l \<noteq> k"
  shows "op_get_task (S x) e' i s' = op_get_task (S x) e' i s"
  using assms upsert_task [OF assms(1,2,3,4)] get_task [of x e' _ i l] by simp

lemma insert_get:
  assumes "ok x" "inv x s" "op_insert_task (S x) e t s = Ok s'" "key x (st_id t) = Some k"
    "task_of x s k = None" "healthy e'"
  shows "op_get_task (S x) e' (st_id t) s' = Ok t"
  using assms insert_task [OF assms(1,2,3,4,5)] get_task [of x e' s' "st_id t" k] by simp

lemma register_get:
  assumes "ok x" "inv x s" "op_register_agent (S x) e a s = Ok s'" "healthy e'"
    "storable_name x i"
  shows "op_get_agent (S x) e' i s' =
           (if i = ar_id a then Ok a else op_get_agent (S x) e' i s)"
  using assms register_agent [OF assms(1,2,3)] get_agent [of x e' _ i] by simp

text \<open>The counters of the dashboard add up.\<close>

lemma dashboard_sum:
  assumes "ok x" "healthy e" "inv x s" "finite (dom (task_of x s))"
    "op_dashboard_counts (S x) e s = Ok (n_agents, n_total, n_completed, n_pending)"
  shows "n_completed + n_pending = n_total"
proof -
  let ?C = "{k. \<exists>t. task_of x s k = Some t \<and> st_status t = Completed}"
  let ?P = "{k. \<exists>t. task_of x s k = Some t \<and> st_status t = Pending}"
  have split: "dom (task_of x s) = ?C \<union> ?P"
    by (auto simp: dom_def) (metis task_status.exhaust)
  have "card (?C \<union> ?P) = card ?C + card ?P"
    using assms(4) split by (intro card_Un_disjoint) (auto simp del: Collect_disj_eq)
  then show ?thesis
    using assms(5) dashboard [OF assms(1,2,3)] split by simp
qed

end

section \<open>The contract of ChainEventSink\<close>

text \<open>
  What the replay worker relies on: the cursor is written and read back, recording an event
  does not move it, and recording the same event again changes nothing.
\<close>

locale event_sink =
  fixes K :: "('s, 'e) sink_ops"
    and cursor_of :: "'s \<Rightarrow> (u64 \<times> u32) option"
    and quiet :: "'e \<Rightarrow> bool"
  assumes update_cursor:
      "op_update_chain_cursor K e b i s = Ok s' \<Longrightarrow> cursor_of s' = Some (b, i)"
    and record_keeps_cursor:
      "op_record_chain_event K e b i p v pl c s = Ok s' \<Longrightarrow> cursor_of s' = cursor_of s"
    and record_idempotent:
      "op_record_chain_event K e b i p v pl c s = Ok s' \<Longrightarrow> quiet e' \<Longrightarrow>
         op_record_chain_event K e' b i p v pl c s' = Ok s'"
    and outbound_keeps_cursor:
      "op_record_outbound_extrinsic K e corr p cl opl st s = Ok s' \<Longrightarrow> cursor_of s' = cursor_of s"
    and last_cursor:
      "quiet e \<Longrightarrow> op_last_chain_cursor K e s = Ok (cursor_of s)"
    and last_cursor_Ok:
      "op_last_chain_cursor K e s = Ok cur \<Longrightarrow> cur = cursor_of s"
begin

lemma update_read:
  assumes "op_update_chain_cursor K e b i s = Ok s'" "quiet e'"
  shows "op_last_chain_cursor K e' s' = Ok (Some (b, i))"
  using assms by (simp add: update_cursor last_cursor)

end

end
