(* ===== verification/Sql_Schema.thy ===== *)
theory Sql_Schema
  imports Prelude
begin

text \<open>
  The database schema (src/orchestrator/api/migrations) and what it takes for a statement of
  the program to be accepted by Postgres. A migration is a list of DDL steps; the schema is
  what they leave. A statement is described by its shape: the columns it writes with the SQL
  type of each expression (sqlx declares a Rust \<open>String\<close> as TEXT, an \<open>i64\<close> as BIGINT, a
  \<open>Uuid\<close> as UUID, a byte slice as BYTEA), its conflict arbiter, the columns it compares, the
  highest parameter it mentions and the number of values bound. SQL is a language of the source
  here: \<open>prepares\<close> states its documented rules and nothing about the program.
\<close>

section \<open>Tables and migrations\<close>

datatype sql_type = UuidT | TextT | ByteaT | NumericT | BigintT | IntegerT | TimestamptzT | JsonbT

record sql_table =
  tb_columns :: "(string \<times> sql_type) list"
  tb_unique :: "string list list" \<comment> \<open>primary key and unique constraints\<close>

type_synonym schema = "(string \<times> sql_table) list"

text \<open>Non-unique indexes, defaults and CHECK constraints do not change the shape of a table.\<close>

datatype ddl =
    CreateTable string "(string \<times> sql_type) list" "string list list" \<comment> \<open>IF NOT EXISTS\<close>
  | AddColumns string "(string \<times> sql_type) list" \<comment> \<open>IF NOT EXISTS\<close>
  | AddUnique string "string list"

definition on_table :: "string \<Rightarrow> (sql_table \<Rightarrow> sql_table) \<Rightarrow> schema \<Rightarrow> schema" where
  "on_table n f D = map (\<lambda>(m, t). (m, if m = n then f t else t)) D"

fun add_column :: "string \<times> sql_type \<Rightarrow> sql_table \<Rightarrow> sql_table" where
  "add_column (c, ty) t =
     (if c \<in> fst ` set (tb_columns t) then t
      else t\<lparr>tb_columns := tb_columns t @ [(c, ty)]\<rparr>)"

fun migrate :: "ddl \<Rightarrow> schema \<Rightarrow> schema" where
  "migrate (CreateTable n cols keys) D =
     (if n \<in> fst ` set D then D else D @ [(n, \<lparr>tb_columns = cols, tb_unique = keys\<rparr>)])"
| "migrate (AddColumns n cols) D = on_table n (fold add_column cols) D"
| "migrate (AddUnique n key) D = on_table n (\<lambda>t. t\<lparr>tb_unique := tb_unique t @ [key]\<rparr>) D"

definition m_init :: "ddl list" where
  "m_init =
     [CreateTable ''agents''
        [(''id'', TextT), (''label'', TextT), (''created_at'', TimestamptzT)] [[''id'']],
      CreateTable ''tasks''
        [(''id'', UuidT), (''client_task_id'', TextT), (''requester_id'', ByteaT),
         (''description'', TextT), (''task_type'', TextT), (''input_base64'', TextT),
         (''max_budget'', NumericT), (''deadline'', TimestamptzT), (''status'', TextT),
         (''created_at'', TimestamptzT), (''updated_at'', TimestamptzT),
         (''stored_json'', JsonbT)] [[''id'']],
      CreateTable ''bids''
        [(''id'', UuidT), (''task_id'', UuidT), (''agent_id'', ByteaT), (''value'', NumericT),
         (''quality_score'', IntegerT), (''completion_time'', BigintT),
         (''created_at'', TimestamptzT), (''stored_json'', JsonbT)] [[''id'']],
      CreateTable ''results''
        [(''id'', UuidT), (''task_id'', UuidT), (''agent_id'', ByteaT),
         (''output_base64'', TextT), (''completed_at'', TimestamptzT), (''proof'', ByteaT),
         (''created_at'', TimestamptzT), (''stored_json'', JsonbT)] [[''id'']],
      CreateTable ''chain_events''
        [(''block_number'', BigintT), (''event_index'', IntegerT), (''pallet'', TextT),
         (''variant'', TextT), (''payload'', TextT), (''correlation_id'', TextT),
         (''created_at'', TimestamptzT)] [[''block_number'', ''event_index'']],
      CreateTable ''chain_cursors''
        [(''id'', IntegerT), (''block_number'', BigintT), (''event_index'', IntegerT),
         (''updated_at'', TimestamptzT)] [[''id'']]]"

definition m_outbound_extrinsics :: "ddl list" where
  "m_outbound_extrinsics =
     [CreateTable ''outbound_extrinsics''
        [(''correlation_id'', TextT), (''pallet'', TextT), (''call'', TextT),
         (''payload'', TextT), (''status'', TextT), (''created_at'', TimestamptzT),
         (''updated_at'', TimestamptzT)] [[''correlation_id'']]]"

definition m_outbox_retry :: "ddl list" where
  "m_outbox_retry =
     [AddColumns ''outbound_extrinsics''
        [(''retry_count'', IntegerT), (''last_error'', TextT), (''processed_at'', TimestamptzT)]]"

definition m_chain_columns :: "ddl list" where
  "m_chain_columns =
     [AddColumns ''agents'' [(''chain_agent_id'', BigintT), (''account_address'', TextT)],
      AddColumns ''tasks'' [(''chain_task_id'', BigintT), (''result_hash'', TextT)]]"

definition m_outbox_status_enum :: "ddl list" where
  "m_outbox_status_enum =
     [AddUnique ''bids'' [''task_id'', ''agent_id''],
      AddUnique ''results'' [''task_id'', ''agent_id'']]"

definition m_outbox_correlation :: "ddl list" where
  "m_outbox_correlation =
     [AddColumns ''outbound_extrinsics''
        [(''tx_hash'', TextT), (''chain_task_id'', BigintT), (''chain_agent_id'', BigintT)],
      AddColumns ''chain_events'' [(''correlation_id'', TextT)]]"

definition m_bid_result_enrichment :: "ddl list" where
  "m_bid_result_enrichment =
     [AddColumns ''bids''
        [(''cost'', NumericT), (''quality_score'', IntegerT), (''nonce'', TextT)],
      AddColumns ''results''
        [(''proof_base64'', TextT), (''resources'', JsonbT), (''chain_task_id'', BigintT)]]"

definition m_task_matched :: "ddl list" where
  "m_task_matched = [AddColumns ''tasks'' [(''matched_agent'', BigintT)]]"

definition migrations :: "ddl list" where
  "migrations =
     m_init @ m_outbound_extrinsics @ m_outbox_retry @ m_chain_columns @ m_outbox_status_enum
     @ m_outbox_correlation @ m_bid_result_enrichment @ m_task_matched"

definition migrated :: schema where
  "migrated = fold migrate migrations []"

section \<open>Statements\<close>

record sql_stmt =
  q_table :: string
  q_writes :: "(string \<times> sql_type) list"
  q_arbiter :: "string list option"
  q_compares :: "(string \<times> sql_type) list"
  q_params :: nat
  q_bound :: nat
  q_update_limit :: bool \<comment> \<open>an UPDATE with ORDER BY or LIMIT: not SQL\<close>

text \<open>Assignment casts between the types the program uses.\<close>

fun assignable :: "sql_type \<Rightarrow> sql_type \<Rightarrow> bool" where
  "assignable BigintT NumericT = True"
| "assignable BigintT IntegerT = True"
| "assignable IntegerT BigintT = True"
| "assignable a b = (a = b)"

fun comparable :: "sql_type \<Rightarrow> sql_type \<Rightarrow> bool" where
  "comparable BigintT NumericT = True"
| "comparable BigintT IntegerT = True"
| "comparable IntegerT BigintT = True"
| "comparable a b = (a = b)"

definition column_fits ::
    "(sql_type \<Rightarrow> sql_type \<Rightarrow> bool) \<Rightarrow> sql_table \<Rightarrow> string \<times> sql_type \<Rightarrow> bool" where
  "column_fits R t cw =
     (case map_of (tb_columns t) (fst cw) of None \<Rightarrow> False | Some ty \<Rightarrow> R (snd cw) ty)"

definition arbiter_ok :: "sql_table \<Rightarrow> string list option \<Rightarrow> bool" where
  "arbiter_ok t a =
     (case a of None \<Rightarrow> True | Some cols \<Rightarrow> list_ex (\<lambda>u. set u = set cols) (tb_unique t))"

definition prepares :: "schema \<Rightarrow> sql_stmt \<Rightarrow> bool" where
  "prepares D q =
     (case map_of D (q_table q) of
        None \<Rightarrow> False
      | Some t \<Rightarrow>
          list_all (column_fits assignable t) (q_writes q)
          \<and> arbiter_ok t (q_arbiter q)
          \<and> list_all (column_fits comparable t) (q_compares q)
          \<and> q_params q = q_bound q \<and> \<not> q_update_limit q)"

definition plain_stmt :: "string \<Rightarrow> nat \<Rightarrow> sql_stmt" where
  "plain_stmt t n =
     \<lparr>q_table = t, q_writes = [], q_arbiter = None, q_compares = [], q_params = n, q_bound = n,
      q_update_limit = False\<rparr>"

section \<open>The migrated schema\<close>

definition agents_table :: sql_table where
  "agents_table =
     \<lparr>tb_columns =
        [(''id'', TextT), (''label'', TextT), (''created_at'', TimestamptzT),
         (''chain_agent_id'', BigintT), (''account_address'', TextT)],
      tb_unique = [[''id'']]\<rparr>"

definition tasks_table :: sql_table where
  "tasks_table =
     \<lparr>tb_columns =
        [(''id'', UuidT), (''client_task_id'', TextT), (''requester_id'', ByteaT),
         (''description'', TextT), (''task_type'', TextT), (''input_base64'', TextT),
         (''max_budget'', NumericT), (''deadline'', TimestamptzT), (''status'', TextT),
         (''created_at'', TimestamptzT), (''updated_at'', TimestamptzT),
         (''stored_json'', JsonbT), (''chain_task_id'', BigintT), (''result_hash'', TextT),
         (''matched_agent'', BigintT)],
      tb_unique = [[''id'']]\<rparr>"

definition bids_table :: sql_table where
  "bids_table =
     \<lparr>tb_columns =
        [(''id'', UuidT), (''task_id'', UuidT), (''agent_id'', ByteaT), (''value'', NumericT),
         (''quality_score'', IntegerT), (''completion_time'', BigintT),
         (''created_at'', TimestamptzT), (''stored_json'', JsonbT), (''cost'', NumericT),
         (''nonce'', TextT)],
      tb_unique = [[''id''], [''task_id'', ''agent_id'']]\<rparr>"

definition results_table :: sql_table where
  "results_table =
     \<lparr>tb_columns =
        [(''id'', UuidT), (''task_id'', UuidT), (''agent_id'', ByteaT),
         (''output_base64'', TextT), (''completed_at'', TimestamptzT), (''proof'', ByteaT),
         (''created_at'', TimestamptzT), (''stored_json'', JsonbT), (''proof_base64'', TextT),
         (''resources'', JsonbT), (''chain_task_id'', BigintT)],
      tb_unique = [[''id''], [''task_id'', ''agent_id'']]\<rparr>"

definition chain_events_table :: sql_table where
  "chain_events_table =
     \<lparr>tb_columns =
        [(''block_number'', BigintT), (''event_index'', IntegerT), (''pallet'', TextT),
         (''variant'', TextT), (''payload'', TextT), (''correlation_id'', TextT),
         (''created_at'', TimestamptzT)],
      tb_unique = [[''block_number'', ''event_index'']]\<rparr>"

definition chain_cursors_table :: sql_table where
  "chain_cursors_table =
     \<lparr>tb_columns =
        [(''id'', IntegerT), (''block_number'', BigintT), (''event_index'', IntegerT),
         (''updated_at'', TimestamptzT)],
      tb_unique = [[''id'']]\<rparr>"

definition outbox_table :: sql_table where
  "outbox_table =
     \<lparr>tb_columns =
        [(''correlation_id'', TextT), (''pallet'', TextT), (''call'', TextT),
         (''payload'', TextT), (''status'', TextT), (''created_at'', TimestamptzT),
         (''updated_at'', TimestamptzT), (''retry_count'', IntegerT), (''last_error'', TextT),
         (''processed_at'', TimestamptzT), (''tx_hash'', TextT), (''chain_task_id'', BigintT),
         (''chain_agent_id'', BigintT)],
      tb_unique = [[''correlation_id'']]\<rparr>"

lemmas table_defs =
  agents_table_def tasks_table_def bids_table_def results_table_def chain_events_table_def
  chain_cursors_table_def outbox_table_def

lemma migrated_eq:
  "migrated =
     [(''agents'', agents_table), (''tasks'', tasks_table), (''bids'', bids_table),
      (''results'', results_table), (''chain_events'', chain_events_table),
      (''chain_cursors'', chain_cursors_table), (''outbound_extrinsics'', outbox_table)]"
  by code_simp

lemma migrated_tables:
  "map_of migrated ''agents'' = Some agents_table"
  "map_of migrated ''tasks'' = Some tasks_table"
  "map_of migrated ''bids'' = Some bids_table"
  "map_of migrated ''results'' = Some results_table"
  "map_of migrated ''chain_events'' = Some chain_events_table"
  "map_of migrated ''chain_cursors'' = Some chain_cursors_table"
  "map_of migrated ''outbound_extrinsics'' = Some outbox_table"
  by (simp_all add: migrated_eq)

end
