(* ===== verification/Pg_Db.thy ===== *)
theory Pg_Db
  imports Storage_Spec Sql_Schema
begin

text \<open>
  The database behind \<open>PostgresStorage\<close>: its rows, the environment of one call, and the
  statements of src/orchestrator/api/src/storage.rs with the way a statement runs. A table is
  an association list from primary key to row; the columns created by the migrations are the
  fields. Times are seconds since the epoch.
\<close>

section \<open>Rows\<close>

record pg_agent =
  pa_label :: string
  pa_created_at :: int
  pa_chain_agent_id :: "i64 option"
  pa_account_address :: "string option"

record 'j pg_task =
  pt_client_task_id :: "string option"
  pt_requester_id :: bytes
  pt_description :: string
  pt_task_type :: string
  pt_input_base64 :: string
  pt_max_budget :: int
  pt_deadline :: int
  pt_status :: string
  pt_created_at :: int
  pt_updated_at :: int
  pt_json :: 'j
  pt_chain_task_id :: "i64 option"
  pt_result_hash :: "string option"
  pt_matched_agent :: "i64 option"

record 'j pg_bid =
  pb_task_id :: uuid
  pb_agent_id :: bytes
  pb_value :: int
  pb_quality_score :: i32
  pb_completion_time :: int
  pb_created_at :: int
  pb_json :: 'j

record 'j pg_result =
  pr_task_id :: uuid
  pr_agent_id :: bytes
  pr_output_base64 :: string
  pr_completed_at :: int
  pr_proof :: "bytes option"
  pr_created_at :: int
  pr_json :: 'j

record chain_event_row =
  ce_pallet :: string
  ce_variant :: string
  ce_payload :: string
  ce_correlation_id :: "string option"

record outbox_row =
  ob_pallet :: string
  ob_call :: string
  ob_payload :: "string option"
  ob_status :: string
  ob_created_at :: int
  ob_updated_at :: int
  ob_retry_count :: i32
  ob_last_error :: "string option"
  ob_processed_at :: "int option"
  ob_tx_hash :: "string option"
  ob_chain_task_id :: "i64 option"
  ob_chain_agent_id :: "i64 option"

record 'j pg_db =
  db_agents :: "(string \<times> pg_agent) list"
  db_tasks :: "(uuid \<times> 'j pg_task) list"
  db_bids :: "(uuid \<times> 'j pg_bid) list"
  db_results :: "(uuid \<times> 'j pg_result) list"
  db_events :: "((i64 \<times> i32) \<times> chain_event_row) list"
  db_cursor :: "(i64 \<times> i32) option"
  db_outbox :: "(string \<times> outbox_row) list"

definition pg_empty :: "'j pg_db" where
  "pg_empty =
     \<lparr>db_agents = [], db_tasks = [], db_bids = [], db_results = [], db_events = [],
      db_cursor = None, db_outbox = []\<rparr>"

section \<open>The backend and its environment\<close>

text \<open>
  The crates, the schema of the connected database, the JSON values JSONB accepts, and what
  \<open>jsonb_set\<close> writes into a payload whose key holds 0 (None: the row is not selected).
\<close>

record 'j pg =
  pg_libs :: "'j libs"
  pg_schema :: schema
  pg_jsonb :: "'j \<Rightarrow> bool"
  pg_jsonb_set :: "string \<Rightarrow> string \<Rightarrow> i64 \<Rightarrow> string option" \<comment> \<open>payload, key, id\<close>

text \<open>
  One call: whether its n-th statement meets a failing connection, the text of the error when
  a statement is refused, the clock, the order of rows that a query leaves open, and the
  outbox rows that another transaction has locked.
\<close>

record 'j pg_env =
  pe_fault :: "nat \<Rightarrow> string option"
  pe_refusal :: string
  pe_now :: int
  pe_agents :: "(string \<times> pg_agent) list \<Rightarrow> (string \<times> pg_agent) list"
  pe_tasks :: "(uuid \<times> 'j pg_task) list \<Rightarrow> (uuid \<times> 'j pg_task) list"
  pe_bids :: "(uuid \<times> 'j pg_bid) list \<Rightarrow> (uuid \<times> 'j pg_bid) list"
  pe_results :: "(uuid \<times> 'j pg_result) list \<Rightarrow> (uuid \<times> 'j pg_result) list"
  pe_outbox :: "(string \<times> outbox_row) list \<Rightarrow> (string \<times> outbox_row) list"
  pe_union :: "string list \<Rightarrow> string list"
  pe_locked :: "string \<Rightarrow> bool"

definition pg_quiet :: "'j pg_env \<Rightarrow> bool" where
  "pg_quiet e = (\<forall>n. pe_fault e n = None)"

definition pg_orders :: "'j pg_env \<Rightarrow> bool" where
  "pg_orders e =
     ((\<forall>m. mset (pe_agents e m) = mset m) \<and> (\<forall>m. mset (pe_tasks e m) = mset m)
      \<and> (\<forall>m. mset (pe_bids e m) = mset m) \<and> (\<forall>m. mset (pe_results e m) = mset m)
      \<and> (\<forall>m. mset (pe_outbox e m) = mset m) \<and> (\<forall>m. mset (pe_union e m) = mset m))"

definition pg_healthy :: "'j pg_env \<Rightarrow> bool" where
  "pg_healthy e = (pg_quiet e \<and> pg_orders e)"

text \<open>
  A statement fails with the connection, or is refused when Postgres cannot prepare it or when
  its data violate a constraint or a type; otherwise it has its effect.
\<close>

definition run_stmt ::
    "'j pg \<Rightarrow> 'j pg_env \<Rightarrow> nat \<Rightarrow> sql_stmt \<Rightarrow> bool \<Rightarrow> 'a \<Rightarrow> string + 'a" where
  "run_stmt x e n q accepted v =
     (case pe_fault e n of
        Some err \<Rightarrow> Err err
      | None \<Rightarrow> if prepares (pg_schema x) q \<and> accepted then Ok v else Err (pe_refusal e))"

text \<open>TEXT holds no NUL character; TIMESTAMPTZ spans 4713 BC to 294276 AD.\<close>

definition pg_text :: "string \<Rightarrow> bool" where
  "pg_text s = (CHR 0x00 \<notin> set s)"

fun pg_opt_text :: "string option \<Rightarrow> bool" where
  "pg_opt_text None = True"
| "pg_opt_text (Some s) = pg_text s"

definition pg_timestamp :: "int \<Rightarrow> bool" where
  "pg_timestamp t = (- 210866803200 \<le> t \<and> t < 9224318016000)"

definition as_i64 :: "u64 \<Rightarrow> int" where
  "as_i64 w = sint w"

definition u128_try_i64 :: "u128 \<Rightarrow> int option" where
  "u128_try_i64 w = (if unat w < 2 ^ 63 then Some (int (unat w)) else None)"

text \<open>The CHECK constraints of the outbox.\<close>

definition outbox_statuses :: "string list" where
  "outbox_statuses = [''pending'', ''finalized'', ''failed'', ''dead'']"

definition outbox_row_ok :: "outbox_row \<Rightarrow> bool" where
  "outbox_row_ok r =
     (ob_status r \<in> set outbox_statuses
      \<and> (case ob_payload r of None \<Rightarrow> True | Some p \<Rightarrow> char_count p \<le> 4096)
      \<and> (case ob_last_error r of None \<Rightarrow> True | Some p \<Rightarrow> char_count p \<le> 512))"

section \<open>The statements of storage.rs\<close>

definition q_insert :: "string \<Rightarrow> (string \<times> sql_type) list \<Rightarrow> string list \<Rightarrow> nat \<Rightarrow> sql_stmt" where
  "q_insert t ws arb n =
     (plain_stmt t n)\<lparr>q_writes := ws, q_arbiter := Some arb\<rparr>"

definition q_select :: "string \<Rightarrow> (string \<times> sql_type) list \<Rightarrow> nat \<Rightarrow> sql_stmt" where
  "q_select t cs n = (plain_stmt t n)\<lparr>q_compares := cs\<rparr>"

definition Q_REGISTER_AGENT :: sql_stmt where
  "Q_REGISTER_AGENT = q_insert ''agents'' [(''id'', TextT), (''label'', TextT)] [''id''] 2"

definition Q_GET_AGENT :: sql_stmt where
  "Q_GET_AGENT = q_select ''agents'' [(''id'', TextT)] 1"

definition Q_LIST_AGENTS :: sql_stmt where
  "Q_LIST_AGENTS = q_select ''agents'' [(''created_at'', TimestamptzT)] 0"

definition task_writes :: "(string \<times> sql_type) list" where
  "task_writes =
     [(''id'', UuidT), (''client_task_id'', TextT), (''requester_id'', ByteaT),
      (''description'', TextT), (''task_type'', TextT), (''input_base64'', TextT),
      (''max_budget'', BigintT), (''deadline'', TimestamptzT), (''status'', TextT),
      (''created_at'', TimestamptzT), (''updated_at'', TimestamptzT), (''stored_json'', JsonbT)]"

definition Q_PUT_TASK :: sql_stmt where \<comment> \<open>the INSERT of \<open>insert_task\<close> and \<open>upsert_task\<close>\<close>
  "Q_PUT_TASK = q_insert ''tasks'' task_writes [''id''] 12"

definition Q_GET_TASK :: sql_stmt where
  "Q_GET_TASK = q_select ''tasks'' [(''id'', UuidT)] 1"

definition Q_LIST_TASKS :: sql_stmt where
  "Q_LIST_TASKS = q_select ''tasks'' [(''created_at'', TimestamptzT)] 0"

definition Q_INSERT_BID :: sql_stmt where
  "Q_INSERT_BID =
     q_insert ''bids''
       [(''id'', UuidT), (''task_id'', UuidT), (''agent_id'', ByteaT), (''value'', BigintT),
        (''quality_score'', IntegerT), (''completion_time'', BigintT),
        (''created_at'', TimestamptzT), (''stored_json'', JsonbT)] [''id''] 8"

definition Q_GET_BIDS :: sql_stmt where
  "Q_GET_BIDS = q_select ''bids'' [(''task_id'', UuidT)] 1"

definition Q_INSERT_RESULT :: sql_stmt where
  "Q_INSERT_RESULT =
     q_insert ''results''
       [(''id'', UuidT), (''task_id'', UuidT), (''agent_id'', ByteaT),
        (''output_base64'', TextT), (''completed_at'', TimestamptzT), (''proof'', ByteaT),
        (''stored_json'', JsonbT), (''created_at'', TimestamptzT)] [''task_id''] 7"

definition Q_GET_RESULT :: sql_stmt where
  "Q_GET_RESULT = q_select ''results'' [(''task_id'', UuidT)] 1"

definition Q_COUNT_TASKS :: sql_stmt where
  "Q_COUNT_TASKS = q_select ''tasks'' [(''status'', TextT)] 0"

definition Q_COUNT_AGENTS :: sql_stmt where
  "Q_COUNT_AGENTS = q_select ''agents'' [] 0"

definition Q_RECORD_EVENT :: sql_stmt where
  "Q_RECORD_EVENT =
     q_insert ''chain_events''
       [(''block_number'', BigintT), (''event_index'', IntegerT), (''pallet'', TextT),
        (''variant'', TextT), (''payload'', TextT), (''correlation_id'', TextT)]
       [''block_number'', ''event_index''] 6"

definition Q_UPDATE_CURSOR :: sql_stmt where
  "Q_UPDATE_CURSOR =
     q_insert ''chain_cursors''
       [(''id'', IntegerT), (''block_number'', BigintT), (''event_index'', IntegerT),
        (''updated_at'', TimestamptzT)] [''id''] 2"

definition Q_LAST_CURSOR :: sql_stmt where
  "Q_LAST_CURSOR = q_select ''chain_cursors'' [(''id'', IntegerT)] 0"

definition Q_RECORD_OUTBOUND :: sql_stmt where
  "Q_RECORD_OUTBOUND =
     q_insert ''outbound_extrinsics''
       [(''correlation_id'', TextT), (''pallet'', TextT), (''call'', TextT),
        (''payload'', TextT), (''status'', TextT), (''updated_at'', TimestamptzT)]
       [''correlation_id''] 5"

section \<open>What Postgres accepts under the migrated schema\<close>

lemma storage_stmts_prepare:
  "prepares migrated Q_REGISTER_AGENT" "prepares migrated Q_GET_AGENT"
  "prepares migrated Q_LIST_AGENTS" "prepares migrated Q_PUT_TASK" "prepares migrated Q_GET_TASK"
  "prepares migrated Q_LIST_TASKS" "prepares migrated Q_INSERT_BID" "prepares migrated Q_GET_BIDS"
  "prepares migrated Q_GET_RESULT" "prepares migrated Q_COUNT_TASKS"
  "prepares migrated Q_COUNT_AGENTS"
  by code_simp+

lemma sink_stmts_prepare:
  "prepares migrated Q_RECORD_EVENT" "prepares migrated Q_UPDATE_CURSOR"
  "prepares migrated Q_LAST_CURSOR" "prepares migrated Q_RECORD_OUTBOUND"
  by code_simp+

lemma insert_result_refused: "\<not> prepares migrated Q_INSERT_RESULT"
  by code_simp

lemma run_stmt_Ok:
  "run_stmt x e n q accepted v = Ok w \<longleftrightarrow>
     pe_fault e n = None \<and> prepares (pg_schema x) q \<and> accepted \<and> w = v"
  by (auto simp: run_stmt_def split: option.splits)

lemma run_stmt_quiet:
  assumes "pg_quiet e" "prepares (pg_schema x) q" "accepted"
  shows "run_stmt x e n q accepted v = Ok v"
  using assms by (simp add: run_stmt_Ok pg_quiet_def)

lemma run_stmt_refused:
  assumes "\<not> prepares (pg_schema x) q"
  shows "\<exists>err. run_stmt x e n q accepted v = Err err"
  using assms by (simp add: run_stmt_def split: option.split)

lemma char_count_outbox_ok:
  "outbox_row_ok r \<Longrightarrow> ob_payload r = Some p \<Longrightarrow> char_count p \<le> 4096"
  by (simp add: outbox_row_ok_def)

end
