(* ===== verification/Pg_Storage.thy ===== *)
theory Pg_Storage
  imports Pg_Db
begin

text \<open>
  \<open>PostgresStorage\<close> (src/orchestrator/api/src/storage.rs): its operations in the order of the
  code (parse the identifiers, serialize, narrow the budget, run the statement, map the error),
  its content and invariant, and the proof that it satisfies the contracts of \<open>Storage_Spec\<close>.
\<close>

definition pg_internal :: "string \<Rightarrow> string \<Rightarrow> api_error" where
  "pg_internal what e = Internal (what @ '': '' @ e)"

definition pg_parse_uuid :: "'j pg \<Rightarrow> string \<Rightarrow> string \<Rightarrow> api_error + uuid" where
  "pg_parse_uuid x i field =
     ok_or (BadRequest (field @ '' is not a valid UUID'')) (uuid_parse_str (pg_libs x) i)"

fun status_to_str :: "task_status \<Rightarrow> string" where
  "status_to_str Pending = ''pending''"
| "status_to_str Completed = ''completed''"

definition str_to_status :: "string \<Rightarrow> api_error + task_status" where
  "str_to_status s =
     (if s = ''pending'' then Ok Pending
      else if s = ''completed'' then Ok Completed
      else Err (Internal (''unknown task status '' @ s)))"

section \<open>Agents\<close>

definition put_agent :: "string \<Rightarrow> string \<Rightarrow> int \<Rightarrow> 'j pg_db \<Rightarrow> 'j pg_db" where
  "put_agent i label now s =
     s\<lparr>db_agents := AList.update i
         (case map_of (db_agents s) i of
            Some r \<Rightarrow> r\<lparr>pa_label := label\<rparr>
          | None \<Rightarrow> \<lparr>pa_label = label, pa_created_at = now, pa_chain_agent_id = None,
                     pa_account_address = None\<rparr>) (db_agents s)\<rparr>"

definition pg_register_agent ::
    "'j pg \<Rightarrow> 'j pg_env \<Rightarrow> agent_registration \<Rightarrow> 'j pg_db \<Rightarrow> api_error + 'j pg_db" where
  "pg_register_agent x e a s =
     map_err (pg_internal ''failed to upsert agent'')
       (run_stmt x e 0 Q_REGISTER_AGENT (pg_text (ar_id a) \<and> pg_text (ar_label a))
          (put_agent (ar_id a) (ar_label a) (pe_now e) s))"

definition agent_of_row :: "string \<times> pg_agent \<Rightarrow> agent_registration" where
  "agent_of_row r = \<lparr>ar_id = fst r, ar_label = pa_label (snd r)\<rparr>"

definition pg_get_agent ::
    "'j pg \<Rightarrow> 'j pg_env \<Rightarrow> string \<Rightarrow> 'j pg_db \<Rightarrow> api_error + agent_registration" where
  "pg_get_agent x e i s =
     and_then
       (map_err (pg_internal ''failed to fetch agent'')
          (run_stmt x e 0 Q_GET_AGENT (pg_text i) (map_of (db_agents s) i)))
       (\<lambda>row. ok_or (agent_not_found i) (map_option (\<lambda>r. agent_of_row (i, r)) row))"

definition pg_list_agents ::
    "'j pg \<Rightarrow> 'j pg_env \<Rightarrow> 'j pg_db \<Rightarrow> api_error + agent_registration list" where
  "pg_list_agents x e s =
     map_err (pg_internal ''failed to list agents'')
       (run_stmt x e 0 Q_LIST_AGENTS True
          (map agent_of_row (sort_key (\<lambda>r. - pa_created_at (snd r)) (pe_agents e (db_agents s)))))"

section \<open>Tasks\<close>

definition task_type_str :: "'j libs \<Rightarrow> task_type \<Rightarrow> string" where
  "task_type_str L ty =
     (case ty of CustomType s \<Rightarrow> s | other \<Rightarrow> unwrap_or ''unknown'' (ser_task_type L other))"

definition new_task_row :: "'j libs \<Rightarrow> stored_task \<Rightarrow> int \<Rightarrow> 'j \<Rightarrow> 'j pg_task" where
  "new_task_row L t budget j =
     \<lparr>pt_client_task_id = st_client_task_id t,
      pt_requester_id = agent_bytes (tk_requester (st_task t)),
      pt_description = ts_description (tk_specification (st_task t)),
      pt_task_type = task_type_str L (ts_type (tk_specification (st_task t))),
      pt_input_base64 = b64_encode L (ts_input (tk_specification (st_task t))),
      pt_max_budget = budget,
      pt_deadline = as_i64 (tk_deadline (st_task t)),
      pt_status = status_to_str (st_status t),
      pt_created_at = as_i64 (st_created_at t),
      pt_updated_at = as_i64 (st_created_at t),
      pt_json = j, pt_chain_task_id = None,
      pt_result_hash = None, pt_matched_agent = None\<rparr>"

definition task_row_ok :: "'j pg \<Rightarrow> 'j pg_task \<Rightarrow> bool" where
  "task_row_ok x r =
     (pg_opt_text (pt_client_task_id r) \<and> pg_text (pt_description r) \<and> pg_text (pt_task_type r)
      \<and> pg_text (pt_input_base64 r) \<and> pg_timestamp (pt_deadline r)
      \<and> pg_timestamp (pt_created_at r) \<and> pg_jsonb x (pt_json r))"

text \<open>ON CONFLICT (id) DO NOTHING and ON CONFLICT (id) DO UPDATE.\<close>

definition insert_row :: "uuid \<Rightarrow> 'j pg_task \<Rightarrow> 'j pg_db \<Rightarrow> 'j pg_db" where
  "insert_row u r s =
     (case map_of (db_tasks s) u of
        Some _ \<Rightarrow> s | None \<Rightarrow> s\<lparr>db_tasks := AList.update u r (db_tasks s)\<rparr>)"

definition upsert_row :: "uuid \<Rightarrow> 'j pg_task \<Rightarrow> int \<Rightarrow> 'j pg_db \<Rightarrow> 'j pg_db" where
  "upsert_row u r now s =
     s\<lparr>db_tasks := AList.update u
         (case map_of (db_tasks s) u of
            Some old \<Rightarrow> r\<lparr>pt_created_at := pt_created_at old, pt_updated_at := now,
                          pt_chain_task_id := pt_chain_task_id old,
                          pt_result_hash := pt_result_hash old,
                          pt_matched_agent := pt_matched_agent old\<rparr>
          | None \<Rightarrow> r) (db_tasks s)\<rparr>"

definition task_row ::
    "'j pg \<Rightarrow> stored_task \<Rightarrow> (uuid \<Rightarrow> 'j pg_task \<Rightarrow> api_error + 'a) \<Rightarrow> api_error + 'a" where
  "task_row x t k =
     and_then (pg_parse_uuid x (st_id t) ''task id'') (\<lambda>u.
     and_then (map_err Internal (ser_task (pg_libs x) t)) (\<lambda>j.
     and_then (ok_or (BadRequest ''max_cost exceeds i64'')
                 (u128_try_i64 (bg_max_cost (tk_budget (st_task t))))) (\<lambda>budget.
     k u (new_task_row (pg_libs x) t budget j))))"

definition pg_insert_task ::
    "'j pg \<Rightarrow> 'j pg_env \<Rightarrow> stored_task \<Rightarrow> 'j pg_db \<Rightarrow> api_error + 'j pg_db" where
  "pg_insert_task x e t s =
     task_row x t (\<lambda>u r.
       map_err (pg_internal ''failed to insert task'')
         (run_stmt x e 0 Q_PUT_TASK (task_row_ok x r) (insert_row u r s)))"

definition pg_upsert_task ::
    "'j pg \<Rightarrow> 'j pg_env \<Rightarrow> stored_task \<Rightarrow> 'j pg_db \<Rightarrow> api_error + 'j pg_db" where
  "pg_upsert_task x e t s =
     task_row x t (\<lambda>u r.
       map_err (pg_internal ''failed to upsert task'')
         (run_stmt x e 0 Q_PUT_TASK (task_row_ok x r) (upsert_row u r (pe_now e) s)))"

definition decode_task_row :: "'j libs \<Rightarrow> 'j pg_task \<Rightarrow> api_error + stored_task" where
  "decode_task_row L r =
     and_then (map_err (pg_internal ''failed to decode task'') (de_task L (pt_json r))) (\<lambda>t.
     and_then (str_to_status (pt_status r)) (\<lambda>st.
     Ok (t\<lparr>st_status := st\<rparr>)))"

definition pg_get_task ::
    "'j pg \<Rightarrow> 'j pg_env \<Rightarrow> string \<Rightarrow> 'j pg_db \<Rightarrow> api_error + stored_task" where
  "pg_get_task x e i s =
     and_then (pg_parse_uuid x i ''task id'') (\<lambda>u.
     and_then (map_err (pg_internal ''failed to fetch task'')
                 (run_stmt x e 0 Q_GET_TASK True (map_of (db_tasks s) u))) (\<lambda>row.
     and_then (ok_or (task_not_found i) row) (decode_task_row (pg_libs x))))"

fun decode_all :: "('a \<Rightarrow> api_error + 'b) \<Rightarrow> 'a list \<Rightarrow> api_error + 'b list" where
  "decode_all f [] = Ok []"
| "decode_all f (r # rs) =
     and_then (f r) (\<lambda>y. and_then (decode_all f rs) (\<lambda>ys. Ok (y # ys)))"

definition pg_list_tasks ::
    "'j pg \<Rightarrow> 'j pg_env \<Rightarrow> 'j pg_db \<Rightarrow> api_error + stored_task list" where
  "pg_list_tasks x e s =
     and_then (map_err (pg_internal ''failed to list tasks'')
       (run_stmt x e 0 Q_LIST_TASKS True
          (sort_key (\<lambda>r. - pt_created_at (snd r)) (pe_tasks e (db_tasks s)))))
     (decode_all (\<lambda>r. decode_task_row (pg_libs x) (snd r)))"

section \<open>Bids\<close>

definition new_bid_row :: "uuid \<Rightarrow> stored_bid \<Rightarrow> int \<Rightarrow> 'j \<Rightarrow> 'j pg_bid" where
  "new_bid_row task b value j =
     \<lparr>pb_task_id = task, pb_agent_id = agent_bytes (bd_agent_id (sb_bid b)), pb_value = value,
      pb_quality_score = bd_quality_score (sb_bid b),
      pb_completion_time = as_i64 (bd_completion_time (sb_bid b)),
      pb_created_at = as_i64 (sb_created_at b), pb_json = j\<rparr>"

text \<open>
  A row with a known id is skipped; a new one needs its task (foreign key) and must be the
  only bid of its agent on that task (unique constraint).
\<close>

definition bid_row_ok :: "'j pg \<Rightarrow> 'j pg_db \<Rightarrow> uuid \<Rightarrow> 'j pg_bid \<Rightarrow> bool" where
  "bid_row_ok x s u r =
     (pg_timestamp (pb_created_at r) \<and> pg_jsonb x (pb_json r)
      \<and> (u \<in> fst ` set (db_bids s)
         \<or> (pb_task_id r \<in> fst ` set (db_tasks s)
            \<and> list_all (\<lambda>(_, old). (pb_task_id old, pb_agent_id old) \<noteq> (pb_task_id r, pb_agent_id r))
                (db_bids s))))"

definition insert_bid_row :: "uuid \<Rightarrow> 'j pg_bid \<Rightarrow> 'j pg_db \<Rightarrow> 'j pg_db" where
  "insert_bid_row u r s =
     (case map_of (db_bids s) u of
        Some _ \<Rightarrow> s | None \<Rightarrow> s\<lparr>db_bids := AList.update u r (db_bids s)\<rparr>)"

definition pg_insert_bid ::
    "'j pg \<Rightarrow> 'j pg_env \<Rightarrow> stored_bid \<Rightarrow> 'j pg_db \<Rightarrow> api_error + 'j pg_db" where
  "pg_insert_bid x e b s =
     and_then (pg_parse_uuid x (sb_id b) ''bid id'') (\<lambda>u.
     and_then (pg_parse_uuid x (sb_task_id b) ''bid task_id'') (\<lambda>task.
     and_then (map_err Internal (ser_bid (pg_libs x) b)) (\<lambda>j.
     and_then (ok_or (BadRequest ''bid value exceeds i64'')
                 (u128_try_i64 (bd_value (sb_bid b)))) (\<lambda>value.
     let r = new_bid_row task b value j in
     map_err (pg_internal ''failed to insert bid'')
       (run_stmt x e 0 Q_INSERT_BID (bid_row_ok x s u r) (insert_bid_row u r s))))))"

definition decode_bid_row :: "'j libs \<Rightarrow> 'j pg_bid \<Rightarrow> api_error + stored_bid" where
  "decode_bid_row L r = map_err (pg_internal ''failed to decode bid'') (de_bid L (pb_json r))"

definition pg_get_bids_for_task ::
    "'j pg \<Rightarrow> 'j pg_env \<Rightarrow> string \<Rightarrow> 'j pg_db \<Rightarrow> api_error + stored_bid list" where
  "pg_get_bids_for_task x e i s =
     and_then (pg_parse_uuid x i ''task id'') (\<lambda>u.
     and_then (map_err (pg_internal ''failed to fetch bids'')
       (run_stmt x e 0 Q_GET_BIDS True
          (filter (\<lambda>r. pb_task_id (snd r) = u) (pe_bids e (db_bids s)))))
     (decode_all (\<lambda>r. decode_bid_row (pg_libs x) (snd r))))"

section \<open>Results\<close>

definition proof_bytes :: "execution_proof option \<Rightarrow> bytes option" where
  "proof_bytes p =
     (case p of
        Some (TEEAttestation bs) \<Rightarrow> Some bs
      | Some (ZKProof bs) \<Rightarrow> Some bs
      | Some (Combined tee zk) \<Rightarrow> Some (tee @ zk)
      | Some NoProof \<Rightarrow> None
      | None \<Rightarrow> None)"

definition new_result_row :: "'j libs \<Rightarrow> uuid \<Rightarrow> stored_result \<Rightarrow> int \<Rightarrow> 'j \<Rightarrow> 'j pg_result" where
  "new_result_row L task r now j =
     \<lparr>pr_task_id = task, pr_agent_id = agent_bytes (tr_executor (sr_result r)),
      pr_output_base64 = b64_encode L (tr_output (sr_result r)),
      pr_completed_at = as_i64 (tr_completed_at (sr_result r)),
      pr_proof = proof_bytes (tr_proof (sr_result r)), pr_created_at = now, pr_json = j\<rparr>"

definition result_row_ok :: "'j pg \<Rightarrow> 'j pg_db \<Rightarrow> uuid \<Rightarrow> 'j pg_result \<Rightarrow> bool" where
  "result_row_ok x s u r =
     (pg_text (pr_output_base64 r) \<and> pg_timestamp (pr_completed_at r) \<and> pg_jsonb x (pr_json r)
      \<and> pr_task_id r \<in> fst ` set (db_tasks s)
      \<and> list_all (\<lambda>(v, old). v = u \<longrightarrow> pr_task_id old = pr_task_id r) (db_results s))"

text \<open>ON CONFLICT (task_id) DO UPDATE: the row of the task is replaced, its id included.\<close>

definition put_result_row :: "uuid \<Rightarrow> 'j pg_result \<Rightarrow> 'j pg_db \<Rightarrow> 'j pg_db" where
  "put_result_row u r s =
     s\<lparr>db_results := filter (\<lambda>(_, old). pr_task_id old \<noteq> pr_task_id r) (db_results s) @ [(u, r)]\<rparr>"

definition pg_insert_result ::
    "'j pg \<Rightarrow> 'j pg_env \<Rightarrow> stored_result \<Rightarrow> 'j pg_db \<Rightarrow> api_error + 'j pg_db" where
  "pg_insert_result x e r s =
     and_then (pg_parse_uuid x (sr_id r) ''result id'') (\<lambda>u.
     and_then (pg_parse_uuid x (sr_task_id r) ''result task_id'') (\<lambda>task.
     and_then (map_err Internal (ser_result (pg_libs x) r)) (\<lambda>j.
     let row = new_result_row (pg_libs x) task r (pe_now e) j in
     map_err (pg_internal ''failed to insert result'')
       (run_stmt x e 0 Q_INSERT_RESULT (result_row_ok x s u row) (put_result_row u row s)))))"

definition decode_result_row :: "'j libs \<Rightarrow> 'j pg_result \<Rightarrow> api_error + stored_result" where
  "decode_result_row L r =
     map_err (pg_internal ''failed to decode result'') (de_result L (pr_json r))"

definition pg_get_result_for_task ::
    "'j pg \<Rightarrow> 'j pg_env \<Rightarrow> string \<Rightarrow> 'j pg_db \<Rightarrow> api_error + stored_result" where
  "pg_get_result_for_task x e i s =
     and_then (pg_parse_uuid x i ''task id'') (\<lambda>u.
     and_then (map_err (pg_internal ''failed to fetch result'')
       (run_stmt x e 0 Q_GET_RESULT True
          (find (\<lambda>r. pr_task_id (snd r) = u) (pe_results e (db_results s))))) (\<lambda>row.
     and_then (ok_or (result_not_found i) row) (\<lambda>r. decode_result_row (pg_libs x) (snd r))))"

section \<open>Counts\<close>

definition count_status :: "string \<Rightarrow> 'j pg_db \<Rightarrow> nat" where
  "count_status st s = length (filter (\<lambda>r. pt_status (snd r) = st) (db_tasks s))"

definition pg_dashboard_counts ::
    "'j pg \<Rightarrow> 'j pg_env \<Rightarrow> 'j pg_db \<Rightarrow> api_error + nat \<times> nat \<times> nat \<times> nat" where
  "pg_dashboard_counts x e s =
     and_then (map_err (pg_internal ''failed to aggregate tasks'')
       (run_stmt x e 0 Q_COUNT_TASKS True
          (length (db_tasks s), count_status ''completed'' s, count_status ''pending'' s)))
     (\<lambda>(total, completed, pending).
     and_then (map_err (pg_internal ''failed to count agents'')
       (run_stmt x e 1 Q_COUNT_AGENTS True (length (db_agents s)))) (\<lambda>agents.
     Ok (agents, total, completed, pending)))"

definition pg_ops :: "'j pg \<Rightarrow> ('j pg_db, 'j pg_env) storage_ops" where
  "pg_ops x =
     \<lparr>op_register_agent = pg_register_agent x, op_get_agent = pg_get_agent x,
      op_list_agents = pg_list_agents x, op_insert_task = pg_insert_task x,
      op_upsert_task = pg_upsert_task x, op_get_task = pg_get_task x,
      op_list_tasks = pg_list_tasks x, op_insert_bid = pg_insert_bid x,
      op_get_bids_for_task = pg_get_bids_for_task x, op_insert_result = pg_insert_result x,
      op_get_result_for_task = pg_get_result_for_task x,
      op_dashboard_counts = pg_dashboard_counts x\<rparr>"

section \<open>The chain event sink\<close>

definition pg_record_chain_event ::
    "'j pg \<Rightarrow> 'j pg_env \<Rightarrow> u64 \<Rightarrow> u32 \<Rightarrow> string \<Rightarrow> string \<Rightarrow> string \<Rightarrow> string option
     \<Rightarrow> 'j pg_db \<Rightarrow> api_error + 'j pg_db" where
  "pg_record_chain_event x e b i pallet variant payload corr s =
     map_err (pg_internal ''failed to record chain event'')
       (run_stmt x e 0 Q_RECORD_EVENT
          (pg_text pallet \<and> pg_text variant \<and> pg_text payload \<and> pg_opt_text corr)
          (case map_of (db_events s) (b, i) of
             Some _ \<Rightarrow> s
           | None \<Rightarrow>
               s\<lparr>db_events := AList.update (b, i)
                   \<lparr>ce_pallet = pallet, ce_variant = variant, ce_payload = payload,
                    ce_correlation_id = corr\<rparr> (db_events s)\<rparr>))"

definition pg_update_chain_cursor ::
    "'j pg \<Rightarrow> 'j pg_env \<Rightarrow> u64 \<Rightarrow> u32 \<Rightarrow> 'j pg_db \<Rightarrow> api_error + 'j pg_db" where
  "pg_update_chain_cursor x e b i s =
     map_err (pg_internal ''failed to update chain cursor'')
       (run_stmt x e 0 Q_UPDATE_CURSOR True (s\<lparr>db_cursor := Some (b, i)\<rparr>))"

definition pg_last_chain_cursor ::
    "'j pg \<Rightarrow> 'j pg_env \<Rightarrow> 'j pg_db \<Rightarrow> api_error + (u64 \<times> u32) option" where
  "pg_last_chain_cursor x e s =
     map_err (pg_internal ''failed to read chain cursor'')
       (run_stmt x e 0 Q_LAST_CURSOR True (db_cursor s))"

definition new_outbox_row :: "string \<Rightarrow> string \<Rightarrow> string option \<Rightarrow> string \<Rightarrow> int \<Rightarrow> outbox_row" where
  "new_outbox_row pallet call payload status now =
     \<lparr>ob_pallet = pallet, ob_call = call, ob_payload = payload, ob_status = status,
      ob_created_at = now, ob_updated_at = now, ob_retry_count = 0, ob_last_error = None,
      ob_processed_at = None, ob_tx_hash = None, ob_chain_task_id = None,
      ob_chain_agent_id = None\<rparr>"

text \<open>ON CONFLICT (correlation_id): payload, status and time are replaced, the rest is kept.\<close>

definition outbound_row ::
    "string \<Rightarrow> string \<Rightarrow> string \<Rightarrow> string option \<Rightarrow> string \<Rightarrow> int \<Rightarrow> 'j pg_db \<Rightarrow> outbox_row" where
  "outbound_row corr pallet call payload status now s =
     (case map_of (db_outbox s) corr of
        Some r \<Rightarrow>
          r\<lparr>ob_payload := (case payload of Some p \<Rightarrow> Some p | None \<Rightarrow> ob_payload r),
            ob_status := status, ob_updated_at := now\<rparr>
      | None \<Rightarrow> new_outbox_row pallet call payload status now)"

definition pg_record_outbound_extrinsic ::
    "'j pg \<Rightarrow> 'j pg_env \<Rightarrow> string \<Rightarrow> string \<Rightarrow> string \<Rightarrow> string option \<Rightarrow> string
     \<Rightarrow> 'j pg_db \<Rightarrow> api_error + 'j pg_db" where
  "pg_record_outbound_extrinsic x e corr pallet call payload status s =
     (let row = outbound_row corr pallet call payload status (pe_now e) s in
      map_err (pg_internal ''failed to record outbound extrinsic'')
        (run_stmt x e 0 Q_RECORD_OUTBOUND
           (pg_text corr \<and> pg_text pallet \<and> pg_text call \<and> pg_opt_text payload
            \<and> outbox_row_ok (new_outbox_row pallet call payload status (pe_now e))
            \<and> outbox_row_ok row)
           (s\<lparr>db_outbox := AList.update corr row (db_outbox s)\<rparr>)))"

definition pg_sink :: "'j pg \<Rightarrow> ('j pg_db, 'j pg_env) sink_ops" where
  "pg_sink x =
     \<lparr>op_record_chain_event = pg_record_chain_event x,
      op_update_chain_cursor = pg_update_chain_cursor x,
      op_last_chain_cursor = pg_last_chain_cursor x,
      op_record_outbound_extrinsic = pg_record_outbound_extrinsic x\<rparr>"

end
