(* ===== verification/Reference_Libs.thy ===== *)
theory Reference_Libs
  imports Extern
begin

text \<open>
  One concrete instance of the external crates, \<open>ref_libs\<close>, for the witnesses: it shows that
  the hypotheses of \<open>Extern\<close> can hold together. The JSON values are a datatype with a
  length-prefixed text, the UUIDs are written in decimal, and the digest pads to 32 bytes; no
  property depends on these choices.
\<close>

datatype ref_json =
    JNull | JStr string | JNat u64 | JInt i64 | JArr "ref_json list"
  | JObj "(string \<times> ref_json) list"
  | JTask stored_task | JBid stored_bid | JResult stored_result

section \<open>Text of a JSON value\<close>

definition enc_nat :: "nat \<Rightarrow> string" where
  "enc_nat n = dec n @ '';''"

definition enc_str :: "string \<Rightarrow> string" where
  "enc_str s = enc_nat (length s) @ s"

fun enc_json :: "ref_json \<Rightarrow> string" where
  "enc_json (JStr s) = ''s'' @ enc_str s"
| "enc_json (JNat n) = ''n'' @ enc_nat (unat n)"
| "enc_json (JInt n) = ''i'' @ enc_nat (unat n)"
| "enc_json (JArr vs) = ''a'' @ enc_nat (length vs) @ concat (map enc_json vs)"
| "enc_json (JObj kvs) =
     ''o'' @ enc_nat (length kvs) @ concat (map (\<lambda>(k, v). enc_str k @ enc_json v) kvs)"
| "enc_json _ = ''z''"

definition dec_nat :: "string \<Rightarrow> (nat \<times> string) option" where
  "dec_nat s =
     (case dropWhile (\<lambda>c. c \<noteq> CHR '';'') s of
        [] \<Rightarrow> None
      | _ # t \<Rightarrow> map_option (\<lambda>n. (n, t)) (digits_val 0 (takeWhile (\<lambda>c. c \<noteq> CHR '';'') s)))"

definition dec_str :: "string \<Rightarrow> (string \<times> string) option" where
  "dec_str s = Option.bind (dec_nat s) (\<lambda>(n, t). if n \<le> length t then Some (take n t, drop n t) else None)"

primrec dec_rep :: "(string \<Rightarrow> ('a \<times> string) option) \<Rightarrow> nat \<Rightarrow> string \<Rightarrow> ('a list \<times> string) option" where
  "dec_rep d 0 s = Some ([], s)"
| "dec_rep d (Suc n) s =
     Option.bind (d s) (\<lambda>(v, t). map_option (\<lambda>(vs, u). (v # vs, u)) (dec_rep d n t))"

definition dec_pair ::
    "(string \<Rightarrow> ('a \<times> string) option) \<Rightarrow> string \<Rightarrow> ((string \<times> 'a) \<times> string) option" where
  "dec_pair d s =
     Option.bind (dec_str s) (\<lambda>(k, t). map_option (\<lambda>(v, u). ((k, v), u)) (d t))"

primrec dec_json :: "nat \<Rightarrow> string \<Rightarrow> (ref_json \<times> string) option" where
  "dec_json 0 s = None"
| "dec_json (Suc f) s =
     (case s of
        [] \<Rightarrow> None
      | c # t \<Rightarrow>
          if c = CHR ''s'' then map_option (\<lambda>(k, u). (JStr k, u)) (dec_str t)
          else if c = CHR ''n'' then map_option (\<lambda>(n, u). (JNat (of_nat n), u)) (dec_nat t)
          else if c = CHR ''i'' then map_option (\<lambda>(n, u). (JInt (of_nat n), u)) (dec_nat t)
          else if c = CHR ''a'' then
            Option.bind (dec_nat t) (\<lambda>(n, u).
              map_option (\<lambda>(vs, w). (JArr vs, w)) (dec_rep (dec_json f) n u))
          else if c = CHR ''o'' then
            Option.bind (dec_nat t) (\<lambda>(n, u).
              map_option (\<lambda>(kvs, w). (JObj kvs, w)) (dec_rep (dec_pair (dec_json f)) n u))
          else Some (JNull, t))"

fun weight :: "ref_json \<Rightarrow> nat" where
  "weight (JArr vs) = Suc (sum_list (map weight vs))"
| "weight (JObj kvs) = Suc (sum_list (map (\<lambda>(k, v). weight v) kvs))"
| "weight _ = 1"

lemma dec_nat_enc: "dec_nat (enc_nat n @ t) = Some (n, t)"
proof -
  have "CHR '';'' \<notin> set (dec n)" by (rule dec_not_in) simp
  then have "takeWhile (\<lambda>c. c \<noteq> CHR '';'') (dec n @ CHR '';'' # t) = dec n"
    "dropWhile (\<lambda>c. c \<noteq> CHR '';'') (dec n @ CHR '';'' # t) = CHR '';'' # t"
    by (auto simp: takeWhile_append dropWhile_append)
  then show ?thesis by (simp add: dec_nat_def enc_nat_def digits_val_dec)
qed

lemma dec_str_enc: "dec_str (enc_str s @ t) = Some (s, t)"
  by (simp add: dec_str_def enc_str_def dec_nat_enc)

lemma dec_rep_enc:
  assumes "\<And>v t. v \<in> set vs \<Longrightarrow> d (enc v @ t) = Some (v, t)"
  shows "dec_rep d (length vs) (concat (map enc vs) @ t) = Some (vs, t)"
  using assms by (induction vs) auto

inductive plain :: "ref_json \<Rightarrow> bool" where
  plain_str: "plain (JStr s)"
| plain_nat: "plain (JNat n)"
| plain_int: "plain (JInt n)"
| plain_arr: "(\<And>v. v \<in> set vs \<Longrightarrow> plain v) \<Longrightarrow> plain (JArr vs)"
| plain_obj: "(\<And>k v. (k, v) \<in> set kvs \<Longrightarrow> plain v) \<Longrightarrow> plain (JObj kvs)"

lemma weight_member:
  "v \<in> set vs \<Longrightarrow> weight v < weight (JArr vs)"
  "(k, v) \<in> set kvs \<Longrightarrow> weight v < weight (JObj kvs)"
proof -
  show "v \<in> set vs \<Longrightarrow> weight v < weight (JArr vs)"
    using member_le_sum_list [of "weight v" "map weight vs"] by (auto simp: less_Suc_eq_le)
  show "(k, v) \<in> set kvs \<Longrightarrow> weight v < weight (JObj kvs)"
    using member_le_sum_list [of "weight v" "map (\<lambda>(k, v). weight v) kvs"]
    by (force simp: less_Suc_eq_le)
qed

lemma dec_json_enc:
  "plain v \<Longrightarrow> weight v \<le> f \<Longrightarrow> dec_json f (enc_json v @ t) = Some (v, t)"
proof (induction v arbitrary: f t rule: plain.induct)
  case (plain_arr vs)
  then obtain g where f: "f = Suc g" by (cases f) auto
  have "dec_json g (enc_json v @ u) = Some (v, u)" if "v \<in> set vs" for v u
    using plain_arr.IH [OF that] plain_arr.prems weight_member(1) [OF that] f by simp
  then have "dec_rep (dec_json g) (length vs) (concat (map enc_json vs) @ t) = Some (vs, t)"
    by (rule dec_rep_enc)
  then show ?case by (simp add: f dec_nat_enc)
next
  case (plain_obj kvs)
  then obtain g where f: "f = Suc g" by (cases f) auto
  let ?enc = "\<lambda>(k, v). enc_str k @ enc_json v"
  have "dec_pair (dec_json g) (?enc kv @ u) = Some (kv, u)" if "kv \<in> set kvs" for kv u
  proof -
    obtain k v where kv: "kv = (k, v)" by (cases kv)
    then have "dec_json g (enc_json v @ u) = Some (v, u)"
      using that plain_obj.IH [of k v] plain_obj.prems weight_member(2) [of k v kvs] f by simp
    then show ?thesis by (simp add: kv dec_pair_def dec_str_enc)
  qed
  then have "dec_rep (dec_pair (dec_json g)) (length kvs) (concat (map ?enc kvs) @ t) = Some (kvs, t)"
    by (rule dec_rep_enc)
  then show ?case by (simp add: f dec_nat_enc)
next
  case (plain_str s)
  then obtain g where "f = Suc g" by (cases f) auto
  then show ?case by (simp add: dec_str_enc)
next
  case (plain_nat n)
  then obtain g where "f = Suc g" by (cases f) auto
  then show ?case by (simp add: dec_nat_enc)
next
  case (plain_int n)
  then obtain g where "f = Suc g" by (cases f) auto
  then show ?case by (simp add: dec_nat_enc)
qed

lemma weight_le_text: "plain v \<Longrightarrow> weight v \<le> length (enc_json v)"
proof (induction rule: plain.induct)
  case (plain_arr vs)
  have "sum_list (map weight vs) \<le> length (concat (map enc_json vs))"
    using plain_arr.IH by (simp add: length_concat o_def sum_list_mono)
  then show ?case by simp
next
  case (plain_obj kvs)
  have "sum_list (map (\<lambda>(k, v). weight v) kvs)
      \<le> length (concat (map (\<lambda>(k, v). enc_str k @ enc_json v) kvs))"
    using plain_obj.IH by (fastforce simp: length_concat o_def intro!: sum_list_mono)
  then show ?case by simp
qed simp_all

definition parse_json :: "string \<Rightarrow> string + ref_json" where
  "parse_json s =
     (case dec_json (length s) s of
        Some (v, []) \<Rightarrow> Ok v
      | _ \<Rightarrow> Err ''expected value'')"

lemma parse_json_enc: "plain v \<Longrightarrow> parse_json (enc_json v) = Ok v"
  using dec_json_enc [of v "length (enc_json v)" "[]"] by (simp add: parse_json_def weight_le_text)

section \<open>Hexadecimal text\<close>

definition hex_val :: "char \<Rightarrow> nat option" where
  "hex_val c =
     (let n = of_char c :: nat in
      if 48 \<le> n \<and> n < 58 then Some (n - 48)
      else if 97 \<le> n \<and> n < 103 then Some (n - 87) else None)"

fun hex_text_decode :: "string \<Rightarrow> string + bytes" where
  "hex_text_decode [] = Ok []"
| "hex_text_decode [c] = Err ''Odd number of digits''"
| "hex_text_decode (c # d # s) =
     (case (hex_val c, hex_val d) of
        (Some h, Some l) \<Rightarrow> and_then (hex_text_decode s) (\<lambda>bs. Ok (of_nat (16 * h + l) # bs))
      | _ \<Rightarrow> Err ''Invalid character'')"

definition hex_text :: "bytes \<Rightarrow> string" where
  "hex_text bs = concat (map hex_byte bs)"

lemma hex_val_digit: "d < 16 \<Longrightarrow> hex_val (hex_digit d) = Some d"
  by (simp add: hex_val_def Let_def of_char_hex_digit)

lemma byte_nibbles: "unat (b :: u8) div 16 < 16"
  using unsigned_less [of b, where ?'a = nat] by (simp add: less_mult_imp_div_less)

lemma hex_text_roundtrip: "hex_text_decode (hex_text bs) = Ok bs"
  by (induction bs) (simp_all add: hex_text_def hex_byte_def hex_val_digit byte_nibbles)

lemma hex_digit_alphabet:
  assumes "d < 16"
  shows "hex_digit d \<in> hex_alphabet"
proof -
  have "list_all (\<lambda>d. hex_digit d \<in> hex_alphabet) [0..<16]" by code_simp
  then show ?thesis using assms by (simp add: list_all_iff)
qed

lemma hex_text_alphabet: "set (hex_text bs) \<subseteq> hex_alphabet"
  by (auto simp: hex_text_def hex_byte_def hex_digit_alphabet byte_nibbles)

section \<open>The instance\<close>

definition ref_hash :: "bytes \<Rightarrow> bytes" where
  "ref_hash bs = take 32 (bs @ replicate 32 0)"

definition ref_uuid_parse :: "string \<Rightarrow> uuid option" where
  "ref_uuid_parse s = map_option of_nat (parse_unsigned (2 ^ 128) s)"

fun ref_get :: "ref_json \<Rightarrow> string \<Rightarrow> ref_json option" where
  "ref_get (JObj kvs) k = map_of kvs k"
| "ref_get _ k = None"

fun ref_insert :: "ref_json \<Rightarrow> string \<Rightarrow> ref_json \<Rightarrow> ref_json option" where
  "ref_insert (JObj kvs) k w = Some (JObj (AList.update k w kvs))"
| "ref_insert _ k w = None"

definition ref_time :: "int \<Rightarrow> string" where
  "ref_time t = dec (nat t)"

fun ref_str :: "ref_json \<Rightarrow> string option" where
  "ref_str (JStr s) = Some s"
| "ref_str _ = None"

fun ref_u64 :: "ref_json \<Rightarrow> u64 option" where
  "ref_u64 (JNat n) = Some n"
| "ref_u64 (JInt n) = (if 0 \<le> sint n then Some n else None)"
| "ref_u64 _ = None"

fun ref_array :: "ref_json \<Rightarrow> ref_json list option" where
  "ref_array (JArr vs) = Some vs"
| "ref_array _ = None"

fun ref_task :: "ref_json \<Rightarrow> string + stored_task" where
  "ref_task (JTask t) = Ok t"
| "ref_task _ = Err ''invalid type''"

fun ref_bid :: "ref_json \<Rightarrow> string + stored_bid" where
  "ref_bid (JBid t) = Ok t"
| "ref_bid _ = Err ''invalid type''"

fun ref_result :: "ref_json \<Rightarrow> string + stored_result" where
  "ref_result (JResult t) = Ok t"
| "ref_result _ = Err ''invalid type''"

definition ref_b64_decode :: "string \<Rightarrow> bytes option" where
  "ref_b64_decode s = result_ok (hex_text_decode s)"

definition ref_uuid_text :: "uuid \<Rightarrow> string" where
  "ref_uuid_text u = dec (unat u)"

definition ref_uuid_bytes :: "uuid \<Rightarrow> bytes" where
  "ref_uuid_bytes u = map (\<lambda>i. ucast (drop_bit (8 * i) u)) [0..<16]"

definition ref_u128 :: "u128 \<Rightarrow> ref_json option" where
  "ref_u128 n = (if unat n < 2 ^ 64 then Some (JNat (ucast n)) else None)"

definition ref_ss58 :: "string \<Rightarrow> string + bytes" where
  "ref_ss58 s = (if length s = 32 then Ok (as_bytes s) else Err ''length'')"

definition ref_type_text :: "task_type \<Rightarrow> string option" where
  "ref_type_text t = Some ''compute''"

definition ok_task :: "stored_task \<Rightarrow> string + ref_json" where "ok_task t = Ok (JTask t)"
definition ok_bid :: "stored_bid \<Rightarrow> string + ref_json" where "ok_bid t = Ok (JBid t)"
definition ok_result :: "stored_result \<Rightarrow> string + ref_json" where "ok_result t = Ok (JResult t)"

definition ref_is_null :: "ref_json \<Rightarrow> bool" where "ref_is_null v = (v = JNull)"
definition ref_is_empty :: "ref_json \<Rightarrow> bool" where "ref_is_empty v = (v = JObj [])"

definition ref_libs :: "ref_json libs" where
  "ref_libs =
     \<lparr>b64_encode = hex_text, b64_decode = ref_b64_decode, blake3_hash = ref_hash,
      hex_encode = hex_text, hex_decode = hex_text_decode, uuid_to_string = ref_uuid_text,
      uuid_as_bytes = ref_uuid_bytes, uuid_parse_str = ref_uuid_parse,
      json_from_str = parse_json, json_to_string = enc_json, json_get = ref_get,
      json_as_str = ref_str, json_as_u64 = ref_u64, json_as_array = ref_array,
      json_null = JNull, json_is_null = ref_is_null, json_is_empty_object = ref_is_empty, json_insert = ref_insert, json_object = JObj,
      json_string = JStr, json_array = JArr, json_u64 = JNat, json_i64 = JInt,
      json_u128 = ref_u128, ser_task = ok_task, de_task = ref_task, ser_bid = ok_bid,
      de_bid = ref_bid, ser_result = ok_result, de_result = ref_result,
      ser_task_type = ref_type_text, rfc3339 = ref_time,
      ss58_decode = ref_ss58\<rparr>"

lemmas ref_fields =
  ref_b64_decode_def ref_uuid_text_def ref_uuid_bytes_def ref_u128_def ref_ss58_def
  ok_task_def ok_bid_def ok_result_def

lemma ref_libs_simps [simp]:
  "b64_encode ref_libs = hex_text" "b64_decode ref_libs = ref_b64_decode"
  "blake3_hash ref_libs = ref_hash" "hex_encode ref_libs = hex_text"
  "hex_decode ref_libs = hex_text_decode" "uuid_to_string ref_libs = ref_uuid_text"
  "uuid_as_bytes ref_libs = ref_uuid_bytes" "uuid_parse_str ref_libs = ref_uuid_parse"
  "json_from_str ref_libs = parse_json" "json_to_string ref_libs = enc_json"
  "json_get ref_libs = ref_get" "json_as_str ref_libs = ref_str"
  "json_as_u64 ref_libs = ref_u64" "json_as_array ref_libs = ref_array"
  "json_null ref_libs = JNull" "json_is_null ref_libs = ref_is_null" "json_is_empty_object ref_libs = ref_is_empty"
  "json_insert ref_libs = ref_insert" "rfc3339 ref_libs = ref_time" "json_object ref_libs = JObj" "json_string ref_libs = JStr" "json_array ref_libs = JArr"
  "json_u64 ref_libs = JNat" "json_i64 ref_libs = JInt" "json_u128 ref_libs = ref_u128"
  "ser_task ref_libs = ok_task" "de_task ref_libs = ref_task" "ser_bid ref_libs = ok_bid"
  "de_bid ref_libs = ref_bid" "ser_result ref_libs = ok_result"
  "de_result ref_libs = ref_result" "ser_task_type ref_libs = ref_type_text"
  "ss58_decode ref_libs = ref_ss58"
  by (simp_all add: ref_libs_def)

lemma ref_b64_ok: "b64_ok ref_libs"
  by (simp add: b64_ok_def ref_fields hex_text_roundtrip)

lemma ref_blake3_ok: "blake3_ok ref_libs"
  by (auto simp: blake3_ok_def ref_hash_def min_def)

lemma ref_hex_ok: "hex_ok ref_libs"
  using hex_text_alphabet by (simp add: hex_ok_def hex_text_roundtrip)

lemma ref_uuid_ok: "uuid_ok ref_libs"
proof -
  have "ref_uuid_parse (dec (unat u)) = Some u" for u :: uuid
    using unsigned_less [of u, where ?'a = nat] by (simp add: ref_uuid_parse_def parse_unsigned_dec)
  then show ?thesis by (simp add: uuid_ok_def ref_fields)
qed

lemma ref_serde_ok: "serde_ok ref_libs"
  by (auto simp: serde_ok_def ref_fields)

lemma plain_insert:
  assumes "plain v" "plain w" "ref_insert v k w = Some v'"
  shows "plain v'"
proof -
  obtain kvs where v: "v = JObj kvs" "v' = JObj (AList.update k w kvs)"
    using assms(3) by (cases v) auto
  have "plain u" if "(l, u) \<in> set kvs" for l u
    using assms(1) that unfolding v(1) by (cases rule: plain.cases) blast
  then have "plain u" if "(l, u) \<in> set (AList.update k w kvs)" for l u
    using that assms(2) set_update [of k w kvs] by blast
  then show ?thesis unfolding v(2) by (rule plain_obj)
qed

lemma ref_built_plain: "json_built ref_libs v \<Longrightarrow> plain v"
  by (induction rule: json_built.induct) (auto intro: plain.intros plain_insert)

lemma ref_insert_get:
  "ref_insert v k w = Some v' \<Longrightarrow> ref_get v' l = (if l = k then Some w else ref_get v l)"
  by (cases v) auto

lemma ref_json_ok: "json_ok ref_libs"
proof -
  have "json_from_str ref_libs (json_to_string ref_libs v) = Ok v" if "json_built ref_libs v" for v
    using ref_built_plain [OF that] by (simp add: parse_json_enc)
  then show ?thesis by (simp add: json_ok_def ref_fields ref_insert_get)
qed

lemmas ref_ok = ref_b64_ok ref_blake3_ok ref_hex_ok ref_uuid_ok ref_serde_ok ref_json_ok

end
