(* ===== verification/Payload.thy ===== *)
theory Payload
  imports Api_Model Reference_Libs
begin

text \<open>
  The payloads of outbound extrinsics (src/orchestrator/api/src/chain.rs): validation when a
  row is enqueued (\<open>decode_payload\<close>), construction of the typed call when the worker
  submits it (\<open>submit_extrinsic\<close>), and the small parsers around them. Errors carry the
  exact texts of the source. The network is a parameter of \<open>submit_extrinsic\<close>; the part
  before it, \<open>build_extrinsic\<close>, is a function of the payload.
\<close>

section \<open>Verification level and 32-byte hex fields\<close>

datatype chain_verification = CvBestEffort | CvOptimistic | CvTee | CvZkSnark | CvRedundant

definition parse_verification :: "'j libs \<Rightarrow> 'j option \<Rightarrow> string + chain_verification" where
  "parse_verification L val =
     (let s = to_lowercase (unwrap_or ''best_effort'' (Option.bind val (json_as_str L)))
      in if s = ''best_effort'' then Ok CvBestEffort
         else if s = ''optimistic'' then Ok CvOptimistic
         else if s = ''tee'' then Ok CvTee
         else if s = ''zksnark'' then Ok CvZkSnark
         else if s = ''redundant'' then Ok CvRedundant
         else Err ''invalid verification_level'')"

definition hex_to_32 :: "'j libs \<Rightarrow> 'j option \<Rightarrow> string + bytes" where
  "hex_to_32 L val =
     and_then (ok_or ''missing hex field'' (Option.bind val (json_as_str L))) (\<lambda>hex_str.
     and_then (map_err (\<lambda>e. ''hex decode: '' @ e)
                 (hex_decode L (trim_start_matches ''0x'' hex_str))) (\<lambda>bs.
     if length bs = 32 then Ok bs else Err ''expected 32-byte hex''))"

text \<open>\<open>format!("0x{}", hex::encode(...))\<close>.\<close>

definition hex_0x :: "'j libs \<Rightarrow> bytes \<Rightarrow> string" where
  "hex_0x L bs = ''0x'' @ hex_encode L bs"

section \<open>Validation at enqueue time\<close>

definition get_str :: "'j libs \<Rightarrow> 'j option \<Rightarrow> string \<Rightarrow> nat \<Rightarrow> string + string" where
  "get_str L val key max_len =
     and_then (ok_or (''missing '' @ key) (Option.bind val (json_as_str L))) (\<lambda>s.
     if max_len < length s
     then Err (key @ '' exceeds '' @ dec max_len @ '' chars'')
     else Ok s)"

definition get_u64 :: "'j libs \<Rightarrow> 'j option \<Rightarrow> string \<Rightarrow> u64 \<Rightarrow> string + u64" where
  "get_u64 L val key max_val =
     and_then (ok_or (''missing '' @ key) (Option.bind val (json_as_u64 L))) (\<lambda>n.
     if max_val < n
     then Err (key @ '' exceeds max '' @ dec (unat max_val))
     else Ok n)"

definition U64_MAX :: u64 where "U64_MAX = - 1"
definition U32_MAX :: u64 where "U32_MAX = 0xFFFFFFFF"

fun check_caps :: "'j libs \<Rightarrow> 'j list \<Rightarrow> string + unit" where
  "check_caps L [] = Ok ()"
| "check_caps L (c # cs) =
     (case json_as_str L c of
        Some s \<Rightarrow> if 256 < length s then Err ''capability exceeds 256 chars'' else check_caps L cs
      | None \<Rightarrow> Err ''capabilities must be strings'')"

text \<open>\<open>let _ = f(...);\<close> evaluates and drops the result, an error included.\<close>

definition discard :: "'e + 'a \<Rightarrow> (string + 'b) \<Rightarrow> string + 'b" where
  "discard r k = k"

definition payload_value :: "'j libs \<Rightarrow> string option \<Rightarrow> string + 'j" where
  "payload_value L payload =
     (case payload of
        Some p \<Rightarrow> map_err (\<lambda>e. ''payload json decode: '' @ e) (json_from_str L p)
      | None \<Rightarrow> Ok (json_object L []))"

definition optional_str_limit ::
    "'j libs \<Rightarrow> 'j option \<Rightarrow> nat \<Rightarrow> string \<Rightarrow> string + unit" where
  "optional_str_limit L val max_len err =
     (case Option.bind val (json_as_str L) of
        Some s \<Rightarrow> if max_len < length s then Err err else Ok ()
      | None \<Rightarrow> Ok ())"

definition unsupported :: "string \<Rightarrow> string \<Rightarrow> string" where
  "unsupported pallet call = ''unsupported pallet/call: '' @ pallet @ ''::'' @ call"

text \<open>The arms of \<open>match (pallet, call)\<close>.\<close>

datatype call_kind =
    CallRegisterAgent | CallCreateTask | CallSubmitBid | CallRevealBid | CallAllocateTask
  | CallSubmitResult | CallTransfer

definition outbox_call :: "string \<Rightarrow> string \<Rightarrow> call_kind option" where
  "outbox_call pallet call =
     (if pallet = ''AgentRegistry'' \<and> call = ''register_agent'' then Some CallRegisterAgent
      else if pallet = ''TaskMarket'' \<and> call = ''create_task'' then Some CallCreateTask
      else if pallet = ''TaskMarket'' \<and> call = ''submit_bid'' then Some CallSubmitBid
      else if pallet = ''TaskMarket'' \<and> call = ''reveal_bid'' then Some CallRevealBid
      else if pallet = ''TaskMarket'' \<and> call = ''allocate_task'' then Some CallAllocateTask
      else if pallet = ''TaskMarket'' \<and> call = ''submit_result'' then Some CallSubmitResult
      else if pallet = ''Balances'' \<and> call = ''transfer_allow_death'' then Some CallTransfer
      else None)"

definition decode_register_agent :: "'j libs \<Rightarrow> 'j \<Rightarrow> string + unit" where
  "decode_register_agent L v =
     and_then (get_str L (json_get L v ''did'') ''did'' 128) (\<lambda>_.
     and_then (ok_or ''missing capabilities''
                 (Option.bind (json_get L v ''capabilities'') (json_as_array L))) (\<lambda>caps.
     and_then (check_caps L caps) (\<lambda>_.
     and_then (optional_str_limit L (json_get L v ''metadata'') 1024
                 ''metadata exceeds 1024 chars'') (\<lambda>_.
     and_then (parse_verification L (json_get L v ''verification_level'')) (\<lambda>_.
     Ok ())))))"

definition decode_create_task :: "'j libs \<Rightarrow> 'j \<Rightarrow> string + unit" where
  "decode_create_task L v =
     and_then (hex_to_32 L (json_get L v ''spec_hash'')) (\<lambda>_.
     discard (get_u64 L (json_get L v ''budget'') ''budget'' U64_MAX) (
     discard (get_u64 L (json_get L v ''deadline'') ''deadline'' U32_MAX) (
     and_then (parse_verification L (json_get L v ''verification_level'')) (\<lambda>_.
     Ok ()))))"

definition decode_submit_bid :: "'j libs \<Rightarrow> 'j \<Rightarrow> string + unit" where
  "decode_submit_bid L v =
     discard (get_u64 L (json_get L v ''task_id'') ''task_id'' U64_MAX) (
     discard (get_u64 L (json_get L v ''agent_id'') ''agent_id'' U64_MAX) (
     and_then (hex_to_32 L (json_get L v ''commitment'')) (\<lambda>_.
     discard (get_u64 L (json_get L v ''estimated_duration'') ''estimated_duration'' U32_MAX) (
     Ok ()))))"

definition decode_reveal_bid :: "'j libs \<Rightarrow> 'j \<Rightarrow> string + unit" where
  "decode_reveal_bid L v =
     discard (get_u64 L (json_get L v ''task_id'') ''task_id'' U64_MAX) (
     discard (get_u64 L (json_get L v ''agent_id'') ''agent_id'' U64_MAX) (
     discard (get_u64 L (json_get L v ''cost'') ''cost'' U64_MAX) (
     and_then (hex_to_32 L (json_get L v ''nonce'')) (\<lambda>_.
     Ok ()))))"

definition decode_allocate_task :: "'j libs \<Rightarrow> 'j \<Rightarrow> string + unit" where
  "decode_allocate_task L v =
     discard (get_u64 L (json_get L v ''task_id'') ''task_id'' U64_MAX) (
     Ok ())"

definition decode_submit_result :: "'j libs \<Rightarrow> 'j \<Rightarrow> string + unit" where
  "decode_submit_result L v =
     discard (get_u64 L (json_get L v ''task_id'') ''task_id'' U64_MAX) (
     discard (get_u64 L (json_get L v ''agent_id'') ''agent_id'' U64_MAX) (
     and_then (hex_to_32 L (json_get L v ''result_hash'')) (\<lambda>_.
     optional_str_limit L (json_get L v ''proof'') 4096 ''proof exceeds 4096 chars'')))"

definition decode_transfer :: "'j libs \<Rightarrow> 'j \<Rightarrow> string + unit" where
  "decode_transfer L v =
     and_then (get_str L (json_get L v ''address'') ''address'' 128) (\<lambda>_.
     and_then (ok_or ''missing amount'' (Option.bind (json_get L v ''amount'') (json_as_u64 L)))
       (\<lambda>_. Ok ()))"

definition decode_payload ::
    "'j libs \<Rightarrow> string \<Rightarrow> string \<Rightarrow> string option \<Rightarrow> string + unit" where
  "decode_payload L pallet call payload =
     and_then (payload_value L payload) (\<lambda>v.
     case outbox_call pallet call of
       Some CallRegisterAgent \<Rightarrow> decode_register_agent L v
     | Some CallCreateTask \<Rightarrow> decode_create_task L v
     | Some CallSubmitBid \<Rightarrow> decode_submit_bid L v
     | Some CallRevealBid \<Rightarrow> decode_reveal_bid L v
     | Some CallAllocateTask \<Rightarrow> decode_allocate_task L v
     | Some CallSubmitResult \<Rightarrow> decode_submit_result L v
     | Some CallTransfer \<Rightarrow> decode_transfer L v
     | None \<Rightarrow> Err (unsupported pallet call))"

definition validate_outbox_payload ::
    "'j libs \<Rightarrow> string \<Rightarrow> string \<Rightarrow> string option \<Rightarrow> api_error + unit" where
  "validate_outbox_payload L pallet call payload =
     map_err BadRequest (decode_payload L pallet call payload)"

section \<open>The typed call the worker submits\<close>

datatype extrinsic =
    RegisterAgent bytes "bytes list" "bytes option" "bytes option" chain_verification
      \<comment> \<open>did, capabilities, metadata, attestation, verification\<close>
  | CreateTask bytes u128 u32 chain_verification \<comment> \<open>spec hash, budget, deadline\<close>
  | SubmitBid u64 u64 bytes u32 \<comment> \<open>task, agent, commitment, duration\<close>
  | RevealBid u64 u64 u128 bytes \<comment> \<open>task, agent, cost, nonce\<close>
  | AllocateTask u64
  | SubmitResult u64 u64 bytes bytes \<comment> \<open>task, agent, result hash, proof\<close>
  | TransferAllowDeath bytes u128 \<comment> \<open>account, amount\<close>

definition need_u64 :: "'j libs \<Rightarrow> 'j \<Rightarrow> string \<Rightarrow> string + u64" where
  "need_u64 L v key = ok_or (''missing '' @ key) (Option.bind (json_get L v key) (json_as_u64 L))"

definition build_register_agent :: "'j libs \<Rightarrow> 'j \<Rightarrow> string + extrinsic" where
  "build_register_agent L v =
     and_then (ok_or ''missing did'' (Option.bind (json_get L v ''did'') (json_as_str L))) (\<lambda>did.
     and_then (ok_or ''missing capabilities''
                 (Option.bind (json_get L v ''capabilities'') (json_as_array L))) (\<lambda>caps.
     and_then (parse_verification L (json_get L v ''verification_level'')) (\<lambda>verification.
     Ok (RegisterAgent (as_bytes did)
           (map (\<lambda>c. as_bytes (unwrap_or [] (json_as_str L c))) caps)
           (map_option as_bytes (Option.bind (json_get L v ''metadata'') (json_as_str L)))
           (map_option as_bytes (Option.bind (json_get L v ''attestation'') (json_as_str L)))
           verification))))"

definition build_create_task :: "'j libs \<Rightarrow> 'j \<Rightarrow> string + extrinsic" where
  "build_create_task L v =
     and_then (hex_to_32 L (json_get L v ''spec_hash'')) (\<lambda>spec_hash.
     and_then (need_u64 L v ''budget'') (\<lambda>budget.
     and_then (need_u64 L v ''deadline'') (\<lambda>deadline.
     and_then (parse_verification L (json_get L v ''verification_level'')) (\<lambda>verification.
     Ok (CreateTask spec_hash (ucast budget) (ucast deadline) verification)))))"

definition build_submit_bid :: "'j libs \<Rightarrow> 'j \<Rightarrow> string + extrinsic" where
  "build_submit_bid L v =
     and_then (need_u64 L v ''task_id'') (\<lambda>task_id.
     and_then (need_u64 L v ''agent_id'') (\<lambda>agent_id.
     and_then (hex_to_32 L (json_get L v ''commitment'')) (\<lambda>commitment.
     and_then (need_u64 L v ''estimated_duration'') (\<lambda>duration.
     Ok (SubmitBid task_id agent_id commitment (ucast duration))))))"

definition build_reveal_bid :: "'j libs \<Rightarrow> 'j \<Rightarrow> string + extrinsic" where
  "build_reveal_bid L v =
     and_then (need_u64 L v ''task_id'') (\<lambda>task_id.
     and_then (need_u64 L v ''agent_id'') (\<lambda>agent_id.
     and_then (need_u64 L v ''cost'') (\<lambda>cost.
     and_then (hex_to_32 L (json_get L v ''nonce'')) (\<lambda>nonce.
     Ok (RevealBid task_id agent_id (ucast cost) nonce)))))"

definition build_allocate_task :: "'j libs \<Rightarrow> 'j \<Rightarrow> string + extrinsic" where
  "build_allocate_task L v =
     and_then (need_u64 L v ''task_id'') (\<lambda>task_id. Ok (AllocateTask task_id))"

definition build_submit_result :: "'j libs \<Rightarrow> 'j \<Rightarrow> string + extrinsic" where
  "build_submit_result L v =
     and_then (need_u64 L v ''task_id'') (\<lambda>task_id.
     and_then (need_u64 L v ''agent_id'') (\<lambda>agent_id.
     and_then (hex_to_32 L (json_get L v ''result_hash'')) (\<lambda>result_hash.
     Ok (SubmitResult task_id agent_id result_hash
           (as_bytes (unwrap_or [] (Option.bind (json_get L v ''proof'') (json_as_str L))))))))"

definition build_transfer :: "'j libs \<Rightarrow> 'j \<Rightarrow> string + extrinsic" where
  "build_transfer L v =
     and_then (ok_or ''missing address'' (Option.bind (json_get L v ''address'') (json_as_str L)))
       (\<lambda>dest.
     and_then (map_err (\<lambda>e. ''invalid ss58 address: '' @ e) (ss58_decode L dest)) (\<lambda>account.
     and_then (need_u64 L v ''amount'') (\<lambda>amount.
     Ok (TransferAllowDeath account (ucast amount)))))"

definition build_extrinsic ::
    "'j libs \<Rightarrow> string \<Rightarrow> string \<Rightarrow> string option \<Rightarrow> string + extrinsic" where
  "build_extrinsic L pallet call payload =
     and_then (payload_value L payload) (\<lambda>v.
     and_then (decode_payload L pallet call payload) (\<lambda>_.
     case outbox_call pallet call of
       Some CallRegisterAgent \<Rightarrow> build_register_agent L v
     | Some CallCreateTask \<Rightarrow> build_create_task L v
     | Some CallSubmitBid \<Rightarrow> build_submit_bid L v
     | Some CallRevealBid \<Rightarrow> build_reveal_bid L v
     | Some CallAllocateTask \<Rightarrow> build_allocate_task L v
     | Some CallSubmitResult \<Rightarrow> build_submit_result L v
     | Some CallTransfer \<Rightarrow> build_transfer L v
     | None \<Rightarrow> Err (unsupported pallet call)))"

text \<open>The network: submission can fail, finalization can fail, or the hash is final.\<close>

datatype net_outcome = SubmitFailed string | FinalizeFailed string | FinalizedAs bytes

definition submit_extrinsic ::
    "'j libs \<Rightarrow> (extrinsic \<Rightarrow> net_outcome) \<Rightarrow> string \<Rightarrow> string \<Rightarrow> string option
     \<Rightarrow> string + string" where
  "submit_extrinsic L net pallet call payload =
     and_then (build_extrinsic L pallet call payload) (\<lambda>x.
     case net x of
       SubmitFailed e \<Rightarrow> Err (''submit: '' @ e)
     | FinalizeFailed e \<Rightarrow> Err (''finalize: '' @ e)
      | FinalizedAs h \<Rightarrow> Ok (hex_0x L h))"

section \<open>Small parsers\<close>

definition extract_first_u64 :: "string \<Rightarrow> u64 option" where
  "extract_first_u64 payload =
     (let trimmed = trim_end_matches_char CHR '']'' (trim_start_matches_char CHR ''['' (trim payload))
      in parse_u64 (trim (hd (split_char CHR '','' trimmed))))"

definition extract_two_u64 :: "string \<Rightarrow> u64 option \<times> u64 option" where
  "extract_two_u64 payload =
     (let trimmed = trim_end_matches_char CHR '']'' (trim_start_matches_char CHR ''['' (trim payload));
          parts = map trim (split_char CHR '','' trimmed)
      in (parse_u64 (hd parts), case parts of _ # p # _ \<Rightarrow> parse_u64 p | _ \<Rightarrow> None))"

definition is_connection_err :: "string \<Rightarrow> bool" where
  "is_connection_err err =
     (str_contains ''disconnect'' err \<or> str_contains ''Connection'' err
      \<or> str_contains ''closed'' err)"

definition supported_events :: "(string \<times> string) list" where
  "supported_events =
     [(''AgentRegistry'', ''AgentRegistered''), (''AgentRegistry'', ''AgentUpdated''),
      (''AgentRegistry'', ''AgentRetired''), (''AgentRegistry'', ''AgentStatusForced''),
      (''TaskMarket'', ''TaskCreated''), (''TaskMarket'', ''BidSubmitted''),
      (''TaskMarket'', ''BidRevealed''), (''TaskMarket'', ''TaskAllocated''),
      (''TaskMarket'', ''TaskCompleted''), (''TaskMarket'', ''TaskFailed''),
      (''Commitments'', ''CommitmentProposed''), (''Commitments'', ''CommitmentSigned''),
      (''Commitments'', ''CommitmentFinalized''), (''Commitments'', ''CommitmentDisputed''),
      (''Commitments'', ''CommitmentCancelled'')]"

definition is_supported :: "string \<Rightarrow> string \<Rightarrow> bool" where
  "is_supported pallet variant = ((pallet, variant) \<in> set supported_events)"

text \<open>\<open>to_le_bytes\<close> of the chain id, padded with zeros to 32 bytes.\<close>

definition to_le_bytes :: "u64 \<Rightarrow> bytes" where
  "to_le_bytes w = map (\<lambda>i. ucast (drop_bit (8 * i) w)) [0..<8]"

definition agent_bytes_from_chain_id :: "u64 \<Rightarrow> bytes" where
  "agent_bytes_from_chain_id w = to_le_bytes w @ replicate 24 0"

section \<open>What validation accepts\<close>

text \<open>
  The contract of \<open>decode_payload\<close> as a predicate on the parsed value: fields, their types
  and their bounds.
\<close>

definition str_field :: "'j libs \<Rightarrow> 'j \<Rightarrow> string \<Rightarrow> string option" where
  "str_field L v key = Option.bind (json_get L v key) (json_as_str L)"

definition u64_field :: "'j libs \<Rightarrow> 'j \<Rightarrow> string \<Rightarrow> u64 option" where
  "u64_field L v key = Option.bind (json_get L v key) (json_as_u64 L)"

definition verification_names :: "string list" where
  "verification_names = [''best_effort'', ''optimistic'', ''tee'', ''zksnark'', ''redundant'']"

definition verification_field_ok :: "'j libs \<Rightarrow> 'j \<Rightarrow> bool" where
  "verification_field_ok L v =
     (case str_field L v ''verification_level'' of
        None \<Rightarrow> True
      | Some s \<Rightarrow> to_lowercase s \<in> set verification_names)"

definition hash_field :: "'j libs \<Rightarrow> 'j \<Rightarrow> string \<Rightarrow> bytes option" where
  "hash_field L v key =
     (case str_field L v key of
        None \<Rightarrow> None
      | Some s \<Rightarrow>
          (case hex_decode L (trim_start_matches ''0x'' s) of
             Inl e \<Rightarrow> None
           | Inr bs \<Rightarrow> if length bs = 32 then Some bs else None))"

definition short_str :: "nat \<Rightarrow> string option \<Rightarrow> bool" where
  "short_str n s = (case s of None \<Rightarrow> False | Some t \<Rightarrow> length t \<le> n)"

definition absent_or_short :: "nat \<Rightarrow> string option \<Rightarrow> bool" where
  "absent_or_short n s = (case s of None \<Rightarrow> True | Some t \<Rightarrow> length t \<le> n)"

definition caps_field_ok :: "'j libs \<Rightarrow> 'j \<Rightarrow> bool" where
  "caps_field_ok L v =
     (case Option.bind (json_get L v ''capabilities'') (json_as_array L) of
        None \<Rightarrow> False
      | Some caps \<Rightarrow> list_all (\<lambda>c. short_str 256 (json_as_str L c)) caps)"

definition payload_ok :: "'j libs \<Rightarrow> string \<Rightarrow> string \<Rightarrow> 'j \<Rightarrow> bool" where
  "payload_ok L pallet call v =
     (case outbox_call pallet call of
        None \<Rightarrow> False
      | Some CallRegisterAgent \<Rightarrow>
          short_str 128 (str_field L v ''did'') \<and> caps_field_ok L v
          \<and> absent_or_short 1024 (str_field L v ''metadata'') \<and> verification_field_ok L v
      | Some CallCreateTask \<Rightarrow>
          hash_field L v ''spec_hash'' \<noteq> None \<and> verification_field_ok L v
      | Some CallSubmitBid \<Rightarrow> hash_field L v ''commitment'' \<noteq> None
      | Some CallRevealBid \<Rightarrow> hash_field L v ''nonce'' \<noteq> None
      | Some CallAllocateTask \<Rightarrow> True
      | Some CallSubmitResult \<Rightarrow>
          hash_field L v ''result_hash'' \<noteq> None \<and> absent_or_short 4096 (str_field L v ''proof'')
      | Some CallTransfer \<Rightarrow>
          short_str 128 (str_field L v ''address'') \<and> u64_field L v ''amount'' \<noteq> None)"

lemma hex_to_32_Ok_iff [result_simps]:
  "hex_to_32 L (json_get L v key) = Ok bs \<longleftrightarrow> hash_field L v key = Some bs"
  by (auto simp: hex_to_32_def hash_field_def str_field_def result_simps
      split: option.splits sum.splits if_splits)

lemma parse_verification_ok_iff:
  "(\<exists>cv. parse_verification L (json_get L v ''verification_level'') = Ok cv)
     \<longleftrightarrow> verification_field_ok L v"
proof (cases "str_field L v ''verification_level''")
  case None
  then show ?thesis
    by (simp add: parse_verification_def verification_field_ok_def str_field_def ascii_lower_def)
next
  case (Some s)
  then show ?thesis
    by (simp add: parse_verification_def verification_field_ok_def str_field_def
        verification_names_def Let_def)
qed

lemma get_str_ok_iff:
  "(\<exists>s. get_str L (json_get L v key) k n = Ok s) \<longleftrightarrow> short_str n (str_field L v key)"
proof (cases "str_field L v key")
  case None
  then show ?thesis by (simp add: get_str_def short_str_def str_field_def)
next
  case (Some s)
  then show ?thesis by (simp add: get_str_def short_str_def str_field_def not_less)
qed

lemma check_caps_ok_iff [result_simps]:
  "check_caps L caps = Ok () \<longleftrightarrow> list_all (\<lambda>c. short_str 256 (json_as_str L c)) caps"
  by (induction caps) (auto simp: short_str_def split: option.splits)

lemma optional_str_limit_ok_iff [result_simps]:
  "optional_str_limit L (json_get L v key) n e = Ok ()
     \<longleftrightarrow> absent_or_short n (str_field L v key)"
  by (auto simp: optional_str_limit_def absent_or_short_def str_field_def split: option.splits)

lemma need_u64_Ok_iff [result_simps]:
  "need_u64 L v key = Ok n \<longleftrightarrow> u64_field L v key = Some n"
  by (simp add: need_u64_def u64_field_def result_simps)

lemma and_then_drop_Ok_iff:
  "and_then r (\<lambda>_. k) = Ok y \<longleftrightarrow> (\<exists>x. r = Ok x) \<and> k = Ok y"
  by (cases r) auto

lemma decode_register_agent_iff:
  "decode_register_agent L v = Ok () \<longleftrightarrow>
     short_str 128 (str_field L v ''did'') \<and> caps_field_ok L v
     \<and> absent_or_short 1024 (str_field L v ''metadata'') \<and> verification_field_ok L v"
proof (cases "Option.bind (json_get L v ''capabilities'') (json_as_array L)")
  case None
  then show ?thesis
    by (simp add: decode_register_agent_def and_then_drop_Ok_iff caps_field_ok_def)
next
  case (Some caps)
  then show ?thesis
    by (simp add: decode_register_agent_def and_then_drop_Ok_iff get_str_ok_iff
        parse_verification_ok_iff caps_field_ok_def check_caps_ok_iff optional_str_limit_ok_iff)
qed

lemma decode_create_task_iff:
  "decode_create_task L v = Ok () \<longleftrightarrow>
     hash_field L v ''spec_hash'' \<noteq> None \<and> verification_field_ok L v"
  by (simp add: decode_create_task_def discard_def and_then_drop_Ok_iff hex_to_32_Ok_iff
      parse_verification_ok_iff)

lemma decode_hash_only_iff:
  "decode_submit_bid L v = Ok () \<longleftrightarrow> hash_field L v ''commitment'' \<noteq> None"
  "decode_reveal_bid L v = Ok () \<longleftrightarrow> hash_field L v ''nonce'' \<noteq> None"
  "decode_allocate_task L v = Ok ()"
  "decode_submit_result L v = Ok () \<longleftrightarrow>
     hash_field L v ''result_hash'' \<noteq> None \<and> absent_or_short 4096 (str_field L v ''proof'')"
  by (simp_all add: decode_submit_bid_def decode_reveal_bid_def decode_allocate_task_def
      decode_submit_result_def discard_def and_then_drop_Ok_iff hex_to_32_Ok_iff
      optional_str_limit_ok_iff)

lemma decode_transfer_iff:
  "decode_transfer L v = Ok () \<longleftrightarrow>
     short_str 128 (str_field L v ''address'') \<and> u64_field L v ''amount'' \<noteq> None"
  by (simp add: decode_transfer_def and_then_drop_Ok_iff get_str_ok_iff ok_or_Ok_iff
      u64_field_def)

lemmas decode_arms_iff =
  decode_register_agent_iff decode_create_task_iff decode_hash_only_iff decode_transfer_iff

lemma decode_payload_value:
  "payload_value L payload = Ok v \<Longrightarrow>
     decode_payload L pallet call payload = Ok () \<longleftrightarrow> payload_ok L pallet call v"
  by (simp add: decode_payload_def payload_ok_def decode_arms_iff
      split: option.split call_kind.split)

lemma decode_payload_Ok_iff:
  "decode_payload L pallet call payload = Ok ()
     \<longleftrightarrow> (\<exists>v. payload_value L payload = Ok v \<and> payload_ok L pallet call v)"
proof (cases "payload_value L payload")
  case (Inl e)
  then show ?thesis by (simp add: decode_payload_def)
next
  case (Inr v)
  then show ?thesis by (simp add: decode_payload_value)
qed

text \<open>C10: Validation accepts a payload exactly when its text parses and the parsed object
  satisfies \<open>payload_ok\<close> for the pallet and call; every unknown pair is refused.\<close>

theorem validate_accepts_iff:
  "validate_outbox_payload L pallet call payload = Ok ()
     \<longleftrightarrow> (\<exists>v. payload_value L payload = Ok v \<and> payload_ok L pallet call v)"
  by (simp add: validate_outbox_payload_def map_err_Ok_iff decode_payload_Ok_iff)

section \<open>Validation against construction\<close>

text \<open>The numeric fields that the worker requires.\<close>

fun required_numbers :: "call_kind option \<Rightarrow> string list" where
  "required_numbers (Some CallCreateTask) = [''budget'', ''deadline'']"
| "required_numbers (Some CallSubmitBid) = [''task_id'', ''agent_id'', ''estimated_duration'']"
| "required_numbers (Some CallRevealBid) = [''task_id'', ''agent_id'', ''cost'']"
| "required_numbers (Some CallAllocateTask) = [''task_id'']"
| "required_numbers (Some CallSubmitResult) = [''task_id'', ''agent_id'']"
| "required_numbers _ = []"

definition address_ok :: "'j libs \<Rightarrow> string \<Rightarrow> string \<Rightarrow> 'j \<Rightarrow> bool" where
  "address_ok L pallet call v =
     (outbox_call pallet call = Some CallTransfer \<longrightarrow>
        (case str_field L v ''address'' of None \<Rightarrow> False | Some a \<Rightarrow> is_ok (ss58_decode L a)))"

lemma ex_and_then_Ok:
  "(\<exists>y. and_then r f = Ok y) \<longleftrightarrow> (\<exists>x. r = Ok x \<and> (\<exists>y. f x = Ok y))"
  by (cases r) auto

lemma build_register_agent_ok:
  assumes "decode_register_agent L v = Ok ()"
  shows "\<exists>x. build_register_agent L v = Ok x"
proof -
  from assms have "short_str 128 (str_field L v ''did'')" "caps_field_ok L v"
      "verification_field_ok L v"
    by (simp_all add: decode_register_agent_iff)
  then show ?thesis
    by (auto simp: build_register_agent_def ex_and_then_Ok ok_or_Ok_iff
        parse_verification_ok_iff short_str_def caps_field_ok_def str_field_def
        split: option.splits)
qed

lemma build_create_task_ok_iff:
  "(\<exists>x. build_create_task L v = Ok x) \<longleftrightarrow>
     hash_field L v ''spec_hash'' \<noteq> None \<and> u64_field L v ''budget'' \<noteq> None
     \<and> u64_field L v ''deadline'' \<noteq> None \<and> verification_field_ok L v"
  by (simp add: build_create_task_def ex_and_then_Ok hex_to_32_Ok_iff need_u64_Ok_iff
      parse_verification_ok_iff)

lemma build_numbers_ok_iff:
  "(\<exists>x. build_submit_bid L v = Ok x) \<longleftrightarrow>
     u64_field L v ''task_id'' \<noteq> None \<and> u64_field L v ''agent_id'' \<noteq> None
     \<and> hash_field L v ''commitment'' \<noteq> None \<and> u64_field L v ''estimated_duration'' \<noteq> None"
  "(\<exists>x. build_reveal_bid L v = Ok x) \<longleftrightarrow>
     u64_field L v ''task_id'' \<noteq> None \<and> u64_field L v ''agent_id'' \<noteq> None
     \<and> u64_field L v ''cost'' \<noteq> None \<and> hash_field L v ''nonce'' \<noteq> None"
  "(\<exists>x. build_allocate_task L v = Ok x) \<longleftrightarrow> u64_field L v ''task_id'' \<noteq> None"
  "(\<exists>x. build_submit_result L v = Ok x) \<longleftrightarrow>
     u64_field L v ''task_id'' \<noteq> None \<and> u64_field L v ''agent_id'' \<noteq> None
     \<and> hash_field L v ''result_hash'' \<noteq> None"
  by (simp_all add: build_submit_bid_def build_reveal_bid_def build_allocate_task_def
      build_submit_result_def ex_and_then_Ok hex_to_32_Ok_iff need_u64_Ok_iff)

lemma build_transfer_ok_iff:
  "(\<exists>x. build_transfer L v = Ok x) \<longleftrightarrow>
     (case str_field L v ''address'' of None \<Rightarrow> False | Some a \<Rightarrow> is_ok (ss58_decode L a))
     \<and> u64_field L v ''amount'' \<noteq> None"
  by (simp add: build_transfer_def ex_and_then_Ok ok_or_Ok_iff map_err_Ok_iff need_u64_Ok_iff
      str_field_def is_ok_iff split: option.split)

lemma build_extrinsic_value:
  assumes "payload_value L payload = Ok v"
  shows "(\<exists>x. build_extrinsic L pallet call payload = Ok x) \<longleftrightarrow>
     payload_ok L pallet call v
     \<and> list_all (\<lambda>k. u64_field L v k \<noteq> None) (required_numbers (outbox_call pallet call))
     \<and> address_ok L pallet call v"
proof (cases "payload_ok L pallet call v")
  case False
  then have "decode_payload L pallet call payload \<noteq> Ok ()"
    using assms by (simp add: decode_payload_value)
  then show ?thesis
    using assms False by (simp add: build_extrinsic_def ex_and_then_Ok)
next
  case True
  then have ok: "decode_payload L pallet call payload = Ok ()"
    using assms by (simp add: decode_payload_value)
  show ?thesis
  proof (cases "outbox_call pallet call")
    case None
    with True show ?thesis by (simp add: payload_ok_def)
  next
    case (Some c)
    with True ok assms show ?thesis
      by (cases c)
        (auto simp: build_extrinsic_def payload_ok_def address_ok_def build_create_task_ok_iff
          build_numbers_ok_iff build_transfer_ok_iff simp flip: decode_register_agent_iff
          intro: build_register_agent_ok)
  qed
qed

text \<open>C27: The worker can build the call exactly when validation accepts the payload, every
  numeric field the call needs is present, and a transfer's address decodes: validation
  discards its own checks of the numeric fields.\<close>

theorem build_extrinsic_ok_iff:
  "(\<exists>x. build_extrinsic L pallet call payload = Ok x) \<longleftrightarrow>
     (\<exists>v. payload_value L payload = Ok v \<and> payload_ok L pallet call v
        \<and> list_all (\<lambda>k. u64_field L v k \<noteq> None) (required_numbers (outbox_call pallet call))
        \<and> address_ok L pallet call v)"
proof (cases "payload_value L payload")
  case (Inl e)
  then show ?thesis by (simp add: build_extrinsic_def)
next
  case (Inr v)
  then show ?thesis by (simp add: build_extrinsic_value)
qed

text \<open>Hexadecimal fields written with the prefix of the source are read back.\<close>

lemma hex_field_trim:
  assumes "hex_ok L"
  shows "trim_start_matches ''0x'' (hex_0x L h) = hex_encode L h"
proof -
  have "CHR ''x'' \<notin> set (hex_encode L h)"
    using assms by (auto simp: hex_ok_def hex_alphabet_def dest!: spec [of _ h] subsetD)
  then have "\<not> starts_with ''0x'' (hex_encode L h)"
    by (auto simp: starts_with_iff)
  then have "trim_start_matches ''0x'' (hex_encode L h) = hex_encode L h"
    by (rule trim_start_matches_none)
  then show ?thesis
    using trim_start_matches_strip [of "''0x''" "hex_encode L h"] by (simp add: hex_0x_def)
qed

lemma hash_field_encoded:
  assumes "hex_ok L" "length h = 32" "str_field L v key = Some (hex_0x L h)"
  shows "hash_field L v key = Some h"
  using assms hex_field_trim [of L h] by (simp add: hash_field_def hex_ok_def)

lemma payload_value_built:
  assumes "json_ok L" "json_built L v"
  shows "payload_value L (Some (json_to_string L v)) = Ok v"
  using assms by (simp add: payload_value_def json_text_roundtrip map_err_Ok_iff)

lemma str_field_object:
  assumes "json_ok L" "distinct (map fst kvs)" "map_of kvs k = Some (json_string L s)"
  shows "str_field L (json_object L kvs) k = Some s"
  using assms by (simp add: str_field_def json_get_object json_as_str_string)

definition spec_hash_only :: "'j libs \<Rightarrow> bytes \<Rightarrow> 'j" where
  "spec_hash_only L h = json_object L [(''spec_hash'', json_string L (hex_0x L h))]"

text \<open>C28: A \<open>create_task\<close> payload that carries only a task hash passes validation and is
  queued, but the worker can never build its call: it fails with \<open>missing budget\<close>.\<close>

theorem create_task_without_budget:
  assumes "json_ok L" "hex_ok L" "length h = 32"
  shows "validate_outbox_payload L ''TaskMarket'' ''create_task''
           (Some (json_to_string L (spec_hash_only L h))) = Ok ()
    \<and> build_extrinsic L ''TaskMarket'' ''create_task''
        (Some (json_to_string L (spec_hash_only L h))) = Err ''missing budget''"
proof -
  let ?p = "Some (json_to_string L (spec_hash_only L h))"
  have pv: "payload_value L ?p = Ok (spec_hash_only L h)"
    unfolding spec_hash_only_def
    by (rule payload_value_built [OF assms(1) built_object]) (auto intro: built_string)
  have hash: "hash_field L (spec_hash_only L h) ''spec_hash'' = Some h"
    using assms unfolding spec_hash_only_def
    by (intro hash_field_encoded str_field_object) simp_all
  have absent: "json_get L (spec_hash_only L h) k = None" if "k \<noteq> ''spec_hash''" for k
    using assms(1) that by (simp add: spec_hash_only_def json_get_object)
  have call: "outbox_call ''TaskMarket'' ''create_task'' = Some CallCreateTask"
    by (simp add: outbox_call_def)
  have "payload_ok L ''TaskMarket'' ''create_task'' (spec_hash_only L h)"
    by (simp add: payload_ok_def call hash verification_field_ok_def str_field_def absent)
  then have dec: "decode_payload L ''TaskMarket'' ''create_task'' ?p = Ok ()"
    using pv by (simp add: decode_payload_value)
  have "hex_to_32 L (json_get L (spec_hash_only L h) ''spec_hash'') = Ok h"
    using hash by (simp add: hex_to_32_Ok_iff)
  then have "build_create_task L (spec_hash_only L h) = Err ''missing budget''"
    by (simp add: build_create_task_def need_u64_def absent)
  then show ?thesis
    using pv dec call by (simp add: build_extrinsic_def validate_outbox_payload_def)
qed

definition demo_hash :: bytes where
  "demo_hash = replicate 32 7"

theorem create_task_without_budget_witness:
  "validate_outbox_payload ref_libs ''TaskMarket'' ''create_task''
     (Some (json_to_string ref_libs (spec_hash_only ref_libs demo_hash))) = Ok ()
   \<and> build_extrinsic ref_libs ''TaskMarket'' ''create_task''
     (Some (json_to_string ref_libs (spec_hash_only ref_libs demo_hash))) = Err ''missing budget''"
  by (rule create_task_without_budget [OF ref_json_ok ref_hex_ok]) (simp add: demo_hash_def)

text \<open>C29: What a \<open>create_task\<close> call carries: the 32-byte hash of the payload, the budget
  unchanged, and the deadline reduced modulo $2^{32}$, so that a larger deadline is silently
  replaced by another one.\<close>

theorem create_task_call_fields:
  assumes "build_extrinsic L ''TaskMarket'' ''create_task'' payload = Ok x"
  shows "\<exists>v h b d budget deadline cv.
     payload_value L payload = Ok v \<and> x = CreateTask h budget deadline cv
     \<and> hash_field L v ''spec_hash'' = Some h \<and> length h = 32
     \<and> u64_field L v ''budget'' = Some b \<and> unat budget = unat b
     \<and> u64_field L v ''deadline'' = Some d \<and> unat deadline = unat d mod 2 ^ 32"
proof -
  have call: "outbox_call ''TaskMarket'' ''create_task'' = Some CallCreateTask"
    by (simp add: outbox_call_def)
  from assms obtain v where v: "payload_value L payload = Ok v"
    and "build_create_task L v = Ok x"
    by (auto simp: build_extrinsic_def call and_then_Ok_iff)
  then obtain h b d cv where f: "hash_field L v ''spec_hash'' = Some h"
      "u64_field L v ''budget'' = Some b" "u64_field L v ''deadline'' = Some d"
      "x = CreateTask h (ucast b) (ucast d) cv"
    by (auto simp: build_create_task_def and_then_Ok_iff hex_to_32_Ok_iff need_u64_Ok_iff)
  have "length h = 32"
    using f(1) by (auto simp: hash_field_def split: option.splits sum.splits if_splits)
  moreover have "unat (ucast b :: u128) = unat b"
    by (rule unat_ucast_up) simp
  moreover have "unat (ucast d :: u32) = unat d mod 2 ^ 32"
    by (simp add: unat_ucast_down)
  ultimately show ?thesis using v f by blast
qed

definition demo_create :: ref_json where
  "demo_create =
     JObj [(''spec_hash'', JStr (''0x'' @ hex_text demo_hash)), (''budget'', JNat 9),
           (''deadline'', JNat 0x100000003)]"

definition demo_create_payload :: "string option" where
  "demo_create_payload = Some (enc_json demo_create)"

lemma payload_value_plain: "plain v \<Longrightarrow> payload_value ref_libs (Some (enc_json v)) = Ok v"
  by (simp add: payload_value_def parse_json_enc)

lemma demo_create_value: "payload_value ref_libs demo_create_payload = Ok demo_create"
proof -
  have "plain demo_create"
    unfolding demo_create_def by (rule plain_obj) (auto intro: plain_str plain_nat)
  then show ?thesis by (simp only: demo_create_payload_def payload_value_plain)
qed

lemma demo_create_hash: "hash_field ref_libs demo_create ''spec_hash'' = Some demo_hash"
  by (rule hash_field_encoded [OF ref_hex_ok])
    (simp_all add: demo_hash_def str_field_def demo_create_def hex_0x_def)

lemma demo_create_build:
  "build_extrinsic ref_libs ''TaskMarket'' ''create_task'' demo_create_payload
     = Ok (CreateTask demo_hash 9 3 CvBestEffort)"
proof -
  have call: "outbox_call ''TaskMarket'' ''create_task'' = Some CallCreateTask"
    by (simp add: outbox_call_def)
  have ver: "json_get ref_libs demo_create ''verification_level'' = None"
    by (simp add: demo_create_def)
  then have "payload_ok ref_libs ''TaskMarket'' ''create_task'' demo_create"
    by (simp add: payload_ok_def call demo_create_hash verification_field_ok_def str_field_def)
  then have "decode_payload ref_libs ''TaskMarket'' ''create_task'' demo_create_payload = Ok ()"
    using demo_create_value by (simp add: decode_payload_value)
  moreover have "parse_verification ref_libs None = Ok CvBestEffort" by code_simp
  moreover have "hex_to_32 ref_libs (json_get ref_libs demo_create ''spec_hash'') = Ok demo_hash"
    by (simp only: hex_to_32_Ok_iff demo_create_hash)
  moreover have "need_u64 ref_libs demo_create ''budget'' = Ok 9"
    "need_u64 ref_libs demo_create ''deadline'' = Ok 0x100000003"
    by (simp_all add: need_u64_def demo_create_def)
  ultimately show ?thesis
    using ver by (simp add: build_extrinsic_def demo_create_value call build_create_task_def)
qed

theorem create_task_call_fields_witness:
  "\<exists>v h b d budget deadline cv.
     payload_value ref_libs demo_create_payload = Ok v
     \<and> CreateTask demo_hash 9 3 CvBestEffort = CreateTask h budget deadline cv
     \<and> hash_field ref_libs v ''spec_hash'' = Some h \<and> length h = 32
     \<and> u64_field ref_libs v ''budget'' = Some b \<and> unat budget = unat b
     \<and> u64_field ref_libs v ''deadline'' = Some d \<and> unat deadline = unat d mod 2 ^ 32"
  by (rule create_task_call_fields [OF demo_create_build])

text \<open>C15: The strings of a \<open>register_agent\<close> call obey the limits that validation enforces
  (identifier 128 bytes, capabilities 256 bytes, metadata 1024 bytes).\<close>

theorem register_agent_call_bounds:
  assumes "build_extrinsic L ''AgentRegistry'' ''register_agent'' payload
             = Ok (RegisterAgent did caps metadata attestation cv)"
  shows "length did \<le> 128 \<and> list_all (\<lambda>c. length c \<le> 256) caps
     \<and> (case metadata of None \<Rightarrow> True | Some m \<Rightarrow> length m \<le> 1024)"
proof -
  have call: "outbox_call ''AgentRegistry'' ''register_agent'' = Some CallRegisterAgent"
    by (simp add: outbox_call_def)
  from assms obtain v where "decode_register_agent L v = Ok ()"
      "build_register_agent L v = Ok (RegisterAgent did caps metadata attestation cv)"
    by (auto simp: build_extrinsic_def decode_payload_def call and_then_Ok_iff)
  then obtain s cs where f: "short_str 128 (Some s)" "did = as_bytes s"
      "list_all (\<lambda>c. short_str 256 (json_as_str L c)) cs"
      "caps = map (\<lambda>c. as_bytes (unwrap_or [] (json_as_str L c))) cs"
      "metadata = map_option as_bytes (str_field L v ''metadata'')"
      "absent_or_short 1024 (str_field L v ''metadata'')"
    by (auto simp: decode_register_agent_iff build_register_agent_def and_then_Ok_iff ok_or_Ok_iff
        caps_field_ok_def str_field_def)
  have "list_all (\<lambda>c. length c \<le> 256) caps"
    using f(3,4) by (auto simp: list_all_iff short_str_def split: option.splits)
  with f show ?thesis
    by (auto simp: short_str_def absent_or_short_def split: option.splits)
qed

definition demo_agent_payload :: "string option" where
  "demo_agent_payload =
     Some (enc_json (JObj [(''did'', JStr ''did:a''), (''capabilities'', JArr [JStr ''wasm'']),
                           (''metadata'', JStr ''m'')]))"

lemma demo_agent_build:
  "build_extrinsic ref_libs ''AgentRegistry'' ''register_agent'' demo_agent_payload
     = Ok (RegisterAgent (as_bytes ''did:a'') [as_bytes ''wasm''] (Some (as_bytes ''m'')) None
             CvBestEffort)"
proof -
  let ?v = "JObj [(''did'', JStr ''did:a''), (''capabilities'', JArr [JStr ''wasm'']),
                  (''metadata'', JStr ''m'')]"
  have "plain (JArr [JStr ''wasm''])" by (rule plain_arr) (auto intro: plain_str)
  then have "plain ?v" by (intro plain_obj) (auto intro: plain_str)
  then have pv: "payload_value ref_libs demo_agent_payload = Ok ?v"
    by (simp only: demo_agent_payload_def payload_value_plain)
  have ver: "parse_verification ref_libs None = Ok CvBestEffort" by code_simp
  have call: "outbox_call ''AgentRegistry'' ''register_agent'' = Some CallRegisterAgent"
    by (simp add: outbox_call_def)
  show ?thesis
    using ver
    by (simp add: build_extrinsic_def decode_payload_def pv call decode_register_agent_def get_str_def
        optional_str_limit_def build_register_agent_def)
qed

theorem register_agent_call_bounds_witness:
  "length (as_bytes ''did:a'') \<le> 128 \<and> list_all (\<lambda>c. length c \<le> 256) [as_bytes ''wasm'']
     \<and> (case Some (as_bytes ''m'') of None \<Rightarrow> True | Some m \<Rightarrow> length m \<le> 1024)"
  by (rule register_agent_call_bounds [OF demo_agent_build])

section \<open>Chain identifiers\<close>

lemma length_to_le_bytes [simp]: "length (to_le_bytes w) = 8"
  by (simp add: to_le_bytes_def)

lemma to_le_bytes_bit:
  "i < 8 \<Longrightarrow> j < 8 \<Longrightarrow> bit (to_le_bytes w ! i) j = bit w (8 * i + j)"
  by (simp add: to_le_bytes_def bit_ucast_iff bit_drop_bit_eq ac_simps)

lemma to_le_bytes_inj: "to_le_bytes a = to_le_bytes b \<Longrightarrow> a = b"
proof (rule bit_word_eqI)
  fix n
  assume eq: "to_le_bytes a = to_le_bytes b" and n: "n < LENGTH(64)"
  have "n div 8 < 8" using n by simp
  then have "bit a (8 * (n div 8) + n mod 8) = bit b (8 * (n div 8) + n mod 8)"
    using eq to_le_bytes_bit [of "n div 8" "n mod 8"] by (metis mod_less_divisor zero_less_numeral)
  then show "bit a n = bit b n" by simp
qed

text \<open>A chain agent id becomes a 32-byte agent identifier, and different chain ids
  become different identifiers.\<close>

theorem agent_bytes_injective:
  "agent_id_wf (AgentId (agent_bytes_from_chain_id a))
   \<and> (AgentId (agent_bytes_from_chain_id a) = AgentId (agent_bytes_from_chain_id b) \<longleftrightarrow> a = b)"
  by (auto simp: agent_id_wf_def agent_bytes_from_chain_id_def dest: to_le_bytes_inj)

section \<open>Reading ids back from an event payload\<close>

lemma visible_digit: "d < 10 \<Longrightarrow> visible (digit_char d)"
  by (simp add: visible_def digit_char_range)

lemma visible_dec: "c \<in> set (dec n) \<Longrightarrow> visible c"
  using dec_digits visible_digit by blast

lemma trim_dec [simp]: "trim (dec n) = dec n"
  by (rule trim_visible_all) (auto dest: visible_dec)

lemma dec_free: "CHR '','' \<notin> set (dec n)" "CHR ''['' \<notin> set (dec n)" "CHR '']'' \<notin> set (dec n)"
  by (rule dec_not_in; simp)+

lemma dropWhile_absent: "c \<notin> set t \<Longrightarrow> dropWhile (\<lambda>x. x = c) t = t"
  by (cases t) auto

lemma strip_brackets:
  assumes "CHR ''['' \<notin> set s" "CHR '']'' \<notin> set s"
  shows "trim_end_matches_char CHR '']''
           (trim_start_matches_char CHR ''['' (trim (''['' @ s @ '']''))) = s"
proof -
  have "trim (CHR ''['' # s @ [CHR '']'']) = CHR ''['' # s @ [CHR '']'']"
    by (rule trim_visible) (simp_all add: visible_def)
  moreover have "dropWhile (\<lambda>x. x = CHR ''['') (s @ [CHR '']'']) = s @ [CHR '']'']"
    using assms(1) by (cases s) auto
  moreover have "dropWhile (\<lambda>x. x = CHR '']'') (rev s) = rev s"
    using assms(2) by (intro dropWhile_absent) simp
  ultimately show ?thesis
    by (simp add: trim_start_matches_char_def trim_end_matches_char_def)
qed

text \<open>The id parsers read back a bracketed, comma-separated list of ids: the first id
  alone, and the first two when there are two.\<close>

theorem extract_ids_roundtrip:
  "extract_first_u64 (''['' @ dec (unat a) @ '', '' @ dec (unat b) @ '']'') = Some a
   \<and> extract_two_u64 (''['' @ dec (unat a) @ '', '' @ dec (unat b) @ '']'') = (Some a, Some b)
   \<and> extract_two_u64 (''['' @ dec (unat a) @ '']'') = (Some a, None)"
proof -
  let ?s = "dec (unat a) @ '', '' @ dec (unat b)"
  have two: "trim_end_matches_char CHR '']'' (trim_start_matches_char CHR ''[''
      (trim (''['' @ ?s @ '']''))) = ?s"
    by (rule strip_brackets) (simp_all add: dec_free)
  have one: "trim_end_matches_char CHR '']'' (trim_start_matches_char CHR ''[''
      (trim (''['' @ dec (unat a) @ '']''))) = dec (unat a)"
    by (rule strip_brackets) (simp_all add: dec_free)
  have split2: "split_char CHR '','' ?s = [dec (unat a), CHR '' '' # dec (unat b)]"
    using split_char_append [OF dec_free(1), of "unat a" "CHR '' '' # dec (unat b)"]
    by (simp add: split_char_single dec_free)
  have split1: "split_char CHR '','' (dec (unat a)) = [dec (unat a)]"
    by (simp add: split_char_single dec_free)
  have "extract_first_u64 (''['' @ ?s @ '']'') = Some a"
    unfolding extract_first_u64_def Let_def two split2 by (simp add: parse_u64_dec)
  moreover have "extract_two_u64 (''['' @ ?s @ '']'') = (Some a, Some b)"
    unfolding extract_two_u64_def Let_def two split2 by (simp add: parse_u64_dec trim_space)
  moreover have "extract_two_u64 (''['' @ dec (unat a) @ '']'') = (Some a, None)"
    unfolding extract_two_u64_def Let_def one split1 by (simp add: parse_u64_dec)
  ultimately show ?thesis by simp
qed

end
