(* ===== verification/Outbox.thy ===== *)
theory Outbox
  imports Pg_Storage Payload
begin

text \<open>
  The outbox workers of src/orchestrator/api/src/chain.rs over the database: the submission
  loop \<open>run_outbox\<close> (one iteration is one transition), the backfill loop, and
  \<open>patch_pending_with_ids\<close>. A worker whose \<open>?\<close> returns ends for good (\<open>Exit\<close>): main only
  logs it. The counters are the process-wide atomics. Integers wrap as in a release build.
\<close>

section \<open>The submission loop\<close>

record counters =
  wk_submitted :: u64
  wk_failed :: u64
  wk_dead :: u64
  wk_retried :: u64

definition no_counts :: counters where
  "no_counts = \<lparr>wk_submitted = 0, wk_failed = 0, wk_dead = 0, wk_retried = 0\<rparr>"

datatype worker_next =
    Sleep u64 \<comment> \<open>milliseconds, then the next iteration\<close>
  | Reconnect u64 \<comment> \<open>a new websocket client, then \<open>Sleep\<close>\<close>
  | Exit api_error

definition MAX_RETRIES :: int where "MAX_RETRIES = 5"
definition BACKOFF_BASE_MS :: u64 where "BACKOFF_BASE_MS = 200"
definition MAX_ERR :: nat where "MAX_ERR = 512"
definition MAX_BACKOFF_MS :: u64 where "MAX_BACKOFF_MS = 5000"

definition Q_FETCH_JOB :: sql_stmt where
  "Q_FETCH_JOB = q_select ''outbound_extrinsics'' [(''status'', TextT)] 0"

definition Q_FINALIZE_JOB :: sql_stmt where
  "Q_FINALIZE_JOB =
     (q_select ''outbound_extrinsics'' [(''correlation_id'', TextT)] 2)
       \<lparr>q_writes := [(''status'', TextT), (''retry_count'', IntegerT), (''last_error'', TextT),
                     (''processed_at'', TimestamptzT), (''tx_hash'', TextT)]\<rparr>"

definition Q_FAIL_JOB :: sql_stmt where
  "Q_FAIL_JOB =
     (q_select ''outbound_extrinsics'' [(''correlation_id'', TextT)] 3)
       \<lparr>q_writes := [(''status'', TextT), (''retry_count'', IntegerT), (''last_error'', TextT),
                     (''processed_at'', TimestamptzT)]\<rparr>"

text \<open>The oldest pending row that no other transaction has locked.\<close>

definition pending_jobs :: "'j pg_env \<Rightarrow> 'j pg_db \<Rightarrow> (string \<times> outbox_row) list" where
  "pending_jobs e s =
     sort_key (\<lambda>r. ob_created_at (snd r))
       (filter (\<lambda>r. ob_status (snd r) = ''pending'' \<and> \<not> pe_locked e (fst r))
          (pe_outbox e (db_outbox s)))"

definition next_job :: "'j pg_env \<Rightarrow> 'j pg_db \<Rightarrow> (string \<times> outbox_row) option" where
  "next_job e s = (case pending_jobs e s of [] \<Rightarrow> None | job # _ \<Rightarrow> Some job)"

definition set_row :: "string \<Rightarrow> outbox_row \<Rightarrow> 'j pg_db \<Rightarrow> 'j pg_db" where
  "set_row corr r s = s\<lparr>db_outbox := AList.update corr r (db_outbox s)\<rparr>"

definition bounded_error :: "string \<Rightarrow> string run" where
  "bounded_error err = (if MAX_ERR < length err then truncate_str MAX_ERR err else Return err)"

definition next_status :: "i32 \<Rightarrow> string" where
  "next_status retry_count = (if MAX_RETRIES < sint (retry_count + 1) then ''dead'' else ''failed'')"

definition saturating_mul :: "u64 \<Rightarrow> u64 \<Rightarrow> u64" where
  "saturating_mul a b = (if unat a * unat b < 2 ^ 64 then a * b else - 1)"

definition backoff_ms :: "i32 \<Rightarrow> u64" where
  "backoff_ms retry_count =
     min (saturating_mul BACKOFF_BASE_MS (scast (retry_count + 1))) MAX_BACKOFF_MS"

definition count_failure :: "string \<Rightarrow> counters \<Rightarrow> counters" where
  "count_failure st c =
     (let c' = (if st = ''dead'' then c\<lparr>wk_dead := wk_dead c + 1\<rparr>
                else c\<lparr>wk_failed := wk_failed c + 1\<rparr>)
      in c'\<lparr>wk_retried := wk_retried c' + 1\<rparr>)"

definition finalized_row :: "string \<Rightarrow> int \<Rightarrow> outbox_row \<Rightarrow> outbox_row" where
  "finalized_row h now r =
     r\<lparr>ob_status := ''finalized'', ob_retry_count := ob_retry_count r + 1,
       ob_last_error := None, ob_processed_at := Some now, ob_tx_hash := Some h\<rparr>"

definition failed_row :: "string \<Rightarrow> string \<Rightarrow> int \<Rightarrow> outbox_row \<Rightarrow> outbox_row" where
  "failed_row err st now r =
     r\<lparr>ob_status := st, ob_retry_count := ob_retry_count r + 1, ob_last_error := Some err,
       ob_processed_at := Some now\<rparr>"

text \<open>An INTEGER column refuses the successor of its maximum.\<close>

definition retry_fits :: "outbox_row \<Rightarrow> bool" where
  "retry_fits r = (sint (ob_retry_count r) < 2 ^ 31 - 1)"

text \<open>The statement, then the commit; a failure of either rolls the transaction back.\<close>

definition commit_job ::
    "'j pg \<Rightarrow> 'j pg_env \<Rightarrow> sql_stmt \<Rightarrow> bool \<Rightarrow> u64 \<Rightarrow> 'j pg_db \<Rightarrow> 'j pg_db
     \<Rightarrow> worker_next \<times> 'j pg_db" where
  "commit_job x e q accepted delay s' s =
     (case run_stmt x e 2 q accepted s' of
        Inl err \<Rightarrow> (Exit (pg_internal ''outbox: failed to update job'' err), s)
      | Inr s'' \<Rightarrow>
          (case pe_fault e 3 of
             Some err \<Rightarrow> (Exit (pg_internal ''outbox: commit failed'' err), s)
           | None \<Rightarrow> (Sleep delay, s'')))"

definition process_job ::
    "'j pg \<Rightarrow> 'j pg_env \<Rightarrow> (extrinsic \<Rightarrow> net_outcome) \<Rightarrow> u64 \<Rightarrow> string \<Rightarrow> outbox_row
     \<Rightarrow> counters \<Rightarrow> 'j pg_db \<Rightarrow> (worker_next \<times> counters \<times> 'j pg_db) run" where
  "process_job x e net poll_ms corr r c s =
     (case submit_extrinsic (pg_libs x) net (ob_pallet r) (ob_call r) (ob_payload r) of
        Inr h \<Rightarrow>
          (let r' = finalized_row h (pe_now e) r;
               (next, s') = commit_job x e Q_FINALIZE_JOB (pg_text h \<and> retry_fits r \<and> outbox_row_ok r')
                              poll_ms (set_row corr r' s) s
           in Return (next, c\<lparr>wk_submitted := wk_submitted c + 1\<rparr>, s'))
      | Inl err \<Rightarrow>
          if is_connection_err err
          then Return (case pe_fault e 2 of
                         Some f \<Rightarrow> (Exit (pg_internal ''outbox: rollback failed'' f), c, s)
                       | None \<Rightarrow> (Reconnect poll_ms, c, s))
          else run_bind (bounded_error err) (\<lambda>msg.
            let st = next_status (ob_retry_count r);
                r' = failed_row msg st (pe_now e) r;
                (next, s') = commit_job x e Q_FAIL_JOB (pg_text msg \<and> retry_fits r \<and> outbox_row_ok r')
                               (backoff_ms (ob_retry_count r)) (set_row corr r' s) s
            in Return (next, count_failure st c, s')))"

definition outbox_iteration ::
    "'j pg \<Rightarrow> 'j pg_env \<Rightarrow> (extrinsic \<Rightarrow> net_outcome) \<Rightarrow> u64 \<Rightarrow> counters \<Rightarrow> 'j pg_db
     \<Rightarrow> (worker_next \<times> counters \<times> 'j pg_db) run" where
  "outbox_iteration x e net poll_ms c s =
     (case pe_fault e 0 of
        Some err \<Rightarrow> Return (Exit (pg_internal ''outbox: failed to open transaction'' err), c, s)
      | None \<Rightarrow>
          (case run_stmt x e 1 Q_FETCH_JOB True (next_job e s) of
             Inl err \<Rightarrow> Return (Exit (pg_internal ''outbox: failed to fetch job'' err), c, s)
           | Inr None \<Rightarrow>
               Return (case pe_fault e 2 of
                         Some err \<Rightarrow> (Exit (pg_internal ''outbox: commit failed'' err), c, s)
                       | None \<Rightarrow> (Sleep poll_ms, c, s))
           | Inr (Some (corr, r)) \<Rightarrow> process_job x e net poll_ms corr r c s))"

text \<open>\<open>run_outbox\<close> for as many iterations as there are environments; it stops at an exit.\<close>

fun run_outbox ::
    "'j pg \<Rightarrow> (extrinsic \<Rightarrow> net_outcome) \<Rightarrow> u64 \<Rightarrow> 'j pg_env list \<Rightarrow> counters \<Rightarrow> 'j pg_db
     \<Rightarrow> (worker_next option \<times> counters \<times> 'j pg_db) run" where
  "run_outbox x net poll_ms [] c s = Return (None, c, s)"
| "run_outbox x net poll_ms (e # es) c s =
     run_bind (outbox_iteration x e net poll_ms c s) (\<lambda>(next, c', s').
       case next of Exit err \<Rightarrow> Return (Some (Exit err), c', s')
                  | _ \<Rightarrow> run_outbox x net poll_ms es c' s')"

section \<open>Patching pending payloads\<close>

text \<open>The statement mentions \<open>$2\<close> and binds one value.\<close>

definition Q_PATCH_PENDING :: sql_stmt where
  "Q_PATCH_PENDING =
     (q_select ''outbound_extrinsics'' [(''status'', TextT)] 2)
       \<lparr>q_writes := [(''payload'', TextT)], q_bound := 1\<rparr>"

definition patch_row :: "'j pg \<Rightarrow> string \<Rightarrow> i64 \<Rightarrow> outbox_row \<Rightarrow> outbox_row" where
  "patch_row x key i r =
     (case Option.bind (ob_payload r) (\<lambda>p. pg_jsonb_set x p key i) of
        Some p \<Rightarrow> if ob_status r = ''pending'' then r\<lparr>ob_payload := Some p\<rparr> else r
      | None \<Rightarrow> r)"

definition map_rows :: "(outbox_row \<Rightarrow> outbox_row) \<Rightarrow> 'j pg_db \<Rightarrow> 'j pg_db" where
  "map_rows f s = s\<lparr>db_outbox := map (\<lambda>(k, r). (k, f r)) (db_outbox s)\<rparr>"

text \<open>\<open>let _ = sqlx::query(..)\<close>: a failed statement is ignored.\<close>

definition attempt :: "string + 's \<Rightarrow> 's \<Rightarrow> 's" where
  "attempt r s = (case r of Inl _ \<Rightarrow> s | Inr s' \<Rightarrow> s')"

definition patch_pending_with_ids ::
    "'j pg \<Rightarrow> 'j pg_env \<Rightarrow> i64 option \<Rightarrow> i64 option \<Rightarrow> 'j pg_db \<Rightarrow> 'j pg_db" where
  "patch_pending_with_ids x e chain_task_id chain_agent_id s =
     (let s1 = (case chain_task_id of
                  None \<Rightarrow> s
                | Some t \<Rightarrow> attempt (run_stmt x e 0 Q_PATCH_PENDING True
                                       (map_rows (patch_row x ''task_id'' t) s)) s)
      in case chain_agent_id of
           None \<Rightarrow> s1
         | Some a \<Rightarrow> attempt (run_stmt x e 1 Q_PATCH_PENDING True
                                (map_rows (patch_row x ''agent_id'' a) s1)) s1)"

section \<open>Linking a chain event to its extrinsic\<close>

text \<open>
  The UPDATE of the replay worker: the rows whose \<open>tx_hash\<close> is the hash of the event's
  extrinsic get the chain ids of the event and the status \<open>finalized\<close>.
\<close>

definition Q_LINK :: "i64 option \<Rightarrow> i64 option \<Rightarrow> sql_stmt" where
  "Q_LINK task agent =
     (let ws = (case task of None \<Rightarrow> [] | Some _ \<Rightarrow> [(''chain_task_id'', BigintT)])
               @ (case agent of None \<Rightarrow> [] | Some _ \<Rightarrow> [(''chain_agent_id'', BigintT)])
      in (q_select ''outbound_extrinsics'' [(''tx_hash'', TextT)] (Suc (length ws)))
           \<lparr>q_writes := ws @ [(''status'', TextT)]\<rparr>)"

definition or_keep :: "'a option \<Rightarrow> 'a option \<Rightarrow> 'a option" where
  "or_keep new old = (case new of None \<Rightarrow> old | Some _ \<Rightarrow> new)"

definition link_row :: "string \<Rightarrow> i64 option \<Rightarrow> i64 option \<Rightarrow> outbox_row \<Rightarrow> outbox_row" where
  "link_row h task agent r =
     (if ob_tx_hash r = Some h
      then r\<lparr>ob_chain_task_id := or_keep task (ob_chain_task_id r),
             ob_chain_agent_id := or_keep agent (ob_chain_agent_id r), ob_status := ''finalized''\<rparr>
      else r)"

definition link_tx ::
    "'j pg \<Rightarrow> 'j pg_env \<Rightarrow> nat \<Rightarrow> string option \<Rightarrow> i64 option \<Rightarrow> i64 option \<Rightarrow> 'j pg_db \<Rightarrow> 'j pg_db" where
  "link_tx x e n correlation task agent s =
     (case correlation of
        None \<Rightarrow> s
      | Some h \<Rightarrow> attempt (run_stmt x e n (Q_LINK task agent) (pg_text h)
                           (map_rows (link_row h task agent) s)) s)"

section \<open>Backfill\<close>

definition Q_BACKFILL :: sql_stmt where
  "Q_BACKFILL = q_select ''outbound_extrinsics''
     [(''status'', TextT), (''chain_task_id'', BigintT), (''chain_agent_id'', BigintT),
      (''tx_hash'', TextT), (''correlation_id'', TextT)] 0"

definition Q_BACKFILL_EVENTS :: sql_stmt where
  "Q_BACKFILL_EVENTS = q_select ''chain_events'' [(''correlation_id'', TextT)] 1"

definition Q_BACKFILL_AGENT :: sql_stmt where
  "Q_BACKFILL_AGENT =
     (q_select ''outbound_extrinsics'' [(''correlation_id'', TextT)] 2)
       \<lparr>q_writes := [(''chain_agent_id'', BigintT)]\<rparr>"

definition Q_BACKFILL_TASK :: sql_stmt where
  "Q_BACKFILL_TASK =
     (q_select ''outbound_extrinsics'' [(''correlation_id'', TextT)] 2)
       \<lparr>q_writes := [(''chain_task_id'', BigintT)]\<rparr>"

text \<open>The rows of the UNION: correlation ids and transaction hashes of rows that lack an id.\<close>

definition lacks_ids :: "outbox_row \<Rightarrow> bool" where
  "lacks_ids r =
     ((ob_chain_task_id r = None \<or> ob_chain_agent_id r = None)
      \<and> ob_status r \<in> {''pending'', ''failed'', ''finalized''})"

definition backfill_keys :: "'j pg_env \<Rightarrow> 'j pg_db \<Rightarrow> string list" where
  "backfill_keys e s =
     (let rows = filter (\<lambda>r. lacks_ids (snd r)) (db_outbox s)
      in take 50 (pe_union e (remdups (map fst rows
           @ concat (map (\<lambda>r. case ob_tx_hash (snd r) of Some h \<Rightarrow> [h] | None \<Rightarrow> []) rows)))))"

text \<open>ORDER BY block_number DESC, event_index DESC, as signed integers.\<close>

definition events_for :: "string \<Rightarrow> 'j pg_db \<Rightarrow> chain_event_row list" where
  "events_for corr s =
     map snd (sort_key (\<lambda>r. - sint (fst (fst r))) (sort_key (\<lambda>r. - sint (snd (fst r)))
       (filter (\<lambda>r. ce_correlation_id (snd r) = Some corr) (db_events s))))"

definition fill_agent :: "u64 \<Rightarrow> outbox_row \<Rightarrow> outbox_row" where
  "fill_agent a r =
     (if ob_chain_agent_id r = None then r\<lparr>ob_chain_agent_id := Some a\<rparr> else r)"

definition fill_task :: "u64 \<Rightarrow> outbox_row \<Rightarrow> outbox_row" where
  "fill_task t r = (if ob_chain_task_id r = None then r\<lparr>ob_chain_task_id := Some t\<rparr> else r)"

definition update_row :: "string \<Rightarrow> (outbox_row \<Rightarrow> outbox_row) \<Rightarrow> 'j pg_db \<Rightarrow> 'j pg_db" where
  "update_row corr f s =
     s\<lparr>db_outbox := map (\<lambda>(k, r). (k, if k = corr then f r else r)) (db_outbox s)\<rparr>"

definition backfill_event ::
    "'j pg \<Rightarrow> 'j pg_env \<Rightarrow> string \<Rightarrow> chain_event_row \<Rightarrow> 'j pg_db \<Rightarrow> 'j pg_db" where
  "backfill_event x e corr ev s =
     (let kind = (ce_pallet ev, ce_variant ev); first = extract_first_u64 (ce_payload ev) in
      if kind = (''AgentRegistry'', ''AgentRegistered'')
      then (case first of
              None \<Rightarrow> s
            | Some a \<Rightarrow> attempt (run_stmt x e 2 Q_BACKFILL_AGENT True (update_row corr (fill_agent a) s)) s)
      else if kind = (''TaskMarket'', ''TaskCreated'') \<or> kind = (''TaskMarket'', ''BidSubmitted'')
              \<or> kind = (''TaskMarket'', ''TaskCompleted'')
      then (case first of
              None \<Rightarrow> s
            | Some t \<Rightarrow> attempt (run_stmt x e 2 Q_BACKFILL_TASK True (update_row corr (fill_task t) s)) s)
      else s)"

text \<open>The outcome and the database: the updates made before an error stay.\<close>

fun backfill_all ::
    "'j pg \<Rightarrow> 'j pg_env \<Rightarrow> string list \<Rightarrow> 'j pg_db \<Rightarrow> (api_error + unit) \<times> 'j pg_db" where
  "backfill_all x e [] s = (Ok (), s)"
| "backfill_all x e (corr # cs) s =
     (case run_stmt x e 1 Q_BACKFILL_EVENTS (pg_text corr) (events_for corr s) of
        Inl err \<Rightarrow> (Err (pg_internal ''backfill chain_events failed'' err), s)
      | Inr evs \<Rightarrow> backfill_all x e cs (fold (backfill_event x e corr) evs s))"

definition backfill_once ::
    "'j pg \<Rightarrow> 'j pg_env \<Rightarrow> 'j pg_db \<Rightarrow> (api_error + unit) \<times> 'j pg_db" where
  "backfill_once x e s =
     (case run_stmt x e 0 Q_BACKFILL True (backfill_keys e s) of
        Inl err \<Rightarrow> (Err (pg_internal ''backfill query failed'' err), s)
      | Inr keys \<Rightarrow> backfill_all x e keys s)"

end
