(* ===== verification/Pg_Contract.thy ===== *)
theory Pg_Contract
  imports Pg_Storage
begin

text \<open>
  The content of the database as the storage contract sees it, its invariant, and the
  interpretations of \<open>storage\<close> and \<open>event_sink\<close> on the Postgres operations. A backend is
  \<open>pg_ok\<close> when its database went through the migrations, serde reads back what it wrote, and
  the UUID parser reads what the formatter wrote.
\<close>

definition pg_ok :: "'j pg \<Rightarrow> bool" where
  "pg_ok x = (pg_schema x = migrated \<and> serde_ok (pg_libs x) \<and> uuid_ok (pg_libs x))"

definition pg_key :: "'j pg \<Rightarrow> string \<Rightarrow> uuid option" where
  "pg_key x i = uuid_parse_str (pg_libs x) i"

definition pg_agent_of :: "'j pg_db \<Rightarrow> string \<Rightarrow> agent_registration option" where
  "pg_agent_of s i = map_option (\<lambda>r. agent_of_row (i, r)) (map_of (db_agents s) i)"

definition pg_task_of :: "'j pg \<Rightarrow> 'j pg_db \<Rightarrow> uuid \<Rightarrow> stored_task option" where
  "pg_task_of x s u =
     Option.bind (map_of (db_tasks s) u) (\<lambda>r. result_ok (decode_task_row (pg_libs x) r))"

definition decoded_bid :: "'j pg \<Rightarrow> uuid \<times> 'j pg_bid \<Rightarrow> stored_bid" where
  "decoded_bid x r = projr (decode_bid_row (pg_libs x) (snd r))"

definition pg_bids_of :: "'j pg \<Rightarrow> 'j pg_db \<Rightarrow> uuid \<Rightarrow> stored_bid multiset" where
  "pg_bids_of x s u =
     image_mset (decoded_bid x) (filter_mset (\<lambda>r. pb_task_id (snd r) = u) (mset (db_bids s)))"

definition pg_results_of :: "'j pg \<Rightarrow> 'j pg_db \<Rightarrow> uuid \<Rightarrow> stored_result set" where
  "pg_results_of x s u =
     {y. \<exists>r \<in> set (db_results s). pr_task_id (snd r) = u
           \<and> decode_result_row (pg_libs x) (snd r) = Ok y}"

definition task_entry_ok :: "'j pg \<Rightarrow> uuid \<times> 'j pg_task \<Rightarrow> bool" where
  "task_entry_ok x r =
     (case decode_task_row (pg_libs x) (snd r) of
        Inl _ \<Rightarrow> False | Inr t \<Rightarrow> pg_key x (st_id t) = Some (fst r))"

definition pg_inv :: "'j pg \<Rightarrow> 'j pg_db \<Rightarrow> bool" where
  "pg_inv x s =
     (map_wf (db_agents s) \<and> map_wf (db_tasks s) \<and> map_wf (db_bids s)
      \<and> list_all (task_entry_ok x) (db_tasks s)
      \<and> list_all (\<lambda>r. is_ok (decode_bid_row (pg_libs x) (snd r))) (db_bids s)
      \<and> list_all (\<lambda>r. is_ok (decode_result_row (pg_libs x) (snd r))) (db_results s))"

definition pg_storable_task :: "'j pg \<Rightarrow> stored_task \<Rightarrow> bool" where
  "pg_storable_task x t = (is_ok (task_row x t (\<lambda>u r. if task_row_ok x r then Ok () else Err (Internal []))))"

definition pg_bid_free :: "'j pg \<Rightarrow> 'j pg_db \<Rightarrow> stored_bid \<Rightarrow> bool" where
  "pg_bid_free x s b =
     (case pg_key x (sb_id b) of None \<Rightarrow> True | Some u \<Rightarrow> u \<notin> fst ` set (db_bids s))"

lemma pg_inv_empty: "pg_inv x pg_empty"
  by (simp add: pg_inv_def pg_empty_def)

section \<open>Rows and records\<close>

lemma str_to_status_inverse [simp]: "str_to_status (status_to_str st) = Ok st"
  by (cases st) (simp_all add: str_to_status_def)

lemma str_to_status_Ok_iff: "str_to_status s = Ok st \<longleftrightarrow> s = status_to_str st"
  by (cases st) (auto simp: str_to_status_def)

lemma decode_task_row_Ok:
  "decode_task_row L r = Ok t \<Longrightarrow> pt_status r = status_to_str (st_status t)"
  by (auto simp: decode_task_row_def and_then_Ok_iff str_to_status_Ok_iff)

lemma decode_new_task_row:
  assumes "serde_ok L" "ser_task L t = Ok j" "pt_json r = j"
    "pt_status r = status_to_str (st_status t)"
  shows "decode_task_row L r = Ok t"
  using assms by (simp add: decode_task_row_def serde_ok_def)

lemma task_row_Ok_iff:
  "task_row x t k = Ok y \<longleftrightarrow>
     (\<exists>u j budget. pg_key x (st_id t) = Some u \<and> ser_task (pg_libs x) t = Ok j
        \<and> u128_try_i64 (bg_max_cost (tk_budget (st_task t))) = Some budget
        \<and> k u (new_task_row (pg_libs x) t budget j) = Ok y)"
  by (simp add: task_row_def and_then_Ok_iff pg_parse_uuid_def ok_or_Ok_iff map_err_Ok_iff
      pg_key_def)

lemma new_task_row_simps [simp]:
  "pt_json (new_task_row L t budget j) = j"
  "pt_status (new_task_row L t budget j) = status_to_str (st_status t)"
  by (simp_all add: new_task_row_def)

lemma pg_task_of_Some:
  assumes "pg_inv x s"
  shows "pg_task_of x s u = Some t \<longleftrightarrow>
     (\<exists>r. map_of (db_tasks s) u = Some r \<and> decode_task_row (pg_libs x) r = Ok t)"
  by (auto simp: pg_task_of_def bind_eq_Some_conv result_ok_Some_iff)

lemma pg_inv_row:
  assumes "pg_inv x s" "map_of (db_tasks s) u = Some r"
  obtains t where "decode_task_row (pg_libs x) r = Ok t" "pg_key x (st_id t) = Some u"
    "pg_task_of x s u = Some t"
proof -
  have "task_entry_ok x (u, r)"
    using assms by (auto simp: pg_inv_def list_all_iff dest: map_of_SomeD)
  then show ?thesis
    using that assms(2) by (auto simp: task_entry_ok_def pg_task_of_def split: sum.splits)
qed

lemma pg_task_of_None:
  assumes "pg_inv x s"
  shows "pg_task_of x s u = None \<longleftrightarrow> map_of (db_tasks s) u = None"
  using assms by (cases "map_of (db_tasks s) u") (auto simp: pg_task_of_def elim: pg_inv_row)

lemma pg_task_write:
  assumes "pg_ok x" "pg_inv x s" "pg_key x (st_id t) = Some u"
    "decode_task_row (pg_libs x) r = Ok t"
    "s' = s\<lparr>db_tasks := AList.update u r (db_tasks s)\<rparr>"
  shows "pg_inv x s' \<and> pg_task_of x s' = (pg_task_of x s)(u \<mapsto> t)
    \<and> pg_agent_of s' = pg_agent_of s \<and> pg_bids_of x s' = pg_bids_of x s
    \<and> pg_results_of x s' = pg_results_of x s"
proof -
  have "task_entry_ok x (u, r)" using assms by (simp add: task_entry_ok_def)
  then have "list_all (task_entry_ok x) (AList.update u r (db_tasks s))"
    using assms(2) set_update [of u r "db_tasks s"] by (auto simp: pg_inv_def list_all_iff)
  then have "pg_inv x s'" using assms(2,5) by (simp add: pg_inv_def)
  moreover have "pg_task_of x s' = (pg_task_of x s)(u \<mapsto> t)"
    using assms(4,5) by (auto simp: pg_task_of_def fun_eq_iff)
  ultimately show ?thesis
    using assms(5) by (simp add: pg_agent_of_def pg_bids_of_def pg_results_of_def fun_eq_iff)
qed

lemma pg_put_task:
  assumes "pg_ok x" "pg_inv x s" "pg_key x (st_id t) = Some u" "ser_task (pg_libs x) t = Ok j"
  shows "s' = upsert_row u (new_task_row (pg_libs x) t budget j) now s
      \<or> (pg_task_of x s u = None \<and> s' = insert_row u (new_task_row (pg_libs x) t budget j) s)
    \<Longrightarrow> pg_inv x s' \<and> pg_task_of x s' = (pg_task_of x s)(u \<mapsto> t)
      \<and> pg_agent_of s' = pg_agent_of s \<and> pg_bids_of x s' = pg_bids_of x s
      \<and> pg_results_of x s' = pg_results_of x s"
proof -
  assume how: "s' = upsert_row u (new_task_row (pg_libs x) t budget j) now s
      \<or> (pg_task_of x s u = None \<and> s' = insert_row u (new_task_row (pg_libs x) t budget j) s)"
  have serde: "serde_ok (pg_libs x)" using assms(1) by (simp add: pg_ok_def)
  obtain r where r: "s' = s\<lparr>db_tasks := AList.update u r (db_tasks s)\<rparr>" "pt_json r = j"
      "pt_status r = status_to_str (st_status t)"
    using how assms(2)
    by (cases "map_of (db_tasks s) u") (auto simp: upsert_row_def insert_row_def pg_task_of_None)
  show ?thesis
    by (rule pg_task_write [OF assms(1,2,3) decode_new_task_row [OF serde assms(4) r(2,3)] r(1)])
qed

lemma pg_get_task_eq:
  assumes "pg_ok x" "pg_healthy e" "pg_inv x s" "pg_key x i = Some u"
  shows "pg_get_task x e i s = ok_or (task_not_found i) (pg_task_of x s u)"
proof -
  have run: "run_stmt x e 0 Q_GET_TASK True v = Ok v" for v :: "'a pg_task option"
    using assms(1,2) by (simp add: run_stmt_quiet pg_healthy_def pg_ok_def storage_stmts_prepare)
  show ?thesis
  proof (cases "map_of (db_tasks s) u")
    case None
    then show ?thesis
      using assms(3,4) run by (simp add: pg_get_task_def pg_parse_uuid_def pg_key_def pg_task_of_def)
  next
    case (Some r)
    then obtain t where "decode_task_row (pg_libs x) r = Ok t" "pg_task_of x s u = Some t"
      using pg_inv_row [OF assms(3)] by blast
    then show ?thesis
      using assms(4) run Some by (simp add: pg_get_task_def pg_parse_uuid_def pg_key_def)
  qed
qed

lemma decode_all_Ok:
  assumes "\<And>r. r \<in> set rs \<Longrightarrow> f r = Ok (g r)"
  shows "decode_all f rs = Ok (map g rs)"
  using assms by (induction rs) simp_all

lemma pg_healthy_set:
  assumes "pg_healthy e"
  shows "set (pe_tasks e m1) = set m1" "set (pe_bids e m2) = set m2"
    "set (pe_results e m3) = set m3" "mset (pe_bids e m2) = mset m2"
  using assms by (auto simp: pg_healthy_def pg_orders_def intro!: mset_eq_setD)

lemma pg_list_tasks_spec:
  assumes "pg_ok x" "pg_healthy e" "pg_inv x s"
  shows "\<exists>ts. pg_list_tasks x e s = Ok ts \<and> set ts = ran (pg_task_of x s)"
proof -
  let ?rows = "sort_key (\<lambda>r. - pt_created_at (snd r)) (pe_tasks e (db_tasks s))"
  let ?g = "\<lambda>r. projr (decode_task_row (pg_libs x) (snd r))"
  have run: "run_stmt x e 0 Q_LIST_TASKS True v = Ok v" for v :: "(uuid \<times> 'a pg_task) list"
    using assms(1,2) by (simp add: run_stmt_quiet pg_healthy_def pg_ok_def storage_stmts_prepare)
  have set: "set ?rows = set (db_tasks s)" using assms(2) by (simp add: pg_healthy_set)
  have dec: "decode_task_row (pg_libs x) (snd r) = Ok (?g r)" if "r \<in> set (db_tasks s)" for r
  proof -
    have "task_entry_ok x r" using that assms(3) by (simp add: pg_inv_def list_all_iff)
    then show ?thesis
      by (cases "decode_task_row (pg_libs x) (snd r)") (simp_all add: task_entry_ok_def)
  qed
  then have "pg_list_tasks x e s = Ok (map ?g ?rows)"
    using set decode_all_Ok [of ?rows "\<lambda>r. decode_task_row (pg_libs x) (snd r)" ?g]
    by (simp add: pg_list_tasks_def run)
  moreover have "set (map ?g ?rows) = ran (pg_task_of x s)"
  proof -
    have wf: "map_wf (db_tasks s)" using assms(3) by (simp add: pg_inv_def)
    have "t \<in> ran (pg_task_of x s) \<longleftrightarrow> (\<exists>r \<in> set (db_tasks s). ?g r = t)" for t
    proof
      assume "t \<in> ran (pg_task_of x s)"
      then obtain u r where "map_of (db_tasks s) u = Some r" "decode_task_row (pg_libs x) r = Ok t"
        by (auto simp: ran_def pg_task_of_Some [OF assms(3)])
      then show "\<exists>r \<in> set (db_tasks s). ?g r = t" by (force dest: map_of_SomeD)
    next
      assume "\<exists>r \<in> set (db_tasks s). ?g r = t"
      then obtain u r where ur: "(u, r) \<in> set (db_tasks s)" "?g (u, r) = t" by auto
      then have "map_of (db_tasks s) u = Some r" using wf by (simp add: map_wf_def)
      then show "t \<in> ran (pg_task_of x s)"
        using dec [OF ur(1)] ur(2) by (auto simp: ran_def pg_task_of_Some [OF assms(3)])
    qed
    then show ?thesis using set by auto
  qed
  ultimately show ?thesis by blast
qed

section \<open>Bids, results and counts\<close>

lemma pg_insert_bid_spec:
  assumes "pg_ok x" "pg_inv x s" "pg_insert_bid x e b s = Ok s'"
    "pg_key x (sb_task_id b) = Some k" "pg_bid_free x s b"
  shows "pg_inv x s' \<and> pg_bids_of x s' = (pg_bids_of x s)(k := add_mset b (pg_bids_of x s k))
    \<and> pg_task_of x s' = pg_task_of x s \<and> pg_agent_of s' = pg_agent_of s
    \<and> pg_results_of x s' = pg_results_of x s"
proof -
  from assms(3,4) obtain u j v where f: "pg_key x (sb_id b) = Some u"
      "ser_bid (pg_libs x) b = Ok j" "s' = insert_bid_row u (new_bid_row k b v j) s"
    by (auto simp: pg_insert_bid_def and_then_Ok_iff pg_parse_uuid_def ok_or_Ok_iff map_err_Ok_iff
        pg_key_def Let_def run_stmt_Ok)
  let ?r = "new_bid_row k b v j"
  have fresh: "u \<notin> fst ` set (db_bids s)" using assms(5) f(1) by (simp add: pg_bid_free_def)
  then have "map_of (db_bids s) u = None" by (simp add: map_of_eq_None_iff)
  then have s': "s' = s\<lparr>db_bids := db_bids s @ [(u, ?r)]\<rparr>"
    using f(3) fresh by (simp add: insert_bid_row_def update_fresh)
  have "decode_bid_row (pg_libs x) ?r = Ok b"
    using assms(1) f(2) by (simp add: decode_bid_row_def new_bid_row_def pg_ok_def serde_ok_def)
  moreover have "pb_task_id ?r = k" by (simp add: new_bid_row_def)
  ultimately show ?thesis
    using assms(2) fresh unfolding s'
    by (auto simp: pg_inv_def map_wf_def pg_bids_of_def decoded_bid_def pg_task_of_def
        pg_agent_of_def pg_results_of_def fun_eq_iff)
qed

lemma pg_get_bids_spec:
  assumes "pg_ok x" "pg_healthy e" "pg_inv x s" "pg_key x i = Some k"
  shows "\<exists>bs. pg_get_bids_for_task x e i s = Ok bs \<and> mset bs = pg_bids_of x s k"
proof -
  let ?rows = "filter (\<lambda>r. pb_task_id (snd r) = k) (pe_bids e (db_bids s))"
  have run: "run_stmt x e 0 Q_GET_BIDS True v = Ok v" for v :: "(uuid \<times> 'a pg_bid) list"
    using assms(1,2) by (simp add: run_stmt_quiet pg_healthy_def pg_ok_def storage_stmts_prepare)
  have "decode_bid_row (pg_libs x) (snd r) = Ok (decoded_bid x r)" if "r \<in> set ?rows" for r
    using that assms(2,3)
    by (auto simp: pg_inv_def list_all_iff decoded_bid_def is_ok_iff pg_healthy_set)
  then have "pg_get_bids_for_task x e i s = Ok (map (decoded_bid x) ?rows)"
    using assms(4) run decode_all_Ok [of ?rows "\<lambda>r. decode_bid_row (pg_libs x) (snd r)" "decoded_bid x"]
    by (simp add: pg_get_bids_for_task_def pg_parse_uuid_def pg_key_def)
  moreover have "mset (map (decoded_bid x) ?rows) = pg_bids_of x s k"
    using assms(2) by (simp add: pg_bids_of_def pg_healthy_set)
  ultimately show ?thesis by blast
qed

lemma pg_insert_result_fails:
  assumes "pg_ok x"
  shows "\<exists>err. pg_insert_result x e r s = Err err"
proof (cases "pg_insert_result x e r s")
  case (Inr s')
  then show ?thesis
    using assms insert_result_refused
    by (auto simp: pg_insert_result_def and_then_Ok_iff map_err_Ok_iff Let_def run_stmt_Ok pg_ok_def)
qed simp

lemma pg_get_result_spec:
  assumes "pg_ok x" "pg_healthy e" "pg_inv x s" "pg_key x i = Some k"
  shows "if pg_results_of x s k = {} then pg_get_result_for_task x e i s = Err (result_not_found i)
     else \<exists>r \<in> pg_results_of x s k. pg_get_result_for_task x e i s = Ok r"
proof -
  let ?P = "\<lambda>r. pr_task_id (snd r) = k"
  have run: "run_stmt x e 0 Q_GET_RESULT True v = Ok v" for v :: "(uuid \<times> 'a pg_result) option"
    using assms(1,2) by (simp add: run_stmt_quiet pg_healthy_def pg_ok_def storage_stmts_prepare)
  have set: "set (pe_results e (db_results s)) = set (db_results s)"
    using assms(2) by (simp add: pg_healthy_set)
  have dec: "\<exists>y. decode_result_row (pg_libs x) (snd r) = Ok y" if "r \<in> set (db_results s)" for r
    using that assms(3) by (auto simp: pg_inv_def list_all_iff is_ok_iff)
  show ?thesis
  proof (cases "find ?P (pe_results e (db_results s))")
    case None
    then have "\<not> ?P r" if "r \<in> set (db_results s)" for r using that set by (simp only: find_None_iff) blast
    then have "pg_results_of x s k = {}" unfolding pg_results_of_def by blast
    then show ?thesis
      using None assms(4) run by (simp add: pg_get_result_for_task_def pg_parse_uuid_def pg_key_def)
  next
    case (Some r)
    then have r: "r \<in> set (db_results s)" "?P r" using find_SomeD [OF Some] set by auto
    then obtain y where y: "decode_result_row (pg_libs x) (snd r) = Ok y" using dec by blast
    then have "y \<in> pg_results_of x s k" using r by (auto simp: pg_results_of_def)
    then show ?thesis
      using Some assms(4) run y
      by (auto simp: pg_get_result_for_task_def pg_parse_uuid_def pg_key_def)
  qed
qed

lemma pg_status_count:
  assumes "pg_inv x s"
  shows "count_status (status_to_str st) s = card {k. \<exists>t. pg_task_of x s k = Some t \<and> st_status t = st}"
proof -
  have wf: "map_wf (db_tasks s)" using assms by (simp add: pg_inv_def)
  have "{k. \<exists>r. map_of (db_tasks s) k = Some r \<and> pt_status r = status_to_str st}
      = {k. \<exists>t. pg_task_of x s k = Some t \<and> st_status t = st}"
  proof (intro set_eqI iffI; clarify)
    fix k r assume "map_of (db_tasks s) k = Some r" "pt_status r = status_to_str st"
    then show "\<exists>t. pg_task_of x s k = Some t \<and> st_status t = st"
      using pg_inv_row [OF assms, of k r] decode_task_row_Ok
      by (metis str_to_status_inverse sum.inject(2))
  next
    fix k t assume "pg_task_of x s k = Some t"
    then show "\<exists>r. map_of (db_tasks s) k = Some r \<and> pt_status r = status_to_str (st_status t)"
      using decode_task_row_Ok by (auto simp: pg_task_of_Some [OF assms])
  qed
  moreover have "count_status (status_to_str st) s
      = length (filter (\<lambda>r. pt_status r = status_to_str st) (map snd (db_tasks s)))"
    by (simp add: count_status_def filter_map o_def)
  ultimately show ?thesis using map_wf_count [OF wf] by simp
qed

lemma pg_dashboard_spec:
  assumes "pg_ok x" "pg_healthy e" "pg_inv x s"
  shows "pg_dashboard_counts x e s =
     Ok (card (dom (pg_agent_of s)), card (dom (pg_task_of x s)),
         card {k. \<exists>t. pg_task_of x s k = Some t \<and> st_status t = Completed},
         card {k. \<exists>t. pg_task_of x s k = Some t \<and> st_status t = Pending})"
proof -
  have run: "run_stmt x e n Q_COUNT_TASKS True v = Ok v" "run_stmt x e n Q_COUNT_AGENTS True w = Ok w"
    for n v w
    using assms(1,2) by (simp_all add: run_stmt_quiet pg_healthy_def pg_ok_def storage_stmts_prepare)
  have "dom (pg_task_of x s) = dom (map_of (db_tasks s))"
    using pg_task_of_None [OF assms(3)] by (auto simp: dom_def)
  moreover have "dom (pg_agent_of s) = dom (map_of (db_agents s))"
    by (auto simp: pg_agent_of_def dom_def)
  ultimately show ?thesis
    using assms(3) pg_status_count [OF assms(3), of Completed] pg_status_count [OF assms(3), of Pending]
    by (simp add: pg_dashboard_counts_def run map_wf_dom pg_inv_def)
qed

section \<open>The interpretations\<close>

lemma pg_register_spec:
  assumes "pg_inv x s" "pg_register_agent x e a s = Ok s'"
  shows "pg_inv x s' \<and> pg_agent_of s' = (pg_agent_of s)(ar_id a \<mapsto> a)
    \<and> pg_task_of x s' = pg_task_of x s \<and> pg_bids_of x s' = pg_bids_of x s
    \<and> pg_results_of x s' = pg_results_of x s"
proof -
  have s': "s' = put_agent (ar_id a) (ar_label a) (pe_now e) s"
    using assms(2) by (auto simp: pg_register_agent_def map_err_Ok_iff run_stmt_Ok)
  have "pg_agent_of s' = (pg_agent_of s)(ar_id a \<mapsto> a)"
    by (auto simp: s' put_agent_def pg_agent_of_def agent_of_row_def fun_eq_iff split: option.splits)
  then show ?thesis
    using assms(1) by (simp add: s' put_agent_def pg_inv_def pg_task_of_def pg_bids_of_def
        pg_results_of_def fun_eq_iff)
qed

lemma pg_storable_run:
  assumes "pg_ok x" "pg_healthy e" "pg_storable_task x t"
  shows "\<exists>s' :: 'b. task_row x t (\<lambda>u r. map_err f (run_stmt x e 0 Q_PUT_TASK (task_row_ok x r) (g u r))) = Ok s'"
proof -
  obtain u j budget where f: "pg_key x (st_id t) = Some u" "ser_task (pg_libs x) t = Ok j"
      "u128_try_i64 (bg_max_cost (tk_budget (st_task t))) = Some budget"
      "task_row_ok x (new_task_row (pg_libs x) t budget j)"
    using assms(3) by (auto simp: pg_storable_task_def is_ok_iff task_row_Ok_iff split: if_splits)
  have "run_stmt x e 0 Q_PUT_TASK (task_row_ok x (new_task_row (pg_libs x) t budget j)) v = Ok v"
    for v :: "'b"
    using assms(1,2) f(4)
    by (intro run_stmt_quiet) (simp_all add: pg_healthy_def pg_ok_def storage_stmts_prepare)
  then show ?thesis
    using f by (simp add: task_row_def pg_parse_uuid_def pg_key_def)
qed

interpretation pgs: storage pg_ops pg_ok pg_healthy pg_inv pg_key pg_agent_of pg_task_of pg_bids_of
  pg_results_of "\<lambda>_. pg_text" pg_storable_task pg_bid_free
proof (unfold_locales, goal_cases)
  case (1 x s e a s')
  then show ?case using pg_register_spec by (simp add: pg_ops_def)
next
  case (2 x e s a)
  then show ?case
    by (auto simp: pg_ops_def pg_register_agent_def map_err_Ok_iff run_stmt_Ok pg_healthy_def
        pg_quiet_def pg_ok_def storage_stmts_prepare)
next
  case (3 x e s i)
  then have "run_stmt x e 0 Q_GET_AGENT (pg_text i) (map_of (db_agents s) i) = Ok (map_of (db_agents s) i)"
    by (intro run_stmt_quiet) (simp_all add: pg_healthy_def pg_ok_def storage_stmts_prepare)
  then show ?case by (simp add: pg_ops_def pg_get_agent_def pg_agent_of_def)
next
  case (4 x s e t s' k)
  then obtain j budget where j: "ser_task (pg_libs x) t = Ok j"
      "s' = insert_row k (new_task_row (pg_libs x) t budget j) s"
    by (auto simp: pg_ops_def pg_insert_task_def task_row_Ok_iff map_err_Ok_iff run_stmt_Ok)
  then show ?case by (intro pg_put_task [OF 4(1,2,4) j(1), where budget = budget]) (use 4(5) j(2) in simp)
next
  case (5 x e s t)
  then show ?case using pg_storable_run by (simp add: pg_ops_def pg_insert_task_def)
next
  case (6 x s e t s' k)
  then obtain j budget where j: "ser_task (pg_libs x) t = Ok j"
      "s' = upsert_row k (new_task_row (pg_libs x) t budget j) (pe_now e) s"
    by (auto simp: pg_ops_def pg_upsert_task_def task_row_Ok_iff map_err_Ok_iff run_stmt_Ok)
  then show ?case by (intro pg_put_task [OF 6(1,2,4) j(1), where budget = budget and now = "pe_now e"]) (use j(2) in simp)
next
  case (7 x e s t)
  then show ?case using pg_storable_run by (simp add: pg_ops_def pg_upsert_task_def)
next
  case (8 x e s i k)
  then show ?case using pg_get_task_eq by (simp add: pg_ops_def)
next
  case (9 x s e i t)
  then show ?case
    by (auto simp: pg_ops_def pg_get_task_def and_then_Ok_iff pg_parse_uuid_def ok_or_Ok_iff
        map_err_Ok_iff run_stmt_Ok pg_key_def pg_task_of_def result_ok_Some_iff)
next
  case (10 x s k t)
  then show ?case by (metis pg_task_of_Some pg_inv_row sum.inject(2))
next
  case (11 x e s)
  then show ?case using pg_list_tasks_spec by (simp add: pg_ops_def)
next
  case (12 x s e b s' k)
  then show ?case using pg_insert_bid_spec by (simp add: pg_ops_def)
next
  case (13 x e s i k)
  then show ?case using pg_get_bids_spec by (simp add: pg_ops_def)
next
  case (14 x s e r s' k)
  then show ?case using pg_insert_result_fails [of x e r s] by (simp add: pg_ops_def)
next
  case (15 x e s i k)
  then show ?case using pg_get_result_spec [of x e s i k] by (simp add: pg_ops_def)
next
  case (16 x e s)
  then show ?case using pg_dashboard_spec by (simp add: pg_ops_def)
qed

interpretation pg_events: event_sink "pg_sink x" db_cursor
  "\<lambda>e. pg_quiet e \<and> pg_schema x = migrated" for x
proof (unfold_locales, goal_cases)
  case (1 e b i s s')
  then show ?case
    by (auto simp: pg_sink_def pg_update_chain_cursor_def map_err_Ok_iff run_stmt_Ok)
next
  case (2 e b i p v pl c s s')
  then show ?case
    by (auto simp: pg_sink_def pg_record_chain_event_def map_err_Ok_iff run_stmt_Ok
        split: option.splits)
next
  case (3 e b i p v pl c s s' e')
  then have "pg_text p \<and> pg_text v \<and> pg_text pl \<and> pg_opt_text c"
    by (simp add: pg_sink_def pg_record_chain_event_def map_err_Ok_iff run_stmt_Ok)
  moreover have "\<exists>r. map_of (db_events s') (b, i) = Some r"
    using 3(1)
    by (auto simp: pg_sink_def pg_record_chain_event_def map_err_Ok_iff run_stmt_Ok
        split: option.splits)
  ultimately show ?case
    using 3(2) by (auto simp: pg_sink_def pg_record_chain_event_def map_err_Ok_iff run_stmt_Ok
        pg_quiet_def sink_stmts_prepare)
next
  case (4 e corr p cl opl st s s')
  then show ?case
    by (auto simp: pg_sink_def pg_record_outbound_extrinsic_def map_err_Ok_iff run_stmt_Ok Let_def)
next
  case (5 e s)
  then show ?case
    by (simp add: pg_sink_def pg_last_chain_cursor_def run_stmt_quiet sink_stmts_prepare)
next
  case (6 e s c)
  then show ?case by (simp add: pg_sink_def pg_last_chain_cursor_def map_err_Ok_iff run_stmt_Ok)
qed

end
