(* ===== verification/Ref_Pg.thy ===== *)
theory Ref_Pg
  imports Pg_Contract Reference_Libs
begin

text \<open>
  A migrated database with the reference crates, and an undisturbed environment, for the
  witnesses.
\<close>

definition ref_pg :: "ref_json pg" where
  "ref_pg =
     \<lparr>pg_libs = ref_libs, pg_schema = migrated, pg_jsonb = (\<lambda>_. True),
      pg_jsonb_set = (\<lambda>_ _ _. None)\<rparr>"

definition calm :: "int \<Rightarrow> 'j pg_env" where
  "calm now =
     \<lparr>pe_fault = (\<lambda>_. None), pe_refusal = ''refused'', pe_now = now, pe_agents = (\<lambda>m. m),
      pe_tasks = (\<lambda>m. m), pe_bids = (\<lambda>m. m), pe_results = (\<lambda>m. m), pe_outbox = (\<lambda>m. m),
      pe_union = (\<lambda>m. m), pe_locked = (\<lambda>_. False)\<rparr>"

lemma calm_simps [simp]:
  "pe_fault (calm now) n = None" "pe_now (calm now) = now" "pe_outbox (calm now) ms = ms"
  "pe_tasks (calm now) mt = mt" "pe_bids (calm now) mb = mb" "pe_agents (calm now) ma = ma"
  "pe_results (calm now) mr = mr" "pe_union (calm now) mu = mu" "pe_locked (calm now) c = False"
  "pe_refusal (calm now) = ''refused''"
  by (simp_all add: calm_def)

lemma calm_orders [simp]: "pg_orders (calm now)"
  by (simp add: pg_orders_def)

lemma calm_healthy [simp]: "pg_healthy (calm now)"
  by (simp add: pg_healthy_def pg_quiet_def)

lemma ref_pg_simps [simp]:
  "pg_libs ref_pg = ref_libs" "pg_schema ref_pg = migrated" "pg_jsonb ref_pg j"
  by (simp_all add: ref_pg_def)

lemma ref_pg_ok [simp]: "pg_ok ref_pg"
  by (simp add: pg_ok_def ref_serde_ok ref_uuid_ok)

lemma run_calm:
  "prepares migrated q \<Longrightarrow> ok \<Longrightarrow> run_stmt ref_pg (calm now) n q ok v = Ok v"
  by (simp add: run_stmt_Ok)

end
