(* ===== verification/Outbox_Props.thy ===== *)
theory Outbox_Props
  imports Outbox_Spec Ref_Pg
begin

text \<open>
  The properties of the outbox workers, and the lemmas on progress they rest on. The witnesses
  run the model on a database with two queued extrinsics.
\<close>

section \<open>Progress of the submission loop\<close>










lemma worker_stmts_prepare:
  "prepares migrated Q_FETCH_JOB" "prepares migrated Q_FINALIZE_JOB" "prepares migrated Q_FAIL_JOB"
  by code_simp+


lemma outbox_row_ok_finalized: "outbox_row_ok r \<Longrightarrow> outbox_row_ok (finalized_row h now r)"
  by (simp add: outbox_row_ok_def finalized_row_def outbox_statuses_def)








section \<open>What the backfill writes\<close>

text \<open>Ids that are missing are filled in; everything else is kept.\<close>

definition filled :: "u64 option \<Rightarrow> u64 option \<Rightarrow> outbox_row \<Rightarrow> outbox_row" where
  "filled t a r =
     r\<lparr>ob_chain_task_id := or_keep (ob_chain_task_id r) t,
       ob_chain_agent_id := or_keep (ob_chain_agent_id r) a\<rparr>"

definition only_fills :: "'j pg_db \<Rightarrow> 'j pg_db \<Rightarrow> bool" where
  "only_fills s s' =
     (\<forall>corr. \<exists>t a. map_of (db_outbox s') corr = map_option (filled t a) (map_of (db_outbox s) corr))"

lemma filled_id: "filled None None r = r"
  by (cases r) (simp add: filled_def or_keep_def split: option.split)

lemma filled_filled: "\<exists>t a. \<forall>r. filled t2 a2 (filled t1 a1 r) = filled t a r"
  by (rule exI [of _ "or_keep t1 t2"], rule exI [of _ "or_keep a1 a2"])
    (auto simp: filled_def or_keep_def split: option.split)

lemma only_fills_refl: "only_fills s s"
proof -
  have "filled None None = (\<lambda>r. r)" by (simp add: filled_id fun_eq_iff)
  then have "map_of (db_outbox s) corr = map_option (filled None None) (map_of (db_outbox s) corr)" for corr
    by (simp add: map_option.id [unfolded id_def])
  then show ?thesis unfolding only_fills_def by blast
qed

lemma only_fills_trans:
  assumes "only_fills s1 s2" "only_fills s2 s3"
  shows "only_fills s1 s3"
  unfolding only_fills_def
proof
  fix corr
  obtain t1 a1 t2 a2 where f:
      "map_of (db_outbox s2) corr = map_option (filled t1 a1) (map_of (db_outbox s1) corr)"
      "map_of (db_outbox s3) corr = map_option (filled t2 a2) (map_of (db_outbox s2) corr)"
    using assms unfolding only_fills_def by blast
  obtain t a where "\<forall>r. filled t2 a2 (filled t1 a1 r) = filled t a r"
    using filled_filled by blast
  then have "map_of (db_outbox s3) corr = map_option (filled t a) (map_of (db_outbox s1) corr)"
    using f by (cases "map_of (db_outbox s1) corr") simp_all
  then show "\<exists>t a. map_of (db_outbox s3) corr = map_option (filled t a) (map_of (db_outbox s1) corr)"
    by blast
qed

lemma fill_is_filled:
  "fill_agent a r = filled None (Some a) r" "fill_task t r = filled (Some t) None r"
  by (cases r; simp add: fill_agent_def fill_task_def filled_def or_keep_def split: option.split)+

lemma map_of_update_row:
  "map_of (db_outbox (update_row corr f s)) k
     = map_option (\<lambda>r. if k = corr then f r else r) (map_of (db_outbox s) k)"
  by (simp add: update_row_def map_of_map_rows [where f = "\<lambda>k r. if k = corr then f r else r"])

lemma only_fills_update:
  assumes "\<And>r. f r = filled t a r"
  shows "only_fills s (update_row corr f s)"
  unfolding only_fills_def map_of_update_row
proof
  fix k
  let ?t = "if k = corr then t else None" and ?a = "if k = corr then a else None"
  have "(\<lambda>r. if k = corr then f r else r) = filled ?t ?a"
    using assms by (simp add: filled_id fun_eq_iff)
  then have "map_option (\<lambda>r. if k = corr then f r else r) (map_of (db_outbox s) k)
      = map_option (filled ?t ?a) (map_of (db_outbox s) k)" by (rule arg_cong)
  then show "\<exists>t a. map_option (\<lambda>r. if k = corr then f r else r) (map_of (db_outbox s) k)
      = map_option (filled t a) (map_of (db_outbox s) k)" by blast
qed

lemma only_fills_attempt: "only_fills s v \<Longrightarrow> only_fills s (attempt (run_stmt x e n q ok v) s)"
  using attempt_cases [of x e n q ok v s] only_fills_refl by metis

lemma only_fills_event: "only_fills s (backfill_event x e corr ev s)"
  by (auto simp: backfill_event_def Let_def only_fills_refl split: option.split
      intro!: only_fills_attempt only_fills_update fill_is_filled)

lemma only_fills_all: "only_fills s (snd (backfill_all x e cs s))"
proof (induction cs arbitrary: s)
  case (Cons corr cs)
  have "only_fills s (fold (backfill_event x e corr) evs s)" for evs
    by (induction evs arbitrary: s) (auto intro: only_fills_refl only_fills_trans only_fills_event)
  then show ?case
    using Cons.IH only_fills_trans by (auto simp: only_fills_refl split: sum.split) blast
qed (simp add: only_fills_refl)

lemma fold_fixpoint: "(\<And>y. f y s = s) \<Longrightarrow> fold f ys s = s"
  by (induction ys) simp_all

text \<open>A key that no row carries changes nothing.\<close>

lemma backfill_event_absent:
  assumes "corr \<notin> fst ` set (db_outbox s)"
  shows "backfill_event x e corr ev s = s"
proof -
  have "update_row corr f s = s" for f
    using assms by (cases s) (force simp: update_row_def intro!: map_idI)
  then show ?thesis
    by (auto simp: backfill_event_def Let_def attempt_def run_stmt_def split: option.split)
qed

lemma backfill_all_disjoint:
  assumes "\<And>ev corr. ev \<in> set (db_events s) \<Longrightarrow> ce_correlation_id (snd ev) = Some corr \<Longrightarrow>
      corr \<notin> fst ` set (db_outbox s)"
  shows "snd (backfill_all x e cs s) = s"
proof (induction cs)
  case (Cons corr cs)
  have "fold (backfill_event x e corr) (events_for corr s) s = s"
  proof (cases "events_for corr s = []")
    case False
    then obtain y where "y \<in> set (events_for corr s)" by (cases "events_for corr s") auto
    then obtain ev where "ev \<in> set (db_events s)" "ce_correlation_id (snd ev) = Some corr"
      by (auto simp: events_for_def)
    then have "corr \<notin> fst ` set (db_outbox s)" by (rule assms)
    then have "backfill_event x e corr y s = s" for y by (rule backfill_event_absent)
    then show ?thesis by (rule fold_fixpoint)
  qed simp
  then show ?case using Cons.IH by (auto simp: run_stmt_Ok split: sum.split)
qed simp

section \<open>A database with two queued extrinsics\<close>

text \<open>
  An allocation that is valid, and a row whose pallet the worker does not know: the first is
  finalized, the second fails.
\<close>

definition demo_payload :: string where
  "demo_payload = enc_json (JObj [(''task_id'', JNat 5)])"

definition demo_row :: "string \<Rightarrow> int \<Rightarrow> outbox_row" where
  "demo_row call now = new_outbox_row ''TaskMarket'' call (Some demo_payload) ''pending'' now"

definition demo_db :: "ref_json pg_db" where
  "demo_db =
     pg_empty\<lparr>db_outbox := [(''b'', demo_row ''nothing'' 20), (''a'', demo_row ''allocate_task'' 10)]\<rparr>"

definition demo_net :: "extrinsic \<Rightarrow> net_outcome" where
  "demo_net t = FinalizedAs [255]"

definition demo_done :: "ref_json pg_db" where
  "demo_done =
     set_row ''a'' (finalized_row ''0xff'' 30 (demo_row ''allocate_task'' 10)) demo_db"

lemma demo_build:
  "build_extrinsic ref_libs ''TaskMarket'' ''allocate_task'' (Some demo_payload) = Ok (AllocateTask 5)"
  "build_extrinsic ref_libs ''TaskMarket'' ''nothing'' (Some demo_payload)
     = Err ''unsupported pallet/call: TaskMarket::nothing''"
  by code_simp+

lemma demo_submit:
  "submit_extrinsic ref_libs demo_net ''TaskMarket'' ''allocate_task'' (Some demo_payload) = Ok ''0xff''"
  "submit_extrinsic ref_libs demo_net ''TaskMarket'' ''nothing'' (Some demo_payload)
     = Err ''unsupported pallet/call: TaskMarket::nothing''"
proof -
  have "hex_0x ref_libs [255] = ''0xff''"
    by (simp add: hex_0x_def hex_text_def hex_byte_def hex_digit_def char_of_def bit_0)
  then show "submit_extrinsic ref_libs demo_net ''TaskMarket'' ''allocate_task'' (Some demo_payload)
      = Ok ''0xff''"
    by (simp add: submit_extrinsic_def demo_build demo_net_def)
qed (simp add: submit_extrinsic_def demo_build)


lemma demo_row_simps [simp]:
  "ob_status (demo_row call now) = ''pending''" "ob_pallet (demo_row call now) = ''TaskMarket''"
  "ob_call (demo_row call now) = call" "ob_payload (demo_row call now) = Some demo_payload"
  "ob_created_at (demo_row call now) = now" "ob_retry_count (demo_row call now) = 0"
  "row_queued (demo_row call now)"
  by (simp_all add: demo_row_def new_outbox_row_def row_queued_def)

lemma demo_row_ok: "outbox_row_ok (demo_row call now)"
proof -
  have "char_count demo_payload \<le> 4096" by code_simp
  then show ?thesis by (simp add: outbox_row_ok_def demo_row_def new_outbox_row_def outbox_statuses_def)
qed

lemma demo_record:
  assumes "map_of (db_outbox s) corr = None" "pg_text corr" "pg_text call"
  shows "pg_record_outbound_extrinsic ref_pg (calm now) corr ''TaskMarket'' call (Some demo_payload)
           ''pending'' s = Ok (set_row corr (demo_row call now) s)"
proof -
  have "pg_text ''TaskMarket'' \<and> pg_text demo_payload" by code_simp
  then show ?thesis
    using assms demo_row_ok [of call now]
    by (simp add: pg_record_outbound_extrinsic_def outbound_row_def run_calm sink_stmts_prepare
        set_row_def demo_row_def)
qed

lemma demo_reach: "ob_reach ref_pg demo_db"
proof -
  let ?s1 = "set_row ''b'' (demo_row ''nothing'' 20) (pg_empty :: ref_json pg_db)"
  have "pg_text ''b'' \<and> pg_text ''nothing'' \<and> pg_text ''a'' \<and> pg_text ''allocate_task''"
    by code_simp
  then have rec:
      "pg_record_outbound_extrinsic ref_pg (calm 20) ''b'' ''TaskMarket'' ''nothing''
         (Some demo_payload) ''pending'' (pg_empty :: ref_json pg_db) = Ok ?s1"
      "pg_record_outbound_extrinsic ref_pg (calm 10) ''a'' ''TaskMarket'' ''allocate_task''
         (Some demo_payload) ''pending'' ?s1 = Ok (set_row ''a'' (demo_row ''allocate_task'' 10) ?s1)"
    by (intro demo_record; simp add: pg_empty_def set_row_def)+
  have "ob_reach ref_pg (pg_empty :: ref_json pg_db)" by (rule reach_init) (simp add: pg_empty_def)
  then have "ob_reach ref_pg ?s1"
    by (rule reach_step) (rule step_enqueue [OF _ rec(1)], simp add: pg_empty_def)
  then have "ob_reach ref_pg (set_row ''a'' (demo_row ''allocate_task'' 10) ?s1)"
    by (rule reach_step) (rule step_enqueue [OF _ rec(2)], simp add: pg_empty_def set_row_def)
  moreover have "set_row ''a'' (demo_row ''allocate_task'' 10) ?s1 = demo_db"
    by (simp add: set_row_def demo_db_def pg_empty_def)
  ultimately show ?thesis by simp
qed

lemma demo_job: "next_job (calm 30) demo_db = Some (''a'', demo_row ''allocate_task'' 10)"
  by (simp add: next_job_def pending_jobs_def demo_db_def)

lemma demo_iteration:
  "outbox_iteration ref_pg (calm 30) demo_net 1000 no_counts demo_db
     = Return (Sleep 1000, no_counts\<lparr>wk_submitted := 1\<rparr>, demo_done)"
proof -
  have "pg_text ''0xff''" by code_simp
  then have "commit_job ref_pg (calm 30) Q_FINALIZE_JOB
      (pg_text ''0xff'' \<and> retry_fits (demo_row ''allocate_task'' 10)
       \<and> outbox_row_ok (finalized_row ''0xff'' 30 (demo_row ''allocate_task'' 10))) 1000 demo_done demo_db
      = (Sleep 1000, demo_done)"
    by (simp add: commit_job_def run_calm worker_stmts_prepare outbox_row_ok_finalized demo_row_ok
        retry_fits_def)
  then show ?thesis
    by (simp add: outbox_iteration_def run_calm worker_stmts_prepare demo_job process_job_def
        demo_submit demo_done_def no_counts_def)
qed

section \<open>Properties\<close>

text \<open>C5: The outbox refines the life of its rows: whatever a handler, the submission loop, the
  replay worker or the backfill loop does, a row appears as queued and goes at most once from
  queued to finalized or failed, and what is decided stays decided.\<close>

theorem outbox_lifecycle:
  assumes "ob_reach x s" "ob_step x s s'"
  shows "life_step (lives s) (lives s')"
  using ob_step_refines [OF assms(2) ob_reach_inv [OF assms(1)]] by simp

theorem outbox_lifecycle_witness:
  "life_step (lives demo_db) (lives demo_done)"
proof -
  have "ob_step ref_pg demo_db demo_done"
    by (rule step_work [OF calm_orders demo_iteration])
  then show ?thesis by (rule outbox_lifecycle [OF demo_reach])
qed





lemma run_bind_Return_iff:
  "run_bind m f = Return y \<longleftrightarrow> (\<exists>v. m = Return v \<and> f v = Return y)"
  by (cases m) simp_all







text \<open>C30: When an iteration panics: exactly when the submission of the row it took fails with
  an error other than a lost connection, longer than 512 bytes, whose byte 512 lies inside a
  character. \<open>String::truncate\<close> then panics, the task of the worker dies, and the row
  stays queued.\<close>

theorem outbox_panics_iff:
  "outbox_iteration x e net poll_ms c s = Panic \<longleftrightarrow>
     pe_fault e 0 = None
     \<and> (\<exists>corr r err. run_stmt x e 1 Q_FETCH_JOB True (next_job e s) = Ok (Some (corr, r))
          \<and> submit_extrinsic (pg_libs x) net (ob_pallet r) (ob_call r) (ob_payload r) = Err err
          \<and> \<not> is_connection_err err \<and> 512 < length err \<and> is_continuation (err ! 512))"
proof -
  have panic: "bounded_error err = Panic \<longleftrightarrow> 512 < length err \<and> is_continuation (err ! 512)" for err
    by (auto simp: bounded_error_def truncate_str_def is_char_boundary_def MAX_ERR_def)
  have "process_job x e net poll_ms corr r c s = Panic \<longleftrightarrow>
      (\<exists>err. submit_extrinsic (pg_libs x) net (ob_pallet r) (ob_call r) (ob_payload r) = Err err
         \<and> \<not> is_connection_err err \<and> bounded_error err = Panic)" for corr r
  proof (cases "submit_extrinsic (pg_libs x) net (ob_pallet r) (ob_call r) (ob_payload r)")
    case (Inl err)
    then show ?thesis
      by (cases "bounded_error err") (simp_all add: process_job_def Let_def split: prod.split)
  next
    case (Inr h)
    then show ?thesis by (simp add: process_job_def Let_def split: prod.split)
  qed
  then show ?thesis
    unfolding panic
    by (auto simp: outbox_iteration_def split: option.splits sum.splits)
qed

text \<open>C40: The loop is first-in first-out: the row it takes is pending, unlocked, and no pending
  unlocked row is older; it takes one whenever there is one.\<close>

theorem outbox_oldest_first:
  assumes "pg_orders e"
  shows "case next_job e s of
      None \<Rightarrow> list_all (\<lambda>r. ob_status (snd r) \<noteq> ''pending'' \<or> pe_locked e (fst r)) (db_outbox s)
    | Some job \<Rightarrow> job \<in> set (db_outbox s) \<and> ob_status (snd job) = ''pending'' \<and> \<not> pe_locked e (fst job)
        \<and> list_all (\<lambda>r. ob_status (snd r) \<noteq> ''pending'' \<or> pe_locked e (fst r)
                        \<or> ob_created_at (snd job) \<le> ob_created_at (snd r)) (db_outbox s)"
proof (cases "pending_jobs e s")
  case Nil
  then have "{r \<in> set (db_outbox s). ob_status (snd r) = ''pending'' \<and> \<not> pe_locked e (fst r)} = {}"
    using pending_jobs_set [OF assms, of s] by simp
  then show ?thesis using Nil by (auto simp: next_job_def list_all_iff)
next
  case (Cons job js)
  let ?S = "{r \<in> set (db_outbox s). ob_status (snd r) = ''pending'' \<and> \<not> pe_locked e (fst r)}"
  have set: "set (job # js) = ?S" using pending_jobs_set [OF assms, of s] Cons by simp
  have "sorted (map (\<lambda>r. ob_created_at (snd r)) (pending_jobs e s))"
    unfolding pending_jobs_def by (rule sorted_sort_key)
  then have le: "ob_created_at (snd job) \<le> ob_created_at (snd r)" if "r \<in> ?S" for r
    using that Cons set by auto
  have "job \<in> ?S" using set by auto
  then show ?thesis using Cons le by (auto simp: next_job_def list_all_iff)
qed

theorem outbox_oldest_first_witness:
  "case next_job (calm 30) demo_db of
      None \<Rightarrow> list_all (\<lambda>r. ob_status (snd r) \<noteq> ''pending'' \<or> pe_locked (calm 30 :: ref_json pg_env) (fst r)) (db_outbox demo_db)
    | Some job \<Rightarrow> job \<in> set (db_outbox demo_db) \<and> ob_status (snd job) = ''pending''
        \<and> \<not> pe_locked (calm 30 :: ref_json pg_env) (fst job)
        \<and> list_all (\<lambda>r. ob_status (snd r) \<noteq> ''pending'' \<or> pe_locked (calm 30 :: ref_json pg_env) (fst r)
                        \<or> ob_created_at (snd job) \<le> ob_created_at (snd r)) (db_outbox demo_db)"
  by (rule outbox_oldest_first) simp

text \<open>The delay after a failed attempt grows by 200 ms per attempt up to five seconds, for
  every retry count, and never overflows.\<close>

theorem backoff_bounds:
  assumes "0 \<le> sint retry_count" "sint retry_count < 2 ^ 31 - 1"
  shows "int (unat (backoff_ms retry_count)) = min (200 * (sint retry_count + 1)) 5000"
proof -
  let ?k = "nat (sint retry_count + 1)"
  have k: "int ?k = sint retry_count + 1" "?k \<le> 2 ^ 31" using assms by simp_all
  have "sint (retry_count + 1) = int ?k"
    using assms by (simp add: sint_word_ariths signed_take_bit_int_eq_self)
  then have n: "scast (retry_count + 1) = (of_nat ?k :: u64)"
    by (metis of_int_of_nat_eq of_int_sint)
  have small: "unat (of_nat m :: u64) = m" if "m < 2 ^ 64" for m
    using that by (simp add: unsigned_of_nat take_bit_nat_eq_self)
  have prod: "unat (of_nat (200 * ?k) :: u64) = 200 * ?k"
    using k(2) by (intro small) simp
  have "unat (of_nat ?k :: u64) = ?k" using k(2) by (intro small) simp
  then have "saturating_mul BACKOFF_BASE_MS (of_nat ?k) = of_nat (200 * ?k)"
    using k(2) by (simp add: saturating_mul_def BACKOFF_BASE_MS_def)
  then have "unat (backoff_ms retry_count) = min (200 * ?k) 5000"
    using prod by (simp add: backoff_ms_def n MAX_BACKOFF_MS_def min_def word_le_nat_alt)
  then have "int (unat (backoff_ms retry_count)) = min (200 * int ?k) 5000"
    by (simp only: of_nat_min of_nat_mult of_nat_numeral)
  then show ?thesis by (simp only: k(1))
qed

theorem backoff_bounds_witness:
  "int (unat (backoff_ms 3)) = 800 \<and> int (unat (backoff_ms 40)) = 5000"
  using backoff_bounds [of 3] backoff_bounds [of 40] by simp

text \<open>C39: The backfill loop only fills in chain ids that are missing: no other field of any row
  changes, no id is overwritten, and no row appears or disappears, also when a query fails
  half-way.\<close>

theorem backfill_only_fills:
  "only_fills s (snd (backfill_once x e s))"
  using only_fills_all only_fills_refl by (auto simp: backfill_once_def split: sum.split)

text \<open>When no recorded event carries the correlation id of a row, the backfill changes
  nothing. The replay worker records extrinsic hashes with its events and handlers file rows
  under UUIDs, so this is the case in the program as composed: a transaction hash found in the
  second half of the UNION is matched against correlation ids again.\<close>

theorem backfill_without_correlation:
  assumes "\<forall>ev \<in> set (db_events s). \<forall>corr. ce_correlation_id (snd ev) = Some corr \<longrightarrow>
      corr \<notin> fst ` set (db_outbox s)"
  shows "snd (backfill_once x e s) = s"
  using backfill_all_disjoint [of s] assms by (auto simp: backfill_once_def split: sum.split)

theorem backfill_without_correlation_witness:
  "let s = demo_done\<lparr>db_events := [((7, 0), \<lparr>ce_pallet = ''TaskMarket'', ce_variant = ''TaskCreated'',
       ce_payload = ''[9]'', ce_correlation_id = Some ''0xff''\<rparr>)]\<rparr>
   in snd (backfill_once ref_pg (calm 40) s) = s"
  unfolding Let_def
  by (rule backfill_without_correlation) (simp add: demo_done_def set_row_def demo_db_def)

text \<open>C12: Pending payloads are never patched with chain ids: both statements of
  \<open>patch_pending_with_ids\<close> mention \<open>$2\<close> but bind one value, so they are refused, and the
  refusal is ignored.\<close>

theorem patch_pending_refused:
  "patch_pending_with_ids x e chain_task_id chain_agent_id s = s"
  by (rule patch_pending_noop)

end
