(* ===== verification/Engine.thy ===== *)
theory Engine
  imports Complex_Main Api_Model Reference_Libs
begin

text \<open>
  Task execution: the agent interface and EchoAgent (src/sdk/rust/src/lib.rs), the WASM host
  (src/runtimes/wasm-rust/src/lib.rs), the guest compiled from EchoAgent
  (src/agents/foundation/echo-wasm/src/lib.rs) and the engines of the orchestrator
  (src/orchestrator/api/src/execution.rs). Wasmtime is a parameter: a loaded module is what it
  exports.
\<close>

section \<open>UTF-8 validation of the standard library\<close>

definition byte_in :: "nat \<times> nat \<Rightarrow> u8 \<Rightarrow> bool" where
  "byte_in r b = (fst r \<le> unat b \<and> unat b \<le> snd r)"

text \<open>The ranges of the bytes that may follow a first byte.\<close>

definition utf8_follow :: "u8 \<Rightarrow> (nat \<times> nat) list option" where
  "utf8_follow b =
     (let n = unat b; c = (0x80, 0xBF) in
      if n < 0x80 then Some []
      else if 0xC2 \<le> n \<and> n \<le> 0xDF then Some [c]
      else if n = 0xE0 then Some [(0xA0, 0xBF), c]
      else if n = 0xED then Some [(0x80, 0x9F), c]
      else if 0xE1 \<le> n \<and> n \<le> 0xEF then Some [c, c]
      else if n = 0xF0 then Some [(0x90, 0xBF), c, c]
      else if 0xF1 \<le> n \<and> n \<le> 0xF3 then Some [c, c, c]
      else if n = 0xF4 then Some [(0x80, 0x8F), c, c]
      else None)"

fun utf8_rest :: "(nat \<times> nat) list \<Rightarrow> bytes \<Rightarrow> bytes option" where
  "utf8_rest [] bs = Some bs"
| "utf8_rest (r # rs) [] = None"
| "utf8_rest (r # rs) (b # bs) = (if byte_in r b then utf8_rest rs bs else None)"

lemma utf8_rest_length: "utf8_rest rs bs = Some cs \<Longrightarrow> length cs \<le> length bs"
  by (induction rs bs rule: utf8_rest.induct) (auto split: if_splits)

function valid_utf8 :: "bytes \<Rightarrow> bool" where
  "valid_utf8 [] = True"
| "valid_utf8 (b # bs) =
     (case utf8_follow b of
        None \<Rightarrow> False
      | Some rs \<Rightarrow> (case utf8_rest rs bs of None \<Rightarrow> False | Some cs \<Rightarrow> valid_utf8 cs))"
  by pat_completeness auto
termination
  by (relation "measure length") (auto dest: utf8_rest_length)

definition from_utf8 :: "bytes \<Rightarrow> string + string" where
  "from_utf8 bs = (if valid_utf8 bs then Ok (of_bytes bs) else Err ''invalid utf-8 sequence'')"

section \<open>The agent interface\<close>

datatype agent_error = SerializationErr string | RuntimeErr string

fun agent_error_display :: "agent_error \<Rightarrow> string" where
  "agent_error_display (SerializationErr s) = ''serialization error: '' @ s"
| "agent_error_display (RuntimeErr s) = ''runtime error: '' @ s"

record task_context =
  tc_task_id :: string
  tc_input :: bytes

record cost_estimate =
  ce_estimated_cost :: u64
  ce_confidence :: real
  ce_estimated_duration_secs :: u64

definition input_as_json :: "'j libs \<Rightarrow> task_context \<Rightarrow> agent_error + 'j" where
  "input_as_json L ctx =
     and_then (map_err SerializationErr (from_utf8 (tc_input ctx))) (\<lambda>s.
     map_err SerializationErr (json_from_str L s))"

definition to_output_json :: "'j libs \<Rightarrow> 'j \<Rightarrow> agent_error + bytes" where
  "to_output_json L v = Ok (as_bytes (json_to_string L v))"

definition estimate_cost :: "bytes \<Rightarrow> agent_error + cost_estimate" where
  "estimate_cost spec_bytes =
     (let bytes = of_nat (length spec_bytes) :: u64
      in Ok \<lparr>ce_estimated_cost = bytes, ce_confidence = 1 / 2,
             ce_estimated_duration_secs = bytes div 1024\<rparr>)"

definition can_execute :: "bytes \<Rightarrow> bool" where
  "can_execute spec_bytes = True"

definition echo_metadata :: "'j libs \<Rightarrow> 'j" where
  "echo_metadata L =
     json_object L [(''version'', json_string L ''0.1.0''),
                    (''note'', json_string L ''processed by EchoAgent'')]"

definition echo_execute :: "'j libs \<Rightarrow> task_context \<Rightarrow> agent_error + bytes" where
  "echo_execute L ctx =
     (case input_as_json L ctx of
        Inl _ \<Rightarrow> Ok (tc_input ctx)
      | Inr v \<Rightarrow> to_output_json L (unwrap_or v (json_insert L v ''ainur_echo_metadata'' (echo_metadata L))))"

section \<open>The WASM host\<close>

text \<open>
  A module: instantiation, the exported memory of a fresh instance, and the exported function
  on memory, pointer and length (a trap is an error).
\<close>

record wasm_module =
  wm_instantiate :: "string + unit"
  wm_memory :: "bytes option"
  wm_execute :: "string + (bytes \<Rightarrow> 32 word \<Rightarrow> 32 word \<Rightarrow> string + i64 \<times> bytes)"

definition oob :: string where
  "oob = ''out of bounds memory access''"

definition mem_write :: "bytes \<Rightarrow> nat \<Rightarrow> bytes \<Rightarrow> string + bytes" where
  "mem_write mem off bs =
     (if off + length bs \<le> length mem
      then Ok (take off mem @ bs @ drop (off + length bs) mem) else Err oob)"

definition mem_read :: "bytes \<Rightarrow> nat \<Rightarrow> nat \<Rightarrow> string + bytes" where
  "mem_read mem off n = (if off + n \<le> length mem then Ok (take n (drop off mem)) else Err oob)"

text \<open>\<open>(ret & 0xffffffff) as i32\<close> and \<open>(ret >> 32) as i32\<close>.\<close>

definition ret_ptr :: "i64 \<Rightarrow> i32" where
  "ret_ptr ret = ucast (and ret 0xffffffff)"

definition ret_len :: "i64 \<Rightarrow> i32" where
  "ret_len ret = ucast (signed_drop_bit 32 ret)"

definition pack_ret :: "nat \<Rightarrow> nat \<Rightarrow> i64" where
  "pack_ret out_len out_ptr = or (push_bit 32 (of_nat out_len)) (of_nat out_ptr)"

definition host_execute :: "wasm_module \<Rightarrow> task_context \<Rightarrow> agent_error + bytes" where
  "host_execute m ctx =
     and_then (map_err RuntimeErr (wm_instantiate m)) (\<lambda>_.
     and_then (ok_or (RuntimeErr ''guest module has no exported memory'') (wm_memory m)) (\<lambda>mem.
     and_then (map_err (\<lambda>e. RuntimeErr (''missing execute export: '' @ e)) (wm_execute m)) (\<lambda>execute.
     let len = of_nat (length (tc_input ctx)) :: i32 in
     and_then (map_err RuntimeErr (mem_write mem 0 (tc_input ctx))) (\<lambda>mem'.
     and_then (map_err RuntimeErr (execute mem' 0 len)) (\<lambda>(ret, mem'').
     let out_ptr = ret_ptr ret; out_len = ret_len ret in
     if sint out_len < 0 \<or> sint out_ptr < 0
     then Err (RuntimeErr ''guest returned negative pointer/length'')
     else map_err RuntimeErr (mem_read mem'' (nat (sint out_ptr)) (nat (sint out_len))))))))"

section \<open>The echo guest\<close>

text \<open>
  The guest sees the 64 KiB that start at its heap base as one slice and interprets the pointer
  as an index into that slice; \<open>usize\<close> has 32 bits there.
\<close>

definition GUEST_SLICE :: nat where "GUEST_SLICE = 64 * 1024"

definition usize_saturating_add :: "nat \<Rightarrow> nat \<Rightarrow> nat" where
  "usize_saturating_add a b = min (a + b) (2 ^ 32 - 1)"

definition guest_on_slice :: "'j libs \<Rightarrow> bytes \<Rightarrow> 32 word \<Rightarrow> 32 word \<Rightarrow> i64 \<times> bytes" where
  "guest_on_slice L mem ptr len =
     (let start = unat ptr; end = usize_saturating_add start (unat len) in
      if length mem < end then (- 1, mem)
      else case echo_execute L \<lparr>tc_task_id = [], tc_input = take (end - start) (drop start mem)\<rparr> of
             Inl _ \<Rightarrow> (- 1, mem)
           | Inr output \<Rightarrow>
               if length mem < end + length output then (- 1, mem)
               else (pack_ret (length output) end,
                     take end mem @ output @ drop (end + length output) mem))"

definition guest_execute ::
    "'j libs \<Rightarrow> nat \<Rightarrow> bytes \<Rightarrow> 32 word \<Rightarrow> 32 word \<Rightarrow> string + i64 \<times> bytes" where
  "guest_execute L heap_base mem ptr len =
     (if length mem < heap_base + GUEST_SLICE then Err oob
      else let (ret, slice) = guest_on_slice L (take GUEST_SLICE (drop heap_base mem)) ptr len
           in Ok (ret, take heap_base mem @ slice @ drop (heap_base + GUEST_SLICE) mem))"

definition echo_module :: "'j libs \<Rightarrow> nat \<Rightarrow> nat \<Rightarrow> wasm_module" where
  "echo_module L heap_base pages =
     \<lparr>wm_instantiate = Ok (), wm_memory = Some (replicate pages 0),
      wm_execute = Ok (guest_execute L heap_base)\<rparr>"

section \<open>The engines of the orchestrator\<close>

type_synonym engine = "stored_task \<Rightarrow> api_error + bytes"

definition context_of :: "stored_task \<Rightarrow> task_context" where
  "context_of t = \<lparr>tc_task_id = st_id t, tc_input = ts_input (tk_specification (st_task t))\<rparr>"

definition local_echo_engine :: "'j libs \<Rightarrow> engine" where
  "local_echo_engine L t =
     map_err (\<lambda>e. Internal (agent_error_display e)) (echo_execute L (context_of t))"

definition wasm_engine_from_path :: "(string \<Rightarrow> string + wasm_module) \<Rightarrow> string \<Rightarrow> api_error + wasm_module" where
  "wasm_engine_from_path load path =
     map_err (\<lambda>e. Internal (''failed to load wasm module: '' @ e)) (load path)"

definition wasm_engine :: "wasm_module \<Rightarrow> engine" where
  "wasm_engine m t =
     map_err (\<lambda>e. Internal (agent_error_display e)) (host_execute m (context_of t))"

definition execute_and_build_result ::
    "'j libs \<Rightarrow> engine \<Rightarrow> uuid \<Rightarrow> u64 \<Rightarrow> stored_task \<Rightarrow> string \<Rightarrow> api_error + stored_result" where
  "execute_and_build_result L engine u_id now t agent_id =
     and_then (engine t) (\<lambda>output_bytes.
     result_from_submission L u_id now
       \<lparr>rsub_task_id = st_id t, rsub_agent_id = agent_id,
        rsub_output_base64 = b64_encode L output_bytes\<rparr> t)"

section \<open>What the host makes of the guest's answer\<close>

lemma low_mask: "bit (0xffffffff :: i64) n \<longleftrightarrow> n < 32"
proof -
  have "(0xffffffff :: i64) = mask 32" by (simp add: mask_eq_exp_minus_1)
  then show ?thesis by (simp only: bit_mask_iff) auto
qed

lemma ret_ptr_bit: "bit (ret_ptr w) n \<longleftrightarrow> n < 32 \<and> bit w n"
  by (simp only: ret_ptr_def bit_ucast_iff bit_and_iff low_mask) auto

lemma ret_len_bit: "bit (ret_len w) n \<longleftrightarrow> n < 32 \<and> bit w (32 + n)"
  by (auto simp: ret_len_def bit_ucast_iff bit_signed_drop_bit_iff)

lemma pack_words:
  fixes N P :: "32 word"
  shows "ret_ptr (or (push_bit 32 (ucast N)) (ucast P)) = P"
    and "ret_len (or (push_bit 32 (ucast N)) (ucast P)) = N"
proof -
  show "ret_ptr (or (push_bit 32 (ucast N)) (ucast P)) = P"
    by (rule bit_word_eqI) (auto simp: ret_ptr_bit bit_or_iff bit_push_bit_iff bit_ucast_iff)
  show "ret_len (or (push_bit 32 (ucast N)) (ucast P)) = N"
    by (rule bit_word_eqI)
      (auto simp: ret_len_bit bit_or_iff bit_push_bit_iff bit_ucast_iff dest: bit_imp_le_length)
qed

lemma of_nat_ucast: "n < 2 ^ 32 \<Longrightarrow> (of_nat n :: i64) = ucast (of_nat n :: 32 word)"
  by (simp add: word_unat_eq_iff unat_ucast_up unsigned_of_nat take_bit_nat_eq_self)

lemma sint_small: "n < 2 ^ 31 \<Longrightarrow> sint (of_nat n :: 32 word) = int n"
  by (simp add: signed_of_nat signed_take_bit_int_eq_self)

lemma pack_ret_read:
  assumes "n < 2 ^ 31" "p < 2 ^ 31"
  shows "sint (ret_ptr (pack_ret n p)) = int p" "sint (ret_len (pack_ret n p)) = int n"
  using assms pack_words [of "of_nat n" "of_nat p"]
  by (simp_all add: pack_ret_def of_nat_ucast sint_small)

lemma ret_minus_one: "sint (ret_ptr (- 1)) = - 1" "sint (ret_len (- 1)) = - 1"
proof -
  have "ret_ptr (- 1) = - 1" "ret_len (- 1) = - 1"
    by (rule bit_word_eqI, simp add: ret_ptr_bit ret_len_bit)+
  then show "sint (ret_ptr (- 1)) = - 1" "sint (ret_len (- 1)) = - 1" by simp_all
qed

end
