(* ===== verification/Engine_Props.thy ===== *)
theory Engine_Props
  imports Engine
begin

text \<open>
  The contract of an execution engine, its two implementations, and the properties of the agent,
  the WASM calling convention and the echo guest.
\<close>

section \<open>The contract of ExecutionEngine\<close>

text \<open>
  What the handlers rely on: the output of an engine depends on the input bytes of the task
  alone, so executing a task again (its status changed, its id new) gives the same output.
\<close>

locale execution_engine =
  fixes E :: "'x \<Rightarrow> engine"
  assumes input_only:
    "ts_input (tk_specification (st_task t)) = ts_input (tk_specification (st_task t'))
     \<Longrightarrow> E x t = E x t'"
begin

lemma status_irrelevant: "E x (t\<lparr>st_status := st\<rparr>) = E x t"
  by (rule input_only) simp

text \<open>The result that is filed carries the engine's output for this task and agent.\<close>

lemma result_of_execution:
  assumes "b64_ok L" "execute_and_build_result L (E x) u now t agent = Ok r"
  shows "\<exists>out. E x t = Ok out \<and> tr_output (sr_result r) = out \<and> sr_task_id r = st_id t
     \<and> sr_agent_id r = agent \<and> tr_task_id (sr_result r) = tk_id (st_task t)
     \<and> sr_created_at r = now \<and> sr_id r = uuid_to_string L u"
  using assms
  by (auto simp: execute_and_build_result_def result_from_submission_def build_core_result_def
      b64_ok_def and_then_Ok_iff ok_or_Ok_iff Let_def split: if_splits)

lemma execution_succeeds:
  assumes "b64_ok L" "E x t = Ok out" "\<not> is_blank agent"
  shows "\<exists>r. execute_and_build_result L (E x) u now t agent = Ok r"
  using assms by (simp add: execute_and_build_result_def result_from_submission_def b64_ok_def Let_def)

end

lemma echo_input: "tc_input a = tc_input b \<Longrightarrow> echo_execute L a = echo_execute L b"
  by (simp add: echo_execute_def input_as_json_def cong: sum.case_cong)

interpretation local_engine: execution_engine local_echo_engine
proof
  fix t t' :: stored_task and x :: "'x libs"
  assume "ts_input (tk_specification (st_task t)) = ts_input (tk_specification (st_task t'))"
  then have "echo_execute x (context_of t) = echo_execute x (context_of t')"
    by (intro echo_input) (simp add: context_of_def)
  then show "local_echo_engine x t = local_echo_engine x t'" by (simp add: local_echo_engine_def)
qed

interpretation wasm: execution_engine wasm_engine
  by unfold_locales (simp add: wasm_engine_def context_of_def host_execute_def)

lemma echo_total: "\<exists>out. echo_execute L ctx = Ok out"
  by (simp add: echo_execute_def to_output_json_def split: sum.split)

section \<open>Properties\<close>

text \<open>C20: EchoAgent on a JSON object: it succeeds, its output is the text of the object with the
  annotation \<open>ainur_echo_metadata\<close> set and every other member unchanged.\<close>

theorem echo_annotates:
  assumes "json_ok L" "json_built L v" "json_built L (echo_metadata L)"
    "json_insert L v ''ainur_echo_metadata'' (echo_metadata L) = Some w"
    "tc_input ctx = as_bytes (json_to_string L v)" "valid_utf8 (tc_input ctx)"
  shows "\<exists>out. echo_execute L ctx = Ok out \<and> json_from_str L (of_bytes out) = Ok w
     \<and> (\<forall>k. json_get L w k = (if k = ''ainur_echo_metadata'' then Some (echo_metadata L)
                               else json_get L v k))"
proof -
  have parsed: "json_from_str L (json_to_string L v) = Ok v"
    by (rule json_text_roundtrip [OF assms(1,2)])
  have utf8: "from_utf8 (tc_input ctx) = Ok (json_to_string L v)"
    unfolding from_utf8_def using assms(5,6) by simp
  have "input_as_json L ctx = Ok v"
    by (simp only: input_as_json_def utf8 parsed and_then.simps map_err.simps)
  moreover have "json_built L w" by (rule built_insert [OF assms(2-4)])
  then have "json_from_str L (json_to_string L w) = Ok w" by (rule json_text_roundtrip [OF assms(1)])
  moreover note json_get_insert [OF assms(1,4)]
  ultimately show ?thesis
    using assms(4) by (simp add: echo_execute_def to_output_json_def)
qed

definition demo_object :: ref_json where
  "demo_object = JObj [(''a'', JNat 1)]"

definition demo_annotated :: ref_json where
  "demo_annotated = JObj [(''a'', JNat 1), (''ainur_echo_metadata'', echo_metadata ref_libs)]"

theorem echo_annotates_witness:
  "\<exists>out. echo_execute ref_libs \<lparr>tc_task_id = ''t'', tc_input = as_bytes (enc_json demo_object)\<rparr> = Ok out
     \<and> json_from_str ref_libs (of_bytes out) = Ok demo_annotated
     \<and> (\<forall>k. json_get ref_libs demo_annotated k
            = (if k = ''ainur_echo_metadata'' then Some (echo_metadata ref_libs)
               else json_get ref_libs demo_object k))"
proof (rule echo_annotates [OF ref_json_ok])
  have str: "json_built ref_libs (JStr s)" for s
    using built_string [of ref_libs s] by simp
  have nat: "json_built ref_libs (JNat n)" for n
    using built_u64 [of ref_libs n] by simp
  have obj: "json_built ref_libs (JObj kvs)"
    if "distinct (map fst kvs)" "\<And>k v. (k, v) \<in> set kvs \<Longrightarrow> json_built ref_libs v" for kvs
    using built_object [OF that] by simp
  show "json_built ref_libs demo_object"
    unfolding demo_object_def by (rule obj) (auto intro: nat)
  show "json_built ref_libs (echo_metadata ref_libs)"
    unfolding echo_metadata_def using str by (simp, intro obj) auto
  have "valid_utf8 (as_bytes ''o1;1;an1;'')" by code_simp
  moreover have "enc_json demo_object = ''o1;1;an1;''" by code_simp
  ultimately show "valid_utf8 (tc_input \<lparr>tc_task_id = ''t'', tc_input = as_bytes (enc_json demo_object)\<rparr>)"
    by simp
qed (simp_all add: demo_object_def demo_annotated_def)

text \<open>EchoAgent never fails, and input that is not JSON text comes back unchanged.\<close>

theorem echo_never_fails:
  "\<exists>out. local_echo_engine L t = Ok out
     \<and> (is_ok (input_as_json L (context_of t)) \<or> out = ts_input (tk_specification (st_task t)))"
proof -
  obtain out where out: "echo_execute L (context_of t) = Ok out" using echo_total by blast
  then have "is_ok (input_as_json L (context_of t)) \<or> out = ts_input (tk_specification (st_task t))"
    by (cases "input_as_json L (context_of t)") (auto simp: echo_execute_def context_of_def)
  then show ?thesis using out by (simp add: local_echo_engine_def)
qed

text \<open>The calling convention of the guest is lossless: a length and a pointer below $2^{31}$
  are read back from the packed 64-bit answer, and the error answer $-1$ is read as negative.\<close>

theorem packed_answer_roundtrip:
  assumes "out_len < 2 ^ 31" "out_ptr < 2 ^ 31"
  shows "sint (ret_ptr (pack_ret out_len out_ptr)) = int out_ptr
     \<and> sint (ret_len (pack_ret out_len out_ptr)) = int out_len
     \<and> sint (ret_ptr (- 1)) < 0"
  using pack_ret_read [OF assms] ret_minus_one by simp

theorem packed_answer_roundtrip_witness:
  "sint (ret_ptr (pack_ret 70000 65535)) = 65535 \<and> sint (ret_len (pack_ret 70000 65535)) = 70000
   \<and> sint (ret_ptr (- 1)) < 0"
  using packed_answer_roundtrip [of 70000 65535] by simp

section \<open>The echo guest in the host\<close>

lemma guest_on_slice_echo:
  assumes "length mem = GUEST_SLICE" "unat len \<le> GUEST_SLICE"
    "echo_execute L \<lparr>tc_task_id = [], tc_input = take (unat len) mem\<rparr> = Ok out"
  shows "guest_on_slice L mem 0 len =
     (if unat len + length out \<le> GUEST_SLICE
      then (pack_ret (length out) (unat len),
            take (unat len) mem @ out @ drop (unat len + length out) mem)
      else (- 1, mem))"
proof -
  have "usize_saturating_add 0 (unat len) = unat len"
    using assms(2) by (simp add: usize_saturating_add_def GUEST_SLICE_def)
  then show ?thesis using assms by (simp add: guest_on_slice_def Let_def)
qed

lemma mem_read_mid: "n = length a \<Longrightarrow> m = length b \<Longrightarrow> mem_read (a @ b @ c) n m = Ok b"
  by (simp add: mem_read_def)


text \<open>The host on a module whose guest answers, step by step.\<close>

lemma host_execute_echo:
  assumes "length (tc_input ctx) \<le> pages" "pages < 2 ^ 31"
    "guest_execute L h (tc_input ctx @ replicate (pages - length (tc_input ctx)) 0) 0
       (of_nat (length (tc_input ctx))) = Ok (ret, mem'')"
  shows "host_execute (echo_module L h pages) ctx =
     (if sint (ret_len ret) < 0 \<or> sint (ret_ptr ret) < 0
      then Err (RuntimeErr ''guest returned negative pointer/length'')
      else map_err RuntimeErr (mem_read mem'' (nat (sint (ret_ptr ret))) (nat (sint (ret_len ret)))))"
  using assms by (simp add: host_execute_def echo_module_def mem_write_def)


definition demo_context :: task_context where
  "demo_context = \<lparr>tc_task_id = [], tc_input = [104, 105]\<rparr>"

lemma demo_echo:
  "echo_execute ref_libs demo_context = Ok [104, 105]"
  "echo_execute ref_libs \<lparr>tc_task_id = [], tc_input = [0, 0]\<rparr> = Ok [0, 0]"
  by code_simp+


text \<open>With a heap base above the input, the guest never sees the input: the host writes it at
  address 0 and the guest reads at its heap base, so what is echoed is as many zero bytes as the
  input has, and the host reads the answer at an address relative to another base.\<close>

theorem wasm_echo_heap_base:
  assumes "0 < h" "length (tc_input ctx) \<le> h" "h + GUEST_SLICE \<le> pages" "pages < 2 ^ 31"
    "2 * length (tc_input ctx) \<le> h" "2 * length (tc_input ctx) \<le> GUEST_SLICE"
    "echo_execute L \<lparr>tc_task_id = [], tc_input = replicate (length (tc_input ctx)) 0\<rparr>
       = Ok (replicate (length (tc_input ctx)) 0)"
  shows "host_execute (echo_module L h pages) ctx = Ok (replicate (length (tc_input ctx)) 0)"
proof -
  let ?in = "tc_input ctx" and ?n = "length (tc_input ctx)"
  let ?len = "of_nat ?n :: 32 word"
  let ?zeros = "\<lambda>k. replicate k (0 :: u8)"
  let ?mem = "?in @ ?zeros (pages - ?n)"
  have len: "unat ?len = ?n"
    using assms(6) by (simp add: GUEST_SLICE_def unsigned_of_nat take_bit_nat_eq_self)
  have slice: "take GUEST_SLICE (drop h ?mem) = ?zeros GUEST_SLICE"
    using assms(2,3) by (simp add: min_def)
  have "guest_on_slice L (?zeros GUEST_SLICE) 0 ?len =
      (pack_ret ?n ?n, ?zeros ?n @ ?zeros ?n @ ?zeros (GUEST_SLICE - (?n + ?n)))"
    using guest_on_slice_echo [of "?zeros GUEST_SLICE" ?len L "?zeros ?n"] len assms(6,7)
    by (simp add: min_def)
  then have guest: "guest_execute L h ?mem 0 ?len = Ok (pack_ret ?n ?n,
      take h ?mem @ (?zeros ?n @ ?zeros ?n @ ?zeros (GUEST_SLICE - (?n + ?n)))
      @ drop (h + GUEST_SLICE) ?mem)"
    using slice assms(2,3) by (simp add: guest_execute_def)
  obtain rest where mem: "take h ?mem @ (?zeros ?n @ ?zeros ?n @ ?zeros (GUEST_SLICE - (?n + ?n)))
      @ drop (h + GUEST_SLICE) ?mem = ?in @ ?zeros ?n @ rest"
  proof
    have "take h ?mem = ?in @ ?zeros (h - ?n)" using assms(2,3) by (simp add: min_def)
    also have "?zeros (h - ?n) = ?zeros ?n @ ?zeros (h - 2 * ?n)"
      using assms(5) by (simp flip: replicate_add)
    finally show "take h ?mem @ (?zeros ?n @ ?zeros ?n @ ?zeros (GUEST_SLICE - (?n + ?n)))
        @ drop (h + GUEST_SLICE) ?mem = ?in @ ?zeros ?n
        @ (?zeros (h - 2 * ?n) @ (?zeros ?n @ ?zeros ?n @ ?zeros (GUEST_SLICE - (?n + ?n)))
           @ drop (h + GUEST_SLICE) ?mem)"
      by simp
  qed
  have "mem_read (?in @ ?zeros ?n @ rest) ?n ?n = Ok (?zeros ?n)"
    by (rule mem_read_mid) simp_all
  moreover have "sint (ret_ptr (pack_ret ?n ?n)) = int ?n" "sint (ret_len (pack_ret ?n ?n)) = int ?n"
    using assms(6) by (simp_all add: pack_ret_read GUEST_SLICE_def)
  moreover have "?n \<le> pages" using assms(2,3) by simp
  moreover note host_execute_echo [OF _ assms(4) guest [unfolded mem]]
  ultimately show ?thesis by simp
qed

theorem wasm_echo_heap_base_witness:
  "host_execute (echo_module ref_libs 1024 131072) demo_context = Ok [0, 0]
   \<and> tc_input demo_context \<noteq> [0, 0]"
proof -
  have two: "length (tc_input demo_context) = 2" "replicate 2 0 = [0, 0 :: u8]"
    by (simp_all add: demo_context_def numeral_2_eq_2)
  have "host_execute (echo_module ref_libs 1024 131072) demo_context
      = Ok (replicate (length (tc_input demo_context)) 0)"
    by (rule wasm_echo_heap_base) (simp_all only: two demo_echo, simp_all add: GUEST_SLICE_def)
  then show ?thesis by (simp only: two) (simp add: demo_context_def)
qed

end
