(* ===== verification/Handlers.thy ===== *)
theory Handlers
  imports Storage_Spec Payload Engine
begin

text \<open>
  The HTTP handlers of src/orchestrator/api/src/main.rs, built with all features: each handler
  over the state of the store, with the environment of its calls, its fresh UUIDs and its clock
  as arguments. A handler returns its response and the store; what was written before an error
  stays written. The extractors of axum (a malformed body never reaches a handler) and tracing
  are outside.
\<close>

section \<open>Application state and the arguments of a request\<close>

record outbox_status_view =
  ov_correlation_id :: string
  ov_pallet :: string
  ov_call :: string
  ov_status :: string
  ov_retry_count :: i32
  ov_last_error :: "string option"
  ov_created_at :: "string option"
  ov_processed_at :: "string option"

text \<open>The queries that handlers send to the pool themselves.\<close>

record ('s, 'e) pool_ops =
  po_chain_ids :: "'e \<Rightarrow> string \<Rightarrow> string \<Rightarrow> 's \<Rightarrow> i64 \<times> i64"
  po_counts :: "'e \<Rightarrow> 's \<Rightarrow> api_error + nat \<times> nat \<times> nat"
  po_status :: "'e \<Rightarrow> string \<Rightarrow> 's \<Rightarrow> api_error + outbox_status_view"
  po_list :: "'e \<Rightarrow> string option \<Rightarrow> int \<Rightarrow> int \<Rightarrow> 's \<Rightarrow> api_error + outbox_status_view list"

record ('j, 's, 'e) app_state =
  as_libs :: "'j libs"
  as_storage :: "('s, 'e) storage_ops"
  as_sink :: "('s, 'e) sink_ops"
  as_engine :: engine
  as_pool :: "('s, 'e) pool_ops option"

record 'e call =
  cl_env :: "nat \<Rightarrow> 'e"
  cl_uuid :: "nat \<Rightarrow> uuid"
  cl_clock :: int

type_synonym ('r, 's) reply = "(api_error + 'r) \<times> 's"

definition result_map :: "('a \<Rightarrow> 'b) \<Rightarrow> 'e + 'a \<Rightarrow> 'e + 'b" where
  "result_map f r = and_then r (\<lambda>x. Ok (f x))"

text \<open>The \<open>?\<close> on a call that writes: the new store on success, the old one with the error.\<close>

definition store_then :: "api_error + 's \<Rightarrow> 's \<Rightarrow> ('s \<Rightarrow> ('r, 's) reply) \<Rightarrow> ('r, 's) reply" where
  "store_then r s k = (case r of Inl e \<Rightarrow> (Err e, s) | Inr s' \<Rightarrow> k s')"

text \<open>The \<open>?\<close> on a call that reads.\<close>

definition read_then :: "api_error + 'a \<Rightarrow> 's \<Rightarrow> ('a \<Rightarrow> ('r, 's) reply) \<Rightarrow> ('r, 's) reply" where
  "read_then r s k = (case r of Inl e \<Rightarrow> (Err e, s) | Inr x \<Rightarrow> k x)"

abbreviation fresh_id :: "('j, 's, 'e) app_state \<Rightarrow> 'e call \<Rightarrow> nat \<Rightarrow> string" where
  "fresh_id A c n \<equiv> uuid_to_string (as_libs A) (cl_uuid c n)"

abbreviation now_of :: "'e call \<Rightarrow> u64" where
  "now_of c \<equiv> current_unix_timestamp (cl_clock c)"

section \<open>Enqueueing extrinsics\<close>

text \<open>\<open>record_outbound_extrinsic\<close> of chain.rs.\<close>

definition record_outbound_extrinsic ::
    "('s, 'e) sink_ops \<Rightarrow> 'e \<Rightarrow> string \<Rightarrow> string \<Rightarrow> string \<Rightarrow> string option \<Rightarrow> 's
     \<Rightarrow> api_error + 's" where
  "record_outbound_extrinsic K e corr pallet call payload s =
     op_record_outbound_extrinsic K e corr pallet call payload ''pending'' s"

text \<open>
  The tail shared by four handlers: validate the payload, record it, and give the correlation
  id; either failure is logged and dropped.
\<close>

definition enqueue ::
    "('j, 's, 'e) app_state \<Rightarrow> 'e \<Rightarrow> string \<Rightarrow> string \<Rightarrow> string \<Rightarrow> string \<Rightarrow> 's
     \<Rightarrow> string option \<times> 's" where
  "enqueue A e corr pallet call payload s =
     (case validate_outbox_payload (as_libs A) pallet call (Some payload) of
        Inl err \<Rightarrow> (None, s)
      | Inr _ \<Rightarrow>
          (case record_outbound_extrinsic (as_sink A) e corr pallet call (Some payload) s of
             Inl err \<Rightarrow> (None, s)
           | Inr s' \<Rightarrow> (Some corr, s')))"

definition with_correlation :: "string option \<times> 's \<Rightarrow> 'r \<Rightarrow> ('r response_with_correlation, 's) reply" where
  "with_correlation cs r = (Ok \<lparr>rc_correlation_id = fst cs, rc_data = r\<rparr>, snd cs)"

section \<open>Agents\<close>

definition agent_payload :: "'j libs \<Rightarrow> agent_registration \<Rightarrow> 'j" where
  "agent_payload L a =
     json_object L
       [(''did'', json_string L (ar_id a)), (''capabilities'', json_array L []),
        (''metadata'', json_string L (ar_label a)),
        (''verification_level'', json_string L ''best_effort'')]"

definition register_agent ::
    "('j, 's, 'e) app_state \<Rightarrow> 'e call \<Rightarrow> agent_registration \<Rightarrow> 's
     \<Rightarrow> (agent_registration response_with_correlation, 's) reply" where
  "register_agent A c a s =
     (if is_blank (ar_id a) then (Err (BadRequest ''agent id must not be empty''), s)
      else if is_blank (ar_label a) then (Err (BadRequest ''agent label must not be empty''), s)
      else store_then (op_register_agent (as_storage A) (cl_env c 0) a s) s (\<lambda>s1.
        with_correlation
          (enqueue A (cl_env c 1) (fresh_id A c 0) ''AgentRegistry'' ''register_agent''
             (json_to_string (as_libs A) (agent_payload (as_libs A) a)) s1)
          \<lparr>ar_id = ar_id a, ar_label = ar_label a\<rparr>))"

definition get_agent ::
    "('j, 's, 'e) app_state \<Rightarrow> 'e call \<Rightarrow> string \<Rightarrow> 's \<Rightarrow> api_error + agent_registration" where
  "get_agent A c i s = op_get_agent (as_storage A) (cl_env c 0) i s"

definition list_agents ::
    "('j, 's, 'e) app_state \<Rightarrow> 'e call \<Rightarrow> 's \<Rightarrow> api_error + agent_registration list" where
  "list_agents A c s = op_list_agents (as_storage A) (cl_env c 0) s"

section \<open>Tasks\<close>

text \<open>The budget is a \<open>u128\<close>: the \<open>json!\<close> macro panics when it does not fit a \<open>u64\<close>.\<close>

definition task_payload :: "'j libs \<Rightarrow> bytes \<Rightarrow> task_view \<Rightarrow> 'j option" where
  "task_payload L spec_hash v =
     map_option (\<lambda>budget.
       json_object L
         [(''spec_hash'', json_string L (hex_0x L spec_hash)), (''budget'', budget),
          (''deadline'', json_u64 L (tv_deadline v)),
          (''verification_level'', json_string L ''best_effort'')])
       (json_u128 L (tv_max_budget v))"

definition submit_task ::
    "('j, 's, 'e) app_state \<Rightarrow> 'e call \<Rightarrow> task_submission \<Rightarrow> 's
     \<Rightarrow> (api_error + task_view response_with_correlation) run \<times> 's" where
  "submit_task A c sub s =
     (case task_from_submission (as_libs A) (cl_uuid c 0) (cl_uuid c 1) (now_of c) sub of
        Inl e \<Rightarrow> (Return (Err e), s)
      | Inr stored \<Rightarrow>
          let spec_hash = blake3_hash (as_libs A) (ts_input (tk_specification (st_task stored)));
              view = task_to_view stored
          in (case op_insert_task (as_storage A) (cl_env c 0) stored s of
                Inl e \<Rightarrow> (Return (Err e), s)
              | Inr s1 \<Rightarrow>
                  (case task_payload (as_libs A) spec_hash view of
                     None \<Rightarrow> (Panic, s1)
                   | Some j \<Rightarrow>
                       let (corr, s2) =
                             enqueue A (cl_env c 1) (fresh_id A c 2) ''TaskMarket'' ''create_task''
                               (json_to_string (as_libs A) j) s1
                       in (Return (Ok \<lparr>rc_correlation_id = corr, rc_data = view\<rparr>), s2))))"

definition get_task ::
    "('j, 's, 'e) app_state \<Rightarrow> 'e call \<Rightarrow> string \<Rightarrow> 's \<Rightarrow> api_error + task_view" where
  "get_task A c i s = result_map task_to_view (op_get_task (as_storage A) (cl_env c 0) i s)"

definition list_tasks :: "('j, 's, 'e) app_state \<Rightarrow> 'e call \<Rightarrow> 's \<Rightarrow> api_error + task_view list" where
  "list_tasks A c s = result_map (map task_to_view) (op_list_tasks (as_storage A) (cl_env c 0) s)"

section \<open>Bids\<close>

definition chain_ids :: "('j, 's, 'e) app_state \<Rightarrow> 'e \<Rightarrow> string \<Rightarrow> string \<Rightarrow> 's \<Rightarrow> i64 \<times> i64" where
  "chain_ids A e task agent s =
     (case as_pool A of Some p \<Rightarrow> po_chain_ids p e task agent s | None \<Rightarrow> (0, 0))"

definition bid_payload :: "'j libs \<Rightarrow> i64 \<times> i64 \<Rightarrow> bid_view \<Rightarrow> 'j" where
  "bid_payload L ids v =
     json_object L
       [(''task_id'', json_i64 L (fst ids)), (''agent_id'', json_i64 L (snd ids)),
        (''commitment'', json_string L
           (hex_0x L (blake3_hash L (as_bytes (bv_task_id v @ '':'' @ bv_agent_id v))))),
        (''estimated_duration'', json_u64 L (bv_completion_time v))]"

definition submit_bid ::
    "('j, 's, 'e) app_state \<Rightarrow> 'e call \<Rightarrow> bid_submission \<Rightarrow> 's
     \<Rightarrow> (bid_view response_with_correlation, 's) reply" where
  "submit_bid A c sub s =
     read_then (op_get_task (as_storage A) (cl_env c 0) (bsub_task_id sub) s) s (\<lambda>t.
     read_then (bid_from_submission (as_libs A) (cl_uuid c 0) (now_of c) sub t) s (\<lambda>stored.
     let view = bid_to_view stored in
     store_then (op_insert_bid (as_storage A) (cl_env c 1) stored s) s (\<lambda>s1.
     let ids = chain_ids A (cl_env c 2) (bv_task_id view) (bv_agent_id view) s1 in
     with_correlation
       (enqueue A (cl_env c 3) (fresh_id A c 1) ''TaskMarket'' ''submit_bid''
          (json_to_string (as_libs A) (bid_payload (as_libs A) ids view)) s1)
       view)))"

definition get_bids_for_task ::
    "('j, 's, 'e) app_state \<Rightarrow> 'e call \<Rightarrow> string \<Rightarrow> 's \<Rightarrow> api_error + bid_view list" where
  "get_bids_for_task A c i s =
     and_then (op_get_task (as_storage A) (cl_env c 0) i s) (\<lambda>_.
     result_map (map bid_to_view) (op_get_bids_for_task (as_storage A) (cl_env c 1) i s))"

section \<open>Results\<close>

definition result_payload :: "'j libs \<Rightarrow> i64 \<times> i64 \<Rightarrow> result_view \<Rightarrow> 'j" where
  "result_payload L ids v =
     json_object L
       [(''task_id'', json_i64 L (fst ids)), (''agent_id'', json_i64 L (snd ids)),
        (''result_hash'', json_string L
           (hex_0x L (blake3_hash L (as_bytes (rv_output_base64 v))))),
        (''proof'', json_string L [])]"

definition submit_result ::
    "('j, 's, 'e) app_state \<Rightarrow> 'e call \<Rightarrow> result_submission \<Rightarrow> 's
     \<Rightarrow> (result_view response_with_correlation, 's) reply" where
  "submit_result A c sub s =
     read_then (op_get_task (as_storage A) (cl_env c 0) (rsub_task_id sub) s) s (\<lambda>t.
     read_then (result_from_submission (as_libs A) (cl_uuid c 0) (now_of c) sub t) s (\<lambda>stored.
     store_then (op_upsert_task (as_storage A) (cl_env c 1) (t\<lparr>st_status := Completed\<rparr>) s) s (\<lambda>s1.
     let view = result_to_view (as_libs A) stored in
     store_then (op_insert_result (as_storage A) (cl_env c 2) stored s1) s1 (\<lambda>s2.
     let ids = chain_ids A (cl_env c 3) (rv_task_id view) (rv_agent_id view) s2 in
     with_correlation
       (enqueue A (cl_env c 4) (fresh_id A c 1) ''TaskMarket'' ''submit_result''
          (json_to_string (as_libs A) (result_payload (as_libs A) ids view)) s2)
       view))))"

definition get_task_result ::
    "('j, 's, 'e) app_state \<Rightarrow> 'e call \<Rightarrow> string \<Rightarrow> 's \<Rightarrow> api_error + result_view" where
  "get_task_result A c i s =
     and_then (op_get_task (as_storage A) (cl_env c 0) i s) (\<lambda>_.
     result_map (result_to_view (as_libs A)) (op_get_result_for_task (as_storage A) (cl_env c 1) i s))"

definition execute_task_local ::
    "('j, 's, 'e) app_state \<Rightarrow> 'e call \<Rightarrow> string \<Rightarrow> 's \<Rightarrow> (result_view, 's) reply" where
  "execute_task_local A c i s =
     read_then (op_get_task (as_storage A) (cl_env c 0) i s) s (\<lambda>t.
     read_then (execute_and_build_result (as_libs A) (as_engine A) (cl_uuid c 0) (now_of c) t
                  ''local-echo'') s (\<lambda>stored.
     store_then (op_upsert_task (as_storage A) (cl_env c 1) (t\<lparr>st_status := Completed\<rparr>) s) s (\<lambda>s1.
     let view = result_to_view (as_libs A) stored in
     store_then (op_insert_result (as_storage A) (cl_env c 2) stored s1) s1 (\<lambda>s2.
     (Ok view, s2)))))"

section \<open>Dashboard, synchronisation and faucet\<close>

definition get_dashboard :: "('j, 's, 'e) app_state \<Rightarrow> 'e call \<Rightarrow> 's \<Rightarrow> api_error + dashboard_view" where
  "get_dashboard A c s =
     result_map (\<lambda>(total_agents, total_tasks, completed_tasks, pending_tasks).
       \<lparr>dv_total_agents = total_agents, dv_total_tasks = total_tasks,
        dv_completed_tasks = completed_tasks, dv_pending_tasks = pending_tasks\<rparr>)
       (op_dashboard_counts (as_storage A) (cl_env c 0) s)"

record sync_status_view =
  sv_chain_cursor :: "(u64 \<times> u32) option"
  sv_outbox_pending :: "nat option"
  sv_outbox_failed :: "nat option"
  sv_outbox_dead :: "nat option"

definition get_sync_status :: "('j, 's, 'e) app_state \<Rightarrow> 'e call \<Rightarrow> 's \<Rightarrow> api_error + sync_status_view" where
  "get_sync_status A c s =
     and_then (op_last_chain_cursor (as_sink A) (cl_env c 0) s) (\<lambda>cursor.
     and_then (case as_pool A of
                 Some p \<Rightarrow> result_map (\<lambda>(a, b, d). (Some a, Some b, Some d)) (po_counts p (cl_env c 1) s)
               | None \<Rightarrow> Ok (None, None, None)) (\<lambda>(pending, failed, dead).
     Ok \<lparr>sv_chain_cursor = cursor, sv_outbox_pending = pending, sv_outbox_failed = failed,
         sv_outbox_dead = dead\<rparr>))"

definition DEFAULT_FAUCET_AMOUNT :: u64 where
  "DEFAULT_FAUCET_AMOUNT = 1000000000000"

definition faucet_payload :: "'j libs \<Rightarrow> string \<Rightarrow> u64 \<Rightarrow> 'j" where
  "faucet_payload L addr amount =
     json_object L [(''address'', json_string L addr), (''amount'', json_u64 L amount)]"

definition request_faucet ::
    "('j, 's, 'e) app_state \<Rightarrow> 'e call \<Rightarrow> 'j \<Rightarrow> 's \<Rightarrow> ('j response_with_correlation, 's) reply" where
  "request_faucet A c body s =
     (let L = as_libs A in
      read_then (ok_or (BadRequest ''address is required'')
                   (Option.bind (json_get L body ''address'') (json_as_str L))) s (\<lambda>addr.
      let amount = unwrap_or DEFAULT_FAUCET_AMOUNT
                     (Option.bind (json_get L body ''amount'') (json_as_u64 L));
          payload = json_to_string L (faucet_payload L addr amount)
      in
      read_then (validate_outbox_payload L ''Balances'' ''transfer_allow_death'' (Some payload)) s (\<lambda>_.
      store_then (record_outbound_extrinsic (as_sink A) (cl_env c 0) (fresh_id A c 0) ''Balances''
                    ''transfer_allow_death'' (Some payload) s) s (\<lambda>s1.
      (Ok \<lparr>rc_correlation_id = Some (fresh_id A c 0), rc_data = faucet_payload L addr amount\<rparr>, s1)))))"

section \<open>The outbox endpoints\<close>

record 'j outbound_request =
  or_pallet :: string
  or_call :: string
  or_payload :: 'j

record outbox_enqueue_response =
  oe_correlation_id :: string
  oe_status :: string

definition MAX_PAYLOAD_BYTES :: nat where "MAX_PAYLOAD_BYTES = 4096"

definition payload_text :: "'j libs \<Rightarrow> 'j \<Rightarrow> string option" where
  "payload_text L v =
     (if json_is_null L v \<or> json_is_empty_object L v then None else Some (json_to_string L v))"

definition enqueue_outbox ::
    "('j, 's, 'e) app_state \<Rightarrow> 'e call \<Rightarrow> 'j outbound_request \<Rightarrow> 's
     \<Rightarrow> (outbox_enqueue_response, 's) reply" where
  "enqueue_outbox A c req s =
     (let payload_str = payload_text (as_libs A) (or_payload req) in
      if (case payload_str of Some p \<Rightarrow> MAX_PAYLOAD_BYTES < length p | None \<Rightarrow> False)
      then (Err (BadRequest (''payload exceeds '' @ dec MAX_PAYLOAD_BYTES @ '' bytes'')), s)
      else
      read_then (map_err (\<lambda>e. BadRequest (''invalid payload: '' @ api_error_display e))
                   (validate_outbox_payload (as_libs A) (or_pallet req) (or_call req) payload_str)) s (\<lambda>_.
      store_then (record_outbound_extrinsic (as_sink A) (cl_env c 0) (fresh_id A c 0)
                    (or_pallet req) (or_call req) payload_str s) s (\<lambda>s1.
      (Ok \<lparr>oe_correlation_id = fresh_id A c 0, oe_status = ''queued''\<rparr>, s1))))"

definition get_outbox_status ::
    "('j, 's, 'e) app_state \<Rightarrow> 'e call \<Rightarrow> string \<Rightarrow> 's \<Rightarrow> api_error + outbox_status_view" where
  "get_outbox_status A c i s =
     and_then (ok_or (BadRequest ''outbox status requires Postgres backend'') (as_pool A)) (\<lambda>p.
     po_status p (cl_env c 0) i s)"

record outbox_query =
  oq_status :: "string option"
  oq_limit :: "i64 option"
  oq_offset :: "i64 option"

definition status_filter :: "string option \<Rightarrow> string option" where
  "status_filter st =
     (case map_option to_lowercase st of
        Some l \<Rightarrow> if l \<in> {''pending'', ''failed'', ''finalized'', ''dead''} then Some l else None
      | None \<Rightarrow> None)"

definition clamp_limit :: "i64 option \<Rightarrow> int" where
  "clamp_limit limit = max 1 (min 200 (sint (unwrap_or 50 limit)))"

definition clamp_offset :: "i64 option \<Rightarrow> int" where
  "clamp_offset offset = max 0 (sint (unwrap_or 0 offset))"

definition list_outbox ::
    "('j, 's, 'e) app_state \<Rightarrow> 'e call \<Rightarrow> outbox_query \<Rightarrow> 's
     \<Rightarrow> api_error + outbox_status_view list" where
  "list_outbox A c q s =
     and_then (ok_or (BadRequest ''outbox listing requires Postgres backend'') (as_pool A)) (\<lambda>p.
     po_list p (cl_env c 0) (status_filter (oq_status q)) (clamp_limit (oq_limit q))
       (clamp_offset (oq_offset q)) s)"

end
