(* ===== verification/App_Spec.thy ===== *)
theory App_Spec
  imports Handlers
begin

text \<open>
  The handlers over any backend: the locale \<open>backend\<close> adds to the storage contract that
  recording an outbound extrinsic leaves the stored entities alone, and proves once what each
  handler does to the store. \<open>app_step\<close> is one request of any kind, as a step relation.
\<close>

section \<open>Requests as steps\<close>

text \<open>
  \<open>fresh\<close> says that an identifier is not in use; the version 4 UUIDs that a request draws are
  fresh.
\<close>

inductive app_step :: "('j, 's, 'e) app_state \<Rightarrow> ('s \<Rightarrow> string \<Rightarrow> bool) \<Rightarrow> 's \<Rightarrow> 's \<Rightarrow> bool"
  for A fresh where
  Step_Register:
    "register_agent A c a s = (r, s') \<Longrightarrow> \<forall>n. fresh s (fresh_id A c n) \<Longrightarrow> app_step A fresh s s'"
| Step_Task:
    "submit_task A c sub s = (r, s') \<Longrightarrow> \<forall>n. fresh s (fresh_id A c n) \<Longrightarrow> app_step A fresh s s'"
| Step_Bid:
    "submit_bid A c bsub s = (r, s') \<Longrightarrow> \<forall>n. fresh s (fresh_id A c n) \<Longrightarrow> app_step A fresh s s'"
| Step_Result:
    "submit_result A c rsub s = (r, s') \<Longrightarrow> \<forall>n. fresh s (fresh_id A c n) \<Longrightarrow> app_step A fresh s s'"
| Step_Execute:
    "execute_task_local A c i s = (r, s') \<Longrightarrow> \<forall>n. fresh s (fresh_id A c n) \<Longrightarrow> app_step A fresh s s'"
| Step_Faucet:
    "request_faucet A c body s = (r, s') \<Longrightarrow> \<forall>n. fresh s (fresh_id A c n) \<Longrightarrow> app_step A fresh s s'"
| Step_Enqueue:
    "enqueue_outbox A c req s = (r, s') \<Longrightarrow> \<forall>n. fresh s (fresh_id A c n) \<Longrightarrow> app_step A fresh s s'"

inductive_cases app_stepE: "app_step A fresh s s'"

section \<open>How replies arise\<close>

lemma store_thenE:
  assumes "store_then q s k = (r, s')"
  obtains (refused) e where "q = Err e" "r = Err e" "s' = s"
    | (written) s1 where "q = Ok s1" "k s1 = (r, s')"
  using assms by (auto simp: store_then_def split: sum.splits)

lemma read_thenE:
  assumes "read_then q s k = (r, s')"
  obtains (failed) e where "q = Err e" "r = Err e" "s' = s"
    | (got) v where "q = Ok v" "k v = (r, s')"
  using assms by (auto simp: read_then_def split: sum.splits)

lemma with_correlation_iff:
  "with_correlation cs v = (r, s') \<longleftrightarrow>
     cs = (fst cs, s') \<and> r = Ok \<lparr>rc_correlation_id = fst cs, rc_data = v\<rparr>"
  by (cases cs) (auto simp: with_correlation_def)

lemma register_agent_cases:
  assumes "register_agent A c a s = (r, s')"
  obtains (refused) e where "r = Err e" "s' = s"
    | (stored) s1 co where "op_register_agent (as_storage A) (cl_env c 0) a s = Ok s1"
        "enqueue A (cl_env c 1) (fresh_id A c 0) ''AgentRegistry'' ''register_agent''
           (json_to_string (as_libs A) (agent_payload (as_libs A) a)) s1 = (co, s')"
        "r = Ok \<lparr>rc_correlation_id = co, rc_data = a\<rparr>"
        "\<not> is_blank (ar_id a)" "\<not> is_blank (ar_label a)"
  using assms unfolding register_agent_def
  by (auto simp: with_correlation_iff split: if_splits elim!: store_thenE)

text \<open>What \<open>submit_task\<close> files and queues.\<close>

definition spec_hash_of :: "'j libs \<Rightarrow> stored_task \<Rightarrow> bytes" where
  "spec_hash_of L t = blake3_hash L (ts_input (tk_specification (st_task t)))"

lemma submit_task_cases:
  assumes "submit_task A c sub s = (r, s')"
  obtains (refused) e where "r = Return (Err e)" "s' = s"
    | (panicked) t where
        "task_from_submission (as_libs A) (cl_uuid c 0) (cl_uuid c 1) (now_of c) sub = Ok t"
        "op_insert_task (as_storage A) (cl_env c 0) t s = Ok s'"
        "task_payload (as_libs A) (spec_hash_of (as_libs A) t) (task_to_view t) = None" "r = Panic"
    | (stored) t s1 j co where
        "task_from_submission (as_libs A) (cl_uuid c 0) (cl_uuid c 1) (now_of c) sub = Ok t"
        "op_insert_task (as_storage A) (cl_env c 0) t s = Ok s1"
        "task_payload (as_libs A) (spec_hash_of (as_libs A) t) (task_to_view t) = Some j"
        "enqueue A (cl_env c 1) (fresh_id A c 2) ''TaskMarket'' ''create_task''
           (json_to_string (as_libs A) j) s1 = (co, s')"
        "r = Return (Ok \<lparr>rc_correlation_id = co, rc_data = task_to_view t\<rparr>)"
  using assms unfolding submit_task_def
  by (auto simp: Let_def spec_hash_of_def split: sum.splits option.splits prod.splits)

lemma submit_task_accepted:
  assumes "task_from_submission (as_libs A) (cl_uuid c 0) (cl_uuid c 1) (now_of c) sub = Ok t"
    "op_insert_task (as_storage A) (cl_env c 0) t s = Ok s1"
    "task_payload (as_libs A) (spec_hash_of (as_libs A) t) (task_to_view t) = Some j"
  shows "\<exists>r s'. submit_task A c sub s = (Return (Ok r), s') \<and> rc_data r = task_to_view t"
  using assms by (auto simp: submit_task_def Let_def spec_hash_of_def split: prod.split)

lemma submit_bid_cases:
  assumes "submit_bid A c sub s = (r, s')"
  obtains (refused) e where "r = Err e" "s' = s"
    | (stored) t b s1 j co where
        "op_get_task (as_storage A) (cl_env c 0) (bsub_task_id sub) s = Ok t"
        "bid_from_submission (as_libs A) (cl_uuid c 0) (now_of c) sub t = Ok b"
        "op_insert_bid (as_storage A) (cl_env c 1) b s = Ok s1"
        "enqueue A (cl_env c 3) (fresh_id A c 1) ''TaskMarket'' ''submit_bid'' j s1 = (co, s')"
        "r = Ok \<lparr>rc_correlation_id = co, rc_data = bid_to_view b\<rparr>"
  using assms unfolding submit_bid_def
  by (auto simp: Let_def with_correlation_iff elim!: read_thenE store_thenE)

lemma submit_result_cases:
  assumes "submit_result A c sub s = (r, s')"
  obtains (refused) e where "r = Err e" "s' = s"
    | (half) t y e where
        "op_get_task (as_storage A) (cl_env c 0) (rsub_task_id sub) s = Ok t"
        "result_from_submission (as_libs A) (cl_uuid c 0) (now_of c) sub t = Ok y"
        "op_upsert_task (as_storage A) (cl_env c 1) (t\<lparr>st_status := Completed\<rparr>) s = Ok s'"
        "op_insert_result (as_storage A) (cl_env c 2) y s' = Err e" "r = Err e"
    | (stored) t y s1 s2 j co where
        "op_get_task (as_storage A) (cl_env c 0) (rsub_task_id sub) s = Ok t"
        "result_from_submission (as_libs A) (cl_uuid c 0) (now_of c) sub t = Ok y"
        "op_upsert_task (as_storage A) (cl_env c 1) (t\<lparr>st_status := Completed\<rparr>) s = Ok s1"
        "op_insert_result (as_storage A) (cl_env c 2) y s1 = Ok s2"
        "enqueue A (cl_env c 4) (fresh_id A c 1) ''TaskMarket'' ''submit_result'' j s2 = (co, s')"
        "r = Ok \<lparr>rc_correlation_id = co, rc_data = result_to_view (as_libs A) y\<rparr>"
  using assms unfolding submit_result_def
  by (auto simp: Let_def with_correlation_iff elim!: read_thenE store_thenE)

lemma execute_task_cases:
  assumes "execute_task_local A c i s = (r, s')"
  obtains (refused) e where "r = Err e" "s' = s"
    | (half) t y e where
        "op_get_task (as_storage A) (cl_env c 0) i s = Ok t"
        "execute_and_build_result (as_libs A) (as_engine A) (cl_uuid c 0) (now_of c) t
           ''local-echo'' = Ok y"
        "op_upsert_task (as_storage A) (cl_env c 1) (t\<lparr>st_status := Completed\<rparr>) s = Ok s'"
        "op_insert_result (as_storage A) (cl_env c 2) y s' = Err e" "r = Err e"
    | (stored) t y s1 where
        "op_get_task (as_storage A) (cl_env c 0) i s = Ok t"
        "execute_and_build_result (as_libs A) (as_engine A) (cl_uuid c 0) (now_of c) t
           ''local-echo'' = Ok y"
        "op_upsert_task (as_storage A) (cl_env c 1) (t\<lparr>st_status := Completed\<rparr>) s = Ok s1"
        "op_insert_result (as_storage A) (cl_env c 2) y s1 = Ok s'"
        "r = Ok (result_to_view (as_libs A) y)"
  using assms unfolding execute_task_local_def
  by (auto simp: Let_def elim!: read_thenE store_thenE)

lemma request_faucet_cases:
  assumes "request_faucet A c body s = (r, s')"
  obtains (refused) e where "r = Err e" "s' = s"
    | (queued) p where
        "record_outbound_extrinsic (as_sink A) (cl_env c 0) (fresh_id A c 0) ''Balances''
           ''transfer_allow_death'' (Some p) s = Ok s'"
  using assms unfolding request_faucet_def
  by (auto simp: Let_def elim!: read_thenE store_thenE)

lemma enqueue_outbox_cases:
  assumes "enqueue_outbox A c req s = (r, s')"
  obtains (refused) e where "r = Err e" "s' = s"
    | (queued)
        "record_outbound_extrinsic (as_sink A) (cl_env c 0) (fresh_id A c 0) (or_pallet req)
           (or_call req) (payload_text (as_libs A) (or_payload req)) s = Ok s'"
  using assms unfolding enqueue_outbox_def
  by (auto simp: Let_def split: if_splits elim!: read_thenE store_thenE)

section \<open>What a request may change\<close>

text \<open>No task disappears or changes its content, and its status only moves forward.\<close>

definition tasks_le :: "('k \<Rightarrow> stored_task option) \<Rightarrow> ('k \<Rightarrow> stored_task option) \<Rightarrow> bool" where
  "tasks_le m m' \<longleftrightarrow>
     (\<forall>k t. m k = Some t \<longrightarrow>
        (\<exists>st. m' k = Some (t\<lparr>st_status := st\<rparr>) \<and> st_status t \<le> st))"

lemma stored_task_status_id: "t\<lparr>st_status := st_status t\<rparr> = t"
  by simp

lemma tasks_le_refl [simp]: "tasks_le m m"
  unfolding tasks_le_def by (metis order_refl stored_task_status_id)

lemma tasks_le_trans:
  assumes "tasks_le m1 m2" "tasks_le m2 m3"
  shows "tasks_le m1 m3"
  unfolding tasks_le_def
proof (intro allI impI)
  fix k t assume "m1 k = Some t"
  then obtain st where st: "m2 k = Some (t\<lparr>st_status := st\<rparr>)" "st_status t \<le> st"
    using assms(1) by (auto simp: tasks_le_def)
  then obtain st' where "m3 k = Some (t\<lparr>st_status := st, st_status := st'\<rparr>)" "st \<le> st'"
    using assms(2) by (force simp: tasks_le_def)
  then show "\<exists>st. m3 k = Some (t\<lparr>st_status := st\<rparr>) \<and> st_status t \<le> st"
    using st(2) by (auto intro: order_trans)
qed

lemma tasks_le_new: "m k = None \<Longrightarrow> tasks_le m (m(k \<mapsto> t))"
  unfolding tasks_le_def by (metis fun_upd_other option.distinct(1) order_refl stored_task_status_id)

lemma tasks_le_completed:
  assumes "m k = Some t"
  shows "tasks_le m (m(k \<mapsto> t\<lparr>st_status := Completed\<rparr>))"
  unfolding tasks_le_def
proof (intro allI impI)
  fix l u assume "m l = Some u"
  then show "\<exists>st. (m(k \<mapsto> t\<lparr>st_status := Completed\<rparr>)) l = Some (u\<lparr>st_status := st\<rparr>)
      \<and> st_status u \<le> st"
    using assms by (cases "l = k") (auto intro: exI [of _ Completed] exI [of _ "st_status u"])
qed

definition kept :: "('s \<Rightarrow> 'a) \<Rightarrow> ('s \<Rightarrow> 'b) \<Rightarrow> ('s \<Rightarrow> 'c) \<Rightarrow> ('s \<Rightarrow> 'd) \<Rightarrow> 's \<Rightarrow> 's \<Rightarrow> bool" where
  "kept f g h i s s' \<longleftrightarrow> f s' = f s \<and> g s' = g s \<and> h s' = h s \<and> i s' = i s"

lemma kept_refl [simp]: "kept f g h i s s"
  by (simp add: kept_def)

lemma kept_trans: "kept f g h i s1 s2 \<Longrightarrow> kept f g h i s2 s3 \<Longrightarrow> kept f g h i s1 s3"
  by (simp add: kept_def)

section \<open>The contract of a backend\<close>

locale backend = storage S ok healthy inv key agent_of task_of bids_of results_of storable_name
    storable bid_free
  for S :: "'x \<Rightarrow> ('s, 'e) storage_ops"
    and ok :: "'x \<Rightarrow> bool"
    and healthy :: "'e \<Rightarrow> bool"
    and inv :: "'x \<Rightarrow> 's \<Rightarrow> bool"
    and key :: "'x \<Rightarrow> string \<Rightarrow> 'k option"
    and agent_of :: "'s \<Rightarrow> string \<Rightarrow> agent_registration option"
    and task_of :: "'x \<Rightarrow> 's \<Rightarrow> 'k \<Rightarrow> stored_task option"
    and bids_of :: "'x \<Rightarrow> 's \<Rightarrow> 'k \<Rightarrow> stored_bid multiset"
    and results_of :: "'x \<Rightarrow> 's \<Rightarrow> 'k \<Rightarrow> stored_result set"
    and storable_name :: "'x \<Rightarrow> string \<Rightarrow> bool"
    and storable :: "'x \<Rightarrow> stored_task \<Rightarrow> bool"
    and bid_free :: "'x \<Rightarrow> 's \<Rightarrow> stored_bid \<Rightarrow> bool" +
  fixes K :: "'x \<Rightarrow> ('s, 'e) sink_ops"
    and libs_of :: "'x \<Rightarrow> 'j libs"
    and bid_known :: "'x \<Rightarrow> 's \<Rightarrow> string \<Rightarrow> bool"
  assumes outbound_frame:
      "\<lbrakk>inv x s; op_record_outbound_extrinsic (K x) e corr p c pl st s = Ok s'\<rbrakk> \<Longrightarrow>
         inv x s' \<and> kept agent_of (task_of x) (bids_of x) (results_of x) s s'"
    and fresh_key: "ok x \<Longrightarrow> \<exists>k. key x (uuid_to_string (libs_of x) u) = Some k"
    and unknown_bid_free: "\<not> bid_known x s (sb_id b) \<Longrightarrow> bid_free x s b"
begin

lemma record_frame:
  assumes "inv x s" "record_outbound_extrinsic (K x) e corr p c pl s = Ok s'"
  shows "inv x s' \<and> kept agent_of (task_of x) (bids_of x) (results_of x) s s'"
  using outbound_frame assms by (simp add: record_outbound_extrinsic_def)

lemma enqueue_frame:
  assumes "inv x s" "as_sink A = K x" "enqueue A e corr p c pl s = (co, s')"
  shows "inv x s' \<and> kept agent_of (task_of x) (bids_of x) (results_of x) s s'"
  using assms record_frame by (auto simp: enqueue_def split: sum.splits)

lemma register_agent_spec:
  assumes "ok x" "inv x s" "as_storage A = S x" "as_sink A = K x"
    "register_agent A c a s = (r, s')"
  shows "inv x s' \<and> task_of x s' = task_of x s \<and> bids_of x s' = bids_of x s
    \<and> results_of x s' = results_of x s
    \<and> (case r of Inl _ \<Rightarrow> s' = s | Inr y \<Rightarrow> agent_of s' = (agent_of s)(ar_id a \<mapsto> a) \<and> rc_data y = a)"
  using assms(5)
proof (cases rule: register_agent_cases)
  case (stored s1 co)
  have "op_register_agent (S x) (cl_env c 0) a s = Ok s1" using stored(1) assms(3) by simp
  note reg = register_agent [OF assms(1,2) this]
  then show ?thesis
    using enqueue_frame [OF _ assms(4) stored(2)] stored(3) by (simp add: kept_def)
qed (use assms(2) in simp)

text \<open>A task that is filed under a fresh id is added; the reply shows it.\<close>

lemma submit_task_spec:
  assumes "ok x" "inv x s" "as_storage A = S x" "as_sink A = K x" "as_libs A = libs_of x"
    "submit_task A c sub s = (r, s')"
    "\<And>k. key x (fresh_id A c 1) = Some k \<Longrightarrow> task_of x s k = None"
  shows "inv x s' \<and> agent_of s' = agent_of s \<and> bids_of x s' = bids_of x s
    \<and> results_of x s' = results_of x s
    \<and> ((\<exists>e. r = Return (Err e) \<and> s' = s)
       \<or> (\<exists>t k. task_from_submission (as_libs A) (cl_uuid c 0) (cl_uuid c 1) (now_of c) sub = Ok t
             \<and> key x (st_id t) = Some k \<and> task_of x s k = None
             \<and> task_of x s' = (task_of x s)(k \<mapsto> t)
             \<and> (r = Panic \<or> (\<exists>co. r = Return (Ok \<lparr>rc_correlation_id = co, rc_data = task_to_view t\<rparr>)))))"
proof -
  have filed: "\<exists>k. key x (st_id t) = Some k \<and> task_of x s k = None \<and> inv x s1
      \<and> task_of x s1 = (task_of x s)(k \<mapsto> t) \<and> agent_of s1 = agent_of s
      \<and> bids_of x s1 = bids_of x s \<and> results_of x s1 = results_of x s"
    if t: "task_from_submission (as_libs A) (cl_uuid c 0) (cl_uuid c 1) (now_of c) sub = Ok t"
      and ins: "op_insert_task (as_storage A) (cl_env c 0) t s = Ok s1" for t s1
  proof -
    have id: "st_id t = fresh_id A c 1"
      using t by (auto simp: task_from_submission_def and_then_Ok_iff split: if_splits)
    obtain k where k: "key x (st_id t) = Some k"
      using fresh_key [OF assms(1)] assms(5) id by auto
    then have "task_of x s k = None" using assms(7) id by simp
    then show ?thesis
      using insert_task [OF assms(1,2) _ k] ins assms(3) k by auto
  qed
  show ?thesis
    using assms(6)
  proof (cases rule: submit_task_cases)
    case (panicked t)
    then show ?thesis using filed [OF panicked(1,2)] by blast
  next
    case (stored t s1 j co)
    then show ?thesis
      using filed [OF stored(1,2)] enqueue_frame [OF _ assms(4) stored(4)]
      unfolding kept_def by auto
  qed (use assms(2) in auto)
qed

lemma submit_bid_spec:
  assumes "ok x" "inv x s" "as_storage A = S x" "as_sink A = K x" "as_libs A = libs_of x"
    "submit_bid A c sub s = (r, s')" "\<not> bid_known x s (fresh_id A c 0)"
  shows "inv x s' \<and> agent_of s' = agent_of s \<and> task_of x s' = task_of x s
    \<and> results_of x s' = results_of x s
    \<and> ((\<exists>e. r = Err e \<and> s' = s)
       \<or> (\<exists>t b k co. task_of x s k = Some t
             \<and> bid_from_submission (as_libs A) (cl_uuid c 0) (now_of c) sub t = Ok b
             \<and> bids_of x s' = (bids_of x s)(k := add_mset b (bids_of x s k))
             \<and> r = Ok \<lparr>rc_correlation_id = co, rc_data = bid_to_view b\<rparr>))"
  using assms(6)
proof (cases rule: submit_bid_cases)
  case (stored t b s1 j co)
  have "op_get_task (S x) (cl_env c 0) (bsub_task_id sub) s = Ok t" using stored(1) assms(3) by simp
  then obtain k where k: "task_of x s k = Some t" using get_task_Ok [OF assms(1,2)] by blast
  have b: "sb_task_id b = st_id t" "sb_id b = fresh_id A c 0"
    using stored(2) by (auto simp: bid_from_submission_def split: if_splits)
  have key: "key x (sb_task_id b) = Some k" using stored_key [OF assms(1,2) k] b(1) by simp
  have "bid_free x s b" using assms(7) b(2) by (intro unknown_bid_free) simp
  moreover have "op_insert_bid (S x) (cl_env c 1) b s = Ok s1" using stored(3) assms(3) by simp
  ultimately have ins: "inv x s1 \<and> bids_of x s1 = (bids_of x s)(k := add_mset b (bids_of x s k))
      \<and> task_of x s1 = task_of x s \<and> agent_of s1 = agent_of s \<and> results_of x s1 = results_of x s"
    using insert_bid [OF assms(1,2) _ key] by blast
  then have "inv x s' \<and> kept agent_of (task_of x) (bids_of x) (results_of x) s1 s'"
    using enqueue_frame [OF _ assms(4) stored(4)] by blast
  then show ?thesis using ins k stored(2,5) unfolding kept_def by auto
qed (use assms(2) in auto)

text \<open>
  The two handlers that file a result share this step: the task is completed first, and stays
  completed when the result is refused.
\<close>

lemma complete_task:
  assumes "ok x" "inv x s" "as_storage A = S x" "op_get_task (as_storage A) e0 i s = Ok t"
    "op_upsert_task (as_storage A) e1 (t\<lparr>st_status := Completed\<rparr>) s = Ok s1"
  shows "\<exists>k. key x i = Some k \<and> key x (st_id t) = Some k \<and> task_of x s k = Some t \<and> inv x s1
    \<and> task_of x s1 = (task_of x s)(k \<mapsto> t\<lparr>st_status := Completed\<rparr>) \<and> agent_of s1 = agent_of s
    \<and> bids_of x s1 = bids_of x s \<and> results_of x s1 = results_of x s"
proof -
  have "op_get_task (S x) e0 i s = Ok t" using assms(3,4) by simp
  then obtain k where k: "key x i = Some k" "task_of x s k = Some t"
    using get_task_Ok [OF assms(1,2)] by blast
  have "key x (st_id (t\<lparr>st_status := Completed\<rparr>)) = Some k"
    using stored_key [OF assms(1,2) k(2)] by simp
  then show ?thesis using upsert_task [OF assms(1,2), of e1] assms(3,5) k by simp
qed

lemma file_result:
  assumes "ok x" "inv x s1" "as_storage A = S x" "key x (sr_task_id y) = Some k"
    "op_insert_result (as_storage A) e y s1 = Ok s2"
  shows "inv x s2 \<and> y \<in> results_of x s2 k \<and> task_of x s2 = task_of x s1
    \<and> agent_of s2 = agent_of s1 \<and> bids_of x s2 = bids_of x s1"
  using insert_result [OF assms(1,2) _ assms(4)] assms(3,5) by simp

lemma submit_result_spec:
  assumes "ok x" "inv x s" "as_storage A = S x" "as_sink A = K x"
    "submit_result A c sub s = (r, s')"
  shows "inv x s' \<and> agent_of s' = agent_of s \<and> bids_of x s' = bids_of x s
    \<and> ((\<exists>e. r = Err e \<and> s' = s)
       \<or> (\<exists>t k y. key x (rsub_task_id sub) = Some k \<and> task_of x s k = Some t
             \<and> result_from_submission (as_libs A) (cl_uuid c 0) (now_of c) sub t = Ok y
             \<and> task_of x s' = (task_of x s)(k \<mapsto> t\<lparr>st_status := Completed\<rparr>)
             \<and> ((\<exists>e. r = Err e \<and> results_of x s' = results_of x s)
                \<or> (\<exists>co. r = Ok \<lparr>rc_correlation_id = co, rc_data = result_to_view (as_libs A) y\<rparr>
                     \<and> y \<in> results_of x s' k))))"
  using assms(5)
proof (cases rule: submit_result_cases)
  case (half t y e)
  then show ?thesis using complete_task [OF assms(1,2,3) half(1,3)] by blast
next
  case (stored t y s1 s2 j co)
  obtain k where k: "key x (rsub_task_id sub) = Some k" "key x (st_id t) = Some k"
      "task_of x s k = Some t" "inv x s1" "task_of x s1 = (task_of x s)(k \<mapsto> t\<lparr>st_status := Completed\<rparr>)"
      "agent_of s1 = agent_of s" "bids_of x s1 = bids_of x s"
    using complete_task [OF assms(1,2,3) stored(1,3)] by blast
  have "sr_task_id y = st_id t"
    using stored(2) by (auto simp: result_from_submission_def and_then_Ok_iff Let_def split: if_splits)
  then have key: "key x (sr_task_id y) = Some k" using k(2) by simp
  note res = file_result [OF assms(1) k(4) assms(3) key stored(4)]
  then have "inv x s' \<and> kept agent_of (task_of x) (bids_of x) (results_of x) s2 s'"
    using enqueue_frame [OF _ assms(4) stored(5)] by blast
  then show ?thesis using res k stored(2,6) unfolding kept_def by auto
qed (use assms(2) in auto)

lemma execute_task_spec:
  assumes "ok x" "inv x s" "as_storage A = S x" "execute_task_local A c i s = (r, s')"
  shows "inv x s' \<and> agent_of s' = agent_of s \<and> bids_of x s' = bids_of x s
    \<and> ((\<exists>e. r = Err e \<and> s' = s)
       \<or> (\<exists>t k y. key x i = Some k \<and> task_of x s k = Some t
             \<and> execute_and_build_result (as_libs A) (as_engine A) (cl_uuid c 0) (now_of c) t
                  ''local-echo'' = Ok y
             \<and> task_of x s' = (task_of x s)(k \<mapsto> t\<lparr>st_status := Completed\<rparr>)
             \<and> ((\<exists>e. r = Err e \<and> results_of x s' = results_of x s)
                \<or> (r = Ok (result_to_view (as_libs A) y) \<and> y \<in> results_of x s' k))))"
  using assms(4)
proof (cases rule: execute_task_cases)
  case (half t y e)
  then show ?thesis using complete_task [OF assms(1,2,3) half(1,3)] by blast
next
  case (stored t y s1)
  obtain k where k: "key x i = Some k" "key x (st_id t) = Some k" "task_of x s k = Some t"
      "inv x s1" "task_of x s1 = (task_of x s)(k \<mapsto> t\<lparr>st_status := Completed\<rparr>)"
      "agent_of s1 = agent_of s" "bids_of x s1 = bids_of x s"
    using complete_task [OF assms(1,2,3) stored(1,3)] by blast
  have "sr_task_id y = st_id t"
    using stored(2) by (auto simp: execute_and_build_result_def result_from_submission_def
        and_then_Ok_iff Let_def split: if_splits)
  then have key: "key x (sr_task_id y) = Some k" using k(2) by simp
  note res = file_result [OF assms(1) k(4) assms(3) key stored(4)]
  then show ?thesis using k stored(2,5) by auto
qed (use assms(2) in auto)

text \<open>Any request keeps the invariant, the agents' and tasks' existence, and the order of states.\<close>

lemma app_step_spec:
  assumes "app_step A fresh s s'" "ok x" "inv x s" "as_storage A = S x" "as_sink A = K x"
    "as_libs A = libs_of x"
    "\<And>s i k. fresh s i \<Longrightarrow> key x i = Some k \<Longrightarrow> task_of x s k = None"
    "\<And>s i. fresh s i \<Longrightarrow> \<not> bid_known x s i"
  shows "inv x s' \<and> tasks_le (task_of x s) (task_of x s')"
  using assms(1)
proof (cases rule: app_step.cases)
  case (Step_Register c a r)
  then show ?thesis using register_agent_spec [OF assms(2,3,4,5)] by auto
next
  case (Step_Task c sub r)
  have "task_of x s k = None" if "key x (fresh_id A c 1) = Some k" for k
    using assms(7) [OF _ that] Step_Task(2) by blast
  then show ?thesis
    using submit_task_spec [OF assms(2,3,4,5,6) Step_Task(1)] by (auto intro: tasks_le_new)
next
  case (Step_Bid c bsub r)
  have "\<not> bid_known x s (fresh_id A c 0)" using assms(8) Step_Bid(2) by blast
  then show ?thesis using submit_bid_spec [OF assms(2,3,4,5,6) Step_Bid(1)] by auto
next
  case (Step_Result c rsub r)
  then show ?thesis
    using submit_result_spec [OF assms(2,3,4,5) Step_Result(1)] by (auto intro: tasks_le_completed)
next
  case (Step_Execute c i r)
  then show ?thesis
    using execute_task_spec [OF assms(2,3,4) Step_Execute(1)] by (auto intro: tasks_le_completed)
next
  case (Step_Faucet c body r)
  then show ?thesis
    using assms(3,5) record_frame by (cases rule: request_faucet_cases) (auto simp: kept_def)
next
  case (Step_Enqueue c req r)
  then show ?thesis
    using assms(3,5) record_frame by (cases rule: enqueue_outbox_cases) (auto simp: kept_def)
qed

text \<open>An id that names no task: every handler that needs the task answers 404 and changes nothing.\<close>

lemma unknown_task:
  assumes "ok x" "inv x s" "as_storage A = S x" "healthy (cl_env c 0)" "key x i = Some k"
    "task_of x s k = None"
  shows "get_task A c i s = Err (task_not_found i)
    \<and> get_bids_for_task A c i s = Err (task_not_found i)
    \<and> get_task_result A c i s = Err (task_not_found i)
    \<and> execute_task_local A c i s = (Err (task_not_found i), s)
    \<and> (bsub_task_id b = i \<longrightarrow> submit_bid A c b s = (Err (task_not_found i), s))
    \<and> (rsub_task_id y = i \<longrightarrow> submit_result A c y s = (Err (task_not_found i), s))"
proof -
  have "op_get_task (S x) (cl_env c 0) i s = Err (task_not_found i)"
    using get_task [OF assms(1,4,2,5)] assms(6) by simp
  then show ?thesis
    using assms(3)
    by (simp add: get_task_def get_bids_for_task_def get_task_result_def execute_task_local_def
        submit_bid_def submit_result_def read_then_def result_map_def)
qed

end

end
