(* ===== verification/Mem_Storage.thy ===== *)
theory Mem_Storage
  imports Storage_Spec
begin

text \<open>
  \<open>InMemoryStorage\<close> (src/orchestrator/api/src/storage.rs): four hash maps and a cursor, each
  behind a lock that an operation holds from its first access to its return, so an operation
  is one transition. The iteration order of each map is the environment's.
\<close>

record mem_store =
  ms_agents :: "(string \<times> agent_registration) list"
  ms_tasks :: "(string \<times> stored_task) list"
  ms_bids :: "(string \<times> stored_bid) list"
  ms_results :: "(string \<times> stored_result) list"
  ms_cursor :: "(u64 \<times> u32) option"

definition mem_default :: mem_store where
  "mem_default =
     \<lparr>ms_agents = [], ms_tasks = [], ms_bids = [], ms_results = [], ms_cursor = None\<rparr>"

record mem_env =
  ord_agents :: "(string \<times> agent_registration) list \<Rightarrow> (string \<times> agent_registration) list"
  ord_tasks :: "(string \<times> stored_task) list \<Rightarrow> (string \<times> stored_task) list"
  ord_bids :: "(string \<times> stored_bid) list \<Rightarrow> (string \<times> stored_bid) list"
  ord_results :: "(string \<times> stored_result) list \<Rightarrow> (string \<times> stored_result) list"

text \<open>An iteration visits every entry once.\<close>

definition mem_healthy :: "mem_env \<Rightarrow> bool" where
  "mem_healthy e =
     ((\<forall>m. mset (ord_agents e m) = mset m) \<and> (\<forall>m. mset (ord_tasks e m) = mset m)
      \<and> (\<forall>m. mset (ord_bids e m) = mset m) \<and> (\<forall>m. mset (ord_results e m) = mset m))"

section \<open>Operations\<close>

definition mem_register_agent ::
    "mem_env \<Rightarrow> agent_registration \<Rightarrow> mem_store \<Rightarrow> api_error + mem_store" where
  "mem_register_agent e a s = Ok (s\<lparr>ms_agents := AList.update (ar_id a) a (ms_agents s)\<rparr>)"

definition mem_get_agent ::
    "mem_env \<Rightarrow> string \<Rightarrow> mem_store \<Rightarrow> api_error + agent_registration" where
  "mem_get_agent e i s = ok_or (agent_not_found i) (map_of (ms_agents s) i)"

definition mem_list_agents :: "mem_env \<Rightarrow> mem_store \<Rightarrow> api_error + agent_registration list" where
  "mem_list_agents e s = Ok (map snd (ord_agents e (ms_agents s)))"

definition mem_insert_task ::
    "mem_env \<Rightarrow> stored_task \<Rightarrow> mem_store \<Rightarrow> api_error + mem_store" where
  "mem_insert_task e t s = Ok (s\<lparr>ms_tasks := AList.update (st_id t) t (ms_tasks s)\<rparr>)"

definition mem_upsert_task ::
    "mem_env \<Rightarrow> stored_task \<Rightarrow> mem_store \<Rightarrow> api_error + mem_store" where
  "mem_upsert_task e t s = Ok (s\<lparr>ms_tasks := AList.update (st_id t) t (ms_tasks s)\<rparr>)"

definition mem_get_task :: "mem_env \<Rightarrow> string \<Rightarrow> mem_store \<Rightarrow> api_error + stored_task" where
  "mem_get_task e i s = ok_or (task_not_found i) (map_of (ms_tasks s) i)"

definition mem_list_tasks :: "mem_env \<Rightarrow> mem_store \<Rightarrow> api_error + stored_task list" where
  "mem_list_tasks e s = Ok (map snd (ord_tasks e (ms_tasks s)))"

definition mem_insert_bid ::
    "mem_env \<Rightarrow> stored_bid \<Rightarrow> mem_store \<Rightarrow> api_error + mem_store" where
  "mem_insert_bid e b s = Ok (s\<lparr>ms_bids := AList.update (sb_id b) b (ms_bids s)\<rparr>)"

definition mem_get_bids_for_task ::
    "mem_env \<Rightarrow> string \<Rightarrow> mem_store \<Rightarrow> api_error + stored_bid list" where
  "mem_get_bids_for_task e i s =
     Ok (filter (\<lambda>b. sb_task_id b = i) (map snd (ord_bids e (ms_bids s))))"

definition mem_insert_result ::
    "mem_env \<Rightarrow> stored_result \<Rightarrow> mem_store \<Rightarrow> api_error + mem_store" where
  "mem_insert_result e r s = Ok (s\<lparr>ms_results := AList.update (sr_id r) r (ms_results s)\<rparr>)"

definition mem_get_result_for_task ::
    "mem_env \<Rightarrow> string \<Rightarrow> mem_store \<Rightarrow> api_error + stored_result" where
  "mem_get_result_for_task e i s =
     ok_or (result_not_found i)
       (find (\<lambda>r. sr_task_id r = i) (map snd (ord_results e (ms_results s))))"

definition mem_dashboard_counts ::
    "mem_env \<Rightarrow> mem_store \<Rightarrow> api_error + nat \<times> nat \<times> nat \<times> nat" where
  "mem_dashboard_counts e s =
     (let total_tasks = length (ms_tasks s);
          completed = length (filter (\<lambda>t. st_status t = Completed)
                                (map snd (ord_tasks e (ms_tasks s))));
          pending = total_tasks - completed
      in Ok (length (ms_agents s), total_tasks, completed, pending))"

definition mem_ops :: "'x \<Rightarrow> (mem_store, mem_env) storage_ops" where
  "mem_ops x =
     \<lparr>op_register_agent = mem_register_agent, op_get_agent = mem_get_agent,
      op_list_agents = mem_list_agents, op_insert_task = mem_insert_task,
      op_upsert_task = mem_upsert_task, op_get_task = mem_get_task,
      op_list_tasks = mem_list_tasks, op_insert_bid = mem_insert_bid,
      op_get_bids_for_task = mem_get_bids_for_task, op_insert_result = mem_insert_result,
      op_get_result_for_task = mem_get_result_for_task,
      op_dashboard_counts = mem_dashboard_counts\<rparr>"

text \<open>The in-memory sink drops events and extrinsics and keeps the cursor.\<close>

definition mem_record_chain_event ::
    "mem_env \<Rightarrow> u64 \<Rightarrow> u32 \<Rightarrow> string \<Rightarrow> string \<Rightarrow> string \<Rightarrow> string option \<Rightarrow> mem_store
     \<Rightarrow> api_error + mem_store" where
  "mem_record_chain_event e b i pallet variant payload corr s = Ok s"

definition mem_update_chain_cursor ::
    "mem_env \<Rightarrow> u64 \<Rightarrow> u32 \<Rightarrow> mem_store \<Rightarrow> api_error + mem_store" where
  "mem_update_chain_cursor e b i s = Ok (s\<lparr>ms_cursor := Some (b, i)\<rparr>)"

definition mem_last_chain_cursor :: "mem_env \<Rightarrow> mem_store \<Rightarrow> api_error + (u64 \<times> u32) option" where
  "mem_last_chain_cursor e s = Ok (ms_cursor s)"

definition mem_record_outbound_extrinsic ::
    "mem_env \<Rightarrow> string \<Rightarrow> string \<Rightarrow> string \<Rightarrow> string option \<Rightarrow> string \<Rightarrow> mem_store
     \<Rightarrow> api_error + mem_store" where
  "mem_record_outbound_extrinsic e corr pallet call payload status s = Ok s"

definition mem_sink :: "(mem_store, mem_env) sink_ops" where
  "mem_sink =
     \<lparr>op_record_chain_event = mem_record_chain_event,
      op_update_chain_cursor = mem_update_chain_cursor,
      op_last_chain_cursor = mem_last_chain_cursor,
      op_record_outbound_extrinsic = mem_record_outbound_extrinsic\<rparr>"

lemmas mem_task_defs =
  mem_insert_task_def mem_upsert_task_def mem_get_task_def mem_list_tasks_def
lemmas mem_other_defs =
  mem_register_agent_def mem_get_agent_def mem_list_agents_def mem_insert_bid_def
  mem_get_bids_for_task_def mem_insert_result_def mem_get_result_for_task_def
  mem_dashboard_counts_def
lemmas mem_sink_defs =
  mem_record_chain_event_def mem_update_chain_cursor_def mem_last_chain_cursor_def
  mem_record_outbound_extrinsic_def

section \<open>Content and invariant\<close>

text \<open>Every entry is filed under the identifier of its record, once.\<close>

definition mem_inv :: "'x \<Rightarrow> mem_store \<Rightarrow> bool" where
  "mem_inv x s =
     (map_wf (ms_agents s) \<and> map_wf (ms_tasks s) \<and> map_wf (ms_bids s) \<and> map_wf (ms_results s)
      \<and> (\<forall>(i, t) \<in> set (ms_tasks s). st_id t = i)
      \<and> (\<forall>(i, b) \<in> set (ms_bids s). sb_id b = i))"

definition mem_bids_of :: "'x \<Rightarrow> mem_store \<Rightarrow> string \<Rightarrow> stored_bid multiset" where
  "mem_bids_of x s k = filter_mset (\<lambda>b. sb_task_id b = k) (mset (map snd (ms_bids s)))"

definition mem_results_of :: "'x \<Rightarrow> mem_store \<Rightarrow> string \<Rightarrow> stored_result set" where
  "mem_results_of x s k = {r \<in> snd ` set (ms_results s). sr_task_id r = k}"

definition mem_bid_free :: "'x \<Rightarrow> mem_store \<Rightarrow> stored_bid \<Rightarrow> bool" where
  "mem_bid_free x s b = (sb_id b \<notin> fst ` set (ms_bids s))"

lemma mem_inv_default: "mem_inv x mem_default"
  by (simp add: mem_inv_def mem_default_def)

section \<open>The in-memory store satisfies the contract\<close>

lemma mem_healthy_length: "mem_healthy e \<Longrightarrow> length (filter P (map snd (ord_tasks e m))) = length (filter P (map snd m))"
  by (rule mset_filter_count) (simp add: mem_healthy_def)

lemma mem_healthy_set:
  assumes "mem_healthy e"
  shows "set (ord_agents e m1) = set m1" "set (ord_tasks e m2) = set m2"
    "set (ord_bids e m3) = set m3" "set (ord_results e m4) = set m4"
  using assms by (auto simp: mem_healthy_def intro!: mset_eq_setD)

lemma mem_inv_tasks:
  "mem_inv x s \<Longrightarrow> map_of (ms_tasks s) k = Some t \<Longrightarrow> st_id t = k"
  by (auto simp: mem_inv_def dest: map_of_SomeD)

lemma mem_task_write:
  assumes "mem_inv x s" "s' = s\<lparr>ms_tasks := AList.update (st_id t) t (ms_tasks s)\<rparr>"
  shows "mem_inv x s'"
proof -
  have "(\<forall>(i, t) \<in> set (AList.update (st_id t) t (ms_tasks s)). st_id t = i)"
    using assms(1) set_update [of "st_id t" t "ms_tasks s"] by (fastforce simp: mem_inv_def)
  then show ?thesis using assms by (simp add: mem_inv_def)
qed

lemma mem_bid_write:
  assumes "mem_inv x s" "s' = s\<lparr>ms_bids := AList.update (sb_id b) b (ms_bids s)\<rparr>"
  shows "mem_inv x s'"
proof -
  have "(\<forall>(i, b) \<in> set (AList.update (sb_id b) b (ms_bids s)). sb_id b = i)"
    using assms(1) set_update [of "sb_id b" b "ms_bids s"] by (fastforce simp: mem_inv_def)
  then show ?thesis using assms by (simp add: mem_inv_def)
qed

lemma mem_get_result_spec:
  assumes "mem_healthy e"
  shows "if mem_results_of x s k = {} then mem_get_result_for_task e k s = Err (result_not_found k)
     else \<exists>r \<in> mem_results_of x s k. mem_get_result_for_task e k s = Ok r"
proof -
  let ?xs = "map snd (ord_results e (ms_results s))"
  have set: "set ?xs = snd ` set (ms_results s)"
    using assms by (simp add: mem_healthy_set)
  show ?thesis
  proof (cases "find (\<lambda>r. sr_task_id r = k) ?xs")
    case None
    then have "\<forall>r \<in> set ?xs. sr_task_id r \<noteq> k"
      by (simp add: find_None_mset)
    then have "mem_results_of x s k = {}"
      unfolding set by (auto simp: mem_results_of_def)
    then show ?thesis using None by (simp add: mem_get_result_for_task_def)
  next
    case (Some r)
    then have "r \<in> set ?xs \<and> sr_task_id r = k" by (rule find_SomeD)
    then have "r \<in> mem_results_of x s k" unfolding set by (simp add: mem_results_of_def)
    then show ?thesis using Some by (auto simp: mem_get_result_for_task_def)
  qed
qed

lemma mem_dashboard_spec:
  assumes "mem_healthy e" "mem_inv x s"
  shows "mem_dashboard_counts e s =
     Ok (card (dom (map_of (ms_agents s))), card (dom (map_of (ms_tasks s))),
         card {k. \<exists>t. map_of (ms_tasks s) k = Some t \<and> st_status t = Completed},
         card {k. \<exists>t. map_of (ms_tasks s) k = Some t \<and> st_status t = Pending})"
proof -
  let ?ts = "map snd (ms_tasks s)"
  have wf: "map_wf (ms_agents s)" "map_wf (ms_tasks s)"
    using assms(2) by (simp_all add: mem_inv_def)
  have "length (filter (\<lambda>t. st_status t = Completed) ?ts)
      + length (filter (\<lambda>t. st_status t \<noteq> Completed) ?ts) = length ?ts"
    by (rule sum_length_filter_compl)
  moreover have "filter (\<lambda>t. st_status t \<noteq> Completed) ?ts = filter (\<lambda>t. st_status t = Pending) ?ts"
    by (rule filter_cong) (auto intro: task_status.exhaust)
  ultimately have "length (ms_tasks s) - length (filter (\<lambda>t. st_status t = Completed) ?ts)
      = length (filter (\<lambda>t. st_status t = Pending) ?ts)"
    by simp
  moreover have "length (filter P (map snd (ord_tasks e (ms_tasks s))))
      = card {k. \<exists>t. map_of (ms_tasks s) k = Some t \<and> P t}"
    "length (filter P ?ts) = card {k. \<exists>t. map_of (ms_tasks s) k = Some t \<and> P t}" for P
    using mem_healthy_length [OF assms(1)] map_wf_count [OF wf(2)] by simp_all
  ultimately show ?thesis
    by (simp only: mem_dashboard_counts_def Let_def map_wf_dom [OF wf(1)] map_wf_dom [OF wf(2)])
qed

lemma mem_bids_of_insert:
  assumes "mem_bid_free x s b" "s' = s\<lparr>ms_bids := AList.update (sb_id b) b (ms_bids s)\<rparr>"
  shows "mem_bids_of x s' =
     (mem_bids_of x s)(sb_task_id b := add_mset b (mem_bids_of x s (sb_task_id b)))"
proof -
  have "AList.update (sb_id b) b (ms_bids s) = ms_bids s @ [(sb_id b, b)]"
    using assms(1) by (intro update_fresh) (simp add: mem_bid_free_def)
  then show ?thesis
    using assms(2) by (simp add: mem_bids_of_def fun_eq_iff)
qed

interpretation mem: storage mem_ops "\<lambda>_. True" mem_healthy mem_inv "\<lambda>_. Some"
  "\<lambda>s. map_of (ms_agents s)" "\<lambda>_ s. map_of (ms_tasks s)" mem_bids_of mem_results_of
  "\<lambda>_ _. True" "\<lambda>_ _. True" mem_bid_free
proof (unfold_locales, goal_cases)
  case (1 x s e a s')
  then show ?case
    by (auto simp: mem_ops_def mem_register_agent_def mem_inv_def mem_bids_of_def mem_results_of_def
        fun_eq_iff)
next
  case (4 x s e t s' k)
  then show ?case
    by (auto simp: mem_ops_def mem_insert_task_def mem_bids_of_def mem_results_of_def fun_eq_iff
        intro: mem_task_write)
next
  case (6 x s e t s' k)
  then show ?case
    by (auto simp: mem_ops_def mem_upsert_task_def mem_bids_of_def mem_results_of_def fun_eq_iff
        intro: mem_task_write)
next
  case (11 x e s)
  then show ?case
    by (auto simp: mem_ops_def mem_list_tasks_def mem_inv_def map_wf_ran mem_healthy_set)
next
  case (12 x s e b s' k)
  then have s': "s' = s\<lparr>ms_bids := AList.update (sb_id b) b (ms_bids s)\<rparr>"
    by (simp add: mem_ops_def mem_insert_bid_def)
  then have "mem_results_of x s' = mem_results_of x s"
    by (simp add: mem_results_of_def fun_eq_iff)
  then show ?case
    using 12 s' mem_bid_write [OF 12(2) s'] mem_bids_of_insert [OF 12(5) s'] by simp
next
  case (13 x e s i k)
  then show ?case
    by (auto simp: mem_ops_def mem_get_bids_for_task_def mem_bids_of_def mem_healthy_def)
next
  case (14 x s e r s' k)
  then show ?case
    by (auto simp: mem_ops_def mem_insert_result_def mem_inv_def mem_bids_of_def
        mem_results_of_def fun_eq_iff intro!: image_eqI [OF _ update_mem])
next
  case (15 x e s i k)
  then show ?case using mem_get_result_spec [of e x s k] by (simp add: mem_ops_def)
next
  case (16 x e s)
  then show ?case using mem_dashboard_spec by (simp add: mem_ops_def)
qed (auto simp: mem_ops_def mem_task_defs mem_other_defs ok_or_Ok_iff mem_inv_tasks)

interpretation mem_events: event_sink mem_sink ms_cursor "\<lambda>_. True"
  by unfold_locales (auto simp: mem_sink_def mem_sink_defs)

end
