(* ===== verification/Backends.thy ===== *)
theory Backends
  imports App_Spec Mem_Storage Pg_Contract
begin

text \<open>
  The two applications that \<open>AppState::from_config\<close> builds (src/orchestrator/api/src/main.rs):
  over the in-memory store, which has no pool, and over Postgres, whose pool the handlers query
  themselves; and the interpretations of \<open>backend\<close> on both.
\<close>

section \<open>The application in memory\<close>

definition mem_app :: "'j libs \<Rightarrow> engine \<Rightarrow> ('j, mem_store, mem_env) app_state" where
  "mem_app L engine =
     \<lparr>as_libs = L, as_storage = mem_ops L, as_sink = mem_sink, as_engine = engine, as_pool = None\<rparr>"

definition mem_bid_known :: "'x \<Rightarrow> mem_store \<Rightarrow> string \<Rightarrow> bool" where
  "mem_bid_known x s i = (i \<in> fst ` set (ms_bids s))"

definition mem_fresh :: "mem_store \<Rightarrow> string \<Rightarrow> bool" where
  "mem_fresh s i = (i \<notin> fst ` set (ms_tasks s) \<and> i \<notin> fst ` set (ms_bids s))"

lemma mem_app_simps [simp]:
  "as_libs (mem_app L en) = L" "as_storage (mem_app L en) = mem_ops L"
  "as_sink (mem_app L en) = mem_sink" "as_engine (mem_app L en) = en"
  "as_pool (mem_app L en) = None"
  by (simp_all add: mem_app_def)

interpretation memb: backend mem_ops "\<lambda>_. True" mem_healthy mem_inv "\<lambda>_. Some"
  "\<lambda>s. map_of (ms_agents s)" "\<lambda>_ s. map_of (ms_tasks s)" mem_bids_of mem_results_of
  "\<lambda>_ _. True" "\<lambda>_ _. True" mem_bid_free "\<lambda>_. mem_sink" "\<lambda>L. L" mem_bid_known
  by unfold_locales
    (auto simp: mem_sink_def mem_record_outbound_extrinsic_def mem_bid_known_def mem_bid_free_def)

section \<open>The queries of the handlers\<close>

definition Q_CHAIN_TASK_ID :: sql_stmt where
  "Q_CHAIN_TASK_ID = q_select ''tasks'' [(''id'', TextT)] 1"

definition Q_CHAIN_AGENT_ID :: sql_stmt where
  "Q_CHAIN_AGENT_ID = q_select ''agents'' [(''id'', TextT)] 1"

text \<open>
  \<open>query_scalar(..).fetch_optional(..).ok().flatten().unwrap_or(0)\<close>: a refused statement, no
  row and a NULL all give 0.
\<close>

definition scalar_or_zero :: "string + i64 option \<Rightarrow> i64" where
  "scalar_or_zero r = unwrap_or 0 (Option.bind (result_ok r) (\<lambda>v. v))"

definition pg_chain_ids :: "'j pg \<Rightarrow> 'j pg_env \<Rightarrow> string \<Rightarrow> string \<Rightarrow> 'j pg_db \<Rightarrow> i64 \<times> i64" where
  "pg_chain_ids x e task agent s =
     (scalar_or_zero
        (run_stmt x e 0 Q_CHAIN_TASK_ID (pg_text task)
           (Option.bind (pg_key x task) (\<lambda>u. Option.bind (map_of (db_tasks s) u) pt_chain_task_id))),
      scalar_or_zero
        (run_stmt x e 1 Q_CHAIN_AGENT_ID (pg_text agent)
           (Option.bind (map_of (db_agents s) agent) pa_chain_agent_id)))"

definition Q_OUTBOX_COUNTS :: sql_stmt where
  "Q_OUTBOX_COUNTS = q_select ''outbound_extrinsics'' [(''status'', TextT)] 0"

definition outbox_count :: "string \<Rightarrow> 'j pg_db \<Rightarrow> nat" where
  "outbox_count st s = length (filter (\<lambda>r. ob_status (snd r) = st) (db_outbox s))"

definition pg_outbox_counts :: "'j pg \<Rightarrow> 'j pg_env \<Rightarrow> 'j pg_db \<Rightarrow> api_error + nat \<times> nat \<times> nat" where
  "pg_outbox_counts x e s =
     map_err (pg_internal ''failed to count outbox'')
       (run_stmt x e 0 Q_OUTBOX_COUNTS True
          (outbox_count ''pending'' s, outbox_count ''failed'' s, outbox_count ''dead'' s))"

definition view_of_row :: "'j libs \<Rightarrow> string \<times> outbox_row \<Rightarrow> outbox_status_view" where
  "view_of_row L r =
     \<lparr>ov_correlation_id = fst r, ov_pallet = ob_pallet (snd r), ov_call = ob_call (snd r),
      ov_status = ob_status (snd r), ov_retry_count = ob_retry_count (snd r),
      ov_last_error = ob_last_error (snd r), ov_created_at = Some (rfc3339 L (ob_created_at (snd r))),
      ov_processed_at = map_option (rfc3339 L) (ob_processed_at (snd r))\<rparr>"

definition Q_OUTBOX_STATUS :: sql_stmt where
  "Q_OUTBOX_STATUS = q_select ''outbound_extrinsics'' [(''correlation_id'', TextT)] 1"

definition outbox_not_found :: "string \<Rightarrow> api_error" where
  "outbox_not_found i = NotFound (''outbox id '' @ i @ '' not found'')"

definition pg_outbox_status ::
    "'j pg \<Rightarrow> 'j pg_env \<Rightarrow> string \<Rightarrow> 'j pg_db \<Rightarrow> api_error + outbox_status_view" where
  "pg_outbox_status x e i s =
     and_then (map_err (pg_internal ''failed to fetch outbox row'')
       (run_stmt x e 0 Q_OUTBOX_STATUS (pg_text i) (map_of (db_outbox s) i))) (\<lambda>row.
     ok_or (outbox_not_found i) (map_option (\<lambda>r. view_of_row (pg_libs x) (i, r)) row))"

definition Q_LIST_OUTBOX :: sql_stmt where
  "Q_LIST_OUTBOX =
     q_select ''outbound_extrinsics'' [(''status'', TextT), (''created_at'', TimestamptzT)] 3"

text \<open>Newest first; rows of the same age in the order Postgres returns them.\<close>

definition outbox_page ::
    "'j pg_env \<Rightarrow> string option \<Rightarrow> int \<Rightarrow> int \<Rightarrow> 'j pg_db \<Rightarrow> (string \<times> outbox_row) list" where
  "outbox_page e status limit offset s =
     take (nat limit) (drop (nat offset)
       (sort_key (\<lambda>r. - ob_created_at (snd r))
          (filter (\<lambda>r. case status of None \<Rightarrow> True | Some st \<Rightarrow> ob_status (snd r) = st)
             (pe_outbox e (db_outbox s)))))"

definition pg_list_outbox ::
    "'j pg \<Rightarrow> 'j pg_env \<Rightarrow> string option \<Rightarrow> int \<Rightarrow> int \<Rightarrow> 'j pg_db
     \<Rightarrow> api_error + outbox_status_view list" where
  "pg_list_outbox x e status limit offset s =
     map_err (pg_internal ''failed to list outbox rows'')
       (run_stmt x e 0 Q_LIST_OUTBOX True
          (map (view_of_row (pg_libs x)) (outbox_page e status limit offset s)))"

section \<open>The application over Postgres\<close>

definition pg_pool :: "'j pg \<Rightarrow> ('j pg_db, 'j pg_env) pool_ops" where
  "pg_pool x =
     \<lparr>po_chain_ids = pg_chain_ids x, po_counts = pg_outbox_counts x,
      po_status = pg_outbox_status x, po_list = pg_list_outbox x\<rparr>"

definition pg_app :: "'j pg \<Rightarrow> engine \<Rightarrow> ('j, 'j pg_db, 'j pg_env) app_state" where
  "pg_app x engine =
     \<lparr>as_libs = pg_libs x, as_storage = pg_ops x, as_sink = pg_sink x, as_engine = engine,
      as_pool = Some (pg_pool x)\<rparr>"

definition pg_bid_known :: "'j pg \<Rightarrow> 'j pg_db \<Rightarrow> string \<Rightarrow> bool" where
  "pg_bid_known x s i = 
     (case pg_key x i of None \<Rightarrow> False | Some u \<Rightarrow> u \<in> fst ` set (db_bids s))"

definition pg_fresh :: "'j pg \<Rightarrow> 'j pg_db \<Rightarrow> string \<Rightarrow> bool" where
  "pg_fresh x s i =
     (i \<notin> fst ` set (db_outbox s)
      \<and> (case pg_key x i of
            None \<Rightarrow> True
          | Some u \<Rightarrow> u \<notin> fst ` set (db_tasks s) \<and> u \<notin> fst ` set (db_bids s)))"

lemma pg_app_simps [simp]:
  "as_libs (pg_app x en) = pg_libs x" "as_storage (pg_app x en) = pg_ops x"
  "as_sink (pg_app x en) = pg_sink x" "as_engine (pg_app x en) = en"
  "as_pool (pg_app x en) = Some (pg_pool x)"
  by (simp_all add: pg_app_def)

lemma pool_stmts_prepare:
  "prepares migrated Q_CHAIN_AGENT_ID" "prepares migrated Q_OUTBOX_COUNTS"
  "prepares migrated Q_OUTBOX_STATUS" "prepares migrated Q_LIST_OUTBOX"
  "\<not> prepares migrated Q_CHAIN_TASK_ID"
  by code_simp+

text \<open>The lookup of a task's chain id compares a UUID column with a text, so it always gives 0.\<close>

lemma chain_task_id_zero: "pg_schema x = migrated \<Longrightarrow> fst (pg_chain_ids x e task agent s) = 0"
  using pool_stmts_prepare(5)
  by (simp add: pg_chain_ids_def scalar_or_zero_def run_stmt_def split: option.split)

lemma pg_outbound_frame:
  assumes "pg_inv x s" "op_record_outbound_extrinsic (pg_sink x) e corr p c pl st s = Ok s'"
  shows "pg_inv x s' \<and> kept pg_agent_of (pg_task_of x) (pg_bids_of x) (pg_results_of x) s s'"
proof -
  obtain m where s': "s' = s\<lparr>db_outbox := m\<rparr>"
    using assms(2) by (auto simp: pg_sink_def pg_record_outbound_extrinsic_def Let_def map_err_Ok_iff
        run_stmt_Ok)
  then show ?thesis
    using assms(1) by (simp add: pg_inv_def kept_def pg_agent_of_def pg_task_of_def pg_bids_of_def
        pg_results_of_def fun_eq_iff)
qed

interpretation pgb: backend pg_ops pg_ok pg_healthy pg_inv pg_key pg_agent_of pg_task_of pg_bids_of
  pg_results_of "\<lambda>_. pg_text" pg_storable_task pg_bid_free pg_sink pg_libs pg_bid_known
proof (unfold_locales, goal_cases)
  case (1 x s e corr p c pl st s')
  then show ?case by (rule pg_outbound_frame)
next
  case (2 x u)
  then show ?case by (simp add: pg_ok_def uuid_ok_def pg_key_def)
next
  case (3 x s b)
  then show ?case by (cases "pg_key x (sb_id b)") (simp_all add: pg_bid_known_def pg_bid_free_def)
qed

end
