(* ===== verification/Replay.thy ===== *)
theory Replay
  imports Outbox Mem_Storage
begin

text \<open>
  The chain replay worker \<open>run_chain_replay\<close> (src/orchestrator/api/src/chain.rs): finalized
  blocks come in from a subscription, the supported events past the cursor are mirrored into
  Postgres and recorded in the sink, and the cursor follows. What subxt delivers (blocks, their
  events and extrinsics, or errors) is the input; \<open>mirror\<close> stands for the statements that a
  Postgres pool adds, and the loop is a recursion over the attempts to connect.
\<close>

section \<open>What the chain delivers\<close>

text \<open>The statically decoded events (\<open>as_event\<close>).\<close>

datatype chain_data =
    AgentRegistered u64 string \<comment> \<open>agent id, owner\<close>
  | TaskCreated u64 string u128 \<comment> \<open>task id, requester, budget\<close>
  | BidSubmitted u64 u64 \<comment> \<open>task id, agent id\<close>
  | TaskCompleted u64 u64 bytes \<comment> \<open>task id, agent id, result hash\<close>

record chain_event =
  ev_pallet :: string
  ev_variant :: string
  ev_index :: u32
  ev_fields :: "string option" \<comment> \<open>the debug text of the field values, None when undecodable\<close>
  ev_extrinsic :: "nat option" \<comment> \<open>phase \<open>ApplyExtrinsic\<close>\<close>
  ev_data :: "chain_data option"

record block =
  bk_number :: u32
  bk_events :: "string + (string + chain_event) list"
  bk_extrinsics :: "u32 \<Rightarrow> string + bytes list" \<comment> \<open>the hashes, as fetched for one event\<close>

type_synonym cursor = "u64 \<times> u32"

text \<open>What the environment decides while one event is processed.\<close>

record 'e event_env =
  ee_mirror :: 'e
  ee_patch :: 'e
  ee_record :: 'e
  ee_uuid :: "nat \<Rightarrow> uuid"
  ee_clock :: int

text \<open>How a stretch of replay ends; what has been written stays written.\<close>

datatype 's replay = Going 's cursor | Exited api_error 's | Panicked 's

section \<open>One event\<close>

definition skip_event :: "cursor \<Rightarrow> u64 \<Rightarrow> u32 \<Rightarrow> bool" where
  "skip_event last_cursor b idx = (b < fst last_cursor \<or> b = fst last_cursor \<and> idx \<le> snd last_cursor)"

definition event_payload :: "chain_event \<Rightarrow> string" where
  "event_payload ev = unwrap_or ''<undecodable>'' (ev_fields ev)"

definition correlation_of :: "'j libs \<Rightarrow> block \<Rightarrow> chain_event \<Rightarrow> string option" where
  "correlation_of L blk ev =
     (case ev_extrinsic ev of
        None \<Rightarrow> None
      | Some ex \<Rightarrow>
          (case bk_extrinsics blk (ev_index ev) of
             Inl err \<Rightarrow> None
           | Inr hashes \<Rightarrow>
               if ex < length hashes then Some (hex_0x L (hashes ! ex)) else None))"

type_synonym ('s, 'e) mirror =
  "'e event_env \<Rightarrow> u64 \<Rightarrow> string option \<Rightarrow> string \<Rightarrow> chain_event \<Rightarrow> 's \<Rightarrow> 's \<times> bool"

text \<open>The mirror returns the store and whether it panicked.\<close>

definition no_mirror :: "('s, 'e) mirror" where
  "no_mirror e b corr payload ev s = (s, False)"

definition process_event ::
    "'j libs \<Rightarrow> ('s, 'e) sink_ops \<Rightarrow> ('s, 'e) mirror \<Rightarrow> 'e event_env \<Rightarrow> block \<Rightarrow> cursor \<Rightarrow> chain_event
     \<Rightarrow> 's \<Rightarrow> cursor \<Rightarrow> 's replay" where
  "process_event L K mir e blk last_cursor ev s max_cursor =
     (let b = ucast (bk_number blk); idx = ev_index ev in
      if skip_event last_cursor b idx then Going s max_cursor
      else if \<not> is_supported (ev_pallet ev) (ev_variant ev) then Going s max_cursor
      else
        let payload = event_payload ev;
            correlation = correlation_of L blk ev;
            (s1, panicked) = mir e b correlation payload ev s
        in if panicked then Panicked s1
           else case op_record_chain_event K (ee_record e) b idx (ev_pallet ev) (ev_variant ev)
                       payload correlation s1 of
                  Inl err \<Rightarrow> Exited err s1
                | Inr s2 \<Rightarrow> Going s2 (b, idx))"

section \<open>Blocks, sessions and the loop\<close>

fun replay_events ::
    "'j libs \<Rightarrow> ('s, 'e) sink_ops \<Rightarrow> ('s, 'e) mirror \<Rightarrow> (u32 \<Rightarrow> 'e event_env) \<Rightarrow> block \<Rightarrow> cursor
     \<Rightarrow> (string + chain_event) list \<Rightarrow> 's \<Rightarrow> cursor \<Rightarrow> 's replay" where
  "replay_events L K mir env blk last_cursor [] s max_cursor = Going s max_cursor"
| "replay_events L K mir env blk last_cursor (Inl err # evs) s max_cursor =
     replay_events L K mir env blk last_cursor evs s max_cursor"
| "replay_events L K mir env blk last_cursor (Inr ev # evs) s max_cursor =
     (case process_event L K mir (env (ev_index ev)) blk last_cursor ev s max_cursor of
        Going s' c' \<Rightarrow> replay_events L K mir env blk last_cursor evs s' c'
      | stopped \<Rightarrow> stopped)"

definition cursor_less :: "cursor \<Rightarrow> cursor \<Rightarrow> bool" where
  "cursor_less a b = (fst a < fst b \<or> fst a = fst b \<and> snd a < snd b)"

record 'e block_env =
  be_events :: "u32 \<Rightarrow> 'e event_env"
  be_cursor :: 'e

definition replay_block ::
    "'j libs \<Rightarrow> ('s, 'e) sink_ops \<Rightarrow> ('s, 'e) mirror \<Rightarrow> 'e block_env \<Rightarrow> block \<Rightarrow> 's \<Rightarrow> cursor
     \<Rightarrow> 's replay" where
  "replay_block L K mir e blk s last_cursor =
     (case bk_events blk of
        Inl err \<Rightarrow> Going s last_cursor
      | Inr evs \<Rightarrow>
          (case replay_events L K mir (be_events e) blk last_cursor evs s last_cursor of
             Going s1 max_cursor \<Rightarrow>
               if cursor_less last_cursor max_cursor
               then case op_update_chain_cursor K (be_cursor e) (fst max_cursor) (snd max_cursor) s1 of
                      Inl err \<Rightarrow> Exited err s1
                    | Inr s2 \<Rightarrow> Going s2 max_cursor
               else Going s1 last_cursor
           | stopped \<Rightarrow> stopped))"

text \<open>A failing item of the subscription ends the session.\<close>

fun replay_session ::
    "'j libs \<Rightarrow> ('s, 'e) sink_ops \<Rightarrow> ('s, 'e) mirror \<Rightarrow> (string + 'e block_env \<times> block) list
     \<Rightarrow> 's \<Rightarrow> cursor \<Rightarrow> 's replay" where
  "replay_session L K mir [] s last_cursor = Going s last_cursor"
| "replay_session L K mir (Inl err # items) s last_cursor = Going s last_cursor"
| "replay_session L K mir (Inr (e, blk) # items) s last_cursor =
     (case replay_block L K mir e blk s last_cursor of
        Going s' last_cursor' \<Rightarrow> replay_session L K mir items s' last_cursor'
      | stopped \<Rightarrow> stopped)"

datatype 'e connection =
    ConnectFailed string
  | SubscribeFailed string
  | Session 'e "(string + 'e block_env \<times> block) list"

text \<open>Each session starts from the stored cursor, and from (0, 0) when there is none.\<close>

datatype replay_end = Running | Stopped api_error | Died

fun run_chain_replay ::
    "'j libs \<Rightarrow> ('s, 'e) sink_ops \<Rightarrow> ('s, 'e) mirror \<Rightarrow> 'e connection list \<Rightarrow> 's \<Rightarrow> replay_end \<times> 's" where
  "run_chain_replay L K mir [] s = (Running, s)"
| "run_chain_replay L K mir (ConnectFailed err # as) s = run_chain_replay L K mir as s"
| "run_chain_replay L K mir (SubscribeFailed err # as) s = run_chain_replay L K mir as s"
| "run_chain_replay L K mir (Session e items # as) s =
     (case op_last_chain_cursor K e s of
        Inl err \<Rightarrow> (Stopped err, s)
      | Inr c \<Rightarrow>
          (case replay_session L K mir items s (unwrap_or (0, 0) c) of
             Going s' last_cursor \<Rightarrow> run_chain_replay L K mir as s'
           | Exited err s' \<Rightarrow> (Stopped err, s')
           | Panicked s' \<Rightarrow> (Died, s')))"

end
