(* ===== verification/Replay_Spec.thy ===== *)
theory Replay_Spec
  imports Replay
begin

text \<open>
  What replay does over any sink: the locale \<open>replayer\<close> adds to the contract of the event sink
  a mirror that leaves the cursor alone. The cursor only moves forward, a block that has been
  processed is skipped, and so is every block below the cursor.
\<close>

section \<open>The order of cursors\<close>

definition cursor_le :: "cursor \<Rightarrow> cursor \<Rightarrow> bool" where
  "cursor_le a b = (cursor_less a b \<or> a = b)"

lemma cursor_le_refl [simp]: "cursor_le a a"
  by (simp add: cursor_le_def)

lemma cursor_le_trans: "cursor_le a b \<Longrightarrow> cursor_le b c \<Longrightarrow> cursor_le a c"
  by (cases a; cases b; cases c) (auto simp: cursor_le_def cursor_less_def)

lemma skip_event_iff: "skip_event c b i = cursor_le (b, i) c"
  by (cases c) (auto simp: skip_event_def cursor_le_def cursor_less_def)

lemma cursor_not_le: "\<not> cursor_le a b \<longleftrightarrow> cursor_less b a"
  by (cases a; cases b) (auto simp: cursor_le_def cursor_less_def)

lemma cursor_less_le: "cursor_less a b \<Longrightarrow> cursor_le a b"
  by (simp add: cursor_le_def)

section \<open>Positions of a block\<close>

definition block_pos :: "block \<Rightarrow> chain_event \<Rightarrow> cursor" where
  "block_pos blk ev = (ucast (bk_number blk), ev_index ev)"

definition wanted :: "cursor \<Rightarrow> block \<Rightarrow> chain_event \<Rightarrow> bool" where
  "wanted c blk ev =
     (is_supported (ev_pallet ev) (ev_variant ev) \<and> cursor_less c (block_pos blk ev))"

text \<open>Events are delivered in the order of their index.\<close>

definition in_order :: "(string + chain_event) list \<Rightarrow> bool" where
  "in_order evs =
     sorted (map (\<lambda>ev. ev_index ev) (List.map_filter result_ok evs))"

lemma process_unwanted:
  "\<not> wanted c blk ev \<Longrightarrow> process_event L K mir e blk c ev s m = Going s m"
  by (auto simp: process_event_def wanted_def block_pos_def skip_event_iff Let_def
      simp flip: cursor_not_le)

lemma process_wanted:
  assumes "wanted c blk ev"
  shows "process_event L K mir e blk c ev s m =
     (let (s1, panicked) = mir e (ucast (bk_number blk)) (correlation_of L blk ev) (event_payload ev) ev s
      in if panicked then Panicked s1
         else case op_record_chain_event K (ee_record e) (ucast (bk_number blk)) (ev_index ev)
                (ev_pallet ev) (ev_variant ev) (event_payload ev) (correlation_of L blk ev) s1 of
              Inl err \<Rightarrow> Exited err s1
            | Inr s2 \<Rightarrow> Going s2 (block_pos blk ev))"
  using assms unfolding wanted_def block_pos_def cursor_not_le [symmetric]
  by (simp add: process_event_def skip_event_iff Let_def)

lemma replay_events_unwanted:
  "(\<And>ev. Inr ev \<in> set evs \<Longrightarrow> \<not> wanted c blk ev) \<Longrightarrow>
     replay_events L K mir env blk c evs s m = Going s m"
proof (induction evs)
  case (Cons y evs)
  then show ?case by (cases y) (simp_all add: process_unwanted)
qed simp

lemma replay_block_unwanted:
  assumes "\<And>evs ev. bk_events blk = Inr evs \<Longrightarrow> Inr ev \<in> set evs \<Longrightarrow> \<not> wanted c blk ev"
  shows "replay_block L K mir e blk s c = Going s c"
proof (cases "bk_events blk")
  case (Inr evs)
  then have "replay_events L K mir (be_events e) blk c evs s c = Going s c"
    using assms by (intro replay_events_unwanted) blast
  then show ?thesis using Inr by (simp add: replay_block_def cursor_less_def)
qed (simp add: replay_block_def)

section \<open>The replayer\<close>

fun state_of :: "'s replay \<Rightarrow> 's" where
  "state_of (Going s c) = s"
| "state_of (Exited err s) = s"
| "state_of (Panicked s) = s"

definition cursor_or_zero :: "cursor option \<Rightarrow> cursor" where
  "cursor_or_zero c = unwrap_or (0, 0) c"

locale replayer = event_sink K cursor_of quiet
  for K :: "('s, 'e) sink_ops"
    and cursor_of :: "'s \<Rightarrow> (u64 \<times> u32) option"
    and quiet :: "'e \<Rightarrow> bool" +
  fixes mir :: "('s, 'e) mirror"
  assumes mirror_keeps_cursor: "cursor_of (fst (mir ev b corr payload event s)) = cursor_of s"
begin

lemma process_keeps_cursor:
  "cursor_of (state_of (process_event L K mir e blk c ev s m)) = cursor_of s"
proof (cases "wanted c blk ev")
  case True
  obtain s1 p where m: "mir e (ucast (bk_number blk)) (correlation_of L blk ev) (event_payload ev) ev s
      = (s1, p)" by fastforce
  then have "cursor_of s1 = cursor_of s" using mirror_keeps_cursor by (metis fst_conv)
  then show ?thesis
    using m record_keeps_cursor by (auto simp: process_wanted [OF True] split: sum.split)
qed (simp add: process_unwanted)

lemma events_keep_cursor:
  "cursor_of (state_of (replay_events L K mir env blk c evs s m)) = cursor_of s"
proof (induction evs arbitrary: s m)
  case (Cons y evs)
  show ?case
  proof (cases y)
    case (Inr ev)
    have "cursor_of (state_of (process_event L K mir (env (ev_index ev)) blk c ev s m)) = cursor_of s"
      by (rule process_keeps_cursor)
    then show ?thesis
      using Inr Cons.IH
      by (cases "process_event L K mir (env (ev_index ev)) blk c ev s m") simp_all
  qed (use Cons.IH in simp)
qed simp

text \<open>A finished stretch leaves the highest wanted position, so all of its events lie below it.\<close>

lemma events_done:
  assumes "replay_events L K mir env blk c evs s m = Going s' m'" "in_order evs"
    "m = c \<or> (\<exists>i. m = (ucast (bk_number blk), i) \<and> cursor_less c m
       \<and> (\<forall>ev. Inr ev \<in> set evs \<longrightarrow> i \<le> ev_index ev))"
  shows "cursor_le c m' \<and> cursor_le m m'
    \<and> (\<forall>ev. Inr ev \<in> set evs \<longrightarrow> is_supported (ev_pallet ev) (ev_variant ev)
          \<longrightarrow> cursor_le (block_pos blk ev) m')"
  using assms
proof (induction evs arbitrary: s m)
  case Nil
  then show ?case by (auto intro: cursor_less_le)
next
  case (Cons y evs)
  show ?case
  proof (cases y)
    case (Inl err)
    have "in_order evs" using Cons.prems(2) Inl by (simp add: in_order_def List.map_filter_simps)
    then show ?thesis using Cons Inl by (auto simp: in_order_def)
  next
    case (Inr ev)
    have ord: "in_order evs" "\<forall>ev'. Inr ev' \<in> set evs \<longrightarrow> ev_index ev \<le> ev_index ev'"
      using Cons.prems(2) Inr
      by (force simp: in_order_def List.map_filter_simps List.map_filter_def)+
    show ?thesis
    proof (cases "wanted c blk ev")
      case False
      then have "replay_events L K mir env blk c evs s m = Going s' m'"
        using Cons.prems(1) Inr by (simp add: process_unwanted)
      then have IH: "cursor_le c m' \<and> cursor_le m m'
          \<and> (\<forall>ev. Inr ev \<in> set evs \<longrightarrow> is_supported (ev_pallet ev) (ev_variant ev)
                \<longrightarrow> cursor_le (block_pos blk ev) m')"
        using Cons.prems(3) by (intro Cons.IH ord(1)) auto
      have "cursor_le (block_pos blk ev) c" if "is_supported (ev_pallet ev) (ev_variant ev)"
        using False that by (auto simp: wanted_def simp flip: cursor_not_le)
      then have "is_supported (ev_pallet ev) (ev_variant ev) \<Longrightarrow> cursor_le (block_pos blk ev) m'"
        using IH cursor_le_trans by blast
      then show ?thesis using IH Inr by auto
    next
      case True
      then obtain s1 where p: "process_event L K mir (env (ev_index ev)) blk c ev s m
          = Going s1 (block_pos blk ev)"
        and rest: "replay_events L K mir env blk c evs s1 (block_pos blk ev) = Going s' m'"
        using Cons.prems(1) Inr
        by (auto simp: process_wanted Let_def split: prod.splits if_splits sum.splits)
      have less: "cursor_less c (block_pos blk ev)" using True by (simp add: wanted_def)
      have IH: "cursor_le c m' \<and> cursor_le (block_pos blk ev) m'
          \<and> (\<forall>ev. Inr ev \<in> set evs \<longrightarrow> is_supported (ev_pallet ev) (ev_variant ev)
                \<longrightarrow> cursor_le (block_pos blk ev) m')"
        by (rule Cons.IH [OF rest ord(1)]) (use less ord(2) in \<open>auto simp: block_pos_def\<close>)
      have "cursor_le m (block_pos blk ev)"
        using Cons.prems(3) less Inr
        by (auto simp: block_pos_def cursor_le_def cursor_less_def)
      then have "cursor_le m m'" using IH cursor_le_trans by blast
      then show ?thesis using IH Inr by auto
    qed
  qed
qed

lemma block_cursor:
  assumes "replay_block L K mir e blk s c = Going s' c'" "\<And>evs. bk_events blk = Inr evs \<Longrightarrow> in_order evs"
  shows "(c' = c \<and> cursor_of s' = cursor_of s \<or> cursor_less c c' \<and> cursor_of s' = Some c')
    \<and> (\<forall>evs ev. bk_events blk = Inr evs \<longrightarrow> Inr ev \<in> set evs \<longrightarrow> \<not> wanted c' blk ev)"
proof (cases "bk_events blk")
  case (Inl err)
  then show ?thesis using assms(1) by (simp add: replay_block_def)
next
  case (Inr evs)
  obtain s1 m where ev: "replay_events L K mir (be_events e) blk c evs s c = Going s1 m"
    using assms(1) Inr by (auto simp: replay_block_def split: replay.splits)
  have keep: "cursor_of s1 = cursor_of s"
    using events_keep_cursor [of L "be_events e" blk c evs s c] ev by simp
  have le: "cursor_le c m" and all: "\<And>ev. Inr ev \<in> set evs \<Longrightarrow>
      is_supported (ev_pallet ev) (ev_variant ev) \<Longrightarrow> cursor_le (block_pos blk ev) m"
    using events_done [OF ev assms(2) [OF Inr]] by auto
  have finished: "\<not> wanted m blk ev" if "Inr ev \<in> set evs" for ev
    using all [OF that] by (auto simp: wanted_def simp flip: cursor_not_le)
  show ?thesis
  proof (cases "cursor_less c m")
    case True
    then obtain s2 where "op_update_chain_cursor K (be_cursor e) (fst m) (snd m) s1 = Ok s2"
        "s' = s2" "c' = m"
      using assms(1) Inr ev by (auto simp: replay_block_def split: sum.splits)
    then show ?thesis using True Inr finished update_cursor by fastforce
  next
    case False
    then have "m = c" using le by (simp add: cursor_le_def)
    then show ?thesis using assms(1) Inr ev False keep finished by (auto simp: replay_block_def)
  qed
qed

text \<open>Delivering a processed block again changes nothing, whatever the environment does.\<close>

lemma block_idempotent:
  assumes "replay_block L K mir e blk s c = Going s' c'" "\<And>evs. bk_events blk = Inr evs \<Longrightarrow> in_order evs"
  shows "replay_block L K mir e' blk s' c' = Going s' c'"
  by (rule replay_block_unwanted) (use block_cursor [OF assms] in blast)

text \<open>Whatever happens, the stored cursor is the one of a finished block and never moves back.\<close>

lemma block_state:
  assumes "cursor_or_zero (cursor_of s) = c"
  shows "cursor_le c (cursor_or_zero (cursor_of (state_of (replay_block L K mir e blk s c))))
    \<and> (\<forall>s' c'. replay_block L K mir e blk s c = Going s' c' \<longrightarrow> cursor_or_zero (cursor_of s') = c')"
proof (cases "bk_events blk")
  case (Inl err)
  then show ?thesis using assms by (simp add: replay_block_def)
next
  case (Inr evs)
  note keep = events_keep_cursor [of L "be_events e" blk c evs s c]
  show ?thesis
  proof (cases "replay_events L K mir (be_events e) blk c evs s c")
    case (Going s1 m)
    then show ?thesis
      using assms Inr keep update_cursor [of "be_cursor e" "fst m" "snd m" s1]
      by (auto simp: replay_block_def cursor_or_zero_def cursor_less_le split: sum.split)
  qed (use assms Inr keep in \<open>simp_all add: replay_block_def\<close>)
qed

lemma session_state:
  "cursor_or_zero (cursor_of s) = c \<Longrightarrow>
     cursor_le c (cursor_or_zero (cursor_of (state_of (replay_session L K mir items s c))))"
proof (induction items arbitrary: s c)
  case (Cons item items)
  show ?case
  proof (cases item)
    case (Inr eb)
    obtain e blk where eb: "eb = (e, blk)" by fastforce
    note step = block_state [OF Cons.prems, of L e blk]
    show ?thesis
    proof (cases "replay_block L K mir e blk s c")
      case (Going s' c')
      then have c': "cursor_or_zero (cursor_of s') = c'" using step by blast
      have le: "cursor_le c c'" using step Going c' by simp
      show ?thesis using Inr eb Going cursor_le_trans [OF le Cons.IH [OF c']] by simp
    qed (use Inr eb step in simp_all)
  qed (use Cons.prems in simp)
qed simp

lemma run_state:
  "run_chain_replay L K mir as s = (out, s') \<Longrightarrow>
     cursor_le (cursor_or_zero (cursor_of s)) (cursor_or_zero (cursor_of s'))"
proof (induction as arbitrary: s)
  case (Cons a as)
  show ?case
  proof (cases a)
    case (Session e items)
    show ?thesis
    proof (cases "op_last_chain_cursor K e s")
      case (Inr cur)
      then have cur: "cur = cursor_of s" by (rule last_cursor_Ok)
      note ses = session_state [OF refl, of s L items]
      show ?thesis
      proof (cases "replay_session L K mir items s (cursor_or_zero cur)")
        case (Going s1 c1)
        then have "run_chain_replay L K mir as s1 = (out, s')"
          using Cons.prems Session Inr by (simp add: cursor_or_zero_def)
        then have "cursor_le (cursor_or_zero (cursor_of s1)) (cursor_or_zero (cursor_of s'))"
          by (rule Cons.IH)
        then show ?thesis using ses Going cur cursor_le_trans by fastforce
      qed (use Cons.prems Session Inr ses cur in \<open>auto simp: cursor_or_zero_def\<close>)
    qed (use Cons.prems Session in simp)
  qed (use Cons in simp_all)
qed simp

end

text \<open>In memory nothing is mirrored.\<close>

interpretation mem_replay: replayer mem_sink ms_cursor "\<lambda>_. True" no_mirror
  by unfold_locales (simp add: no_mirror_def)

end
