(* ===== verification/Pg_Mirror.thy ===== *)
theory Pg_Mirror
  imports Replay_Spec Pg_Contract Outbox_Spec
begin

text \<open>
  The statements that \<open>run_chain_replay\<close> (src/orchestrator/api/src/chain.rs) sends to a
  Postgres pool for an event, arm by arm, each with what it would write if the schema accepted
  it; and what they do on the migrated schema. Every failure is ignored (\<open>let _ =\<close>), except
  that reading a UUID column as a \<open>String\<close> and a budget beyond \<open>u64\<close> panic.
\<close>

section \<open>AgentRegistered\<close>

definition chain_did :: "u64 \<Rightarrow> string" where
  "chain_did agent = ''did:ainur:'' @ dec (unat agent)"

definition Q_MIRROR_AGENT :: sql_stmt where
  "Q_MIRROR_AGENT =
     q_insert ''agents''
       [(''id'', TextT), (''label'', TextT), (''chain_agent_id'', BigintT),
        (''account_address'', TextT), (''updated_at'', TimestamptzT)] [''id''] 4"

definition put_chain_agent :: "string \<Rightarrow> i64 \<Rightarrow> string \<Rightarrow> int \<Rightarrow> 'j pg_db \<Rightarrow> 'j pg_db" where
  "put_chain_agent did agent owner now s =
     s\<lparr>db_agents := AList.update did
         (case map_of (db_agents s) did of
            Some r \<Rightarrow> r\<lparr>pa_label := did, pa_chain_agent_id := Some agent,
                        pa_account_address := Some owner\<rparr>
          | None \<Rightarrow> \<lparr>pa_label = did, pa_created_at = now, pa_chain_agent_id = Some agent,
                     pa_account_address = Some owner\<rparr>) (db_agents s)\<rparr>"

definition Q_ADOPT_AGENT :: sql_stmt where
  "Q_ADOPT_AGENT =
     (q_select ''agents'' [(''account_address'', TextT), (''chain_agent_id'', BigintT)] 2)
       \<lparr>q_writes := [(''chain_agent_id'', BigintT), (''updated_at'', TimestamptzT)]\<rparr>"

definition adopt_agents :: "i64 \<Rightarrow> string \<Rightarrow> 'j pg_db \<Rightarrow> 'j pg_db" where
  "adopt_agents agent owner s =
     s\<lparr>db_agents := map (\<lambda>(i, r).
         (i, if pa_account_address r = Some owner \<and> pa_chain_agent_id r = None
             then r\<lparr>pa_chain_agent_id := Some agent\<rparr> else r)) (db_agents s)\<rparr>"

definition mirror_agent ::
    "'j pg \<Rightarrow> 'j pg_env \<Rightarrow> string option \<Rightarrow> u64 \<Rightarrow> string \<Rightarrow> 'j pg_db \<Rightarrow> 'j pg_db" where
  "mirror_agent x e corr agent owner s =
     (let did = chain_did agent;
          s1 = attempt (run_stmt x e 0 Q_MIRROR_AGENT (pg_text owner)
                          (put_chain_agent did agent owner (pe_now e) s)) s;
          s2 = link_tx x e 1 corr None (Some agent) s1
      in attempt (run_stmt x e 2 Q_ADOPT_AGENT (pg_text owner) (adopt_agents agent owner s2)) s2)"

section \<open>TaskCreated\<close>

definition created_json :: "'j libs \<Rightarrow> string \<Rightarrow> string \<Rightarrow> string \<Rightarrow> 'j \<Rightarrow> i64 \<Rightarrow> 'j" where
  "created_json L gid did description max_cost created_at =
     json_object L
       [(''id'', json_string L gid), (''client_task_id'', json_null L),
        (''task'', json_object L
           [(''requester'', json_string L did),
            (''specification'', json_object L
               [(''description'', json_string L description),
                (''task_type'', json_object L [(''custom'', json_string L ''chain'')]),
                (''input'', json_array L []), (''output_format'', json_string L ''binary''),
                (''metadata'', json_array L [])]),
            (''budget'', json_object L [(''max_cost'', max_cost), (''currency'', json_null L)]),
            (''requirements'', json_object L
               [(''capabilities'', json_array L []), (''verification'', json_string L ''unknown''),
                (''deadline'', json_i64 L 0), (''trust'', json_null L)]),
            (''deadline'', json_i64 L 0)]),
        (''status'', json_string L ''pending''), (''created_at'', json_i64 L created_at)]"

definition Q_MIRROR_TASK :: sql_stmt where
  "Q_MIRROR_TASK =
     q_insert ''tasks''
       [(''id'', TextT), (''requester_id'', ByteaT), (''description'', TextT),
        (''task_type'', TextT), (''input_base64'', TextT), (''max_budget'', BigintT),
        (''deadline'', TimestamptzT), (''status'', TextT), (''created_at'', TimestamptzT),
        (''updated_at'', TimestamptzT), (''stored_json'', JsonbT), (''chain_task_id'', BigintT)]
       [''chain_task_id''] 12"

definition put_chain_task ::
    "uuid \<Rightarrow> string \<Rightarrow> string \<Rightarrow> int \<Rightarrow> int \<Rightarrow> 'j \<Rightarrow> i64 \<Rightarrow> int \<Rightarrow> 'j pg_db \<Rightarrow> 'j pg_db" where
  "put_chain_task u did description budget created_at j task now s =
     (case find (\<lambda>r. pt_chain_task_id (snd r) = Some task) (db_tasks s) of
        Some (v, old) \<Rightarrow>
          s\<lparr>db_tasks := AList.update v
              (old\<lparr>pt_requester_id := as_bytes did, pt_description := description,
                   pt_status := ''pending'', pt_updated_at := now, pt_json := j\<rparr>) (db_tasks s)\<rparr>
      | None \<Rightarrow>
          s\<lparr>db_tasks := AList.update u
              \<lparr>pt_client_task_id = None, pt_requester_id = as_bytes did,
               pt_description = description, pt_task_type = ''chain'', pt_input_base64 = [],
               pt_max_budget = budget, pt_deadline = 0, pt_status = ''pending'',
               pt_created_at = created_at, pt_updated_at = created_at, pt_json = j,
               pt_chain_task_id = Some task, pt_result_hash = None, pt_matched_agent = None\<rparr>
              (db_tasks s)\<rparr>)"

text \<open>\<open>UPDATE .. ORDER BY created_at ASC LIMIT 1\<close>: the oldest task without a chain id.\<close>

definition Q_ADOPT_TASK :: sql_stmt where
  "Q_ADOPT_TASK =
     (q_select ''tasks'' [(''chain_task_id'', BigintT)] 1)
       \<lparr>q_writes := [(''chain_task_id'', BigintT), (''updated_at'', TimestamptzT)],
        q_update_limit := True\<rparr>"

definition adopt_task :: "'j pg_env \<Rightarrow> i64 \<Rightarrow> 'j pg_db \<Rightarrow> 'j pg_db" where
  "adopt_task e task s =
     (case sort_key (\<lambda>r. pt_created_at (snd r))
             (filter (\<lambda>r. pt_chain_task_id (snd r) = None) (pe_tasks e (db_tasks s))) of
        [] \<Rightarrow> s
      | (u, r) # _ \<Rightarrow>
          s\<lparr>db_tasks := AList.update u
              (r\<lparr>pt_chain_task_id := Some task, pt_updated_at := pe_now e\<rparr>) (db_tasks s)\<rparr>)"

definition mirror_task ::
    "'j pg \<Rightarrow> 'j pg_env event_env \<Rightarrow> string option \<Rightarrow> u64 \<Rightarrow> string \<Rightarrow> u128 \<Rightarrow> 'j pg_db
     \<Rightarrow> 'j pg_db \<times> bool" where
  "mirror_task x ev corr task requester budget s =
     (let L = pg_libs x; e = ee_mirror ev;
          did = ''did:ainur:'' @ requester;
          description = ''chain task '' @ dec (unat task);
          u = ee_uuid ev 0
      in case json_u128 L budget of
           None \<Rightarrow> (s, True)
         | Some max_cost \<Rightarrow>
             let j = created_json L (uuid_to_string L u) did description max_cost
                       (word_of_int (ee_clock ev));
                 s1 = attempt (run_stmt x e 0 Q_MIRROR_TASK
                                 (pg_timestamp (ee_clock ev) \<and> pg_jsonb x j)
                                 (put_chain_task u did description (sint (ucast budget :: i64))
                                    (ee_clock ev) j task (pe_now e) s)) s;
                 s2 = link_tx x e 1 corr (Some task) None s1;
                 s3 = attempt (run_stmt x e 2 Q_ADOPT_TASK True (adopt_task e task s2)) s2
             in (patch_pending_with_ids x (ee_patch ev) (Some task) None s3, False))"

section \<open>BidSubmitted\<close>

definition Q_TASK_BY_CHAIN_ID :: sql_stmt where
  "Q_TASK_BY_CHAIN_ID = q_select ''tasks'' [(''chain_task_id'', BigintT)] 1"

definition Q_AGENT_BY_CHAIN_ID :: sql_stmt where
  "Q_AGENT_BY_CHAIN_ID = q_select ''agents'' [(''chain_agent_id'', BigintT)] 1"

definition task_by_chain_id :: "'j pg \<Rightarrow> 'j pg_env \<Rightarrow> u64 \<Rightarrow> 'j pg_db \<Rightarrow> uuid option" where
  "task_by_chain_id x e task s =
     Option.bind
       (result_ok (run_stmt x e 0 Q_TASK_BY_CHAIN_ID True
          (find (\<lambda>r. pt_chain_task_id (snd r) = Some task) (pe_tasks e (db_tasks s)))))
       (map_option fst)"

text \<open>\<open>row.get::<String, _>(\<dots>)\<close> panics on a column that is not textual.\<close>

definition text_column :: "schema \<Rightarrow> string \<Rightarrow> string \<Rightarrow> bool" where
  "text_column D t col =
     (case map_of D t of None \<Rightarrow> False | Some tb \<Rightarrow> map_of (tb_columns tb) col = Some TextT)"

definition agent_by_chain_id :: "'j pg \<Rightarrow> 'j pg_env \<Rightarrow> u64 \<Rightarrow> 'j pg_db \<Rightarrow> string" where
  "agent_by_chain_id x e agent s =
     unwrap_or (chain_did agent)
       (Option.bind
          (result_ok (run_stmt x e 1 Q_AGENT_BY_CHAIN_ID True
             (find (\<lambda>r. pa_chain_agent_id (snd r) = Some agent) (pe_agents e (db_agents s)))))
          (map_option fst))"

definition chain_bid :: "'j libs \<Rightarrow> uuid \<Rightarrow> string \<Rightarrow> string \<Rightarrow> u64 \<Rightarrow> u64 \<Rightarrow> stored_bid" where
  "chain_bid L u task_uuid did agent b =
     \<lparr>sb_id = uuid_to_string L u, sb_task_id = task_uuid, sb_agent_id = did,
      sb_bid =
        \<lparr>bd_agent_id = AgentId (agent_bytes_from_chain_id agent), bd_task_id = TaskId (replicate 32 0),
         bd_value = 0, bd_quality_score = 0, bd_completion_time = 0, bd_guarantees = []\<rparr>,
      sb_created_at = b\<rparr>"

definition Q_MIRROR_BID :: sql_stmt where
  "Q_MIRROR_BID =
     (plain_stmt ''bids'' 8)
       \<lparr>q_writes :=
          [(''id'', TextT), (''task_id'', TextT), (''agent_id'', ByteaT), (''value'', BigintT),
           (''quality_score'', IntegerT), (''completion_time'', BigintT),
           (''created_at'', TimestamptzT), (''stored_json'', JsonbT)]\<rparr>"

text \<open>\<open>ON CONFLICT DO NOTHING\<close> without a target: any conflict.\<close>

definition put_chain_bid :: "uuid \<Rightarrow> 'j pg_bid \<Rightarrow> 'j pg_db \<Rightarrow> 'j pg_db" where
  "put_chain_bid u r s =
     (if list_ex (\<lambda>(v, old). v = u \<or> (pb_task_id old, pb_agent_id old) = (pb_task_id r, pb_agent_id r))
           (db_bids s)
      then s else s\<lparr>db_bids := db_bids s @ [(u, r)]\<rparr>)"

definition mirror_bid ::
    "'j pg \<Rightarrow> 'j pg_env event_env \<Rightarrow> u64 \<Rightarrow> string option \<Rightarrow> u64 \<Rightarrow> u64 \<Rightarrow> 'j pg_db
     \<Rightarrow> 'j pg_db \<times> bool" where
  "mirror_bid x ev b corr task agent s =
     (let L = pg_libs x; e = ee_mirror ev; u = ee_uuid ev 0
      in case task_by_chain_id x e task s of
           None \<Rightarrow> (s, False)
         | Some t \<Rightarrow>
             if \<not> text_column (pg_schema x) ''tasks'' ''id'' then (s, True)
             else
               let did = agent_by_chain_id x e agent s;
                   bid = chain_bid L u (uuid_to_string L t) did agent b;
                   j = unwrap_or (json_object L []) (result_ok (ser_bid L bid));
                   r = new_bid_row t bid 0 j;
                   s1 = attempt (run_stmt x e 2 Q_MIRROR_BID
                                   (pg_timestamp (as_i64 b) \<and> pg_jsonb x j
                                    \<and> t \<in> fst ` set (db_tasks s)) (put_chain_bid u r s)) s
               in (link_tx x e 3 corr (Some task) (Some agent) s1, False))"

section \<open>TaskCompleted\<close>

definition chain_result :: "'j libs \<Rightarrow> uuid \<Rightarrow> string \<Rightarrow> u64 \<Rightarrow> u64 \<Rightarrow> stored_result" where
  "chain_result L u task_uuid agent b =
     \<lparr>sr_id = uuid_to_string L u, sr_task_id = task_uuid, sr_agent_id = chain_did agent,
      sr_result =
        \<lparr>tr_task_id = TaskId (replicate 32 0),
         tr_executor = AgentId (agent_bytes_from_chain_id agent), tr_output = [],
         tr_proof = Some NoProof,
         tr_resources_used =
           \<lparr>ru_cpu_time_ms = 0, ru_memory_bytes = 0, ru_storage_bytes = 0,
            ru_bandwidth_bytes = 0, ru_gpu_time_ms = None\<rparr>,
         tr_completed_at = b\<rparr>,
      sr_created_at = b\<rparr>"

definition Q_MIRROR_RESULT :: sql_stmt where
  "Q_MIRROR_RESULT =
     q_insert ''results''
       [(''id'', TextT), (''task_id'', TextT), (''agent_id'', ByteaT), (''output_base64'', TextT),
        (''completed_at'', TimestamptzT), (''proof'', ByteaT), (''stored_json'', JsonbT),
        (''chain_task_id'', BigintT), (''created_at'', TimestamptzT),
        (''updated_at'', TimestamptzT)] [''task_id''] 8"

definition put_chain_result :: "uuid \<Rightarrow> 'j pg_result \<Rightarrow> 'j pg_db \<Rightarrow> 'j pg_db" where
  "put_chain_result u r s =
     (if list_ex (\<lambda>(_, old). pr_task_id old = pr_task_id r) (db_results s)
      then s\<lparr>db_results := map (\<lambda>(v, old).
             (v, if pr_task_id old = pr_task_id r
                 then old\<lparr>pr_output_base64 := pr_output_base64 r,
                          pr_completed_at := pr_completed_at r, pr_json := pr_json r\<rparr>
                 else old)) (db_results s)\<rparr>
      else s\<lparr>db_results := db_results s @ [(u, r)]\<rparr>)"

definition Q_COMPLETE_TASK :: sql_stmt where
  "Q_COMPLETE_TASK =
     (q_select ''tasks'' [(''chain_task_id'', BigintT)] 2)
       \<lparr>q_writes := [(''status'', TextT), (''result_hash'', TextT), (''updated_at'', TimestamptzT)]\<rparr>"

definition complete_chain_task :: "u64 \<Rightarrow> string \<Rightarrow> int \<Rightarrow> 'j pg_db \<Rightarrow> 'j pg_db" where
  "complete_chain_task task result_hash now s =
     s\<lparr>db_tasks := map (\<lambda>(u, r).
         (u, if pt_chain_task_id r = Some task
             then r\<lparr>pt_status := ''completed'', pt_result_hash := Some result_hash,
                    pt_updated_at := now\<rparr> else r)) (db_tasks s)\<rparr>"

definition mirror_result ::
    "'j pg \<Rightarrow> 'j pg_env event_env \<Rightarrow> u64 \<Rightarrow> string option \<Rightarrow> u64 \<Rightarrow> u64 \<Rightarrow> bytes \<Rightarrow> 'j pg_db
     \<Rightarrow> 'j pg_db \<times> bool" where
  "mirror_result x ev b corr task agent result_hash s =
     (let L = pg_libs x; e = ee_mirror ev; u = ee_uuid ev 0
      in case task_by_chain_id x e task s of
           None \<Rightarrow> (s, False)
         | Some t \<Rightarrow>
             if \<not> text_column (pg_schema x) ''tasks'' ''id'' then (s, True)
             else
               let res = chain_result L u (uuid_to_string L t) agent b;
                   j = unwrap_or (json_object L []) (result_ok (ser_result L res));
                   r = (new_result_row L t res (pe_now e) j)\<lparr>pr_output_base64 := []\<rparr>;
                   s1 = attempt (run_stmt x e 1 Q_MIRROR_RESULT
                                   (pg_timestamp (as_i64 b) \<and> pg_jsonb x j
                                    \<and> t \<in> fst ` set (db_tasks s)) (put_chain_result u r s)) s;
                   s2 = attempt (run_stmt x e 2 Q_COMPLETE_TASK True
                                   (complete_chain_task task (hex_encode L result_hash) (pe_now e) s1)) s1;
                   s3 = link_tx x e 3 corr (Some task) (Some agent) s2
               in (patch_pending_with_ids x (ee_patch ev) (Some task) (Some agent) s3, False))"

section \<open>TaskMatched\<close>

definition Q_MATCH_TASK :: sql_stmt where
  "Q_MATCH_TASK =
     (q_select ''tasks'' [(''chain_task_id'', BigintT)] 2)
       \<lparr>q_writes := [(''status'', TextT), (''matched_agent'', BigintT), (''updated_at'', TimestamptzT)]\<rparr>"

definition match_chain_task :: "u64 \<Rightarrow> i64 \<Rightarrow> int \<Rightarrow> 'j pg_db \<Rightarrow> 'j pg_db" where
  "match_chain_task task agent now s =
     s\<lparr>db_tasks := map (\<lambda>(u, r).
         (u, if pt_chain_task_id r = Some task
             then r\<lparr>pt_status := ''pending'', pt_matched_agent := Some agent, pt_updated_at := now\<rparr>
             else r)) (db_tasks s)\<rparr>"

definition mirror_matched ::
    "'j pg \<Rightarrow> 'j pg_env event_env \<Rightarrow> string \<Rightarrow> 'j pg_db \<Rightarrow> 'j pg_db" where
  "mirror_matched x ev payload s =
     (case extract_two_u64 payload of
        (Some task, Some agent) \<Rightarrow>
          let e = ee_mirror ev;
              s1 = attempt (run_stmt x e 0 Q_MATCH_TASK True
                              (match_chain_task task agent (pe_now e) s)) s
          in patch_pending_with_ids x (ee_patch ev) (Some task) (Some agent) s1
      | _ \<Rightarrow> s)"

section \<open>Dispatch\<close>

definition pg_mirror :: "'j pg \<Rightarrow> ('j pg_db, 'j pg_env) mirror" where
  "pg_mirror x ev b corr payload event s =
     (if ev_pallet event = ''AgentRegistry'' \<and> ev_variant event = ''AgentRegistered''
      then (case ev_data event of
              Some (AgentRegistered agent owner) \<Rightarrow> (mirror_agent x (ee_mirror ev) corr agent owner s, False)
            | _ \<Rightarrow> (s, False))
      else if ev_pallet event = ''TaskMarket'' \<and> ev_variant event = ''TaskCreated''
      then (case ev_data event of
              Some (TaskCreated task requester budget) \<Rightarrow> mirror_task x ev corr task requester budget s
            | _ \<Rightarrow> (s, False))
      else if ev_pallet event = ''TaskMarket'' \<and> ev_variant event = ''BidSubmitted''
      then (case ev_data event of
              Some (BidSubmitted task agent) \<Rightarrow> mirror_bid x ev b corr task agent s
            | _ \<Rightarrow> (s, False))
      else if ev_pallet event = ''TaskMarket'' \<and> ev_variant event = ''TaskCompleted''
      then (case ev_data event of
              Some (TaskCompleted task agent result_hash) \<Rightarrow>
                mirror_result x ev b corr task agent result_hash s
            | _ \<Rightarrow> (s, False))
      else if ev_pallet event = ''TaskMarket'' \<and> ev_variant event = ''TaskMatched''
      then (mirror_matched x ev payload s, False)
      else (s, False))"

section \<open>On the migrated schema\<close>

lemma mirror_stmts_refused:
  "\<not> prepares migrated Q_MIRROR_AGENT" "\<not> prepares migrated Q_ADOPT_AGENT"
  "\<not> prepares migrated Q_MIRROR_TASK" "\<not> prepares migrated Q_ADOPT_TASK"
  "\<not> prepares migrated Q_MIRROR_BID" "\<not> prepares migrated Q_MIRROR_RESULT"
  "prepares migrated Q_TASK_BY_CHAIN_ID" "prepares migrated Q_AGENT_BY_CHAIN_ID"
  "prepares migrated Q_COMPLETE_TASK" "prepares migrated Q_MATCH_TASK"
  "\<not> text_column migrated ''tasks'' ''id''" "text_column migrated ''agents'' ''id''"
  by code_simp+

section \<open>What the mirror never touches\<close>

lemma attempt_keeps:
  "g v = g s \<Longrightarrow> g (attempt (run_stmt x e n q accepted v) s) = g s"
  using attempt_cases [of x e n q accepted v s] by auto

lemma attempt_refused: "\<not> prepares (pg_schema x) q \<Longrightarrow> attempt (run_stmt x e n q accepted v) s = s"
  by (simp add: attempt_def run_stmt_def split: option.split)

lemma attempt_same [simp]: "attempt (run_stmt x e n q accepted s) s = s"
  using attempt_cases [of x e n q accepted s s] by simp

lemma mirror_writes_keep:
  "db_cursor (put_chain_agent did agent owner now s) = db_cursor s"
  "db_events (put_chain_agent did agent owner now s) = db_events s"
  "db_cursor (adopt_agents agent owner s) = db_cursor s"
  "db_events (adopt_agents agent owner s) = db_events s"
  "db_cursor (put_chain_task u did' d bu ca j task now s) = db_cursor s"
  "db_events (put_chain_task u did' d bu ca j task now s) = db_events s"
  "db_cursor (adopt_task e task s) = db_cursor s" "db_events (adopt_task e task s) = db_events s"
  "db_cursor (put_chain_bid u rb s) = db_cursor s" "db_events (put_chain_bid u rb s) = db_events s"
  "db_cursor (put_chain_result u rr s) = db_cursor s"
  "db_events (put_chain_result u rr s) = db_events s"
  "db_cursor (complete_chain_task task h now s) = db_cursor s"
  "db_events (complete_chain_task task h now s) = db_events s"
  "db_cursor (match_chain_task task agent now s) = db_cursor s"
  "db_events (match_chain_task task agent now s) = db_events s"
  by (simp_all add: put_chain_agent_def adopt_agents_def put_chain_task_def adopt_task_def
      put_chain_bid_def put_chain_result_def complete_chain_task_def match_chain_task_def
      split: option.split list.split prod.split)

lemma link_tx_only_outbox: "\<exists>m. link_tx x e n corr task agent s = s\<lparr>db_outbox := m\<rparr>"
proof (cases corr)
  case None
  then have "link_tx x e n corr task agent s = s\<lparr>db_outbox := db_outbox s\<rparr>" by (simp add: link_tx_def)
  then show ?thesis by blast
next
  case (Some h)
  have "link_tx x e n corr task agent s = map_rows (link_row h task agent) s
      \<or> link_tx x e n corr task agent s = s\<lparr>db_outbox := db_outbox s\<rparr>"
    using attempt_cases [of x e n "Q_LINK task agent" "pg_text h" "map_rows (link_row h task agent) s" s]
    by (auto simp: link_tx_def Some)
  then show ?thesis unfolding map_rows_def by blast
qed

lemma link_tx_keeps:
  "db_agents (link_tx x e n corr task agent s) = db_agents s"
  "db_tasks (link_tx x e n corr task agent s) = db_tasks s"
  "db_bids (link_tx x e n corr task agent s) = db_bids s"
  "db_results (link_tx x e n corr task agent s) = db_results s"
  "db_events (link_tx x e n corr task agent s) = db_events s"
  "db_cursor (link_tx x e n corr task agent s) = db_cursor s"
  using link_tx_only_outbox [of x e n corr task agent s] by auto

lemmas mirror_arm_defs =
  mirror_agent_def mirror_task_def mirror_bid_def mirror_result_def mirror_matched_def

lemma mirror_keeps:
  "db_cursor (fst (pg_mirror x ev b corr payload event s)) = db_cursor s"
  "db_events (fst (pg_mirror x ev b corr payload event s)) = db_events s"
  by (simp_all add: pg_mirror_def mirror_arm_defs Let_def patch_pending_noop link_tx_keeps
      mirror_writes_keep attempt_keeps [where g = db_cursor] attempt_keeps [where g = db_events]
      split: option.split chain_data.split prod.split)

interpretation pg_replay: replayer "pg_sink x" db_cursor "\<lambda>e. pg_quiet e \<and> pg_schema x = migrated"
  "pg_mirror x" for x
  by unfold_locales (rule mirror_keeps)

text \<open>
  On the migrated schema the mirror is at most one UPDATE of the outbox: no statement that
  writes an entity prepares, and no task carries a chain id.
\<close>

definition no_chain_tasks :: "'j pg_db \<Rightarrow> bool" where
  "no_chain_tasks s = list_all (\<lambda>r. pt_chain_task_id (snd r) = None) (db_tasks s)"

lemma task_by_chain_id_None:
  assumes "no_chain_tasks s" "\<forall>m. mset (pe_tasks e m) = mset m"
  shows "task_by_chain_id x e task s = None"
proof -
  have "set (pe_tasks e (db_tasks s)) = set (db_tasks s)"
    using assms(2) by (metis mset_eq_setD)
  then have "find (\<lambda>r. pt_chain_task_id (snd r) = Some task) (pe_tasks e (db_tasks s)) = None"
    using assms(1) by (auto simp: find_None_iff no_chain_tasks_def list_all_iff)
  then show ?thesis by (simp add: task_by_chain_id_def run_stmt_def split: option.split)
qed

lemma match_chain_task_noop:
  assumes "no_chain_tasks s"
  shows "match_chain_task task agent now s = s"
proof -
  have "map (\<lambda>(u, r). (u, if pt_chain_task_id r = Some task
      then r\<lparr>pt_status := ''pending'', pt_matched_agent := Some agent, pt_updated_at := now\<rparr>
      else r)) (db_tasks s) = db_tasks s"
    using assms by (intro map_idI) (auto simp: no_chain_tasks_def list_all_iff)
  then show ?thesis by (simp add: match_chain_task_def)
qed

text \<open>Whether the worker dies on an event: a task creation with a budget beyond \<open>u64\<close>.\<close>

definition fatal_event :: "'j libs \<Rightarrow> chain_event \<Rightarrow> bool" where
  "fatal_event L event =
     (ev_pallet event = ''TaskMarket'' \<and> ev_variant event = ''TaskCreated''
      \<and> (case ev_data event of Some (TaskCreated task requester budget) \<Rightarrow> json_u128 L budget = None
                            | _ \<Rightarrow> False))"

lemma mirror_on_migrated:
  assumes "pg_schema x = migrated" "no_chain_tasks s" "\<forall>m. mset (pe_tasks (ee_mirror ev) m) = mset m"
  shows "snd (pg_mirror x ev b corr payload event s) = fatal_event (pg_libs x) event
    \<and> (fst (pg_mirror x ev b corr payload event s) = s
       \<or> (\<exists>n task agent. fst (pg_mirror x ev b corr payload event s)
            = link_tx x (ee_mirror ev) n corr task agent s))"
  using assms mirror_stmts_refused
  by (auto simp: pg_mirror_def mirror_arm_defs Let_def patch_pending_noop fatal_event_def
      task_by_chain_id_None match_chain_task_noop attempt_refused
      split: option.split chain_data.split prod.split)

end
