(* ===== verification/System.thy ===== *)
theory System
  imports Backends Pg_Mirror
begin

text \<open>
  The orchestrator over Postgres as \<open>main\<close> (src/orchestrator/api/src/main.rs) composes it:
  requests, the submission loop, the backfill loop and the replay worker act on one database.
  A step is a request, an iteration of a loop, one event of the replay worker or its cursor
  update, in any order.
\<close>

inductive sys_step :: "'j pg \<Rightarrow> engine \<Rightarrow> 'j pg_db \<Rightarrow> 'j pg_db \<Rightarrow> bool" for x engine where
  Sys_Request: "app_step (pg_app x engine) (pg_fresh x) s s' \<Longrightarrow> sys_step x engine s s'"
| Sys_Submit:
    "\<lbrakk>pg_orders e; outbox_iteration x e net poll_ms c s = Return (next, c', s')\<rbrakk>
     \<Longrightarrow> sys_step x engine s s'"
| Sys_Backfill: "sys_step x engine s (snd (backfill_once x e s))"
| Sys_Event:
    "\<lbrakk>pg_orders (ee_mirror e);
      process_event (pg_libs x) (pg_sink x) (pg_mirror x) e blk cur ev s m = r\<rbrakk>
     \<Longrightarrow> sys_step x engine s (state_of r)"
| Sys_Cursor: "pg_update_chain_cursor x e b i s = Ok s' \<Longrightarrow> sys_step x engine s s'"

inductive sys_reach :: "'j pg \<Rightarrow> engine \<Rightarrow> 'j pg_db \<Rightarrow> bool" for x engine where
  sys_init: "sys_reach x engine pg_empty"
| sys_next: "sys_reach x engine s \<Longrightarrow> sys_step x engine s s' \<Longrightarrow> sys_reach x engine s'"

definition sys_inv :: "'j pg \<Rightarrow> 'j pg_db \<Rightarrow> bool" where
  "sys_inv x s = (pg_inv x s \<and> ob_inv s \<and> no_chain_tasks s)"

section \<open>Writes that touch one part\<close>

definition same_entities :: "'j pg_db \<Rightarrow> 'j pg_db \<Rightarrow> bool" where
  "same_entities s s' =
     (db_agents s' = db_agents s \<and> db_tasks s' = db_tasks s \<and> db_bids s' = db_bids s
      \<and> db_results s' = db_results s)"

lemma same_entities_refl [simp]: "same_entities s s"
  by (simp add: same_entities_def)

lemma same_entities_inv:
  assumes "same_entities s s'"
  shows "pg_inv x s' = pg_inv x s" "pg_task_of x s' = pg_task_of x s"
    "no_chain_tasks s' = no_chain_tasks s"
  using assms by (simp_all add: same_entities_def pg_inv_def pg_task_of_def no_chain_tasks_def fun_eq_iff)

lemma outbox_same_inv: "db_outbox s' = db_outbox s \<Longrightarrow> ob_inv s' = ob_inv s \<and> lives s' = lives s"
  by (simp add: ob_inv_def lives_def fun_eq_iff)

lemma backfill_event_entities: "same_entities s (backfill_event x e corr ev s)"
  by (auto simp: backfill_event_def Let_def same_entities_def update_row_def attempt_keeps [where g = db_agents]
      attempt_keeps [where g = db_tasks] attempt_keeps [where g = db_bids]
      attempt_keeps [where g = db_results] split: option.split)

lemma backfill_fold_entities: "same_entities s (fold (backfill_event x e corr) evs s)"
proof (induction evs arbitrary: s)
  case (Cons ev evs)
  show ?case
    using backfill_event_entities [of s x e corr ev] Cons.IH [of "backfill_event x e corr ev s"]
    by (simp add: same_entities_def)
qed simp

lemma backfill_all_entities: "same_entities s (snd (backfill_all x e cs s))"
proof (induction cs arbitrary: s)
  case (Cons corr cs)
  show ?case
    using Cons.IH backfill_fold_entities [of s x e corr] by (auto simp: same_entities_def split: sum.split)
qed simp

lemma backfill_once_entities: "same_entities s (snd (backfill_once x e s))"
  using backfill_all_entities by (auto simp: backfill_once_def split: sum.split)

lemma iteration_entities:
  assumes "outbox_iteration x e net p c s = Return (next, c', s')"
  shows "same_entities s s'"
  using iteration_cases [OF assms] by (auto simp: same_entities_def set_row_def)

section \<open>Requests and the outbox\<close>

text \<open>The storage operations leave the outbox alone and give no task a chain id.\<close>

lemma no_chain_update:
  assumes "no_chain_tasks s" "pt_chain_task_id r = None"
  shows "no_chain_tasks (s\<lparr>db_tasks := AList.update u r (db_tasks s)\<rparr>)"
  using assms set_update [of u r "db_tasks s"] by (auto simp: no_chain_tasks_def list_all_iff)

lemma no_chain_put:
  assumes "no_chain_tasks s"
  shows "no_chain_tasks (insert_row u (new_task_row L t budget j) s)"
    "no_chain_tasks (upsert_row u (new_task_row L t budget j) now s)"
proof -
  have old: "pt_chain_task_id r = None" if "map_of (db_tasks s) u = Some r" for r
    using assms that by (fastforce simp: no_chain_tasks_def list_all_iff dest: map_of_SomeD)
  show "no_chain_tasks (insert_row u (new_task_row L t budget j) s)"
    using assms by (auto simp: insert_row_def new_task_row_def split: option.split intro: no_chain_update)
  show "no_chain_tasks (upsert_row u (new_task_row L t budget j) now s)"
    using assms old unfolding upsert_row_def
    by (intro no_chain_update) (auto simp: new_task_row_def split: option.split)
qed

lemma storage_ops_outbox:
  "op_register_agent (pg_ops x) e a s = Ok s' \<Longrightarrow>
     db_outbox s' = db_outbox s \<and> (no_chain_tasks s \<longrightarrow> no_chain_tasks s')"
  "op_insert_task (pg_ops x) e t s = Ok s' \<Longrightarrow>
     db_outbox s' = db_outbox s \<and> (no_chain_tasks s \<longrightarrow> no_chain_tasks s')"
  "op_upsert_task (pg_ops x) e t s = Ok s' \<Longrightarrow>
     db_outbox s' = db_outbox s \<and> (no_chain_tasks s \<longrightarrow> no_chain_tasks s')"
  "op_insert_bid (pg_ops x) e b s = Ok s' \<Longrightarrow>
     db_outbox s' = db_outbox s \<and> (no_chain_tasks s \<longrightarrow> no_chain_tasks s')"
  "op_insert_result (pg_ops x) e r s = Ok s' \<Longrightarrow>
     db_outbox s' = db_outbox s \<and> (no_chain_tasks s \<longrightarrow> no_chain_tasks s')"
proof -
  show "op_register_agent (pg_ops x) e a s = Ok s' \<Longrightarrow>
      db_outbox s' = db_outbox s \<and> (no_chain_tasks s \<longrightarrow> no_chain_tasks s')"
    by (auto simp: pg_ops_def pg_register_agent_def map_err_Ok_iff run_stmt_Ok put_agent_def
        no_chain_tasks_def)
  show "op_insert_task (pg_ops x) e t s = Ok s' \<Longrightarrow>
      db_outbox s' = db_outbox s \<and> (no_chain_tasks s \<longrightarrow> no_chain_tasks s')"
    by (auto simp: pg_ops_def pg_insert_task_def task_row_Ok_iff map_err_Ok_iff run_stmt_Ok
        no_chain_put) (simp add: insert_row_def split: option.split)
  show "op_upsert_task (pg_ops x) e t s = Ok s' \<Longrightarrow>
      db_outbox s' = db_outbox s \<and> (no_chain_tasks s \<longrightarrow> no_chain_tasks s')"
    by (auto simp: pg_ops_def pg_upsert_task_def task_row_Ok_iff map_err_Ok_iff run_stmt_Ok
        no_chain_put) (simp add: upsert_row_def)
  show "op_insert_bid (pg_ops x) e b s = Ok s' \<Longrightarrow>
      db_outbox s' = db_outbox s \<and> (no_chain_tasks s \<longrightarrow> no_chain_tasks s')"
    by (auto simp: pg_ops_def pg_insert_bid_def and_then_Ok_iff map_err_Ok_iff run_stmt_Ok Let_def
        insert_bid_row_def no_chain_tasks_def split: option.splits)
  show "op_insert_result (pg_ops x) e r s = Ok s' \<Longrightarrow>
      db_outbox s' = db_outbox s \<and> (no_chain_tasks s \<longrightarrow> no_chain_tasks s')"
    by (auto simp: pg_ops_def pg_insert_result_def and_then_Ok_iff map_err_Ok_iff run_stmt_Ok Let_def
        put_result_row_def no_chain_tasks_def)
qed

text \<open>A request queues at most one row, under a fresh correlation id, as its last write.\<close>

inductive queues :: "'j pg \<Rightarrow> 'j pg_db \<Rightarrow> 'j pg_db \<Rightarrow> bool" for x where
  queues_none [simp]: "queues x s s"
| queues_row:
    "\<lbrakk>pg_record_outbound_extrinsic x e corr pallet call payload ''pending'' s = Ok s';
      corr \<notin> fst ` set (db_outbox s)\<rbrakk> \<Longrightarrow> queues x s s'"

lemma record_queues:
  assumes "record_outbound_extrinsic (pg_sink x) e corr p c pl s1 = Ok s'"
    "corr \<notin> fst ` set (db_outbox s1)"
  shows "queues x s1 s'"
  using assms by (auto simp: record_outbound_extrinsic_def pg_sink_def intro: queues_row)

lemma enqueue_queues:
  assumes "enqueue (pg_app x en) e corr p c pl s1 = (co, s')" "corr \<notin> fst ` set (db_outbox s1)"
  shows "queues x s1 s'"
  using assms by (auto simp: enqueue_def split: sum.splits intro: record_queues)

definition outbox_kept :: "'j pg_db \<Rightarrow> 'j pg_db \<Rightarrow> bool" where
  "outbox_kept s s1 \<longleftrightarrow> db_outbox s1 = db_outbox s \<and> (no_chain_tasks s \<longrightarrow> no_chain_tasks s1)"

lemma outbox_kept_refl [simp]: "outbox_kept s s"
  by (simp add: outbox_kept_def)

lemma outbox_kept_trans: "outbox_kept s1 s2 \<Longrightarrow> outbox_kept s2 s3 \<Longrightarrow> outbox_kept s1 s3"
  by (simp add: outbox_kept_def)

lemmas storage_ops_kept = storage_ops_outbox [folded outbox_kept_def]

lemma request_outbox:
  assumes "app_step (pg_app x en) (pg_fresh x) s s'"
  shows "\<exists>s1. outbox_kept s s1 \<and> queues x s1 s'"
  using assms
proof (cases rule: app_step.cases)
  case (Step_Register c a r)
  show ?thesis
    using Step_Register(1)
  proof (cases rule: register_agent_cases)
    case (stored s1 co)
    then have "outbox_kept s s1" using storage_ops_kept(1) by simp
    then show ?thesis
      using enqueue_queues [OF stored(2)] Step_Register(2) by (auto simp: outbox_kept_def pg_fresh_def)
  qed (auto intro!: exI [of _ s])
next
  case (Step_Task c sub r)
  show ?thesis
    using Step_Task(1)
  proof (cases rule: submit_task_cases)
    case (panicked t)
    then have "outbox_kept s s'" using storage_ops_kept(2) by simp
    then show ?thesis by (intro exI [of _ s']) simp
  next
    case (stored t s1 j co)
    then have "outbox_kept s s1" using storage_ops_kept(2) by simp
    then show ?thesis
      using enqueue_queues [OF stored(4)] Step_Task(2) by (auto simp: outbox_kept_def pg_fresh_def)
  qed (auto intro!: exI [of _ s])
next
  case (Step_Bid c bsub r)
  show ?thesis
    using Step_Bid(1)
  proof (cases rule: submit_bid_cases)
    case (stored t b s1 j co)
    then have "outbox_kept s s1" using storage_ops_kept(4) by simp
    then show ?thesis
      using enqueue_queues [OF stored(4)] Step_Bid(2) by (auto simp: outbox_kept_def pg_fresh_def)
  qed (auto intro!: exI [of _ s])
next
  case (Step_Result c rsub r)
  show ?thesis
    using Step_Result(1)
  proof (cases rule: submit_result_cases)
    case (half t y e)
    then have "outbox_kept s s'" using storage_ops_kept(3) by simp
    then show ?thesis by (intro exI [of _ s']) simp
  next
    case (stored t y s1 s2 j co)
    then have "outbox_kept s s1" "outbox_kept s1 s2" using storage_ops_kept(3,5) by simp_all
    then have "outbox_kept s s2" by (rule outbox_kept_trans)
    then show ?thesis
      using enqueue_queues [OF stored(5)] Step_Result(2) by (auto simp: outbox_kept_def pg_fresh_def)
  qed (auto intro!: exI [of _ s])
next
  case (Step_Execute c i r)
  show ?thesis
    using Step_Execute(1)
  proof (cases rule: execute_task_cases)
    case (half t y e)
    then have "outbox_kept s s'" using storage_ops_kept(3) by simp
    then show ?thesis by (intro exI [of _ s']) simp
  next
    case (stored t y s1)
    then have "outbox_kept s s1" "outbox_kept s1 s'" using storage_ops_kept(3,5) by simp_all
    then have "outbox_kept s s'" by (rule outbox_kept_trans)
    then show ?thesis by (intro exI [of _ s']) simp
  qed (auto intro!: exI [of _ s])
next
  case (Step_Faucet c body r)
  show ?thesis
    using Step_Faucet(1)
  proof (cases rule: request_faucet_cases)
    case (queued p)
    then have "queues x s s'" using Step_Faucet(2) by (intro record_queues) (auto simp: pg_fresh_def)
    then show ?thesis by (intro exI [of _ s]) simp
  qed (auto intro!: exI [of _ s])
next
  case (Step_Enqueue c req r)
  show ?thesis
    using Step_Enqueue(1)
  proof (cases rule: enqueue_outbox_cases)
    case queued
    then have "queues x s s'" using Step_Enqueue(2) by (intro record_queues) (auto simp: pg_fresh_def)
    then show ?thesis by (intro exI [of _ s]) simp
  qed (auto intro!: exI [of _ s])
qed

section \<open>The invariant of the system\<close>

lemma queues_step:
  assumes "queues x s1 s'" "ob_inv s1"
  shows "ob_inv s' \<and> life_step (lives s1) (lives s') \<and> (no_chain_tasks s1 \<longrightarrow> no_chain_tasks s')"
  using assms(1)
proof cases
  case queues_none
  then show ?thesis using assms(2) by (simp add: life_same)
next
  case (queues_row e corr pallet call payload)
  then have fresh: "map_of (db_outbox s1) corr = None" by (simp add: map_of_eq_None_iff)
  then have "ob_step x s1 s'" using queues_row(1) by (rule step_enqueue)
  moreover have "db_tasks s' = db_tasks s1"
    using record_outbound_fresh [OF fresh queues_row(1)] by (simp add: set_row_def)
  ultimately show ?thesis
    using ob_step_refines assms(2) by (auto simp: no_chain_tasks_def)
qed

lemma pg_fresh_task: "pg_fresh x s i \<Longrightarrow> pg_key x i = Some k \<Longrightarrow> pg_task_of x s k = None"
  by (auto simp: pg_fresh_def pg_task_of_def map_of_eq_None_iff [THEN iffD2])

lemma pg_fresh_bid: "pg_fresh x s i \<Longrightarrow> \<not> pg_bid_known x s i"
  by (auto simp: pg_fresh_def pg_bid_known_def split: option.splits)

text \<open>A worker changes no entity, and the outbox by one of its steps.\<close>

lemma worker_invariant:
  assumes "sys_inv x s" "same_entities s s'" "s1 = s \<or> ob_step x s s1" "db_outbox s' = db_outbox s1"
  shows "sys_inv x s' \<and> tasks_le (pg_task_of x s) (pg_task_of x s') \<and> life_step (lives s) (lives s')"
proof -
  have inv: "pg_inv x s" "ob_inv s" "no_chain_tasks s" using assms(1) by (simp_all add: sys_inv_def)
  have "ob_inv s1 \<and> life_step (lives s) (lives s1)"
    using assms(3) ob_step_refines inv(2) life_same by blast
  then show ?thesis
    using same_entities_inv [OF assms(2)] outbox_same_inv [OF assms(4)] inv by (simp add: sys_inv_def)
qed

lemma event_effect:
  assumes "pg_schema x = migrated" "no_chain_tasks s" "pg_orders (ee_mirror e)"
    "process_event (pg_libs x) (pg_sink x) (pg_mirror x) e blk cur ev s m = r"
  shows "same_entities s (state_of r)
    \<and> (\<exists>s1. (s1 = s \<or> ob_step x s s1) \<and> db_outbox (state_of r) = db_outbox s1)"
proof (cases "wanted cur blk ev")
  case False
  then show ?thesis using assms(4) by (auto simp: process_unwanted)
next
  case True
  let ?b = "ucast (bk_number blk)" and ?corr = "correlation_of (pg_libs x) blk ev"
  obtain s1 p where m: "pg_mirror x e ?b ?corr (event_payload ev) ev s = (s1, p)" by fastforce
  have "\<forall>ms. mset (pe_tasks (ee_mirror e) ms) = mset ms" using assms(3) by (simp add: pg_orders_def)
  then have s1: "s1 = s \<or> (\<exists>n task agent. s1 = link_tx x (ee_mirror e) n ?corr task agent s)"
    using mirror_on_migrated [OF assms(1,2), of e ?b ?corr "event_payload ev" ev] m by simp
  then have step: "same_entities s s1" "s1 = s \<or> ob_step x s s1"
    by (auto simp: same_entities_def link_tx_keeps intro: step_link)
  have "same_entities s1 (state_of r) \<and> db_outbox (state_of r) = db_outbox s1"
    using assms(4) m True
    by (auto simp: process_wanted pg_sink_def pg_record_chain_event_def map_err_Ok_iff run_stmt_Ok
        same_entities_def split: sum.splits option.splits if_splits)
  then show ?thesis using step by (auto simp: same_entities_def)
qed

lemma sys_step_invariant:
  assumes "sys_step x engine s s'" "pg_ok x" "sys_inv x s"
  shows "sys_inv x s' \<and> tasks_le (pg_task_of x s) (pg_task_of x s') \<and> life_step (lives s) (lives s')"
  using assms(1)
proof cases
  case Sys_Request
  have inv: "pg_inv x s" "ob_inv s" "no_chain_tasks s" using assms(3) by (simp_all add: sys_inv_def)
  obtain s1 where s1: "outbox_kept s s1" "queues x s1 s'"
    using request_outbox [OF Sys_Request] by blast
  have "pg_inv x s' \<and> tasks_le (pg_task_of x s) (pg_task_of x s')"
    by (rule pgb.app_step_spec [OF Sys_Request assms(2) inv(1) _ _ _ pg_fresh_task pg_fresh_bid])
      simp_all
  moreover have same: "ob_inv s1" "lives s1 = lives s" "no_chain_tasks s1"
    using s1(1) inv outbox_same_inv [of s1 s] by (simp_all add: outbox_kept_def)
  moreover have "ob_inv s' \<and> life_step (lives s) (lives s') \<and> no_chain_tasks s'"
    using queues_step [OF s1(2) same(1)] same(2,3) by simp
  ultimately show ?thesis by (simp add: sys_inv_def)
next
  case (Sys_Submit e net p c nx c')
  have "ob_step x s s'" by (rule step_work [OF Sys_Submit])
  then show ?thesis
    by (rule worker_invariant [OF assms(3) iteration_entities [OF Sys_Submit(2)] disjI2 refl])
next
  case (Sys_Backfill e)
  have "ob_step x s (snd (backfill_once x e s))" by (rule step_backfill)
  then show ?thesis
    using worker_invariant [OF assms(3) backfill_once_entities disjI2 refl] Sys_Backfill by simp
next
  case (Sys_Event e blk cur ev m r)
  have "no_chain_tasks s" "pg_schema x = migrated"
    using assms(2,3) by (simp_all add: sys_inv_def pg_ok_def)
  then have "same_entities s (state_of r)
      \<and> (\<exists>s1. (s1 = s \<or> ob_step x s s1) \<and> db_outbox (state_of r) = db_outbox s1)"
    by (intro event_effect [OF _ _ Sys_Event(2,3)])
  then obtain s1 where s1: "same_entities s (state_of r)" "s1 = s \<or> ob_step x s s1"
      "db_outbox (state_of r) = db_outbox s1" by blast
  show ?thesis using worker_invariant [OF assms(3) s1] Sys_Event(1) by simp
next
  case (Sys_Cursor e b i)
  then have "same_entities s s'" "db_outbox s' = db_outbox s"
    by (auto simp: pg_update_chain_cursor_def map_err_Ok_iff run_stmt_Ok same_entities_def)
  then show ?thesis using worker_invariant [OF assms(3) _ disjI1 [OF refl]] by simp
qed

lemma sys_reach_inv: "sys_reach x engine s \<Longrightarrow> pg_ok x \<Longrightarrow> sys_inv x s"
proof (induction rule: sys_reach.induct)
  case sys_init
  then show ?case by (simp add: sys_inv_def pg_inv_empty) (simp add: ob_inv_def no_chain_tasks_def pg_empty_def)
next
  case (sys_next s s')
  then show ?case using sys_step_invariant by blast
qed

end
