(* ===== verification/Ref_App.thy ===== *)
theory Ref_App
  imports System Ref_Pg
begin

text \<open>
  A small run of the orchestrator with the reference crates, for the witnesses: one task
  submitted to an empty store.
\<close>

definition demo_engine :: engine where
  "demo_engine = local_echo_engine ref_libs"

definition demo_call :: "(nat \<Rightarrow> 'e) \<Rightarrow> nat \<Rightarrow> 'e call" where
  "demo_call env n0 = \<lparr>cl_env = env, cl_uuid = (\<lambda>n. of_nat (n0 + n)), cl_clock = 100\<rparr>"

definition mem_calm :: mem_env where
  "mem_calm =
     \<lparr>ord_agents = (\<lambda>m. m), ord_tasks = (\<lambda>m. m), ord_bids = (\<lambda>m. m), ord_results = (\<lambda>m. m)\<rparr>"

definition demo_submission :: task_submission where
  "demo_submission =
     \<lparr>sub_client_task_id = None, sub_requester_id = ''alice'', sub_description = ''echo'',
      sub_task_type = ''echo'', sub_input_base64 = hex_text [7], sub_max_budget = 500,
      sub_deadline = 60\<rparr>"

definition demo_task :: "uuid \<Rightarrow> uuid \<Rightarrow> stored_task" where
  "demo_task u_task u_id =
     \<lparr>st_id = uuid_to_string ref_libs u_id, st_client_task_id = None,
      st_task = build_core_task ref_libs u_task demo_submission [7], st_status = Pending,
      st_created_at = 100\<rparr>"

abbreviation pg_demo_call :: "nat \<Rightarrow> ref_json pg_env call" where
  "pg_demo_call n \<equiv> demo_call (\<lambda>_. calm 100) n"

abbreviation demo_app :: "(ref_json, ref_json pg_db, ref_json pg_env) app_state" where
  "demo_app \<equiv> pg_app ref_pg demo_engine"

definition demo_submitted :: "ref_json pg_db" where
  "demo_submitted = snd (submit_task demo_app (pg_demo_call 1) demo_submission pg_empty)"

lemma demo_call_simps [simp]:
  "cl_env (demo_call env n0) n = env n" "cl_uuid (demo_call env n0) n = of_nat (n0 + n)"
  "now_of (demo_call env n0) = 100"
  by (simp_all add: demo_call_def current_unix_timestamp_def)

lemma mem_calm_healthy [simp]: "mem_healthy mem_calm"
  by (simp add: mem_healthy_def mem_calm_def)

lemma demo_task_built: "task_from_submission ref_libs u1 u2 100 demo_submission = Ok (demo_task u1 u2)"
proof -
  have "\<not> is_blank ''echo''" by code_simp
  then show ?thesis
    by (simp add: task_from_submission_def demo_submission_def demo_task_def ref_b64_decode_def
        hex_text_roundtrip)
qed

lemma ref_key: "pg_key ref_pg (uuid_to_string ref_libs u) = Some u"
  using ref_uuid_ok by (simp add: pg_key_def uuid_ok_def del: ref_libs_simps)

lemma demo_storable: "pg_storable_task ref_pg (demo_task u1 u2)"
proof -
  have "CHR 0x00 \<notin> set (hex_text [7])"
    using hex_text_alphabet by (fastforce simp: hex_alphabet_def)
  then show ?thesis
    using ref_key [of u2]
    by (simp add: pg_storable_task_def is_ok_iff task_row_Ok_iff demo_task_def ok_task_def
        build_core_task_def demo_submission_def u128_try_i64_def task_row_ok_def new_task_row_def
        pg_text_def task_type_str_def pg_timestamp_def as_i64_def)
qed

lemma empty_fresh: "pg_fresh x pg_empty i"
  by (simp add: pg_fresh_def pg_empty_def split: option.split)

lemma demo_reply:
  "\<exists>r. submit_task demo_app (pg_demo_call 1) demo_submission pg_empty = (Return (Ok r), demo_submitted)
     \<and> rc_data r = task_to_view (demo_task 1 2)"
proof -
  have libs: "as_libs demo_app = ref_libs" by simp
  obtain s1 where s1: "op_insert_task (pg_ops ref_pg) (calm 100) (demo_task 1 2) pg_empty = Ok s1"
    using pgs.insert_task_total [OF ref_pg_ok calm_healthy pg_inv_empty demo_storable] by blast
  have "tv_max_budget (task_to_view (demo_task 1 2)) = 500"
    by (simp add: task_to_view_def demo_task_def build_core_task_def demo_submission_def)
  then obtain j where j: "task_payload ref_libs (spec_hash_of ref_libs (demo_task 1 2))
      (task_to_view (demo_task 1 2)) = Some j"
    by (simp add: task_payload_def ref_u128_def)
  have "\<exists>r s'. submit_task demo_app (pg_demo_call 1) demo_submission pg_empty = (Return (Ok r), s')
      \<and> rc_data r = task_to_view (demo_task 1 2)"
    by (rule submit_task_accepted) (use s1 j demo_task_built in simp_all)
  then show ?thesis by (auto simp: demo_submitted_def)
qed

lemma demo_system: "sys_reach ref_pg demo_engine demo_submitted"
proof -
  obtain r where "submit_task demo_app (pg_demo_call 1) demo_submission pg_empty = (r, demo_submitted)"
    using demo_reply by blast
  then have "app_step demo_app (pg_fresh ref_pg) pg_empty demo_submitted"
    by (rule Step_Task) (simp add: empty_fresh)
  then show ?thesis by (intro sys_next [OF sys_init] Sys_Request)
qed

lemma demo_stored: "pg_task_of ref_pg demo_submitted 2 = Some (demo_task 1 2)"
  and demo_no_results: "pg_results_of ref_pg demo_submitted k = {}"
  and demo_no_bids: "db_bids demo_submitted = []"
  and demo_no_agents: "db_agents demo_submitted = []"
proof -
  obtain r where r: "submit_task demo_app (pg_demo_call 1) demo_submission pg_empty
      = (Return (Ok r), demo_submitted)"
    using demo_reply by blast
  have free: "\<And>k. pg_key ref_pg (fresh_id demo_app (pg_demo_call 1) 1) = Some k
      \<Longrightarrow> pg_task_of ref_pg pg_empty k = None"
    using pg_fresh_task [OF empty_fresh] by blast
  have "\<forall>k. pg_bids_of ref_pg demo_submitted k = {#}"
    using pgb.submit_task_spec [OF ref_pg_ok pg_inv_empty _ _ _ r free]
    by (simp add: pg_bids_of_def pg_empty_def)
  then have "\<forall>k. \<forall>b \<in> set (db_bids demo_submitted). pb_task_id (snd b) \<noteq> k"
    by (auto simp: pg_bids_of_def filter_mset_eq_conv)
  then show "db_bids demo_submitted = []" by (metis list.set_intros(1) neq_Nil_conv)
  have "pg_agent_of demo_submitted = pg_agent_of (pg_empty :: ref_json pg_db)"
    using pgb.submit_task_spec [OF ref_pg_ok pg_inv_empty _ _ _ r free] by simp
  then show "db_agents demo_submitted = []"
    by (cases "db_agents demo_submitted") (auto simp: pg_agent_of_def pg_empty_def fun_eq_iff split: if_splits)
  have "st_id (demo_task 1 2) = uuid_to_string ref_libs 2" by (simp add: demo_task_def)
  then show "pg_task_of ref_pg demo_submitted 2 = Some (demo_task 1 2)"
    using pgb.submit_task_spec [OF ref_pg_ok pg_inv_empty _ _ _ r free] ref_key [of 2] demo_task_built [of 1 2]
    by (auto simp del: ref_libs_simps)
  show "pg_results_of ref_pg demo_submitted k = {}"
    using pgb.submit_task_spec [OF ref_pg_ok pg_inv_empty _ _ _ r free]
    by (simp add: pg_results_of_def pg_empty_def)
qed

lemma pg_enqueue_keys:
  assumes "enqueue (pg_app x en) e corr p c j s = (co, s')"
  shows "fst ` set (db_outbox s') \<subseteq> insert corr (fst ` set (db_outbox s))"
  using assms set_update [of corr _ "db_outbox s"]
  by (fastforce simp: enqueue_def record_outbound_extrinsic_def pg_sink_def Let_def map_err_Ok_iff
      run_stmt_Ok pg_record_outbound_extrinsic_def split: sum.splits)

lemma demo_outbox_keys: "fst ` set (db_outbox demo_submitted) \<subseteq> {uuid_to_string ref_libs 3}"
proof -
  obtain r where "submit_task demo_app (pg_demo_call 1) demo_submission pg_empty = (r, demo_submitted)"
    using demo_reply by blast
  then show ?thesis
  proof (cases rule: submit_task_cases)
    case (panicked t)
    have "outbox_kept pg_empty demo_submitted" by (rule storage_ops_kept(2)) (use panicked(2) in simp)
    then show ?thesis by (simp add: outbox_kept_def pg_empty_def)
  next
    case (stored t s1 j co)
    have "outbox_kept pg_empty s1" by (rule storage_ops_kept(2)) (use stored(2) in simp)
    then show ?thesis
      using pg_enqueue_keys [OF stored(4)] by (simp add: outbox_kept_def pg_empty_def)
  next
    case (refused e)
    have "db_outbox demo_submitted = db_outbox (pg_empty :: ref_json pg_db)"
      using refused(2) by (rule arg_cong)
    then show ?thesis by (simp add: pg_empty_def)
  qed
qed

section \<open>A result for the task\<close>

definition demo_result_submission :: result_submission where
  "demo_result_submission =
     \<lparr>rsub_task_id = uuid_to_string ref_libs 2, rsub_agent_id = ''bob'',
      rsub_output_base64 = hex_text [9]\<rparr>"

definition demo_bid_submission :: bid_submission where
  "demo_bid_submission =
     \<lparr>bsub_task_id = uuid_to_string ref_libs 2, bsub_agent_id = ''bob'', bsub_value = 5,
      bsub_quality_score = 70, bsub_completion_time = 30\<rparr>"

definition demo_result :: "uuid \<Rightarrow> stored_result" where
  "demo_result u =
     (let r = build_core_result ref_libs 100 demo_result_submission (st_task (demo_task 1 2)) [9]
      in \<lparr>sr_id = uuid_to_string ref_libs u, sr_task_id = uuid_to_string ref_libs 2,
          sr_agent_id = ''bob'', sr_result = r, sr_created_at = tr_completed_at r\<rparr>)"

definition mem_demo :: mem_store where
  "mem_demo = mem_default\<lparr>ms_tasks := [(uuid_to_string ref_libs 2, demo_task 1 2)]\<rparr>"

abbreviation mem_demo_app :: "(ref_json, mem_store, mem_env) app_state" where
  "mem_demo_app \<equiv> mem_app ref_libs demo_engine"

lemma demo_result_built:
  "result_from_submission ref_libs u 100 demo_result_submission (demo_task 1 2) = Ok (demo_result u)"
proof -
  have "\<not> is_blank ''bob''" by code_simp
  then show ?thesis
    by (simp add: result_from_submission_def demo_result_submission_def demo_result_def Let_def
        ref_b64_decode_def hex_text_roundtrip demo_task_def)
qed

lemma demo_stays_storable: "pg_storable_task ref_pg (demo_task u1 u2\<lparr>st_status := Completed\<rparr>)"
  using demo_storable [of u1 u2]
  by (simp add: pg_storable_task_def is_ok_iff task_row_Ok_iff demo_task_def ok_task_def
      task_row_ok_def new_task_row_def task_type_str_def)

lemma mem_demo_inv: "mem_inv L mem_demo"
  by (simp add: mem_inv_def mem_demo_def mem_default_def demo_task_def map_wf_def)

end
