(* ===== verification/Handler_Payloads.thy ===== *)
theory Handler_Payloads
  imports Handlers
begin

text \<open>
  The payloads that the handlers of src/orchestrator/api/src/main.rs write into the outbox,
  against the validation and the construction of calls in chain.rs.
\<close>

section \<open>Fields of an object\<close>

lemma u64_field_object:
  assumes "json_ok L" "distinct (map fst kvs)"
  shows "map_of kvs k = Some (json_u64 L n) \<Longrightarrow> u64_field L (json_object L kvs) k = Some n"
    and "map_of kvs k = Some (json_i64 L m) \<Longrightarrow>
      u64_field L (json_object L kvs) k = (if 0 \<le> sint m then Some m else None)"
  using assms by (simp_all add: u64_field_def json_get_object json_as_u64_u64 json_as_u64_i64)

lemma built_members:
  "json_built L (json_object L kvs)" if "distinct (map fst kvs)" "list_all (json_built L \<circ> snd) kvs"
  using that by (intro built_object) (force simp: list_all_iff)+

lemmas built_leaf = built_string built_u64 built_i64

lemma built_empty_array: "json_built L (json_array L [])"
  by (rule built_array) simp

lemma verification_best_effort:
  "str_field L v ''verification_level'' = Some ''best_effort'' \<Longrightarrow> verification_field_ok L v"
  by (simp add: verification_field_ok_def verification_names_def ascii_lower_def)

section \<open>The payload of each handler\<close>

lemma agent_payload_built: "json_built L (agent_payload L a)"
  unfolding agent_payload_def by (rule built_members) (simp_all add: built_leaf built_empty_array)

lemma agent_payload_ok_iff:
  assumes "json_ok L"
  shows "payload_ok L ''AgentRegistry'' ''register_agent'' (agent_payload L a) \<longleftrightarrow>
     length (ar_id a) \<le> 128 \<and> length (ar_label a) \<le> 1024"
proof -
  let ?v = "agent_payload L a"
  have "str_field L ?v ''did'' = Some (ar_id a)" "str_field L ?v ''metadata'' = Some (ar_label a)"
    "str_field L ?v ''verification_level'' = Some ''best_effort''"
    using assms unfolding agent_payload_def by (intro str_field_object; simp)+
  moreover have "caps_field_ok L ?v"
    using assms by (simp add: caps_field_ok_def agent_payload_def json_get_object json_as_array_array)
  ultimately show ?thesis
    by (simp add: payload_ok_def outbox_call_def short_str_def absent_or_short_def verification_best_effort)
qed

lemma agent_payload_validates_iff:
  assumes "json_ok L"
  shows "validate_outbox_payload L ''AgentRegistry'' ''register_agent''
      (Some (json_to_string L (agent_payload L a))) = Ok ()
     \<longleftrightarrow> length (ar_id a) \<le> 128 \<and> length (ar_label a) \<le> 1024"
  using payload_value_built [OF assms agent_payload_built] agent_payload_ok_iff [OF assms]
  by (simp add: validate_outbox_payload_def map_err_Ok_iff decode_payload_value)

lemma task_payload_fields:
  assumes "json_ok L" "task_payload L h v = Some j"
  shows "json_built L j" "u64_field L j ''budget'' = Some (ucast (tv_max_budget v))"
    "u64_field L j ''deadline'' = Some (tv_deadline v)"
    "str_field L j ''spec_hash'' = Some (hex_0x L h)"
    "str_field L j ''verification_level'' = Some ''best_effort''"
proof -
  have j: "j = json_object L
      [(''spec_hash'', json_string L (hex_0x L h)), (''budget'', json_u64 L (ucast (tv_max_budget v))),
       (''deadline'', json_u64 L (tv_deadline v)), (''verification_level'', json_string L ''best_effort'')]"
    using assms by (auto simp: task_payload_def json_u128_eq split: if_splits)
  show "json_built L j" unfolding j by (rule built_members) (simp_all add: built_leaf)
  show "u64_field L j ''budget'' = Some (ucast (tv_max_budget v))"
    "u64_field L j ''deadline'' = Some (tv_deadline v)"
    using assms(1) unfolding j by (intro u64_field_object(1); simp)+
  show "str_field L j ''spec_hash'' = Some (hex_0x L h)"
    "str_field L j ''verification_level'' = Some ''best_effort''"
    using assms(1) unfolding j by (intro str_field_object; simp)+
qed

lemma task_payload_Some_iff:
  "json_ok L \<Longrightarrow> (\<exists>j. task_payload L h v = Some j) \<longleftrightarrow> unat (tv_max_budget v) < 2 ^ 64"
  by (simp add: task_payload_def json_u128_eq)

lemma bid_payload_fields:
  assumes "json_ok L"
  shows "json_built L (bid_payload L ids v)"
    "u64_field L (bid_payload L ids v) ''task_id'' = (if 0 \<le> sint (fst ids) then Some (fst ids) else None)"
    "u64_field L (bid_payload L ids v) ''agent_id'' = (if 0 \<le> sint (snd ids) then Some (snd ids) else None)"
    "u64_field L (bid_payload L ids v) ''estimated_duration'' = Some (bv_completion_time v)"
    "str_field L (bid_payload L ids v) ''commitment''
       = Some (hex_0x L (blake3_hash L (as_bytes (bv_task_id v @ '':'' @ bv_agent_id v))))"
proof -
  show "json_built L (bid_payload L ids v)"
    unfolding bid_payload_def by (rule built_members) (simp_all add: built_leaf)
  show "u64_field L (bid_payload L ids v) ''task_id'' = (if 0 \<le> sint (fst ids) then Some (fst ids) else None)"
    "u64_field L (bid_payload L ids v) ''agent_id'' = (if 0 \<le> sint (snd ids) then Some (snd ids) else None)"
    using assms unfolding bid_payload_def by (intro u64_field_object(2); simp)+
  show "u64_field L (bid_payload L ids v) ''estimated_duration'' = Some (bv_completion_time v)"
    using assms unfolding bid_payload_def by (intro u64_field_object(1); simp)
  show "str_field L (bid_payload L ids v) ''commitment''
      = Some (hex_0x L (blake3_hash L (as_bytes (bv_task_id v @ '':'' @ bv_agent_id v))))"
    using assms unfolding bid_payload_def by (intro str_field_object; simp)
qed

lemma result_payload_fields:
  assumes "json_ok L"
  shows "json_built L (result_payload L ids v)"
    "u64_field L (result_payload L ids v) ''task_id'' = (if 0 \<le> sint (fst ids) then Some (fst ids) else None)"
    "u64_field L (result_payload L ids v) ''agent_id'' = (if 0 \<le> sint (snd ids) then Some (snd ids) else None)"
    "str_field L (result_payload L ids v) ''proof'' = Some ''''"
    "str_field L (result_payload L ids v) ''result_hash''
       = Some (hex_0x L (blake3_hash L (as_bytes (rv_output_base64 v))))"
proof -
  show "json_built L (result_payload L ids v)"
    unfolding result_payload_def by (rule built_members) (simp_all add: built_leaf)
  show "u64_field L (result_payload L ids v) ''task_id'' = (if 0 \<le> sint (fst ids) then Some (fst ids) else None)"
    "u64_field L (result_payload L ids v) ''agent_id'' = (if 0 \<le> sint (snd ids) then Some (snd ids) else None)"
    using assms unfolding result_payload_def by (intro u64_field_object(2); simp)+
  show "str_field L (result_payload L ids v) ''proof'' = Some ''''"
    "str_field L (result_payload L ids v) ''result_hash''
      = Some (hex_0x L (blake3_hash L (as_bytes (rv_output_base64 v))))"
    using assms unfolding result_payload_def by (intro str_field_object; simp)+
qed

section \<open>They validate, and their calls can be built\<close>

lemma digest_field:
  assumes "hex_ok L" "blake3_ok L" "str_field L v key = Some (hex_0x L (blake3_hash L bs))"
  shows "hash_field L v key = Some (blake3_hash L bs)"
  using assms by (intro hash_field_encoded) (auto simp: blake3_ok_def)

lemma task_payload_ok:
  assumes "json_ok L" "hex_ok L" "length h = 32" "task_payload L h v = Some j"
  shows "payload_ok L ''TaskMarket'' ''create_task'' j"
proof -
  note f = task_payload_fields [OF assms(1,4)]
  show ?thesis
    using hash_field_encoded [OF assms(2,3) f(4)] verification_best_effort [OF f(5)]
    by (simp add: payload_ok_def outbox_call_def)
qed

lemma bid_payload_ok:
  assumes "json_ok L" "hex_ok L" "blake3_ok L"
  shows "payload_ok L ''TaskMarket'' ''submit_bid'' (bid_payload L ids v)"
  using digest_field [OF assms(2,3) bid_payload_fields(5) [OF assms(1)]]
  by (simp add: payload_ok_def outbox_call_def)

lemma result_payload_ok:
  assumes "json_ok L" "hex_ok L" "blake3_ok L"
  shows "payload_ok L ''TaskMarket'' ''submit_result'' (result_payload L ids v)"
  using digest_field [OF assms(2,3) result_payload_fields(5) [OF assms(1)]]
    result_payload_fields(4) [OF assms(1)]
  by (simp add: payload_ok_def outbox_call_def absent_or_short_def)

lemma built_validates:
  assumes "json_ok L" "json_built L v" "payload_ok L pallet call v"
  shows "validate_outbox_payload L pallet call (Some (json_to_string L v)) = Ok ()"
  using payload_value_built [OF assms(1,2)] assms(3)
  by (simp add: validate_outbox_payload_def map_err_Ok_iff decode_payload_value)

lemma built_builds:
  assumes "json_ok L" "json_built L v" "payload_ok L pallet call v"
    "list_all (\<lambda>k. u64_field L v k \<noteq> None) (required_numbers (outbox_call pallet call))"
    "pallet = ''TaskMarket''"
  shows "\<exists>y. build_extrinsic L pallet call (Some (json_to_string L v)) = Ok y"
  using build_extrinsic_value [OF payload_value_built [OF assms(1,2)], of pallet call] assms(3,4,5)
  by (simp add: address_ok_def outbox_call_def)

text \<open>C11: Every payload that a handler writes for the task market can be submitted: the call of a
  task can be built whenever its budget fits 64 bits, and the calls of a bid and of a result
  whenever the chain ids that were looked up are not negative.\<close>

theorem handler_payloads_build:
  assumes "json_ok L" "hex_ok L" "blake3_ok L"
  shows "(unat (tv_max_budget t) < 2 ^ 64 \<longrightarrow>
        (\<exists>j y. task_payload L (blake3_hash L bs) t = Some j
          \<and> build_extrinsic L ''TaskMarket'' ''create_task'' (Some (json_to_string L j)) = Ok y))
    \<and> (0 \<le> sint (fst ids) \<and> 0 \<le> sint (snd ids) \<longrightarrow>
        (\<exists>y. build_extrinsic L ''TaskMarket'' ''submit_bid''
               (Some (json_to_string L (bid_payload L ids b))) = Ok y)
        \<and> (\<exists>y. build_extrinsic L ''TaskMarket'' ''submit_result''
               (Some (json_to_string L (result_payload L ids r))) = Ok y))"
proof (intro conjI impI)
  assume "unat (tv_max_budget t) < 2 ^ 64"
  then obtain j where j: "task_payload L (blake3_hash L bs) t = Some j"
    using task_payload_Some_iff [OF assms(1)] by blast
  have "length (blake3_hash L bs) = 32" using assms(3) by (simp add: blake3_ok_def)
  then have "\<exists>y. build_extrinsic L ''TaskMarket'' ''create_task'' (Some (json_to_string L j)) = Ok y"
    using task_payload_fields [OF assms(1) j] assms j
    by (intro built_builds task_payload_ok) (simp_all add: outbox_call_def)
  then show "\<exists>j y. task_payload L (blake3_hash L bs) t = Some j
      \<and> build_extrinsic L ''TaskMarket'' ''create_task'' (Some (json_to_string L j)) = Ok y"
    using j by blast
next
  assume ids: "0 \<le> sint (fst ids) \<and> 0 \<le> sint (snd ids)"
  show "\<exists>y. build_extrinsic L ''TaskMarket'' ''submit_bid''
      (Some (json_to_string L (bid_payload L ids b))) = Ok y"
    using ids bid_payload_fields [OF assms(1), of ids b] bid_payload_ok [OF assms, of ids b] assms(1)
    by (intro built_builds) (simp_all add: outbox_call_def)
  show "\<exists>y. build_extrinsic L ''TaskMarket'' ''submit_result''
      (Some (json_to_string L (result_payload L ids r))) = Ok y"
    using ids result_payload_fields [OF assms(1), of ids r] result_payload_ok [OF assms, of ids r] assms(1)
    by (intro built_builds) (simp_all add: outbox_call_def)
qed

definition demo_task_view :: task_view where
  "demo_task_view =
     \<lparr>tv_id = ''t'', tv_requester_id = ''r'', tv_description = ''d'', tv_status = Pending,
      tv_deadline = 60, tv_max_budget = 500\<rparr>"

theorem handler_payloads_build_witness:
  "\<exists>j y. task_payload ref_libs (blake3_hash ref_libs [1]) demo_task_view = Some j
      \<and> build_extrinsic ref_libs ''TaskMarket'' ''create_task'' (Some (json_to_string ref_libs j)) = Ok y"
  using handler_payloads_build [OF ref_json_ok ref_hex_ok ref_blake3_ok, of demo_task_view "[1]"
      "(0, 0)" undefined undefined]
  by (simp add: demo_task_view_def del: ref_libs_simps)

end
