(* ===== verification/App_Props.thy ===== *)
theory App_Props
  imports Ref_App Handler_Payloads
begin

text \<open>
  The properties of the handlers over both backends, and of the orchestrator over Postgres as a
  whole.
\<close>

section \<open>The system\<close>



text \<open>C2: Nothing regresses: whatever request or worker acts on a reachable database, no task is
  lost or altered except that its status may go from pending to completed, never back, and every
  outbox row keeps its life: queued, then at most once finalized or failed.\<close>

theorem system_never_regresses:
  assumes "pg_ok x" "sys_reach x engine s" "sys_step x engine s s'" "pg_task_of x s k = Some t"
  shows "(\<exists>st. pg_task_of x s' k = Some (t\<lparr>st_status := st\<rparr>) \<and> st_status t \<le> st)
    \<and> life_step (lives s) (lives s')"
proof -
  have "tasks_le (pg_task_of x s) (pg_task_of x s') \<and> life_step (lives s) (lives s')"
    using sys_step_invariant [OF assms(3,1) sys_reach_inv [OF assms(2,1)]] by blast
  then show ?thesis using assms(4) by (auto simp: tasks_le_def)
qed

theorem system_never_regresses_witness:
  "\<exists>st. pg_task_of ref_pg (snd (backfill_once ref_pg (calm 100) demo_submitted)) 2
        = Some ((demo_task 1 2)\<lparr>st_status := st\<rparr>) \<and> Pending \<le> st"
  using system_never_regresses [OF ref_pg_ok demo_system Sys_Backfill [of ref_pg demo_engine demo_submitted "calm 100"]
      demo_stored]
  by (simp add: demo_task_def)

section \<open>Tasks\<close>

text \<open>C8: A task that was accepted can be read: over Postgres the view in the reply is what a later
  request for its id returns, the task is pending, and no other task has changed.\<close>

theorem pg_submitted_task_readable:
  assumes "pg_ok x" "pg_inv x s" "pg_fresh x s (fresh_id (pg_app x en) c 1)"
    "submit_task (pg_app x en) c sub s = (Return (Ok r), s')" "pg_healthy (cl_env d 0)"
  shows "get_task (pg_app x en) d (tv_id (rc_data r)) s' = Ok (rc_data r)
    \<and> tv_status (rc_data r) = Pending
    \<and> (pg_key x i \<noteq> pg_key x (tv_id (rc_data r)) \<longrightarrow>
         get_task (pg_app x en) d i s' = get_task (pg_app x en) d i s)"
proof -
  have free: "\<And>k. pg_key x (fresh_id (pg_app x en) c 1) = Some k \<Longrightarrow> pg_task_of x s k = None"
    using pg_fresh_task [OF assms(3)] by blast
  obtain t k where t: "task_from_submission (pg_libs x) (cl_uuid c 0) (cl_uuid c 1) (now_of c) sub = Ok t"
      "pg_key x (st_id t) = Some k" "pg_task_of x s' = (pg_task_of x s)(k \<mapsto> t)" "pg_inv x s'"
      "rc_data r = task_to_view t"
    using pgb.submit_task_spec [OF assms(1,2) _ _ _ assms(4) free] by auto
  have pend: "st_status t = Pending"
    using t(1) by (auto simp: task_from_submission_def and_then_Ok_iff split: if_splits)
  have "get_task (pg_app x en) d (st_id t) s' = Ok (task_to_view t)"
    using pgs.get_task [OF assms(1,5) t(4,2)] t(3) by (simp add: get_task_def result_map_def)
  moreover have "get_task (pg_app x en) d i s' = get_task (pg_app x en) d i s"
    if "pg_key x i \<noteq> Some k"
  proof (cases "pg_key x i")
    case None
    then show ?thesis
      by (simp add: get_task_def pg_ops_def pg_get_task_def pg_parse_uuid_def pg_key_def)
  next
    case (Some l)
    then show ?thesis
      using that pgs.get_task [OF assms(1,5) t(4) Some] pgs.get_task [OF assms(1,5,2) Some] t(3)
      by (simp add: get_task_def)
  qed
  ultimately show ?thesis using t pend by (simp add: task_to_view_def)
qed

theorem pg_submitted_task_readable_witness:
  "\<exists>r. submit_task demo_app (pg_demo_call 1) demo_submission pg_empty = (Return (Ok r), demo_submitted)
    \<and> get_task demo_app (pg_demo_call 5) (tv_id (rc_data r)) demo_submitted = Ok (rc_data r)"
proof -
  obtain r where "submit_task demo_app (pg_demo_call 1) demo_submission pg_empty
      = (Return (Ok r), demo_submitted)"
    using demo_reply by blast
  then show ?thesis
    using pg_submitted_task_readable [OF ref_pg_ok pg_inv_empty empty_fresh, of demo_engine
        "pg_demo_call 1" demo_submission r demo_submitted "pg_demo_call 5"]
    by simp
qed

text \<open>C19: Submitting a task in memory, completely: a valid submission is always stored; the reply
  shows it and carries a correlation id exactly when the budget fits 64 bits, and otherwise the
  handler panics after the task has been stored, because \<open>json!\<close> cannot represent it.\<close>

theorem mem_submit_task_outcome:
  assumes "json_ok L" "hex_ok L" "blake3_ok L"
    "task_from_submission L (cl_uuid c 0) (cl_uuid c 1) (now_of c) sub = Ok t"
  shows "submit_task (mem_app L en) c sub s =
     (if unat (sub_max_budget sub) < 2 ^ 64
      then Return (Ok \<lparr>rc_correlation_id = Some (fresh_id (mem_app L en) c 2), rc_data = task_to_view t\<rparr>)
      else Panic,
      s\<lparr>ms_tasks := AList.update (st_id t) t (ms_tasks s)\<rparr>)"
proof -
  have budget: "tv_max_budget (task_to_view t) = sub_max_budget sub"
    using assms(4)
    by (auto simp: task_from_submission_def and_then_Ok_iff task_to_view_def build_core_task_def
        split: if_splits)
  let ?h = "blake3_hash L (ts_input (tk_specification (st_task t)))"
  have len: "length ?h = 32" using assms(3) by (simp add: blake3_ok_def)
  show ?thesis
  proof (cases "task_payload L ?h (task_to_view t)")
    case None
    then show ?thesis
      using assms(4) budget task_payload_Some_iff [OF assms(1), of ?h "task_to_view t"]
      by (auto simp: submit_task_def Let_def mem_ops_def mem_insert_task_def)
  next
    case (Some j)
    have "validate_outbox_payload L ''TaskMarket'' ''create_task'' (Some (json_to_string L j)) = Ok ()"
      by (rule built_validates [OF assms(1) task_payload_fields(1) [OF assms(1) Some]
            task_payload_ok [OF assms(1,2) len Some]])
    then show ?thesis
      using assms(4) Some budget task_payload_Some_iff [OF assms(1), of ?h "task_to_view t"]
      by (auto simp: submit_task_def Let_def mem_ops_def mem_insert_task_def enqueue_def
          record_outbound_extrinsic_def mem_sink_def mem_record_outbound_extrinsic_def)
  qed
qed

theorem mem_submit_task_outcome_witness:
  "fst (submit_task mem_demo_app (demo_call (\<lambda>_. mem_calm) 1) demo_submission mem_default)
     = Return (Ok \<lparr>rc_correlation_id = Some (uuid_to_string ref_libs 3),
                  rc_data = task_to_view (demo_task 1 2)\<rparr>)"
  using mem_submit_task_outcome [OF ref_json_ok ref_hex_ok ref_blake3_ok, of "demo_call (\<lambda>_. mem_calm) 1"
      demo_submission "demo_task 1 2" demo_engine mem_default] demo_task_built [of 1 2]
  by (simp add: demo_submission_def del: ref_libs_simps)

section \<open>Results\<close>

lemma pg_insert_result_internal:
  assumes "pg_ok x" "pg_key x (sr_id r) = Some u" "pg_key x (sr_task_id r) = Some k"
  shows "\<exists>m. pg_insert_result x e r s = Err (Internal m)"
proof (cases "ser_result (pg_libs x) r")
  case (Inl m)
  then show ?thesis
    using assms by (simp add: pg_insert_result_def pg_parse_uuid_def pg_key_def)
next
  case (Inr j)
  then show ?thesis
    using assms insert_result_refused
    by (auto simp: pg_insert_result_def pg_parse_uuid_def pg_key_def Let_def run_stmt_def
        pg_internal_def pg_ok_def split: option.split)
qed

text \<open>C16: Over the migrated Postgres schema no result can be filed: a valid result for a stored task
  is answered with an internal error, because \<open>ON CONFLICT (task_id)\<close> names no unique
  index, and yet the task has been marked completed; the same holds for local execution.\<close>

theorem pg_result_never_stored:
  assumes "pg_ok x" "pg_inv x s" "pg_healthy (cl_env c 0)" "pg_healthy (cl_env c 1)"
    "pg_key x (rsub_task_id sub) = Some k" "pg_task_of x s k = Some t"
    "result_from_submission (pg_libs x) (cl_uuid c 0) (now_of c) sub t = Ok y"
    "pg_storable_task x (t\<lparr>st_status := Completed\<rparr>)"
  shows "\<exists>m s'. submit_result (pg_app x en) c sub s = (Err (Internal m), s')
    \<and> pg_task_of x s' = (pg_task_of x s)(k \<mapsto> t\<lparr>st_status := Completed\<rparr>)
    \<and> pg_results_of x s' = pg_results_of x s"
proof -
  have get: "op_get_task (pg_ops x) (cl_env c 0) (rsub_task_id sub) s = Ok t"
    using pgs.get_task [OF assms(1,3,2,5)] assms(6) by simp
  obtain s1 where up: "op_upsert_task (pg_ops x) (cl_env c 1) (t\<lparr>st_status := Completed\<rparr>) s = Ok s1"
    using pgs.upsert_task_total [OF assms(1,4,2,8)] by blast
  have "pg_task_of x s1 = (pg_task_of x s)(k \<mapsto> t\<lparr>st_status := Completed\<rparr>)"
    "pg_results_of x s1 = pg_results_of x s" and key: "pg_key x (st_id t) = Some k"
    using pgb.complete_task [OF assms(1,2), of "pg_app x en" "cl_env c 0" "rsub_task_id sub" t
        "cl_env c 1" s1] get up assms(5) by auto
  moreover obtain m where "op_insert_result (pg_ops x) (cl_env c 2) y s1 = Err (Internal m)"
  proof -
    have "sr_task_id y = st_id t" "sr_id y = uuid_to_string (pg_libs x) (cl_uuid c 0)"
      using assms(7)
      by (auto simp: result_from_submission_def and_then_Ok_iff Let_def split: if_splits)
    then have "pg_key x (sr_id y) = Some (cl_uuid c 0)" "pg_key x (sr_task_id y) = Some k"
      using key assms(1) by (simp_all add: pg_ok_def uuid_ok_def pg_key_def)
    from pg_insert_result_internal [OF assms(1) this, of "cl_env c 2" s1] that
    show ?thesis by (auto simp: pg_ops_def)
  qed
  ultimately show ?thesis
    using get up assms(7) by (simp add: submit_result_def read_then_def store_then_def Let_def)
qed

theorem pg_result_never_stored_witness:
  "\<exists>m s'. submit_result demo_app (pg_demo_call 5) demo_result_submission demo_submitted
      = (Err (Internal m), s')
    \<and> pg_task_of ref_pg s' 2 = Some ((demo_task 1 2)\<lparr>st_status := Completed\<rparr>)
    \<and> pg_results_of ref_pg s' 2 = {}"
proof -
  have "pg_inv ref_pg demo_submitted"
    using sys_reach_inv [OF demo_system ref_pg_ok] by (simp add: sys_inv_def)
  moreover have "pg_key ref_pg (rsub_task_id demo_result_submission) = Some 2"
    using ref_key by (simp add: demo_result_submission_def del: ref_libs_simps)
  moreover have "pg_results_of ref_pg demo_submitted 2 = {}"
    by (rule demo_no_results)
  ultimately show ?thesis
    using pg_result_never_stored [OF ref_pg_ok _ _ _ _ demo_stored, of "pg_demo_call 5"
        demo_result_submission "demo_result 5" demo_engine] demo_result_built [of 5] demo_stays_storable
    by force
qed

text \<open>C26: In memory the first result of a task can be read: after a result was accepted for a task
  without results, the task is completed and its result is the one in the reply.\<close>

theorem mem_first_result_readable:
  assumes "mem_inv L s" "mem_results_of L s (rsub_task_id sub) = {}"
    "submit_result (mem_app L en) c sub s = (Ok r, s')" "mem_healthy (cl_env d 0)"
    "mem_healthy (cl_env d 1)"
  shows "get_task_result (mem_app L en) d (rsub_task_id sub) s' = Ok (rc_data r)
    \<and> (\<exists>v. get_task (mem_app L en) d (rsub_task_id sub) s' = Ok v \<and> tv_status v = Completed)"
proof -
  let ?i = "rsub_task_id sub"
  have r: "rc_correlation_id r = co \<Longrightarrow> rc_data r = v \<Longrightarrow> r = \<lparr>rc_correlation_id = co, rc_data = v\<rparr>" for co v
    by simp
  from assms(3) obtain t y s1 s2 where st:
      "mem_get_task (cl_env c 0) ?i s = Ok t"
      "result_from_submission L (cl_uuid c 0) (now_of c) sub t = Ok y"
      "s1 = s\<lparr>ms_tasks := AList.update (st_id t) (t\<lparr>st_status := Completed\<rparr>) (ms_tasks s)\<rparr>"
      "s2 = s1\<lparr>ms_results := AList.update (sr_id y) y (ms_results s1)\<rparr>" "s' = s2"
      "rc_data r = result_to_view L y"
    by (cases rule: submit_result_cases)
      (auto simp: mem_ops_def mem_upsert_task_def mem_insert_result_def enqueue_def
        record_outbound_extrinsic_def mem_sink_def mem_record_outbound_extrinsic_def split: sum.splits)
  have id: "st_id t = ?i" using st(1) assms(1) by (auto simp: mem_get_task_def ok_or_Ok_iff mem_inv_tasks)
  then have y: "sr_task_id y = ?i"
    using st(2) by (auto simp: result_from_submission_def and_then_Ok_iff Let_def split: if_splits)
  have inv': "mem_inv L s'"
    using memb.submit_result_spec [of L s "mem_app L en" c sub "Ok r" s'] assms(1,3) by simp
  have "mem_results_of L s' ?i \<subseteq> {y}"
    using assms(2) st(3,4,5) set_update [of "sr_id y" y "ms_results s"]
    by (fastforce simp: mem_results_of_def)
  moreover have "y \<in> mem_results_of L s' ?i"
    using y st(3,4,5) by (auto simp: mem_results_of_def intro!: image_eqI [OF _ update_mem])
  ultimately have "mem_results_of L s' ?i = {y}" by blast
  then have "op_get_result_for_task (mem_ops L) (cl_env d 1) ?i s' = Ok y"
    using mem.get_result [OF TrueI assms(5) inv' refl, of ?i] by auto
  moreover have task: "op_get_task (mem_ops L) (cl_env d 0) ?i s' = Ok (t\<lparr>st_status := Completed\<rparr>)"
    using id st(3,4,5) by (simp add: mem_ops_def mem_get_task_def)
  ultimately show ?thesis
    using st(6) by (simp add: get_task_result_def get_task_def result_map_def task_to_view_def)
qed

theorem mem_first_result_readable_witness:
  "\<exists>r s'. submit_result mem_demo_app (demo_call (\<lambda>_. mem_calm) 5) demo_result_submission mem_demo = (Ok r, s')
    \<and> get_task_result mem_demo_app (demo_call (\<lambda>_. mem_calm) 9) (uuid_to_string ref_libs 2) s' = Ok (rc_data r)"
proof -
  have "fst (submit_result mem_demo_app (demo_call (\<lambda>_. mem_calm) 5) demo_result_submission mem_demo) \<noteq> Err e" for e
    using demo_result_built [of 5]
    by (simp add: submit_result_def read_then_def store_then_def Let_def with_correlation_def mem_ops_def
        mem_get_task_def mem_demo_def demo_result_submission_def mem_upsert_task_def mem_insert_result_def
        del: ref_libs_simps)
  then obtain r s' where r: "submit_result mem_demo_app (demo_call (\<lambda>_. mem_calm) 5)
      demo_result_submission mem_demo = (Ok r, s')"
    by (metis eq_fst_iff sum.exhaust)
  have "mem_results_of ref_libs mem_demo i = {}" for i
    by (simp add: mem_results_of_def mem_demo_def mem_default_def)
  then show ?thesis
    using mem_first_result_readable [OF mem_demo_inv _ r, of "demo_call (\<lambda>_. mem_calm) 9"] r
    by (simp add: demo_result_submission_def del: ref_libs_simps)
qed

end
