(* ===== verification/Handler_Props.thy ===== *)
theory Handler_Props
  imports Ref_App Handler_Payloads
begin

text \<open>
  The properties of single handlers (src/orchestrator/api/src/main.rs) over both backends: what
  a request is answered and what it queues.
\<close>

section \<open>A bid on the demonstration task\<close>

definition demo_bid :: "uuid \<Rightarrow> stored_bid" where
  "demo_bid u =
     \<lparr>sb_id = uuid_to_string ref_libs u, sb_task_id = uuid_to_string ref_libs 2, sb_agent_id = ''bob'',
      sb_bid = build_core_bid ref_libs demo_bid_submission (st_task (demo_task 1 2)),
      sb_created_at = 100\<rparr>"

definition demo_bid_payload :: string where
  "demo_bid_payload =
     json_to_string ref_libs (bid_payload ref_libs (0, 0) (bid_to_view (demo_bid 5)))"

definition demo_bid_row :: "ref_json pg_bid" where
  "demo_bid_row = new_bid_row 2 (demo_bid 5) 5 (JBid (demo_bid 5))"

lemma demo_bid_text:
  "pg_text (uuid_to_string ref_libs 6)" "pg_text demo_bid_payload" "char_count demo_bid_payload \<le> 4096"
  by code_simp+

lemma demo_bid_build:
  "bid_from_submission ref_libs 5 100 demo_bid_submission (demo_task 1 2) = Ok (demo_bid 5)"
proof -
  have "\<not> is_blank ''bob''" by code_simp
  then show ?thesis
    by (simp add: bid_from_submission_def demo_bid_def demo_bid_submission_def demo_task_def)
qed

lemma demo_bid_insert:
  "pg_insert_bid ref_pg (calm 100) (demo_bid 5) demo_submitted
     = Ok (demo_submitted\<lparr>db_bids := [(5, demo_bid_row)]\<rparr>)"
proof -
  have "2 \<in> fst ` set (db_tasks demo_submitted)"
    using demo_stored by (force simp: pg_task_of_def bind_eq_Some_conv dest: map_of_SomeD)
  then have "bid_row_ok ref_pg demo_submitted 5 demo_bid_row"
    by (simp add: bid_row_ok_def demo_bid_row_def new_bid_row_def demo_no_bids pg_timestamp_def
        as_i64_def demo_bid_def)
  moreover have "u128_try_i64 (bd_value (sb_bid (demo_bid 5))) = Some 5"
    by (simp add: demo_bid_def build_core_bid_def demo_bid_submission_def u128_try_i64_def)
  moreover have "pg_key ref_pg (sb_id (demo_bid 5)) = Some 5"
      "pg_key ref_pg (sb_task_id (demo_bid 5)) = Some 2"
    using ref_key by (simp_all add: demo_bid_def del: ref_libs_simps)
  ultimately show ?thesis
    by (simp add: pg_insert_bid_def pg_parse_uuid_def pg_key_def ok_bid_def run_calm storage_stmts_prepare demo_bid_row_def
        insert_bid_row_def demo_no_bids)
qed

lemma demo_bid_reply:
  "\<exists>r s'. submit_bid demo_app (pg_demo_call 5) demo_bid_submission demo_submitted = (Ok r, s')
     \<and> rc_correlation_id r = Some (uuid_to_string ref_libs 6) \<and> db_bids s' = [(5, demo_bid_row)]"
proof -
  let ?A = demo_app
  let ?v = "bid_to_view (demo_bid 5)"
  have inv: "pg_inv ref_pg demo_submitted"
    using sys_reach_inv [OF demo_system ref_pg_ok] by (simp add: sys_inv_def)
  have get: "op_get_task (as_storage ?A) (calm 100) (bsub_task_id demo_bid_submission) demo_submitted
      = Ok (demo_task 1 2)"
    using pgs.get_task [OF ref_pg_ok calm_healthy inv ref_key [of 2]] demo_stored
    by (simp add: demo_bid_submission_def del: ref_libs_simps)
  let ?s1 = "demo_submitted\<lparr>db_bids := [(5, demo_bid_row)]\<rparr>"
  have ins: "op_insert_bid (as_storage ?A) (calm 100) (demo_bid 5) demo_submitted = Ok ?s1"
    by (simp add: pg_ops_def demo_bid_insert)
  have zero: "chain_ids ?A (calm 100) task ''bob'' ?s1 = (0, 0)" for task
    using chain_task_id_zero [of ref_pg "calm 100" task "''bob''" ?s1]
    by (simp add: chain_ids_def pg_pool_def pg_chain_ids_def scalar_or_zero_def run_stmt_def
        demo_no_agents)
  have "validate_outbox_payload ref_libs ''TaskMarket'' ''submit_bid'' (Some demo_bid_payload) = Ok ()"
    unfolding demo_bid_payload_def
    using bid_payload_fields(1) [OF ref_json_ok] bid_payload_ok [OF ref_ok(6,3,2)]
    by (intro built_validates [OF ref_json_ok])
  moreover have "\<exists>s'. record_outbound_extrinsic (pg_sink ref_pg) (calm 100) (uuid_to_string ref_libs 6) ''TaskMarket''
      ''submit_bid'' (Some demo_bid_payload) ?s1 = Ok s'
      \<and> db_bids s' = [(5, demo_bid_row)]"
  proof -
    have "pg_text ''TaskMarket'' \<and> pg_text ''submit_bid''" by code_simp
    moreover have "uuid_to_string ref_libs 6 \<noteq> uuid_to_string ref_libs 3" by code_simp
    then have "map_of (db_outbox ?s1) (uuid_to_string ref_libs 6) = None"
      using demo_outbox_keys by (auto simp: map_of_eq_None_iff simp del: ref_libs_simps)
    moreover have "outbox_row_ok
        (new_outbox_row ''TaskMarket'' ''submit_bid'' (Some demo_bid_payload) ''pending'' 100)"
      using demo_bid_text(3) by (simp add: outbox_row_ok_def new_outbox_row_def outbox_statuses_def)
    ultimately show ?thesis
      using demo_bid_text(1,2)
      by (simp add: record_outbound_extrinsic_def pg_sink_def pg_record_outbound_extrinsic_def
          outbound_row_def run_calm sink_stmts_prepare del: ref_libs_simps)
  qed
  moreover have "bv_agent_id ?v = ''bob''" by (simp add: bid_to_view_def demo_bid_def)
  ultimately show ?thesis
    using get ins demo_bid_build zero
    by (auto simp: submit_bid_def read_then_def store_then_def Let_def enqueue_def with_correlation_def
        demo_bid_payload_def simp del: ref_libs_simps)
qed

section \<open>Refusals\<close>



text \<open>The row of an accepted bid, and what was not in the table before.\<close>

lemma pg_insert_bid_row:
  assumes "pg_insert_bid x e b s = Ok s'" "pg_key x (sb_task_id b) = Some k"
    "pg_key x (sb_id b) = Some u" "u \<notin> fst ` set (db_bids s)"
  shows "(\<exists>r. r \<in> set (db_bids s') \<and> pb_task_id (snd r) = k
        \<and> pb_agent_id (snd r) = agent_bytes (bd_agent_id (sb_bid b)))
    \<and> (\<forall>old \<in> set (db_bids s). (pb_task_id (snd old), pb_agent_id (snd old))
        \<noteq> (k, agent_bytes (bd_agent_id (sb_bid b))))"
proof -
  from assms obtain v j where f: "bid_row_ok x s u (new_bid_row k b v j)"
      "s' = insert_bid_row u (new_bid_row k b v j) s"
    by (auto simp: pg_insert_bid_def and_then_Ok_iff pg_parse_uuid_def ok_or_Ok_iff map_err_Ok_iff
        pg_key_def Let_def run_stmt_Ok)
  have "map_of (db_bids s) u = None" using assms(4) by (simp add: map_of_eq_None_iff)
  then have "(u, new_bid_row k b v j) \<in> set (db_bids s')"
    using f(2) assms(4) by (simp add: insert_bid_row_def update_fresh)
  then have "\<exists>r. r \<in> set (db_bids s') \<and> pb_task_id (snd r) = k
      \<and> pb_agent_id (snd r) = agent_bytes (bd_agent_id (sb_bid b))"
    by (intro exI [of _ "(u, new_bid_row k b v j)"]) (simp add: new_bid_row_def)
  moreover have "\<forall>old \<in> set (db_bids s). (pb_task_id (snd old), pb_agent_id (snd old))
      \<noteq> (k, agent_bytes (bd_agent_id (sb_bid b)))"
    using f(1) assms(4) by (simp add: bid_row_ok_def new_bid_row_def list_all_iff split_beta)
  ultimately show ?thesis by blast
qed

lemma pg_enqueue_bids:
  "enqueue (pg_app x en) e corr p c j s = (co, s') \<Longrightarrow> db_bids s' = db_bids s"
  by (auto simp: enqueue_def record_outbound_extrinsic_def pg_sink_def Let_def map_err_Ok_iff run_stmt_Ok
      pg_record_outbound_extrinsic_def split: sum.splits)

text \<open>C20: Over Postgres an agent bids once per task: the second bid of the same agent for the same
  task is refused and changes nothing, whatever its value.\<close>

theorem pg_second_bid_refused:
  assumes "pg_ok x" "pg_inv x s" "submit_bid (pg_app x en) c sub s = (Ok r, s1)"
    "submit_bid (pg_app x en) d sub' s1 = (res, s2)"
    "pg_key x (bsub_task_id sub') = pg_key x (bsub_task_id sub)"
    "bsub_agent_id sub' = bsub_agent_id sub"
    "cl_uuid c 0 \<notin> fst ` set (db_bids s)" "cl_uuid d 0 \<notin> fst ` set (db_bids s1)"
  shows "\<exists>e. res = Err e \<and> s2 = s1"
proof -
  let ?A = "pg_app x en"
  have uuid: "pg_key x (uuid_to_string (pg_libs x) u) = Some u" for u
    using assms(1) by (simp add: pg_ok_def uuid_ok_def pg_key_def)
  have filed: "\<exists>k t b. pg_key x (bsub_task_id sb) = Some k \<and> pg_task_of x st k = Some t
      \<and> pg_insert_bid x e b st = Ok st' \<and> pg_key x (sb_task_id b) = Some k
      \<and> pg_key x (sb_id b) = Some (cl_uuid cc 0)
      \<and> agent_bytes (bd_agent_id (sb_bid b)) = agent_bytes (hashed_agent_id (pg_libs x) (bsub_agent_id sb))"
    if inv: "pg_inv x st" and get: "op_get_task (as_storage ?A) (cl_env cc 0) (bsub_task_id sb) st = Ok t"
      and bid: "bid_from_submission (as_libs ?A) (cl_uuid cc 0) (now_of cc) sb t = Ok b"
      and ins: "op_insert_bid (as_storage ?A) e b st = Ok st'" for st sb cc t b e st'
  proof -
    have "op_get_task (pg_ops x) (cl_env cc 0) (bsub_task_id sb) st = Ok t" using get by simp
    then obtain k where k: "pg_key x (bsub_task_id sb) = Some k" "pg_task_of x st k = Some t"
      using pgs.get_task_Ok [OF assms(1) inv] by blast
    moreover have "pg_key x (st_id t) = Some k" using pgs.stored_key [OF assms(1) inv k(2)] .
    ultimately show ?thesis
      using bid ins uuid
      by (auto simp: bid_from_submission_def pg_ops_def build_core_bid_def split: if_splits)
  qed
  from assms(3) obtain t b s' j co where one: "op_get_task (as_storage ?A) (cl_env c 0) (bsub_task_id sub) s = Ok t"
      "bid_from_submission (as_libs ?A) (cl_uuid c 0) (now_of c) sub t = Ok b"
      "op_insert_bid (as_storage ?A) (cl_env c 1) b s = Ok s'"
      "enqueue ?A (cl_env c 3) (fresh_id ?A c 1) ''TaskMarket'' ''submit_bid'' j s' = (co, s1)"
    by (cases rule: submit_bid_cases) auto
  have inv1: "pg_inv x s1"
    using pgb.submit_bid_spec [OF assms(1,2) _ _ _ assms(3)] assms(7) uuid by (simp add: pg_bid_known_def)
  from filed [OF assms(2) one(1,2,3)] obtain k b1 where b1: "pg_key x (bsub_task_id sub) = Some k"
      "pg_insert_bid x (cl_env c 1) b1 s = Ok s'" "pg_key x (sb_task_id b1) = Some k"
      "pg_key x (sb_id b1) = Some (cl_uuid c 0)"
      "agent_bytes (bd_agent_id (sb_bid b1)) = agent_bytes (hashed_agent_id (pg_libs x) (bsub_agent_id sub))"
    by blast
  obtain row where row: "row \<in> set (db_bids s1)" "pb_task_id (snd row) = k"
      "pb_agent_id (snd row) = agent_bytes (hashed_agent_id (pg_libs x) (bsub_agent_id sub))"
    using pg_insert_bid_row [OF b1(2,3,4) assms(7)] pg_enqueue_bids [OF one(4)] b1(5) by auto
  show ?thesis
    using assms(4)
  proof (cases rule: submit_bid_cases)
    case (stored t2 b2 s3 j2 co2)
    from filed [OF inv1 stored(1,2,3)] obtain b3 where
        "pg_insert_bid x (cl_env d 1) b3 s1 = Ok s3" "pg_key x (sb_task_id b3) = Some k"
        "pg_key x (sb_id b3) = Some (cl_uuid d 0)"
        "agent_bytes (bd_agent_id (sb_bid b3)) = agent_bytes (hashed_agent_id (pg_libs x) (bsub_agent_id sub))"
      using b1(1) assms(5,6) by auto
    from pg_insert_bid_row [OF this(1,2,3) assms(8)] this(4) row show ?thesis by auto
  qed simp
qed

theorem pg_second_bid_refused_witness:
  "\<exists>r s' e. submit_bid demo_app (pg_demo_call 5) demo_bid_submission demo_submitted = (Ok r, s')
     \<and> submit_bid demo_app (pg_demo_call 8) (demo_bid_submission\<lparr>bsub_value := 9\<rparr>) s' = (Err e, s')"
proof -
  obtain r s' where r: "submit_bid demo_app (pg_demo_call 5) demo_bid_submission demo_submitted = (Ok r, s')"
      "db_bids s' = [(5, demo_bid_row)]"
    using demo_bid_reply by blast
  obtain res s2 where two: "submit_bid demo_app (pg_demo_call 8) (demo_bid_submission\<lparr>bsub_value := 9\<rparr>) s'
      = (res, s2)"
    by fastforce
  have inv: "pg_inv ref_pg demo_submitted"
    using sys_reach_inv [OF demo_system ref_pg_ok] by (simp add: sys_inv_def)
  show ?thesis
    using pg_second_bid_refused [OF ref_pg_ok inv r(1) two] r two demo_no_bids
    by (auto simp: demo_bid_submission_def)
qed

section \<open>Registration\<close>

text \<open>Registering an agent in memory, completely: a blank id or label is refused; otherwise the
  agent is stored under its id, the reply repeats it, and it carries a correlation id exactly when
  the id has at most 128 and the label at most 1024 bytes.\<close>

theorem mem_register_agent_outcome:
  assumes "json_ok L"
  shows "register_agent (mem_app L en) c a s =
     (if is_blank (ar_id a) then (Err (BadRequest ''agent id must not be empty''), s)
      else if is_blank (ar_label a) then (Err (BadRequest ''agent label must not be empty''), s)
      else (Ok \<lparr>rc_correlation_id =
                  (if length (ar_id a) \<le> 128 \<and> length (ar_label a) \<le> 1024
                   then Some (fresh_id (mem_app L en) c 0) else None),
                rc_data = a\<rparr>,
            s\<lparr>ms_agents := AList.update (ar_id a) a (ms_agents s)\<rparr>))"
proof -
  have "\<exists>e. validate_outbox_payload L ''AgentRegistry'' ''register_agent''
      (Some (json_to_string L (agent_payload L a))) = Err e"
    if "\<not> (length (ar_id a) \<le> 128 \<and> length (ar_label a) \<le> 1024)"
    using that agent_payload_validates_iff [OF assms, of a]
    by (cases "validate_outbox_payload L ''AgentRegistry'' ''register_agent''
      (Some (json_to_string L (agent_payload L a)))") auto
  then show ?thesis
    using agent_payload_validates_iff [OF assms, of a]
    by (auto simp: register_agent_def store_then_def mem_ops_def mem_register_agent_def enqueue_def
        with_correlation_def record_outbound_extrinsic_def mem_sink_def
        mem_record_outbound_extrinsic_def)
qed

theorem mem_register_agent_outcome_witness:
  "register_agent mem_demo_app (demo_call (\<lambda>_. mem_calm) 1) \<lparr>ar_id = ''bob'', ar_label = ''b''\<rparr> mem_default
     = (Ok \<lparr>rc_correlation_id = Some (uuid_to_string ref_libs 1), rc_data = \<lparr>ar_id = ''bob'', ar_label = ''b''\<rparr>\<rparr>,
        mem_default\<lparr>ms_agents := [(''bob'', \<lparr>ar_id = ''bob'', ar_label = ''b''\<rparr>)]\<rparr>)"
proof -
  have "\<not> is_blank ''bob'' \<and> \<not> is_blank ''b''" by code_simp
  then show ?thesis
    using mem_register_agent_outcome [OF ref_json_ok, of demo_engine "demo_call (\<lambda>_. mem_calm) 1"
        "\<lparr>ar_id = ''bob'', ar_label = ''b''\<rparr>" mem_default]
    by (simp add: mem_default_def del: ref_libs_simps)
qed

section \<open>Bids\<close>

text \<open>C21: Over the migrated Postgres schema every queued bid names task 0 on the chain: the lookup
  compares the UUID column with a text, the statement is refused and the refusal is read as 0.\<close>

theorem pg_bid_names_task_zero:
  assumes "pg_ok x" "json_ok (pg_libs x)" "submit_bid (pg_app x en) c sub s = (Ok r, s')"
    "rc_correlation_id r = Some corr"
  shows "\<exists>row j. map_of (db_outbox s') corr = Some row
    \<and> ob_payload row = Some (json_to_string (pg_libs x) j)
    \<and> u64_field (pg_libs x) j ''task_id'' = Some 0"
proof -
  let ?A = "pg_app x en"
  from assms(3) obtain t b s1 j where st: "j = json_to_string (pg_libs x)
        (bid_payload (pg_libs x) (chain_ids ?A (cl_env c 2) (bv_task_id (bid_to_view b))
           (bv_agent_id (bid_to_view b)) s1) (bid_to_view b))"
      "with_correlation (enqueue ?A (cl_env c 3) (fresh_id ?A c 1) ''TaskMarket'' ''submit_bid'' j s1)
         (bid_to_view b) = (Ok r, s')"
    unfolding submit_bid_def by (auto simp: Let_def elim!: read_thenE store_thenE)
  have "enqueue ?A (cl_env c 3) (fresh_id ?A c 1) ''TaskMarket'' ''submit_bid'' j s1 = (Some corr, s')"
    using st(2) assms(4)
    by (cases "enqueue ?A (cl_env c 3) (fresh_id ?A c 1) ''TaskMarket'' ''submit_bid'' j s1")
      (auto simp: with_correlation_def)
  then have "record_outbound_extrinsic (pg_sink x) (cl_env c 3) corr ''TaskMarket'' ''submit_bid''
      (Some j) s1 = Ok s'"
    by (auto simp: enqueue_def split: sum.splits)
  then have "\<exists>row. map_of (db_outbox s') corr = Some row \<and> ob_payload row = Some j"
    by (auto simp: record_outbound_extrinsic_def pg_sink_def pg_record_outbound_extrinsic_def Let_def
        map_err_Ok_iff run_stmt_Ok update_conv' outbound_row_def new_outbox_row_def split: option.split)
  moreover have "u64_field (pg_libs x) (bid_payload (pg_libs x)
      (chain_ids ?A e task agent s1) v) ''task_id'' = Some 0" for e task agent v
    using bid_payload_fields(2) [OF assms(2)] assms(1)
    by (simp add: chain_ids_def pg_pool_def chain_task_id_zero pg_ok_def)
  ultimately show ?thesis using st(1) by metis
qed

theorem pg_bid_names_task_zero_witness:
  "\<exists>r s' row j. submit_bid demo_app (pg_demo_call 5) demo_bid_submission demo_submitted = (Ok r, s')
     \<and> map_of (db_outbox s') (uuid_to_string ref_libs 6) = Some row
     \<and> ob_payload row = Some (json_to_string ref_libs j) \<and> u64_field ref_libs j ''task_id'' = Some 0"
proof -
  obtain r s' where r: "submit_bid demo_app (pg_demo_call 5) demo_bid_submission demo_submitted = (Ok r, s')"
      "rc_correlation_id r = Some (uuid_to_string ref_libs 6)"
    using demo_bid_reply by blast
  show ?thesis
    using pg_bid_names_task_zero [OF ref_pg_ok _ r] r(1) ref_json_ok by (auto simp del: ref_libs_simps)
qed

section \<open>The outbox endpoints\<close>

text \<open>C34: What is enqueued can be followed: the correlation id of an accepted request answers the
  status query, with the pallet and call of the request, pending, untried and not processed.\<close>

theorem pg_enqueued_status:
  assumes "pg_ok x" "enqueue_outbox (pg_app x en) c req s = (Ok r, s')"
    "fresh_id (pg_app x en) c 0 \<notin> fst ` set (db_outbox s)" "pg_healthy (cl_env d 0)"
  shows "get_outbox_status (pg_app x en) d (oe_correlation_id r) s' =
     Ok \<lparr>ov_correlation_id = oe_correlation_id r, ov_pallet = or_pallet req, ov_call = or_call req,
         ov_status = ''pending'', ov_retry_count = 0, ov_last_error = None,
         ov_created_at = Some (rfc3339 (pg_libs x) (pe_now (cl_env c 0))), ov_processed_at = None\<rparr>"
proof -
  let ?corr = "fresh_id (pg_app x en) c 0"
  have "oe_correlation_id r = ?corr"
    and rec: "record_outbound_extrinsic (pg_sink x) (cl_env c 0) ?corr (or_pallet req) (or_call req)
      (payload_text (pg_libs x) (or_payload req)) s = Ok s'"
    using assms(2) by (auto simp: enqueue_outbox_def Let_def split: if_splits elim!: read_thenE store_thenE)
  moreover have "map_of (db_outbox s) ?corr = None" using assms(3) by (simp add: map_of_eq_None_iff)
  ultimately show ?thesis
    using assms(1,4)
    by (auto simp: get_outbox_status_def pg_pool_def pg_outbox_status_def record_outbound_extrinsic_def
        pg_sink_def pg_record_outbound_extrinsic_def outbound_row_def Let_def map_err_Ok_iff run_stmt_Ok
        pg_ok_def pg_healthy_def run_stmt_quiet pool_stmts_prepare update_conv' view_of_row_def
        new_outbox_row_def)
qed

theorem pg_enqueued_status_witness:
  "\<exists>r s'. enqueue_outbox demo_app (pg_demo_call 5)
       \<lparr>or_pallet = ''TaskMarket'', or_call = ''allocate_task'', or_payload = JObj []\<rparr> pg_empty = (Ok r, s')
     \<and> is_ok (get_outbox_status demo_app (pg_demo_call 8) (oe_correlation_id r) s')"
proof -
  let ?req = "\<lparr>or_pallet = ''TaskMarket'', or_call = ''allocate_task'', or_payload = JObj []\<rparr>"
  have "pg_text (uuid_to_string ref_libs 5) \<and> pg_text ''TaskMarket'' \<and> pg_text ''allocate_task''"
    by code_simp
  moreover have "validate_outbox_payload ref_libs ''TaskMarket'' ''allocate_task'' None = Ok ()"
    by code_simp
  ultimately obtain r s' where r: "enqueue_outbox demo_app (pg_demo_call 5) ?req pg_empty = (Ok r, s')"
    by (auto simp: enqueue_outbox_def payload_text_def ref_is_empty_def read_then_def store_then_def
        Let_def record_outbound_extrinsic_def pg_sink_def pg_record_outbound_extrinsic_def
        outbound_row_def run_calm sink_stmts_prepare pg_empty_def outbox_row_ok_def new_outbox_row_def
        outbox_statuses_def simp del: ref_libs_simps(12))
  then show ?thesis
    using pg_enqueued_status [OF ref_pg_ok r] by (auto simp: pg_empty_def)
qed



section \<open>The dashboard\<close>

text \<open>Over Postgres the counts of the dashboard are those of the stored entities, and the
  completed and pending tasks add up to all of them.\<close>

theorem dashboard_adds_up:
  assumes "pg_ok x" "pg_healthy (cl_env c 0)" "pg_inv x s"
  shows "\<exists>v. get_dashboard (pg_app x en) c s = Ok v
    \<and> dv_total_agents v = card (dom (pg_agent_of s)) \<and> dv_total_tasks v = card (dom (pg_task_of x s))
    \<and> dv_completed_tasks v = card {k. \<exists>t. pg_task_of x s k = Some t \<and> st_status t = Completed}
    \<and> dv_completed_tasks v + dv_pending_tasks v = dv_total_tasks v"
proof -
  have fin: "finite (dom (pg_task_of x s))"
    by (rule finite_subset [OF _ finite_dom_map_of [of "db_tasks s"]])
      (auto simp: pg_task_of_def bind_eq_Some_conv)
  note counts = pgs.dashboard [OF assms]
  show ?thesis
    using counts pgs.dashboard_sum [OF assms fin counts]
    by (simp add: get_dashboard_def result_map_def)
qed

theorem dashboard_adds_up_witness:
  "\<exists>v. get_dashboard demo_app (pg_demo_call 5) pg_empty = Ok v
    \<and> dv_completed_tasks v + dv_pending_tasks v = dv_total_tasks v"
  using dashboard_adds_up [OF ref_pg_ok _ pg_inv_empty, of "pg_demo_call 5" demo_engine] by auto

end
