(* ===== verification/Replay_Props.thy ===== *)
theory Replay_Props
  imports Ref_App
begin

text \<open>
  The properties of the replay worker over Postgres: \<open>run_chain_replay\<close> with \<open>pg_sink\<close> and
  \<open>pg_mirror\<close>, on the migrated schema.
\<close>

abbreviation replay_block_pg ::
    "'j pg \<Rightarrow> 'j pg_env block_env \<Rightarrow> block \<Rightarrow> 'j pg_db \<Rightarrow> cursor \<Rightarrow> 'j pg_db replay" where
  "replay_block_pg x \<equiv> replay_block (pg_libs x) (pg_sink x) (pg_mirror x)"

abbreviation replay_events_pg ::
    "'j pg \<Rightarrow> (u32 \<Rightarrow> 'j pg_env event_env) \<Rightarrow> block \<Rightarrow> cursor \<Rightarrow> (string + chain_event) list
     \<Rightarrow> 'j pg_db \<Rightarrow> cursor \<Rightarrow> 'j pg_db replay" where
  "replay_events_pg x \<equiv> replay_events (pg_libs x) (pg_sink x) (pg_mirror x)"

section \<open>What a block leaves in the event table\<close>

definition event_row :: "'j libs \<Rightarrow> block \<Rightarrow> chain_event \<Rightarrow> chain_event_row" where
  "event_row L blk ev =
     \<lparr>ce_pallet = ev_pallet ev, ce_variant = ev_variant ev, ce_payload = event_payload ev,
      ce_correlation_id = correlation_of L blk ev\<rparr>"

definition events_of :: "'j pg_db \<Rightarrow> cursor \<Rightarrow> chain_event_row option" where
  "events_of s = map_of (db_events s)"

definition index_distinct :: "(string + chain_event) list \<Rightarrow> bool" where
  "index_distinct evs = distinct (map ev_index (List.map_filter result_ok evs))"

lemma record_event:
  assumes "op_record_chain_event (pg_sink x) e b i p v pl corr s = Ok s'"
  shows "events_of s' = (events_of s)((b, i) \<mapsto>
     unwrap_or \<lparr>ce_pallet = p, ce_variant = v, ce_payload = pl, ce_correlation_id = corr\<rparr>
       (events_of s (b, i)))"
  using assms
  by (auto simp: pg_sink_def pg_record_chain_event_def map_err_Ok_iff run_stmt_Ok events_of_def
      update_conv' fun_eq_iff split: option.splits)

lemma process_records:
  assumes "process_event (pg_libs x) (pg_sink x) (pg_mirror x) e blk c ev s m = Going s' m'"
  shows "events_of s' =
    (if wanted c blk ev
     then (events_of s)(block_pos blk ev \<mapsto>
            unwrap_or (event_row (pg_libs x) blk ev) (events_of s (block_pos blk ev)))
     else events_of s)"
proof (cases "wanted c blk ev")
  case True
  obtain s1 p where m: "pg_mirror x e (ucast (bk_number blk)) (correlation_of (pg_libs x) blk ev)
      (event_payload ev) ev s = (s1, p)" by fastforce
  then have "events_of s1 = events_of s"
    using mirror_keeps(2) by (metis events_of_def fst_conv)
  moreover have "op_record_chain_event (pg_sink x) (ee_record e) (ucast (bk_number blk)) (ev_index ev)
      (ev_pallet ev) (ev_variant ev) (event_payload ev) (correlation_of (pg_libs x) blk ev) s1 = Ok s'"
    using assms m by (auto simp: process_wanted [OF True] split: if_splits sum.splits)
  ultimately show ?thesis
    using record_event [of x] True by (simp add: block_pos_def event_row_def)
qed (use assms in \<open>simp add: process_unwanted\<close>)

lemma block_pos_eq: "block_pos blk ev = block_pos blk ev' \<longleftrightarrow> ev_index ev = ev_index ev'"
  by (simp add: block_pos_def)

lemma events_recorded:
  assumes "replay_events_pg x env blk c evs s m = Going s' m'" "index_distinct evs"
  shows "(\<forall>ev. Inr ev \<in> set evs \<longrightarrow> wanted c blk ev \<longrightarrow> events_of s' (block_pos blk ev) =
           Some (unwrap_or (event_row (pg_libs x) blk ev) (events_of s (block_pos blk ev))))
    \<and> (\<forall>k. (\<forall>ev. Inr ev \<in> set evs \<longrightarrow> wanted c blk ev \<longrightarrow> block_pos blk ev \<noteq> k)
           \<longrightarrow> events_of s' k = events_of s k)"
  using assms
proof (induction evs arbitrary: s m)
  case (Cons y evs)
  show ?case
  proof (cases y)
    case (Inl err)
    have "index_distinct evs" using Cons.prems(2) Inl by (simp add: index_distinct_def List.map_filter_simps)
    then show ?thesis using Cons Inl by simp
  next
    case (Inr ev)
    have dist: "index_distinct evs" and other: "\<forall>ev'. Inr ev' \<in> set evs \<longrightarrow> block_pos blk ev' \<noteq> block_pos blk ev"
      using Cons.prems(2) Inr unfolding block_pos_eq
      by (force simp: index_distinct_def List.map_filter_simps List.map_filter_def)+
    obtain s1 m1 where p: "process_event (pg_libs x) (pg_sink x) (pg_mirror x) (env (ev_index ev)) blk c ev s m
        = Going s1 m1" and rest: "replay_events_pg x env blk c evs s1 m1 = Going s' m'"
      using Cons.prems(1) Inr by (auto split: replay.splits)
    note IH = Cons.IH [OF rest dist]
    note one = process_records [OF p]
    have here: "events_of s' (block_pos blk ev) = events_of s1 (block_pos blk ev)"
      using IH other by metis
    have there: "events_of s1 k = events_of s k" if "k \<noteq> block_pos blk ev" for k
      using one that by simp
    show ?thesis
    proof (intro conjI allI impI)
      fix ev' assume ev': "Inr ev' \<in> set (y # evs)" "wanted c blk ev'"
      show "events_of s' (block_pos blk ev')
          = Some (unwrap_or (event_row (pg_libs x) blk ev') (events_of s (block_pos blk ev')))"
        using ev' Inr IH here there one other by (cases "ev' = ev") auto
    next
      fix k assume k: "\<forall>ev'. Inr ev' \<in> set (y # evs) \<longrightarrow> wanted c blk ev' \<longrightarrow> block_pos blk ev' \<noteq> k"
      have "events_of s1 k = events_of s k"
        using one k Inr by (cases "wanted c blk ev") auto
      moreover have "\<forall>ev'. Inr ev' \<in> set evs \<longrightarrow> wanted c blk ev' \<longrightarrow> block_pos blk ev' \<noteq> k"
        using k by simp
      ultimately show "events_of s' k = events_of s k" using IH by metis
    qed
  qed
qed simp

lemma block_events:
  assumes "replay_block_pg x e blk s c = Going s' c'" "bk_events blk = Inr evs"
  shows "\<exists>s1 m. replay_events_pg x (be_events e) blk c evs s c = Going s1 m
    \<and> db_events s' = db_events s1"
  using assms
  by (auto simp: replay_block_def pg_sink_def pg_update_chain_cursor_def map_err_Ok_iff run_stmt_Ok
      split: replay.splits if_splits sum.splits)

section \<open>The cursor\<close>

text \<open>C13: The stored cursor never moves back: whatever the chain delivers and wherever the worker
  stops, reconnects or dies, the cursor afterwards is not below the cursor before.\<close>

theorem replay_cursor_forward:
  assumes "run_chain_replay (pg_libs x) (pg_sink x) (pg_mirror x) as s = (out, s')"
  shows "cursor_le (cursor_or_zero (db_cursor s)) (cursor_or_zero (db_cursor s'))"
  by (rule pg_replay.run_state [OF assms])

text \<open>C14: A block is processed once: after its events have been recorded, delivering the block again
  (after a reconnect, a restart or a fork of the subscription) changes nothing in the database.\<close>

theorem replay_block_once:
  assumes "replay_block_pg x e blk s c = Going s' c'" "bk_events blk = Inr evs" "in_order evs"
  shows "replay_block_pg x e' blk s' c' = Going s' c'"
  by (rule pg_replay.block_idempotent [OF assms(1)]) (use assms(2,3) in simp)

text \<open>C12: Every supported event past the cursor is recorded: after a block has been processed the
  event table holds, at the position of the event, the row of the event, or the row that was
  there before; all other rows are as before.\<close>

theorem replay_records_events:
  assumes "replay_block_pg x e blk s c = Going s' c'" "bk_events blk = Inr evs" "index_distinct evs"
  shows "(\<forall>ev. Inr ev \<in> set evs \<longrightarrow> wanted c blk ev \<longrightarrow> events_of s' (block_pos blk ev) =
           Some (unwrap_or (event_row (pg_libs x) blk ev) (events_of s (block_pos blk ev))))
    \<and> (\<forall>k. (\<forall>ev. Inr ev \<in> set evs \<longrightarrow> wanted c blk ev \<longrightarrow> block_pos blk ev \<noteq> k)
           \<longrightarrow> events_of s' k = events_of s k)"
proof -
  obtain s1 m where "replay_events_pg x (be_events e) blk c evs s c = Going s1 m"
      "db_events s' = db_events s1"
    using block_events [OF assms(1,2)] by blast
  then show ?thesis using events_recorded [OF _ assms(3)] by (simp add: events_of_def)
qed

lemma ucast_u32_less:
  "a < b \<Longrightarrow> (ucast (a :: u32) :: u64) < ucast b"
proof -
  assume "a < b"
  moreover have "unat (ucast w :: u64) = unat (w :: u32)" for w
    by transfer (simp add: take_bit_eq_mod)
  ultimately show ?thesis by (simp add: word_less_nat_alt)
qed

section \<open>Blocks that cannot be read\<close>

text \<open>C22: A block whose events cannot be fetched is lost for good: the worker logs the error and goes
  on, and once a later block has moved the cursor, delivering the lost block again, now with its
  events, records none of them.\<close>

theorem replay_loses_unfetched_block:
  assumes "bk_events lost = Inl err" "bk_number lost < bk_number later"
    "replay_session (pg_libs x) (pg_sink x) (pg_mirror x) [Inr (e1, lost), Inr (e2, later)] s c
       = Going s' c'"
    "c' \<noteq> c" "\<And>evs. bk_events later = Inr evs \<Longrightarrow> in_order evs" "bk_number again = bk_number lost"
  shows "replay_block_pg x e again s' c' = Going s' c'"
proof -
  have later: "replay_block_pg x e2 later s c = Going s' c'"
    using assms(1,3) by (auto simp: replay_block_def [of _ _ _ _ lost] split: replay.splits)
  have at: "m = c \<or> fst m = ucast (bk_number later)"
    if "replay_events_pg x env later c evs st m0 = Going st' m" "m0 = c \<or> fst m0 = ucast (bk_number later)"
    for env evs st st' m m0
    using that
  proof (induction evs arbitrary: st m0)
    case (Cons y evs)
    show ?case
    proof (cases y)
      case (Inr ev)
      obtain s1 m1 where p: "process_event (pg_libs x) (pg_sink x) (pg_mirror x) (env (ev_index ev))
          later c ev st m0 = Going s1 m1" "replay_events_pg x env later c evs s1 m1 = Going st' m"
        using Cons.prems(1) Inr by (auto split: replay.splits)
      have "m1 = m0 \<or> m1 = block_pos later ev"
        using p(1) by (cases "wanted c later ev")
          (auto simp: process_unwanted process_wanted Let_def split: prod.splits if_splits sum.splits)
      then show ?thesis using Cons.IH [OF p(2)] Cons.prems(2) by (auto simp: block_pos_def)
    qed (use Cons in simp)
  qed simp
  obtain evs where evs: "bk_events later = Inr evs"
    using later assms(4) by (cases "bk_events later") (auto simp: replay_block_def)
  obtain s1 m where m: "replay_events_pg x (be_events e2) later c evs s c = Going s1 m"
    using block_events [OF later evs] by blast
  then have "fst c' = ucast (bk_number later)"
    using at [OF m] later evs assms(4)
    by (auto simp: replay_block_def split: if_splits sum.splits)
  moreover have "(ucast (bk_number lost) :: u64) < ucast (bk_number later)"
    using assms(2) by (rule ucast_u32_less)
  ultimately have "\<not> wanted c' again ev" for ev
    using assms(6) by (auto simp: wanted_def cursor_less_def block_pos_def)
  then show ?thesis by (intro replay_block_unwanted)
qed

section \<open>The mirror on the migrated schema\<close>

text \<open>C24: Replay mirrors nothing into the tables of agents, tasks, bids and results: on the migrated
  schema every statement of the mirror is refused, and the refusals are ignored.\<close>

theorem replay_mirrors_nothing:
  assumes "pg_schema x = migrated" "no_chain_tasks s" "pg_orders (ee_mirror e)"
    "process_event (pg_libs x) (pg_sink x) (pg_mirror x) e blk cur ev s m = r"
  shows "same_entities s (state_of r)"
  using event_effect [OF assms] by blast


section \<open>Progress\<close>

definition storable_event :: "'j pg \<Rightarrow> block \<Rightarrow> chain_event \<Rightarrow> bool" where
  "storable_event x blk ev =
     (\<not> fatal_event (pg_libs x) ev \<and> pg_text (event_payload ev)
      \<and> pg_opt_text (correlation_of (pg_libs x) blk ev))"

definition replay_calm :: "'j pg_env event_env \<Rightarrow> bool" where
  "replay_calm e = (pg_orders (ee_mirror e) \<and> pg_quiet (ee_record e))"

lemma supported_text:
  assumes "is_supported pallet variant"
  shows "pg_text pallet \<and> pg_text variant"
proof -
  have "list_all (\<lambda>(p, v). pg_text p \<and> pg_text v) supported_events" by code_simp
  then show ?thesis using assms by (auto simp: is_supported_def list_all_iff)
qed

lemma process_goes:
  assumes "pg_schema x = migrated" "no_chain_tasks s" "replay_calm e"
    "wanted c blk ev \<longrightarrow> storable_event x blk ev"
  shows "\<exists>s' m'. process_event (pg_libs x) (pg_sink x) (pg_mirror x) e blk c ev s m = Going s' m'
    \<and> no_chain_tasks s'"
proof (cases "wanted c blk ev")
  case False
  then show ?thesis using assms(2) by (simp add: process_unwanted)
next
  case True
  let ?m = "pg_mirror x e (ucast (bk_number blk)) (correlation_of (pg_libs x) blk ev) (event_payload ev) ev s"
  let ?r = "process_event (pg_libs x) (pg_sink x) (pg_mirror x) e blk c ev s m"
  have ok: "storable_event x blk ev" "is_supported (ev_pallet ev) (ev_variant ev)"
    using True assms(4) by (simp_all add: wanted_def)
  have "\<not> snd ?m"
    using mirror_on_migrated [OF assms(1,2)] assms(3) ok(1)
    by (simp add: replay_calm_def pg_orders_def storable_event_def)
  moreover have "\<exists>s2. op_record_chain_event (pg_sink x) (ee_record e) (ucast (bk_number blk)) (ev_index ev)
      (ev_pallet ev) (ev_variant ev) (event_payload ev) (correlation_of (pg_libs x) blk ev) (fst ?m) = Ok s2"
    using ok assms(1,3) supported_text [OF ok(2)]
    by (simp add: pg_sink_def pg_record_chain_event_def run_stmt_quiet sink_stmts_prepare
        replay_calm_def storable_event_def)
  ultimately have "\<exists>s'. ?r = Going s' (block_pos blk ev)"
    unfolding process_wanted [OF True] Let_def by (auto simp: split_beta)
  moreover have "no_chain_tasks (state_of ?r)"
  proof -
    have "pg_orders (ee_mirror e)" using assms(3) by (simp add: replay_calm_def)
    then have "same_entities s (state_of ?r)" using event_effect [OF assms(1,2) _ refl] by blast
    from same_entities_inv(3) [OF this] show ?thesis using assms(2) by simp
  qed
  ultimately show ?thesis by force
qed

lemma events_go:
  assumes "pg_schema x = migrated" "no_chain_tasks s" "\<And>i. replay_calm (env i)"
    "\<And>ev. Inr ev \<in> set evs \<Longrightarrow> wanted c blk ev \<Longrightarrow> storable_event x blk ev"
  shows "\<exists>s' m'. replay_events_pg x env blk c evs s m = Going s' m'"
  using assms(2,4)
proof (induction evs arbitrary: s m)
  case (Cons y evs)
  show ?case
  proof (cases y)
    case (Inr ev)
    have "wanted c blk ev \<longrightarrow> storable_event x blk ev" using Cons.prems(2) Inr by simp
    from process_goes [OF assms(1) Cons.prems(1) assms(3) this] obtain s1 m1 where
        p: "process_event (pg_libs x) (pg_sink x) (pg_mirror x) (env (ev_index ev)) blk c ev s m = Going s1 m1"
          "no_chain_tasks s1" by blast
    have "\<exists>s' m'. replay_events_pg x env blk c evs s1 m1 = Going s' m'"
      by (rule Cons.IH [OF p(2)]) (use Cons.prems(2) in simp)
    then show ?thesis using Inr p(1) by simp
  qed (use Cons in simp)
qed simp

text \<open>C15: Replay makes progress: on a database that answers, a block whose wanted events carry
  storable text and no oversized budget is always processed to its end, and if it has a wanted
  event the stored cursor has moved to the new position.\<close>

theorem replay_block_progress:
  assumes "pg_schema x = migrated" "no_chain_tasks s" "\<And>i. replay_calm (be_events e i)"
    "pg_quiet (be_cursor e)" "bk_events blk = Inr evs" "in_order evs"
    "\<And>ev. Inr ev \<in> set evs \<Longrightarrow> wanted c blk ev \<Longrightarrow> storable_event x blk ev"
  shows "\<exists>s' c'. replay_block_pg x e blk s c = Going s' c'
    \<and> ((\<exists>ev. Inr ev \<in> set evs \<and> wanted c blk ev) \<longrightarrow> cursor_less c c' \<and> db_cursor s' = Some c')"
proof -
  have "\<exists>s1 m. replay_events_pg x (be_events e) blk c evs s c = Going s1 m"
    by (rule events_go [OF assms(1,2,3)]) (rule assms(7))
  then obtain s1 m where m: "replay_events_pg x (be_events e) blk c evs s c = Going s1 m" by blast
  have "\<exists>s2. op_update_chain_cursor (pg_sink x) (be_cursor e) (fst m) (snd m) s1 = Ok s2"
    using assms(1,4) by (simp add: pg_sink_def pg_update_chain_cursor_def run_stmt_quiet sink_stmts_prepare)
  then have "\<exists>s' c'. replay_block_pg x e blk s c = Going s' c'"
    using m assms(5) by (cases "cursor_less c m") (auto simp: replay_block_def)
  then obtain s' c' where go: "replay_block_pg x e blk s c = Going s' c'" by blast
  have "cursor_less c c' \<and> db_cursor s' = Some c'" if "Inr ev \<in> set evs" "wanted c blk ev" for ev
    using pg_replay.block_cursor [OF go] assms(5,6) that by auto
  then show ?thesis using go by blast
qed

section \<open>A block with one event, for the witnesses\<close>

definition demo_event_env :: "ref_json pg_env event_env" where
  "demo_event_env =
     \<lparr>ee_mirror = calm 100, ee_patch = calm 100, ee_record = calm 100, ee_uuid = (\<lambda>n. of_nat n),
      ee_clock = 100\<rparr>"

definition demo_block_env :: "ref_json pg_env block_env" where
  "demo_block_env = \<lparr>be_events = (\<lambda>_. demo_event_env), be_cursor = calm 100\<rparr>"

definition demo_event :: chain_event where
  "demo_event =
     \<lparr>ev_pallet = ''AgentRegistry'', ev_variant = ''AgentRegistered'', ev_index = 1,
      ev_fields = Some ''[7]'', ev_extrinsic = None, ev_data = Some (AgentRegistered 7 ''alice'')\<rparr>"

definition large_event :: chain_event where
  "large_event =
     \<lparr>ev_pallet = ''TaskMarket'', ev_variant = ''TaskCreated'', ev_index = 1,
      ev_fields = Some ''[7]'', ev_extrinsic = None,
      ev_data = Some (TaskCreated 7 ''alice'' 0x10000000000000000)\<rparr>"

definition demo_block :: "u32 \<Rightarrow> string + (string + chain_event) list \<Rightarrow> block" where
  "demo_block n evs = \<lparr>bk_number = n, bk_events = evs, bk_extrinsics = (\<lambda>_. Inl ''none'')\<rparr>"

lemma demo_replay_calm: "replay_calm (be_events demo_block_env i)" "pg_quiet (be_cursor demo_block_env)"
  using calm_healthy [of 100]
  by (simp_all add: replay_calm_def demo_block_env_def demo_event_env_def pg_healthy_def)

lemma demo_wanted: "wanted (0, 0) (demo_block 5 evs) demo_event" "wanted (0, 0) (demo_block 5 evs) large_event"
  by (simp_all add: wanted_def demo_event_def large_event_def is_supported_def supported_events_def
      cursor_less_def block_pos_def demo_block_def)

lemma demo_storable_event: "storable_event ref_pg (demo_block 5 evs) demo_event"
proof -
  have "pg_text ''[7]''" by code_simp
  then show ?thesis
    by (simp add: storable_event_def fatal_event_def demo_event_def event_payload_def correlation_of_def)
qed

lemma demo_empty: "no_chain_tasks (pg_empty :: ref_json pg_db)"
  by (simp add: no_chain_tasks_def pg_empty_def)

lemma demo_orders: "in_order [Inr demo_event]" "index_distinct [Inr demo_event]"
  by (simp_all add: in_order_def index_distinct_def List.map_filter_simps)

lemma demo_replayed:
  "\<exists>s'. replay_block_pg ref_pg demo_block_env (demo_block 5 (Inr [Inr demo_event])) pg_empty (0, 0)
     = Going s' (5, 1)"
proof -
  let ?b = "demo_block 5 (Inr [Inr demo_event])"
  have "\<exists>s' m'. replay_events_pg ref_pg (be_events demo_block_env) ?b (0, 0) [Inr demo_event] pg_empty (0, 0)
      = Going s' m'"
    using demo_storable_event
    by (intro events_go [OF _ demo_empty demo_replay_calm(1)]) simp_all
  then obtain s1 m1 where r: "replay_events_pg ref_pg (be_events demo_block_env) ?b (0, 0) [Inr demo_event] pg_empty (0, 0)
      = Going s1 m1" by blast
  then have "m1 = block_pos ?b demo_event"
    by (auto simp: process_wanted [OF demo_wanted(1)] Let_def split: prod.splits if_splits sum.splits replay.splits)
  then have "m1 = (5, 1)" by (simp add: block_pos_def demo_block_def demo_event_def)
  then show ?thesis
    using r demo_replay_calm(2)
    by (simp add: replay_block_def demo_block_def cursor_less_def pg_sink_def pg_update_chain_cursor_def
        run_stmt_quiet sink_stmts_prepare)
qed

text \<open>The witnesses of the properties above, on this block.\<close>

theorem replay_cursor_forward_witness:
  "\<exists>out s'. run_chain_replay ref_libs (pg_sink ref_pg) (pg_mirror ref_pg)
       [ConnectFailed ''refused'', Session (calm 100) [Inr (demo_block_env, demo_block 5 (Inr [Inr demo_event]))]]
       pg_empty = (out, s')
     \<and> cursor_le (0, 0) (cursor_or_zero (db_cursor s'))"
proof -
  let ?as = "[ConnectFailed ''refused'',
    Session (calm 100) [Inr (demo_block_env, demo_block 5 (Inr [Inr demo_event]))]]"
  obtain out s' where r: "run_chain_replay (pg_libs ref_pg) (pg_sink ref_pg) (pg_mirror ref_pg) ?as pg_empty
      = (out, s')" by fastforce
  from replay_cursor_forward [OF r] r show ?thesis
    by (auto simp: pg_empty_def cursor_or_zero_def)
qed

theorem replay_block_once_witness:
  "\<exists>s'. replay_block_pg ref_pg demo_block_env (demo_block 5 (Inr [Inr demo_event])) pg_empty (0, 0)
        = Going s' (5, 1)
     \<and> replay_block_pg ref_pg demo_block_env (demo_block 5 (Inr [Inr demo_event])) s' (5, 1)
        = Going s' (5, 1)"
proof -
  obtain s' where r: "replay_block_pg ref_pg demo_block_env (demo_block 5 (Inr [Inr demo_event])) pg_empty
      (0, 0) = Going s' (5, 1)"
    using demo_replayed by blast
  have "bk_events (demo_block 5 (Inr [Inr demo_event])) = Inr [Inr demo_event]"
    by (simp add: demo_block_def)
  from replay_block_once [OF r this demo_orders(1)] r show ?thesis by blast
qed

theorem replay_records_events_witness:
  "\<exists>s'. replay_block_pg ref_pg demo_block_env (demo_block 5 (Inr [Inr demo_event])) pg_empty (0, 0)
        = Going s' (5, 1)
     \<and> events_of s' (block_pos (demo_block 5 (Inr [Inr demo_event])) demo_event)
         = Some (event_row ref_libs (demo_block 5 (Inr [Inr demo_event])) demo_event)"
proof -
  obtain s' where r: "replay_block_pg ref_pg demo_block_env (demo_block 5 (Inr [Inr demo_event])) pg_empty
      (0, 0) = Going s' (5, 1)"
    using demo_replayed by blast
  have evs: "bk_events (demo_block 5 (Inr [Inr demo_event])) = Inr [Inr demo_event]"
    by (simp add: demo_block_def)
  have "events_of (pg_empty :: ref_json pg_db) k = None" for k
    by (simp add: events_of_def pg_empty_def)
  then show ?thesis
    using replay_records_events [OF r evs demo_orders(2)] r demo_wanted(1) by simp
qed

theorem replay_loses_unfetched_block_witness:
  "\<exists>s'. replay_session ref_libs (pg_sink ref_pg) (pg_mirror ref_pg)
        [Inr (demo_block_env, demo_block 4 (Inl ''timeout'')),
         Inr (demo_block_env, demo_block 5 (Inr [Inr demo_event]))] pg_empty (0, 0) = Going s' (5, 1)
     \<and> replay_block_pg ref_pg demo_block_env (demo_block 4 (Inr [Inr demo_event])) s' (5, 1)
        = Going s' (5, 1)"
proof -
  let ?lost = "demo_block 4 (Inl ''timeout'')" and ?later = "demo_block 5 (Inr [Inr demo_event])"
  obtain s' where "replay_block_pg ref_pg demo_block_env ?later pg_empty (0, 0) = Going s' (5, 1)"
    using demo_replayed by blast
  moreover have "replay_block_pg ref_pg demo_block_env ?lost pg_empty (0, 0) = Going pg_empty (0, 0)"
    by (simp add: replay_block_def demo_block_def)
  ultimately have r: "replay_session (pg_libs ref_pg) (pg_sink ref_pg) (pg_mirror ref_pg)
      [Inr (demo_block_env, ?lost), Inr (demo_block_env, ?later)] pg_empty (0, 0) = Going s' (5, 1)"
    by simp
  have "replay_block_pg ref_pg demo_block_env (demo_block 4 (Inr [Inr demo_event])) s' (5, 1)
      = Going s' (5, 1)"
    by (rule replay_loses_unfetched_block [OF _ _ r])
      (use demo_orders in \<open>auto simp: demo_block_def\<close>)
  then show ?thesis using r by auto
qed

theorem replay_mirrors_nothing_witness:
  "same_entities pg_empty (state_of (process_event ref_libs (pg_sink ref_pg) (pg_mirror ref_pg)
     demo_event_env (demo_block 5 (Inr [Inr demo_event])) (0, 0) demo_event pg_empty (0, 0)))"
  using replay_mirrors_nothing [OF _ demo_empty _ refl, of ref_pg demo_event_env
      "demo_block 5 (Inr [Inr demo_event])" "(0, 0)" demo_event "(0, 0)"]
  by (simp add: demo_event_env_def)


theorem replay_block_progress_witness:
  "\<exists>s' c'. replay_block_pg ref_pg demo_block_env (demo_block 5 (Inr [Inr demo_event])) pg_empty (0, 0)
        = Going s' c' \<and> db_cursor s' = Some c'"
proof -
  have evs: "bk_events (demo_block 5 (Inr [Inr demo_event])) = Inr [Inr demo_event]"
    by (simp add: demo_block_def)
  have all: "storable_event ref_pg (demo_block 5 (Inr [Inr demo_event])) ev"
    if "Inr ev \<in> set [Inr demo_event]" for ev
    using that demo_storable_event by simp
  show ?thesis
    using replay_block_progress [OF _ demo_empty demo_replay_calm evs demo_orders(1) all, of "(0, 0)"]
      demo_wanted(1) by auto
qed

section \<open>An arm that is never reached\<close>

text \<open>The worker has an arm for \<open>TaskMatched\<close>, but \<open>is_supported\<close> does not list the event.\<close>

lemma task_matched_skipped:
  assumes "ev_pallet ev = ''TaskMarket''" "ev_variant ev = ''TaskMatched''"
  shows "process_event L K mir e blk last_cursor ev s m = Going s m"
proof -
  have "\<not> is_supported ''TaskMarket'' ''TaskMatched''" by code_simp
  then show ?thesis using assms by (simp add: process_event_def Let_def)
qed

end
