(* ===== verification/Config.thy ===== *)
theory Config
  imports Prelude
begin

text \<open>
  The configuration of the orchestrator (src/orchestrator/api/src/config.rs), read from the
  environment. \<open>env v\<close> is the value of the variable \<open>v\<close>, and None when it is unset or not
  Unicode. A number that does not parse is replaced by its default, silently.
\<close>

datatype execution_engine_kind = EngineLocal | EngineWasm

record app_config =
  cf_database_url :: "string option"
  cf_db_max_connections :: u32
  cf_db_connect_timeout_secs :: u64
  cf_chain_ws_url :: "string option"
  cf_chain_metadata_path :: "string option"
  cf_outbox_poll_ms :: u64
  cf_execution_engine :: execution_engine_kind
  cf_wasm_module_path :: "string option"
  cf_metrics_bind :: "string option"
  cf_backfill_interval_ms :: u64

type_synonym env_vars = "string \<Rightarrow> string option"

definition env_number :: "(string \<Rightarrow> 'a option) \<Rightarrow> env_vars \<Rightarrow> string \<Rightarrow> 'a \<Rightarrow> 'a" where
  "env_number parse env v d = unwrap_or d (Option.bind (env v) parse)"

definition engine_kind :: "string option \<Rightarrow> execution_engine_kind" where
  "engine_kind v =
     (if to_lowercase (unwrap_or ''local'' v) = ''wasm'' then EngineWasm else EngineLocal)"

definition from_env :: "env_vars \<Rightarrow> app_config" where
  "from_env env =
     \<lparr>cf_database_url = env ''DATABASE_URL'',
      cf_db_max_connections = env_number parse_u32 env ''DB_MAX_CONNECTIONS'' 10,
      cf_db_connect_timeout_secs = env_number parse_u64 env ''DB_CONNECT_TIMEOUT_SECS'' 5,
      cf_chain_ws_url = env ''CHAIN_WS_URL'',
      cf_chain_metadata_path = env ''CHAIN_METADATA_PATH'',
      cf_outbox_poll_ms = env_number parse_u64 env ''OUTBOX_POLL_MS'' 500,
      cf_execution_engine = engine_kind (env ''EXECUTION_ENGINE''),
      cf_wasm_module_path = env ''WASM_MODULE_PATH'',
      cf_metrics_bind = env ''METRICS_BIND'',
      cf_backfill_interval_ms = env_number parse_u64 env ''BACKFILL_INTERVAL_MS'' 10000\<rparr>"

section \<open>Properties\<close>

text \<open>The environment that spells out a configuration.\<close>

fun kind_name :: "execution_engine_kind \<Rightarrow> string" where
  "kind_name EngineLocal = ''local''"
| "kind_name EngineWasm = ''wasm''"

definition to_env :: "app_config \<Rightarrow> env_vars" where
  "to_env c = Map.empty
     (''DATABASE_URL'' := cf_database_url c,
      ''DB_MAX_CONNECTIONS'' \<mapsto> dec (unat (cf_db_max_connections c)),
      ''DB_CONNECT_TIMEOUT_SECS'' \<mapsto> dec (unat (cf_db_connect_timeout_secs c)),
      ''CHAIN_WS_URL'' := cf_chain_ws_url c,
      ''CHAIN_METADATA_PATH'' := cf_chain_metadata_path c,
      ''OUTBOX_POLL_MS'' \<mapsto> dec (unat (cf_outbox_poll_ms c)),
      ''EXECUTION_ENGINE'' \<mapsto> kind_name (cf_execution_engine c),
      ''WASM_MODULE_PATH'' := cf_wasm_module_path c,
      ''METRICS_BIND'' := cf_metrics_bind c,
      ''BACKFILL_INTERVAL_MS'' \<mapsto> dec (unat (cf_backfill_interval_ms c)))"

lemma engine_kind_name: "engine_kind (Some (kind_name k)) = k"
  by (cases k) (simp_all add: engine_kind_def, code_simp+)

lemma parse_dec:
  "parse_u32 (dec (unat w32)) = Some w32" "parse_u64 (dec (unat w64)) = Some w64"
proof -
  have "unat w32 < 2 ^ 32" "unat w64 < 2 ^ 64"
    using unsigned_less [of w32] unsigned_less [of w64] by simp_all
  then show "parse_u32 (dec (unat w32)) = Some w32" "parse_u64 (dec (unat w64)) = Some w64"
    by (simp_all add: parse_u32_def parse_u64_def parse_unsigned_dec)
qed

text \<open>The environment can express every configuration: written out as environment variables, the
  optional settings left unset, a configuration is read back unchanged.\<close>

theorem config_roundtrip: "from_env (to_env c) = c"
  by (simp add: from_env_def to_env_def env_number_def parse_dec engine_kind_name)

end
