(* ===== verification/Startup.thy ===== *)
theory Startup
  imports Config System
begin

text \<open>
  \<open>main\<close> (src/orchestrator/api/src/main.rs), with all features: which storage, sink, pool and
  engine the application gets, which workers are spawned, and the table of routes. The driver
  (connecting and migrating with sqlx) and the loader of WASM modules are parameters.
\<close>

section \<open>Connecting\<close>

record 'j pg_driver =
  dr_connect :: "string \<Rightarrow> u32 \<Rightarrow> u64 \<Rightarrow> string + 'j pg"
  dr_migrate :: "'j pg \<Rightarrow> string + 'j pg"

text \<open>\<open>PostgresStorage::connect_with_pool\<close>.\<close>

definition connect_with_pool ::
    "'j pg_driver \<Rightarrow> string \<Rightarrow> u32 \<Rightarrow> u64 \<Rightarrow> api_error + 'j pg" where
  "connect_with_pool D url max_connections timeout =
     and_then (map_err (\<lambda>e. Internal (''failed to connect to postgres: '' @ e))
                 (dr_connect D url max_connections timeout)) (\<lambda>x.
     map_err (\<lambda>e. Internal (''failed to run migrations: '' @ e)) (dr_migrate D x))"

text \<open>What \<open>sqlx::migrate!\<close> promises: after a successful run the schema is the migrated one.\<close>

definition driver_ok :: "'j libs \<Rightarrow> 'j pg_driver \<Rightarrow> bool" where
  "driver_ok L D =
     ((\<forall>url n t x. dr_connect D url n t = Ok x \<longrightarrow> pg_libs x = L)
      \<and> (\<forall>x y. dr_migrate D x = Ok y \<longrightarrow> pg_libs y = pg_libs x \<and> pg_schema y = migrated))"

section \<open>The application state\<close>

datatype 'j app =
    InMemory "('j, mem_store, mem_env) app_state"
  | OverPostgres "'j pg" "('j, 'j pg_db, 'j pg_env) app_state"

definition engine_from_config ::
    "'j libs \<Rightarrow> (string \<Rightarrow> string + wasm_module) \<Rightarrow> app_config \<Rightarrow> engine" where
  "engine_from_config L load cfg =
     (case cf_execution_engine cfg of
        EngineWasm \<Rightarrow>
          (case cf_wasm_module_path cfg of
             Some path \<Rightarrow>
               (case wasm_engine_from_path load path of
                  Inr m \<Rightarrow> wasm_engine m
                | Inl err \<Rightarrow> local_echo_engine L)
           | None \<Rightarrow> local_echo_engine L)
      | EngineLocal \<Rightarrow> local_echo_engine L)"

definition from_config ::
    "'j libs \<Rightarrow> (string \<Rightarrow> string + wasm_module) \<Rightarrow> 'j pg_driver \<Rightarrow> app_config \<Rightarrow> 'j app" where
  "from_config L load D cfg =
     (let engine = engine_from_config L load cfg in
      case cf_database_url cfg of
        Some url \<Rightarrow>
          (case connect_with_pool D url (cf_db_max_connections cfg) (cf_db_connect_timeout_secs cfg) of
             Inr x \<Rightarrow> OverPostgres x (pg_app x engine)
           | Inl err \<Rightarrow> InMemory (mem_app L engine))
      | None \<Rightarrow> InMemory (mem_app L engine))"

definition pool_of :: "'j app \<Rightarrow> 'j pg option" where
  "pool_of a = (case a of OverPostgres x _ \<Rightarrow> Some x | InMemory _ \<Rightarrow> None)"

section \<open>The workers\<close>

text \<open>The websocket url, whether there is a pool; and the interval of the two loops.\<close>

datatype worker =
    ReplayWorker string bool
  | OutboxWorker string u64
  | BackfillWorker u64

definition spawned :: "app_config \<Rightarrow> 'j app \<Rightarrow> worker list" where
  "spawned cfg a =
     (case cf_chain_ws_url cfg of
        None \<Rightarrow> []
      | Some ws \<Rightarrow>
          ReplayWorker ws (pool_of a \<noteq> None)
          # (case pool_of a of
               Some pool \<Rightarrow> [OutboxWorker ws (cf_outbox_poll_ms cfg),
                             BackfillWorker (cf_backfill_interval_ms cfg)]
             | None \<Rightarrow> []))"

text \<open>
  \<open>connect_client\<close> of the outbox worker: dial until it succeeds; the attempt that succeeded is
  returned with its number. \<open>dial n\<close> is the outcome of attempt \<open>n\<close>.
\<close>

partial_function (option) connect_client :: "(nat \<Rightarrow> string + 'c) \<Rightarrow> nat \<Rightarrow> ('c \<times> nat) option" where
  "connect_client dial n =
     (case dial n of Inr c \<Rightarrow> Some (c, n) | Inl err \<Rightarrow> connect_client dial (Suc n))"

text \<open>\<open>run_outbox_backfill\<close>, for as many iterations as there are environments; errors are logged.\<close>

fun run_outbox_backfill :: "'j pg \<Rightarrow> 'j pg_env list \<Rightarrow> 'j pg_db \<Rightarrow> 'j pg_db" where
  "run_outbox_backfill x [] s = s"
| "run_outbox_backfill x (e # es) s = run_outbox_backfill x es (snd (backfill_once x e s))"

section \<open>The server\<close>

text \<open>The address to listen on; an address that does not parse ends the process.\<close>

definition listen_address :: "(string \<Rightarrow> string + 'a) \<Rightarrow> env_vars \<Rightarrow> string + 'a" where
  "listen_address parse env = parse (unwrap_or ''127.0.0.1:8080'' (env ''BIND_ADDR''))"

text \<open>
  What the operating system and the metrics crate answer: installing the recorder, binding the
  metrics address, parsing and binding the address of the API.
\<close>

record 'a host =
  ho_recorder :: "string + unit"
  ho_metrics :: "string \<Rightarrow> string + unit"
  ho_parse :: "string \<Rightarrow> string + 'a"
  ho_bind :: "'a \<Rightarrow> string + unit"

text \<open>
  The metrics endpoint, if configured: where it is served. Installing the recorder is expected to
  succeed, while an address that cannot be bound is only logged by the spawned task.
\<close>

definition metrics_server :: "'a host \<Rightarrow> app_config \<Rightarrow> string option run" where
  "metrics_server H cfg =
     (case cf_metrics_bind cfg of
        None \<Rightarrow> Return None
      | Some bind \<Rightarrow>
          (case ho_recorder H of
             Inl err \<Rightarrow> Panic
           | Inr _ \<Rightarrow>
               Return (case ho_metrics H bind of Inl err \<Rightarrow> None | Inr _ \<Rightarrow> Some bind)))"

text \<open>How \<open>main\<close> goes on: it panics, exits with 1, returns, or serves.\<close>

datatype 'a main_end = RecorderPanic | ExitOne | BindFailed string | Serving 'a

definition orchestrator_main ::
    "'j libs \<Rightarrow> (string \<Rightarrow> string + wasm_module) \<Rightarrow> 'j pg_driver \<Rightarrow> 'a host \<Rightarrow> env_vars
     \<Rightarrow> 'j app \<times> worker list \<times> string option \<times> 'a main_end" where
  "orchestrator_main L load D H env =
     (let config = from_env env;
          state = from_config L load D config;
          workers = spawned config state
      in case metrics_server H config of
           Panic \<Rightarrow> (state, workers, None, RecorderPanic)
         | Return metrics \<Rightarrow>
             (state, workers, metrics,
              case listen_address (ho_parse H) env of
                Inl err \<Rightarrow> ExitOne
              | Inr addr \<Rightarrow>
                  (case ho_bind H addr of Inl err \<Rightarrow> BindFailed err | Inr _ \<Rightarrow> Serving addr)))"

definition REQ_BODY_LIMIT_BYTES :: nat where "REQ_BODY_LIMIT_BYTES = 1048576"

definition health :: string where "health = ''ok''"

section \<open>The routes\<close>

datatype http_method = GET | POST

datatype endpoint =
    Health | Dashboard | SyncStatus | ListAgents | RegisterAgent | GetAgent | ListTasks | SubmitTask
  | GetTask | SubmitBid | GetBids | SubmitResult | GetResult | ExecuteLocal | Faucet
  | EnqueueOutbox | ListOutbox | OutboxStatus

text \<open>
  A segment of a route is a literal or a parameter (\<open>:id\<close>), which stands for one segment that is
  not empty.
\<close>

datatype segment = Lit string | Param

definition v1 :: "segment list \<Rightarrow> segment list" where
  "v1 p = Lit ''v1'' # p"

definition routes :: "(http_method \<times> segment list \<times> endpoint) list" where
  "routes =
     [(GET, [Lit ''health''], Health),
      (GET, v1 [Lit ''dashboard''], Dashboard),
      (GET, v1 [Lit ''sync'', Lit ''status''], SyncStatus),
      (GET, v1 [Lit ''agents''], ListAgents), (POST, v1 [Lit ''agents''], RegisterAgent),
      (GET, v1 [Lit ''agents'', Param], GetAgent),
      (GET, v1 [Lit ''tasks''], ListTasks), (POST, v1 [Lit ''tasks''], SubmitTask),
      (GET, v1 [Lit ''tasks'', Param], GetTask),
      (POST, v1 [Lit ''bids''], SubmitBid),
      (GET, v1 [Lit ''tasks'', Param, Lit ''bids''], GetBids),
      (POST, v1 [Lit ''results''], SubmitResult),
      (GET, v1 [Lit ''tasks'', Param, Lit ''result''], GetResult),
      (POST, v1 [Lit ''tasks'', Param, Lit ''execute-local''], ExecuteLocal),
      (POST, v1 [Lit ''faucet''], Faucet),
      (POST, v1 [Lit ''outbox''], EnqueueOutbox), (GET, v1 [Lit ''outbox''], ListOutbox),
      (GET, v1 [Lit ''outbox'', Param], OutboxStatus)]"

text \<open>A pattern matches a path segment by segment, and binds its parameters.\<close>

fun match_path :: "segment list \<Rightarrow> string list \<Rightarrow> string list option" where
  "match_path [] [] = Some []"
| "match_path (Lit l # ps) (s # ss) = (if l = s then match_path ps ss else None)"
| "match_path (Param # ps) (s # ss) =
     (if s = [] then None else map_option (\<lambda>vs. s # vs) (match_path ps ss))"
| "match_path _ _ = None"

definition handlers_for :: "http_method \<Rightarrow> string list \<Rightarrow> (endpoint \<times> string list) list" where
  "handlers_for m path =
     List.map_filter (\<lambda>(m', pat, h).
       if m = m' then map_option (\<lambda>vs. (h, vs)) (match_path pat path) else None) routes"

end
