(* ===== verification/Startup_Props.thy ===== *)
theory Startup_Props
  imports Startup Ref_App
begin

text \<open>
  The properties of start-up: what \<open>main\<close> builds from a configuration, the dialling loop of the
  outbox worker, the route table, and what becomes of extrinsics without Postgres.
\<close>

section \<open>From a configuration to an application\<close>








section \<open>Dialling\<close>

text \<open>C32: The dialling loop of the outbox worker returns exactly when some attempt succeeds, and then
  with the connection of the first one that does.\<close>

theorem connect_client_returns:
  "connect_client dial n = Some (c, k) \<longleftrightarrow>
     n \<le> k \<and> dial k = Ok c \<and> (\<forall>i \<in> {n..<k}. \<exists>e. dial i = Err e)"
proof
  show "n \<le> k \<and> dial k = Ok c \<and> (\<forall>i \<in> {n..<k}. \<exists>e. dial i = Err e)"
    if ret: "connect_client dial n = Some (c, k)"
  proof -
    have "case (c, k) of (c, k) \<Rightarrow> n \<le> k \<and> dial k = Ok c \<and> (\<forall>i \<in> {n..<k}. \<exists>e. dial i = Err e)"
    proof (rule connect_client.raw_induct [where P = "\<lambda>dial n (c, k). n \<le> k \<and> dial k = Ok c
        \<and> (\<forall>i \<in> {n..<k}. \<exists>e. dial i = Err e)", OF _ ret])
      fix f :: "(nat \<Rightarrow> string + 'c) \<Rightarrow> nat \<Rightarrow> ('c \<times> nat) option" and dial n r
      assume IH: "\<And>dial n r. f dial n = Some r \<Longrightarrow> (case r of (c, k) \<Rightarrow> n \<le> k \<and> dial k = Ok c
          \<and> (\<forall>i \<in> {n..<k}. \<exists>e. dial i = Err e))"
        and eq: "(case dial n of Inr c \<Rightarrow> Some (c, n) | Inl err \<Rightarrow> f dial (Suc n)) = Some r"
      show "case r of (c, k) \<Rightarrow> n \<le> k \<and> dial k = Ok c \<and> (\<forall>i \<in> {n..<k}. \<exists>e. dial i = Err e)"
      proof (cases "dial n")
        case (Inl err)
        then have "f dial (Suc n) = Some r" using eq by simp
        from IH [OF this] show ?thesis
          using Inl by (auto simp: le_eq_less_or_eq [of n] Suc_le_eq)
      qed (use eq in auto)
    qed
    then show ?thesis by simp
  qed
next
  assume "n \<le> k \<and> dial k = Ok c \<and> (\<forall>i \<in> {n..<k}. \<exists>e. dial i = Err e)"
  then show "connect_client dial n = Some (c, k)"
  proof (induction "k - n" arbitrary: n)
    case 0
    then show ?case by (simp add: connect_client.simps)
  next
    case (Suc d)
    then obtain e where e: "dial n = Err e" by fastforce
    have "connect_client dial (Suc n) = Some (c, k)"
      using Suc by (intro Suc.hyps(1)) auto
    then show ?case using e by (subst connect_client.simps) simp
  qed
qed

theorem connect_client_returns_witness:
  "connect_client (\<lambda>i. if i < 2 then Inl ''refused'' else Inr i) 0 = Some (2, 2)"
  by (subst connect_client_returns) auto

section \<open>Routing\<close>

text \<open>Whether two patterns match a common path.\<close>

fun overlap :: "segment list \<Rightarrow> segment list \<Rightarrow> bool" where
  "overlap [] [] = True"
| "overlap (Lit a # p) (Lit b # q) = (a = b \<and> overlap p q)"
| "overlap (Param # p) (x # q) = overlap p q"
| "overlap (x # p) (Param # q) = overlap p q"
| "overlap _ _ = False"

lemma match_tail: "match_path (x # q) (a # s) = Some v \<Longrightarrow> \<exists>w. match_path q s = Some w"
  by (cases x) (auto split: if_splits)

lemma match_overlap:
  "match_path p path = Some u \<Longrightarrow> match_path q path = Some v \<Longrightarrow> overlap p q"
  by (induction p q arbitrary: path u v rule: overlap.induct; case_tac path)
    (auto split: if_splits dest!: match_tail)

lemma routes_disjoint:
  "sorted_wrt (\<lambda>(m, p, h) (m', q, h'). m = m' \<longrightarrow> \<not> overlap p q) routes"
  by code_simp

definition path_to :: "string \<Rightarrow> endpoint \<Rightarrow> (http_method \<times> string list) option" where
  "path_to i h =
     map_option (\<lambda>(m, p, _). (m, map (\<lambda>x. case x of Lit s \<Rightarrow> s | Param \<Rightarrow> i) p))
       (find (\<lambda>(m, p, h'). h' = h) routes)"

text \<open>C33: Routing is unambiguous and complete: a request reaches at most one handler, and every
  handler is reached by the path written for it, for any id.\<close>

theorem routes_unambiguous:
  "length (handlers_for m path) \<le> 1
   \<and> (\<exists>m p. path_to (c # i) h = Some (m, p) \<and> map fst (handlers_for m p) = [h])"
proof
  have "length (List.map_filter (\<lambda>(m', pat, h).
      if m = m' then map_option (\<lambda>vs. (h, vs)) (match_path pat path) else None) rs) \<le> 1"
    if "sorted_wrt (\<lambda>(m, p, h) (m', q, h'). m = m' \<longrightarrow> \<not> overlap p q) rs"
    for rs :: "(http_method \<times> segment list \<times> endpoint) list"
    using that
  proof (induction rs)
    case (Cons r rs)
    obtain m' p h where r: "r = (m', p, h)" by (cases r)
    show ?case
    proof (cases "m = m' \<and> match_path p path \<noteq> None")
      case True
      have "(if m = m2 then map_option (\<lambda>vs. (h2, vs)) (match_path q path) else None) = None"
        if "(m2, q, h2) \<in> set rs" for m2 q h2
        using Cons.prems r that True match_overlap [of p path _ q] by fastforce
      then have "List.map_filter (\<lambda>(m', pat, h).
          if m = m' then map_option (\<lambda>vs. (h, vs)) (match_path pat path) else None) rs = []"
        by (auto simp: List.map_filter_def filter_empty_conv split: if_splits)
      then show ?thesis using r by (auto simp: List.map_filter_simps split: option.split)
    next
      case False
      then show ?thesis using r Cons by (auto simp: List.map_filter_simps split: option.split)
    qed
  qed (simp add: List.map_filter_simps)
  from this [OF routes_disjoint] show "length (handlers_for m path) \<le> 1"
    unfolding handlers_for_def .
next
  show "\<exists>m p. path_to (c # i) h = Some (m, p) \<and> map fst (handlers_for m p) = [h]"
    by (cases h) (simp_all add: path_to_def routes_def v1_def handlers_for_def List.map_filter_simps)
qed

section \<open>Extrinsics without Postgres\<close>

text \<open>C40: In memory nothing that is enqueued is kept: an accepted request is answered with a
  correlation id and \<open>queued\<close>, the store is unchanged, and its status cannot be asked for.\<close>

theorem mem_enqueued_is_lost:
  assumes "enqueue_outbox (mem_app L en) c req s = (Ok r, s')"
  shows "s' = s \<and> oe_status r = ''queued''
    \<and> get_outbox_status (mem_app L en) d (oe_correlation_id r) s'
        = Err (BadRequest ''outbox status requires Postgres backend'')"
  using assms
  by (auto simp: enqueue_outbox_def Let_def get_outbox_status_def record_outbound_extrinsic_def mem_sink_def
      mem_record_outbound_extrinsic_def split: if_splits elim!: read_thenE store_thenE)

theorem mem_enqueued_is_lost_witness:
  "\<exists>r. enqueue_outbox mem_demo_app (demo_call (\<lambda>_. mem_calm) 1)
       \<lparr>or_pallet = ''TaskMarket'', or_call = ''allocate_task'', or_payload = JObj []\<rparr> mem_default = (Ok r, mem_default)"
proof -
  let ?req = "\<lparr>or_pallet = ''TaskMarket'', or_call = ''allocate_task'', or_payload = JObj []\<rparr>"
  have "validate_outbox_payload ref_libs ''TaskMarket'' ''allocate_task'' None = Ok ()" by code_simp
  then obtain r s' where r: "enqueue_outbox mem_demo_app (demo_call (\<lambda>_. mem_calm) 1) ?req mem_default
      = (Ok r, s')"
    by (auto simp: enqueue_outbox_def payload_text_def ref_is_empty_def read_then_def store_then_def
        Let_def record_outbound_extrinsic_def mem_sink_def mem_record_outbound_extrinsic_def)
  from mem_enqueued_is_lost [OF r] r show ?thesis by auto
qed

end
