(* ===== verification/Api_Props.thy ===== *)
theory Api_Props
  imports Ref_App
begin

text \<open>
  The properties of the records that the API builds from submissions
  (src/orchestrator/api/src/model.rs) and of their views.
\<close>

lemma hashed_agent_id_wf: "blake3_ok L \<Longrightarrow> agent_id_wf (hashed_agent_id L name)"
  by (simp add: blake3_ok_def agent_id_wf_def hashed_agent_id_def)

lemma fresh_task_id_wf: "uuid_ok L \<Longrightarrow> task_id_wf (fresh_task_id L u)"
  by (simp add: uuid_ok_def task_id_wf_def fresh_task_id_def)

lemma requester_hex_inj: "requester_hex t1 = requester_hex t2 \<longleftrightarrow> tk_requester t1 = tk_requester t2"
proof
  assume "requester_hex t1 = requester_hex t2"
  then have "hex_text_decode (hex_text (agent_bytes (tk_requester t1)))
      = hex_text_decode (hex_text (agent_bytes (tk_requester t2)))"
    by (simp add: requester_hex_def hex_text_def)
  then have "agent_bytes (tk_requester t1) = agent_bytes (tk_requester t2)"
    by (simp add: hex_text_roundtrip)
  then show "tk_requester t1 = tk_requester t2" by (simp add: agent_id.expand)
qed (simp add: requester_hex_def)

text \<open>C36: Every accepted submission is well formed: task, agent and executor ids have 32 bytes, bids
  and results carry the ids of their task, the stored id parses as the fresh UUID, a task starts
  pending with the submitted budget and deadline, and its requester can be read off its view.\<close>

theorem submissions_well_formed:
  assumes "blake3_ok L" "uuid_ok L"
    "task_from_submission L u v now sub = Ok t"
    "bid_from_submission L w now bsub t = Ok b"
    "result_from_submission L y now rsub t = Ok r"
  shows "task_id_wf (tk_id (st_task t)) \<and> agent_id_wf (tk_requester (st_task t))
    \<and> uuid_parse_str L (st_id t) = Some v \<and> st_status t = Pending
    \<and> tv_max_budget (task_to_view t) = sub_max_budget sub
    \<and> tv_deadline (task_to_view t) = sub_deadline sub
    \<and> agent_id_wf (bd_agent_id (sb_bid b)) \<and> bd_task_id (sb_bid b) = tk_id (st_task t)
    \<and> sb_task_id b = st_id t \<and> uuid_parse_str L (sb_id b) = Some w
    \<and> agent_id_wf (tr_executor (sr_result r)) \<and> tr_task_id (sr_result r) = tk_id (st_task t)
    \<and> sr_task_id r = st_id t \<and> uuid_parse_str L (sr_id r) = Some y"
  using assms
  by (auto simp: task_from_submission_def bid_from_submission_def result_from_submission_def
      and_then_Ok_iff Let_def build_core_task_def build_core_bid_def build_core_result_def
      task_to_view_def hashed_agent_id_wf fresh_task_id_wf uuid_ok_def split: if_splits)

definition demo_stored_bid :: stored_bid where
  "demo_stored_bid =
     \<lparr>sb_id = uuid_to_string ref_libs 5, sb_task_id = uuid_to_string ref_libs 2, sb_agent_id = ''bob'',
      sb_bid = build_core_bid ref_libs demo_bid_submission (st_task (demo_task 1 2)),
      sb_created_at = 100\<rparr>"

theorem submissions_well_formed_witness:
  "task_id_wf (tk_id (st_task (demo_task 1 2))) \<and> agent_id_wf (bd_agent_id (sb_bid demo_stored_bid))
   \<and> agent_id_wf (tr_executor (sr_result (demo_result 6)))"
proof -
  have "\<not> is_blank ''bob''" by code_simp
  then have "bid_from_submission ref_libs 5 100 demo_bid_submission (demo_task 1 2) = Ok demo_stored_bid"
    by (simp add: bid_from_submission_def demo_stored_bid_def demo_bid_submission_def demo_task_def)
  from submissions_well_formed [OF ref_blake3_ok ref_uuid_ok demo_task_built this demo_result_built]
  show ?thesis by blast
qed

text \<open>C37: The views lose nothing: the output of a result view decodes to what was submitted, and two
  tasks show the same requester exactly when they have the same one.\<close>

theorem views_lossless:
  assumes "b64_ok L" "result_from_submission L y now sub t = Ok r"
  shows "b64_decode L (rv_output_base64 (result_to_view L r)) = b64_decode L (rsub_output_base64 sub)
    \<and> (requester_hex t1 = requester_hex t2 \<longleftrightarrow> tk_requester t1 = tk_requester t2)"
  using assms requester_hex_inj
  by (auto simp: result_from_submission_def and_then_Ok_iff ok_or_Ok_iff Let_def result_to_view_def
      build_core_result_def b64_ok_def split: if_splits)

theorem views_lossless_witness:
  "b64_decode ref_libs (rv_output_base64 (result_to_view ref_libs (demo_result 6))) = Some [9]"
  using views_lossless [OF ref_b64_ok demo_result_built [of 6]]
  by (simp add: demo_result_submission_def ref_b64_decode_def hex_text_roundtrip)

end
