(* ===== verification/Interleave.thy ===== *)
theory Interleave
  imports Backends
begin

text \<open>
  Requests interleaved at their storage calls. The server runs handlers concurrently and each
  \<open>.await\<close> on the storage is a point where others may run, so a handler acts on a task that it
  has read earlier. \<open>micro\<close> is one call of any request in flight; \<open>H\<close> holds the tasks that
  requests have read and may still act on, \<open>fresh\<close> says that an id is new to the store and
  \<open>free\<close> that a correlation id is.
\<close>

section \<open>One storage call\<close>

inductive micro ::
    "'j libs \<Rightarrow> ('s, 'e) storage_ops \<Rightarrow> ('s, 'e) sink_ops \<Rightarrow> ('s \<Rightarrow> string \<Rightarrow> bool)
     \<Rightarrow> ('s \<Rightarrow> string \<Rightarrow> bool) \<Rightarrow> 's \<times> stored_task set \<Rightarrow> 's \<times> stored_task set \<Rightarrow> bool"
  for L S K fresh free where
  Micro_Agent: "op_register_agent S e a s = Ok s' \<Longrightarrow> micro L S K fresh free (s, H) (s', H)"
| Micro_Task:
    "\<lbrakk>task_from_submission L u v now sub = Ok t; fresh s (uuid_to_string L v);
      op_insert_task S e t s = Ok s'\<rbrakk> \<Longrightarrow> micro L S K fresh free (s, H) (s', H)"
| Micro_Read: "op_get_task S e i s = Ok t \<Longrightarrow> micro L S K fresh free (s, H) (s, insert t H)"
| Micro_Bid:
    "\<lbrakk>t \<in> H; bid_from_submission L u now sub t = Ok b; fresh s (uuid_to_string L u);
      op_insert_bid S e b s = Ok s'\<rbrakk> \<Longrightarrow> micro L S K fresh free (s, H) (s', H)"
| Micro_Complete:
    "\<lbrakk>t \<in> H; op_upsert_task S e (t\<lparr>st_status := Completed\<rparr>) s = Ok s'\<rbrakk>
     \<Longrightarrow> micro L S K fresh free (s, H) (s', H)"
| Micro_Result:
    "\<lbrakk>t \<in> H; sr_task_id y = st_id t; op_insert_result S e y s = Ok s'\<rbrakk>
     \<Longrightarrow> micro L S K fresh free (s, H) (s', H)"
| Micro_Queue:
    "\<lbrakk>op_record_outbound_extrinsic K e corr p c pl ''pending'' s = Ok s'; free s corr\<rbrakk>
     \<Longrightarrow> micro L S K fresh free (s, H) (s', H)"

abbreviation micros ::
    "'j libs \<Rightarrow> ('s, 'e) storage_ops \<Rightarrow> ('s, 'e) sink_ops \<Rightarrow> ('s \<Rightarrow> string \<Rightarrow> bool)
     \<Rightarrow> ('s \<Rightarrow> string \<Rightarrow> bool) \<Rightarrow> 's \<times> stored_task set \<Rightarrow> 's \<times> stored_task set \<Rightarrow> bool" where
  "micros L S K fresh free \<equiv> (micro L S K fresh free)\<^sup>*\<^sup>*"

section \<open>Every handler is a sequence of such calls\<close>

lemma micro_then: "micro L S K fresh free c d \<Longrightarrow> micros L S K fresh free d e \<Longrightarrow> micros L S K fresh free c e"
  by (rule converse_rtranclp_into_rtranclp)

text \<open>The storage operations leave the free correlation ids alone.\<close>

definition free_kept :: "('s, 'e) storage_ops \<Rightarrow> ('s \<Rightarrow> string \<Rightarrow> bool) \<Rightarrow> bool" where
  "free_kept S free =
     (\<forall>s s' i.
        (\<exists>e. (\<exists>a. op_register_agent S e a s = Ok s') \<or> (\<exists>t. op_insert_task S e t s = Ok s')
           \<or> (\<exists>t. op_upsert_task S e t s = Ok s') \<or> (\<exists>b. op_insert_bid S e b s = Ok s')
           \<or> (\<exists>r. op_insert_result S e r s = Ok s'))
        \<longrightarrow> free s i \<longrightarrow> free s' i)"

lemma free_keptD:
  assumes "free_kept S free" "free s i"
  shows "op_register_agent S e a s = Ok s' \<Longrightarrow> free s' i" "op_insert_task S e t s = Ok s' \<Longrightarrow> free s' i"
    "op_upsert_task S e t s = Ok s' \<Longrightarrow> free s' i" "op_insert_bid S e b s = Ok s' \<Longrightarrow> free s' i"
    "op_insert_result S e r s = Ok s' \<Longrightarrow> free s' i"
  using assms unfolding free_kept_def by blast+

lemma enqueue_micros:
  assumes "enqueue A e corr p c j s = (co, s')" "free s corr"
  shows "micros (as_libs A) (as_storage A) (as_sink A) fresh free (s, H) (s', H)"
  using assms
  by (auto simp: enqueue_def record_outbound_extrinsic_def split: sum.splits intro: Micro_Queue)

lemma micros_queue:
  assumes "record_outbound_extrinsic K e corr p c pl s = Ok s'" "free s corr"
  shows "micros L S K fresh free (s, H) (s', H)"
  using assms by (auto simp: record_outbound_extrinsic_def intro: Micro_Queue)

lemma result_task_id:
  "result_from_submission L u now sub t = Ok y \<Longrightarrow> sr_task_id y = st_id t"
  "execute_and_build_result L en u now t i = Ok y \<Longrightarrow> sr_task_id y = st_id t"
  by (auto simp: execute_and_build_result_def result_from_submission_def and_then_Ok_iff Let_def
      split: if_splits)

text \<open>A task that is read, completed and given a result.\<close>

lemma completed_micros:
  assumes "op_get_task S e0 i s = Ok t"
    "op_upsert_task S e1 (t\<lparr>st_status := Completed\<rparr>) s = Ok s1"
  shows "micros L S K fresh free (s, H) (s1, insert t H)"
proof (rule micro_then [OF Micro_Read [OF assms(1)]])
  have "micro L S K fresh free (s, insert t H) (s1, insert t H)"
    by (rule Micro_Complete [OF _ assms(2)]) simp
  then show "micros L S K fresh free (s, insert t H) (s1, insert t H)" by blast
qed

lemma filed_micros:
  assumes "op_get_task S e0 i s = Ok t"
    "op_upsert_task S e1 (t\<lparr>st_status := Completed\<rparr>) s = Ok s1"
    "sr_task_id y = st_id t" "op_insert_result S e2 y s1 = Ok s2"
  shows "micros L S K fresh free (s, H) (s2, insert t H)"
  by (rule rtranclp.rtrancl_into_rtrancl [OF completed_micros [OF assms(1,2)]
        Micro_Result [OF _ assms(3,4)]]) simp

theorem request_is_micros:
  assumes "app_step A fresh s s'" "free_kept (as_storage A) free"
    "\<And>s i. fresh s i \<Longrightarrow> free s i"
  shows "\<exists>H'. micros (as_libs A) (as_storage A) (as_sink A) fresh free (s, H) (s', H')"
  using assms(1)
proof (cases rule: app_step.cases)
  case (Step_Register c a r)
  show ?thesis
    using Step_Register(1)
  proof (cases rule: register_agent_cases)
    case (stored s1 co)
    have now: "free s1 (fresh_id A c n)" for n
      by (rule free_keptD(1) [OF assms(2) assms(3) [OF Step_Register(2) [rule_format]] stored(1)])
    show ?thesis
      by (rule exI [of _ H], rule micro_then [OF Micro_Agent [OF stored(1)]
            enqueue_micros [where free = free, OF stored(2) now]])
  qed blast
next
  case (Step_Task c sub r)
  have put: "micro (as_libs A) (as_storage A) (as_sink A) fresh free (s, H) (s1, H)"
    if "task_from_submission (as_libs A) (cl_uuid c 0) (cl_uuid c 1) (now_of c) sub = Ok t"
      "op_insert_task (as_storage A) (cl_env c 0) t s = Ok s1" for t s1
    by (rule Micro_Task [OF that(1) _ that(2)]) (use Step_Task(2) in blast)
  show ?thesis
    using Step_Task(1)
  proof (cases rule: submit_task_cases)
    case (panicked t)
    then show ?thesis using put by blast
  next
    case (stored t s1 j co)
    have now: "free s1 (fresh_id A c n)" for n
      by (rule free_keptD(2) [OF assms(2) assms(3) [OF Step_Task(2) [rule_format]] stored(2)])
    show ?thesis
      by (rule exI [of _ H], rule micro_then [OF put [OF stored(1,2)]
            enqueue_micros [where free = free, OF stored(4) now]])
  qed blast
next
  case (Step_Bid c bsub r)
  show ?thesis
    using Step_Bid(1)
  proof (cases rule: submit_bid_cases)
    case (stored t b s1 j co)
    have now: "free s1 (fresh_id A c n)" for n
      by (rule free_keptD(4) [OF assms(2) assms(3) [OF Step_Bid(2) [rule_format]] stored(3)])
    have bid: "micro (as_libs A) (as_storage A) (as_sink A) fresh free (s, insert t H) (s1, insert t H)"
      by (rule Micro_Bid [OF _ stored(2) _ stored(3)]) (use Step_Bid(2) in blast)+
    show ?thesis
      by (rule exI [of _ "insert t H"],
          rule micro_then [OF Micro_Read [OF stored(1)] micro_then [OF bid
            enqueue_micros [where free = free, OF stored(4) now]]])
  qed blast
next
  case (Step_Result c rsub r)
  show ?thesis
    using Step_Result(1)
  proof (cases rule: submit_result_cases)
    case (half t y e)
    show ?thesis
      by (rule exI [of _ "insert t H"], rule completed_micros [OF half(1,3)])
  next
    case (stored t y s1 s2 j co)
    have now: "free s2 (fresh_id A c n)" for n
      by (rule free_keptD(5) [OF assms(2) free_keptD(3) [OF assms(2) assms(3) [OF Step_Result(2) [rule_format]] stored(3)] stored(4)])
    show ?thesis
      by (rule exI [of _ "insert t H"], rule rtranclp_trans
          [OF filed_micros [OF stored(1,3) result_task_id(1) [OF stored(2)] stored(4)]
            enqueue_micros [where free = free, OF stored(5) now]])
  qed blast
next
  case (Step_Execute c i r)
  show ?thesis
    using Step_Execute(1)
  proof (cases rule: execute_task_cases)
    case (half t y e)
    show ?thesis
      by (rule exI [of _ "insert t H"], rule completed_micros [OF half(1,3)])
  next
    case (stored t y s1)
    show ?thesis
      by (rule exI [of _ "insert t H"],
          rule filed_micros [OF stored(1,3) result_task_id(2) [OF stored(2)] stored(4)])
  qed blast
next
  case (Step_Faucet c body r)
  show ?thesis
    using Step_Faucet(1)
  proof (cases rule: request_faucet_cases)
    case (queued p)
    show ?thesis by (rule exI [of _ H], rule micros_queue)
        (rule queued assms(3) Step_Faucet(2) [rule_format])+
  qed blast
next
  case (Step_Enqueue c req r)
  show ?thesis
    using Step_Enqueue(1)
  proof (cases rule: enqueue_outbox_cases)
    case queued
    show ?thesis by (rule exI [of _ H], rule micros_queue)
        (rule queued assms(3) Step_Enqueue(2) [rule_format])+
  qed blast
qed

section \<open>Whatever the interleaving\<close>

text \<open>What a request has read may be out of date only in its status.\<close>

definition held_in ::
    "(string \<Rightarrow> 'k option) \<Rightarrow> ('k \<Rightarrow> stored_task option) \<Rightarrow> stored_task set \<Rightarrow> bool" where
  "held_in key m H =
     (\<forall>t \<in> H. \<exists>k st. key (st_id t) = Some k \<and> m k = Some (t\<lparr>st_status := st\<rparr>) \<and> st_status t \<le> st)"

lemma held_in_mono:
  assumes "held_in key m H" "tasks_le m m'"
  shows "held_in key m' H"
  unfolding held_in_def
proof
  fix t assume "t \<in> H"
  then obtain k st where k: "key (st_id t) = Some k" "m k = Some (t\<lparr>st_status := st\<rparr>)" "st_status t \<le> st"
    using assms(1) by (auto simp: held_in_def)
  then obtain st' where "m' k = Some (t\<lparr>st_status := st, st_status := st'\<rparr>)" "st \<le> st'"
    using assms(2) by (force simp: tasks_le_def)
  then show "\<exists>k st. key (st_id t) = Some k \<and> m' k = Some (t\<lparr>st_status := st\<rparr>) \<and> st_status t \<le> st"
    using k order_trans by fastforce
qed

context backend begin

lemma micro_spec:
  assumes "micro (libs_of x) (S x) (K x) fresh free (s, H) (s', H')" "ok x" "inv x s"
    "held_in (key x) (task_of x s) H"
    "\<And>s i k. fresh s i \<Longrightarrow> key x i = Some k \<Longrightarrow> task_of x s k = None"
    "\<And>s i. fresh s i \<Longrightarrow> \<not> bid_known x s i"
  shows "inv x s' \<and> held_in (key x) (task_of x s') H' \<and> tasks_le (task_of x s) (task_of x s')"
proof -
  have held: "H' = H \<Longrightarrow> tasks_le (task_of x s) (task_of x s') \<Longrightarrow> held_in (key x) (task_of x s') H'"
    using held_in_mono [OF assms(4)] by blast
  show ?thesis
    using assms(1)
  proof (cases rule: micro.cases)
    case (Micro_Agent e a)
    then show ?thesis using register_agent [OF assms(2,3)] assms(4) by auto
  next
    case (Micro_Task u v now sub t e)
    have id: "st_id t = uuid_to_string (libs_of x) v"
      using Micro_Task(2) by (auto simp: task_from_submission_def and_then_Ok_iff split: if_splits)
    obtain k where k: "key x (st_id t) = Some k" using fresh_key [OF assms(2)] id by auto
    then have none: "task_of x s k = None" using assms(5) Micro_Task(3) id by simp
    have "inv x s' \<and> task_of x s' = (task_of x s)(k \<mapsto> t)"
      using insert_task [OF assms(2,3) Micro_Task(4) k none] by blast
    then show ?thesis using held tasks_le_new [of "task_of x s" k t, OF none] Micro_Task(1) by auto
  next
    case (Micro_Read e i t)
    then obtain k where k: "task_of x s k = Some t" using get_task_Ok [OF assms(2,3)] by blast
    have "key x (st_id t) = Some k" by (rule stored_key [OF assms(2,3) k])
    then have "held_in (key x) (task_of x s) (insert t H)"
      using assms(4) k unfolding held_in_def by (auto intro: exI [of _ "st_status t"])
    then show ?thesis using Micro_Read assms(3) by simp
  next
    case (Micro_Bid t u now sub b e)
    obtain k where k: "key x (st_id t) = Some k"
      using assms(4) Micro_Bid(2) by (auto simp: held_in_def)
    have b: "sb_task_id b = st_id t" "sb_id b = uuid_to_string (libs_of x) u"
      using Micro_Bid(3) by (auto simp: bid_from_submission_def split: if_splits)
    have "bid_free x s b" using assms(6) Micro_Bid(4) b(2) by (intro unknown_bid_free) simp
    then have "inv x s' \<and> task_of x s' = task_of x s"
      using insert_bid [OF assms(2,3) Micro_Bid(5)] b(1) k by simp
    then show ?thesis using assms(4) Micro_Bid(1) by simp
  next
    case (Micro_Complete t e)
    obtain k st where k: "key x (st_id t) = Some k" "task_of x s k = Some (t\<lparr>st_status := st\<rparr>)"
      using assms(4) Micro_Complete(2) by (auto simp: held_in_def)
    have "inv x s' \<and> task_of x s' = (task_of x s)(k \<mapsto> t\<lparr>st_status := Completed\<rparr>)"
      using upsert_task [OF assms(2,3) Micro_Complete(3)] k(1) by simp
    then show ?thesis using held tasks_le_completed [of "task_of x s" k, OF k(2)] Micro_Complete(1) by simp
  next
    case (Micro_Result t y e)
    obtain k where k: "key x (st_id t) = Some k"
      using assms(4) Micro_Result(2) by (auto simp: held_in_def)
    then have "inv x s' \<and> task_of x s' = task_of x s"
      using insert_result [OF assms(2,3) Micro_Result(4)] Micro_Result(3) by simp
    then show ?thesis using assms(4) Micro_Result(1) by simp
  next
    case (Micro_Queue e corr p c pl)
    then have "inv x s' \<and> task_of x s' = task_of x s"
      using outbound_frame [OF assms(3)] by (auto simp: kept_def)
    then show ?thesis using assms(4) Micro_Queue(1) by simp
  qed
qed

lemma micros_spec:
  assumes "micros (libs_of x) (S x) (K x) fresh free (s, H) (s', H')" "ok x" "inv x s"
    "held_in (key x) (task_of x s) H"
    "\<And>s i k. fresh s i \<Longrightarrow> key x i = Some k \<Longrightarrow> task_of x s k = None"
    "\<And>s i. fresh s i \<Longrightarrow> \<not> bid_known x s i"
  shows "inv x s' \<and> held_in (key x) (task_of x s') H' \<and> tasks_le (task_of x s) (task_of x s')"
  using assms(1)
proof (induction "(s', H')" arbitrary: s' H' rule: rtranclp_induct)
  case base
  then show ?case using assms(3,4) by simp
next
  case (step c)
  obtain s1 H1 where c: "c = (s1, H1)" by fastforce
  have IH: "inv x s1" "held_in (key x) (task_of x s1) H1" "tasks_le (task_of x s) (task_of x s1)"
    using step.hyps(3) [OF c] by auto
  have "inv x s' \<and> held_in (key x) (task_of x s') H' \<and> tasks_le (task_of x s1) (task_of x s')"
    by (rule micro_spec [OF step.hyps(2) [unfolded c] assms(2) IH(1,2)]) (rule assms(5,6), assumption+)+
  then show ?case using IH(3) tasks_le_trans by blast
qed

end

end
