(* ===== verification/Interleave_Props.thy ===== *)
theory Interleave_Props
  imports Interleave Ref_App
begin

text \<open>
  The orchestrator over Postgres with its requests interleaved at their storage calls and the
  workers at their statements, in any order.
\<close>

abbreviation queue_free :: "'j pg_db \<Rightarrow> string \<Rightarrow> bool" where
  "queue_free s i \<equiv> i \<notin> fst ` set (db_outbox s)"

section \<open>The workers statement by statement\<close>

text \<open>
  What a worker commits at a time. The submission loop works in a transaction; the backfill loop
  sends one update for a key and an event that it has read earlier, the replay worker links an
  outbox row, records an event or moves the cursor. Every other statement that it sends is refused
  by the migrated schema (\<open>mirror_on_migrated\<close>).
\<close>

inductive worker_stmt :: "'j pg \<Rightarrow> 'j pg_db \<Rightarrow> 'j pg_db \<Rightarrow> bool" for x where
  Stmt_Submit:
    "\<lbrakk>pg_orders e; outbox_iteration x e net poll_ms c s = Return (next, c', s')\<rbrakk> \<Longrightarrow> worker_stmt x s s'"
| Stmt_Fill: "worker_stmt x s (backfill_event x e corr ev s)"
| Stmt_Link: "worker_stmt x s (link_tx x e n corr task agent s)"
| Stmt_Record:
    "pg_record_chain_event x e b i pallet variant payload corr s = Ok s' \<Longrightarrow> worker_stmt x s s'"
| Stmt_Cursor: "pg_update_chain_cursor x e b i s = Ok s' \<Longrightarrow> worker_stmt x s s'"

abbreviation worker_stmts :: "'j pg \<Rightarrow> 'j pg_db \<Rightarrow> 'j pg_db \<Rightarrow> bool" where
  "worker_stmts x \<equiv> (worker_stmt x)\<^sup>*\<^sup>*"

lemma fills_stmts: "worker_stmts x s (fold (backfill_event x e corr) evs s)"
proof (induction evs arbitrary: s)
  case (Cons ev evs)
  have "worker_stmt x s (backfill_event x e corr ev s)" by (rule Stmt_Fill)
  then show ?case using Cons.IH by (simp add: converse_rtranclp_into_rtranclp)
qed simp

lemma backfill_all_stmts: "worker_stmts x s (snd (backfill_all x e cs s))"
proof (induction cs arbitrary: s)
  case (Cons corr cs)
  then show ?case by (auto split: sum.split intro: rtranclp_trans [OF fills_stmts])
qed simp

lemma backfill_stmts: "worker_stmts x s (snd (backfill_once x e s))"
  by (auto simp: backfill_once_def backfill_all_stmts split: sum.split)

lemma event_stmts:
  assumes "pg_schema x = migrated" "no_chain_tasks s" "pg_orders (ee_mirror e)"
  shows "worker_stmts x s
    (state_of (process_event (pg_libs x) (pg_sink x) (pg_mirror x) e blk cur ev s m))"
proof (cases "wanted cur blk ev")
  case True
  let ?b = "ucast (bk_number blk)" and ?corr = "correlation_of (pg_libs x) blk ev"
  obtain s1 p where m: "pg_mirror x e ?b ?corr (event_payload ev) ev s = (s1, p)" by fastforce
  have "\<forall>ms. mset (pe_tasks (ee_mirror e) ms) = mset ms" using assms(3) by (simp add: pg_orders_def)
  then have "s1 = s \<or> (\<exists>n task agent. s1 = link_tx x (ee_mirror e) n ?corr task agent s)"
    using mirror_on_migrated [OF assms(1,2), of e ?b ?corr "event_payload ev" ev] m by simp
  then have "worker_stmts x s s1" by (auto intro: Stmt_Link)
  then show ?thesis
    using m True
    by (auto simp: process_wanted pg_sink_def split: sum.split
        intro: rtranclp.rtrancl_into_rtrancl Stmt_Record)
qed (simp add: process_unwanted)

lemma worker_stmt_invariant:
  assumes "worker_stmt x s s'" "sys_inv x s"
  shows "sys_inv x s' \<and> tasks_le (pg_task_of x s) (pg_task_of x s') \<and> life_step (lives s) (lives s')"
proof -
  have inv: "pg_inv x s" "ob_inv s" "no_chain_tasks s" using assms(2) by (simp_all add: sys_inv_def)
  have kept: ?thesis if "same_entities s s'" "rows_kept s s'"
    using same_entities_inv [OF that(1)] rows_kept_inv [OF that(2) inv(2)]
      rows_kept_lives [OF that(2) inv(2)] inv
    by (simp add: sys_inv_def life_same)
  have quiet: ?thesis if "same_entities s s'" "db_outbox s' = db_outbox s"
    by (rule worker_invariant [OF assms(2) that(1) disjI1 [OF refl] that(2)])
  show ?thesis
    using assms(1)
  proof cases
    case (Stmt_Submit e net p c nx c')
    have "ob_step x s s'" by (rule step_work [OF Stmt_Submit])
    then show ?thesis
      by (rule worker_invariant [OF assms(2) iteration_entities [OF Stmt_Submit(2)] disjI2 refl])
  next
    case (Stmt_Fill e corr ev)
    then show ?thesis using kept backfill_event_entities backfill_event_kept by blast
  next
    case (Stmt_Link e n corr task agent)
    have "same_entities s (link_tx x e n corr task agent s)"
      by (simp add: same_entities_def link_tx_keeps)
    then show ?thesis using kept link_tx_kept Stmt_Link by blast
  next
    case (Stmt_Record e b i p v pl corr)
    then show ?thesis
      by (intro quiet)
        (auto simp: pg_record_chain_event_def map_err_Ok_iff run_stmt_Ok same_entities_def
          split: option.splits if_splits)
  next
    case (Stmt_Cursor e b i)
    then show ?thesis
      by (intro quiet)
        (auto simp: pg_update_chain_cursor_def map_err_Ok_iff run_stmt_Ok same_entities_def)
  qed
qed

section \<open>Requests and workers interleaved\<close>

inductive live_step ::
    "'j pg \<Rightarrow> 'j pg_db \<times> stored_task set \<Rightarrow> 'j pg_db \<times> stored_task set \<Rightarrow> bool" for x where
  Live_Call:
    "micro (pg_libs x) (pg_ops x) (pg_sink x) (pg_fresh x) queue_free c c' \<Longrightarrow> live_step x c c'"
| Live_Stmt: "worker_stmt x s s' \<Longrightarrow> live_step x (s, H) (s', H)"

abbreviation live_steps ::
    "'j pg \<Rightarrow> 'j pg_db \<times> stored_task set \<Rightarrow> 'j pg_db \<times> stored_task set \<Rightarrow> bool" where
  "live_steps x \<equiv> (live_step x)\<^sup>*\<^sup>*"

definition live_inv :: "'j pg \<Rightarrow> 'j pg_db \<times> stored_task set \<Rightarrow> bool" where
  "live_inv x c = (sys_inv x (fst c) \<and> held_in (pg_key x) (pg_task_of x (fst c)) (snd c))"

lemma pg_free_kept: "free_kept (pg_ops x) queue_free"
  using storage_ops_kept unfolding free_kept_def outbox_kept_def by metis

text \<open>A storage call leaves the outbox alone or queues one fresh row.\<close>

lemma micro_queues:
  assumes "micro L (pg_ops x) (pg_sink x) fresh queue_free (s, H) (s', H')"
  shows "outbox_kept s s' \<or> queues x s s'"
  using assms
  by (cases rule: micro.cases) (auto dest: storage_ops_kept simp: pg_sink_def intro: queues_row)

lemma live_step_invariant:
  assumes "live_step x (s, H) (s', H')" "pg_ok x" "live_inv x (s, H)"
  shows "live_inv x (s', H') \<and> tasks_le (pg_task_of x s) (pg_task_of x s')
    \<and> life_step (lives s) (lives s')"
  using assms(1)
proof cases
  case Live_Call
  have inv: "pg_inv x s" "ob_inv s" "no_chain_tasks s" "held_in (pg_key x) (pg_task_of x s) H"
    using assms(3) by (simp_all add: live_inv_def sys_inv_def)
  have "pg_inv x s' \<and> held_in (pg_key x) (pg_task_of x s') H'
      \<and> tasks_le (pg_task_of x s) (pg_task_of x s')"
    by (rule pgb.micro_spec [OF Live_Call assms(2) inv(1,4) pg_fresh_task pg_fresh_bid])
  moreover have "ob_inv s' \<and> life_step (lives s) (lives s') \<and> no_chain_tasks s'"
    using micro_queues [OF Live_Call]
  proof
    assume "outbox_kept s s'"
    then show ?thesis using inv outbox_same_inv [of s' s] by (simp add: outbox_kept_def life_same)
  next
    assume "queues x s s'"
    then show ?thesis using queues_step inv by blast
  qed
  ultimately show ?thesis by (simp add: live_inv_def sys_inv_def)
next
  case Live_Stmt
  then show ?thesis
    using worker_stmt_invariant [OF Live_Stmt(2)] assms(3) held_in_mono
    by (auto simp: live_inv_def)
qed

lemma live_reach_inv:
  assumes "live_steps x (pg_empty, {}) c" "pg_ok x"
  shows "live_inv x c"
  using assms(1)
proof induction
  case base
  show ?case
    using sys_reach_inv [OF sys_init assms(2)] by (simp add: live_inv_def held_in_def)
next
  case (step c c')
  then show ?case
    using live_step_invariant [of x "fst c" "snd c" "fst c'" "snd c'"] assms(2) by simp
qed

text \<open>Every step of the coarse system is a sequence of such steps.\<close>

lemma stmts_live: "worker_stmts x s s' \<Longrightarrow> live_steps x (s, H) (s', H)"
  by (induction rule: rtranclp_induct) (auto intro: rtranclp.rtrancl_into_rtrancl Live_Stmt)

lemma micros_live:
  "micros (pg_libs x) (pg_ops x) (pg_sink x) (pg_fresh x) queue_free c c' \<Longrightarrow> live_steps x c c'"
  by (induction rule: rtranclp_induct) (auto intro: rtranclp.rtrancl_into_rtrancl Live_Call)

theorem sys_step_live:
  assumes "sys_step x engine s s'" "pg_ok x" "sys_inv x s"
  shows "\<exists>H'. live_steps x (s, H) (s', H')"
  using assms(1)
proof cases
  case Sys_Request
  have "\<exists>H'. micros (pg_libs x) (pg_ops x) (pg_sink x) (pg_fresh x) queue_free (s, H) (s', H')"
    using request_is_micros [OF Sys_Request, of queue_free H] pg_free_kept by (auto simp: pg_fresh_def)
  then show ?thesis using micros_live by blast
next
  case (Sys_Submit e net p c nx c')
  then show ?thesis using Live_Stmt [OF Stmt_Submit] by blast
next
  case (Sys_Backfill e)
  then show ?thesis using stmts_live [OF backfill_stmts] by blast
next
  case (Sys_Event e blk cur ev m r)
  have "pg_schema x = migrated" "no_chain_tasks s"
    using assms(2,3) by (simp_all add: pg_ok_def sys_inv_def)
  then have "worker_stmts x s s'"
    unfolding Sys_Event(1) Sys_Event(3) [symmetric] by (rule event_stmts) (use Sys_Event(2) in simp_all)
  then show ?thesis using stmts_live by blast
next
  case (Sys_Cursor e b i)
  then show ?thesis using Live_Stmt [OF Stmt_Cursor] by blast
qed

lemma sys_reach_live:
  assumes "sys_reach x engine s" "pg_ok x"
  shows "\<exists>H. live_steps x (pg_empty, {}) (s, H)"
  using assms(1)
proof (induction rule: sys_reach.induct)
  case (sys_next s s')
  then obtain H where H: "live_steps x (pg_empty, {}) (s, H)" by blast
  obtain H' where "live_steps x (s, H) (s', H')"
    using sys_step_live [OF sys_next(2) assms(2) sys_reach_inv [OF sys_next(1) assms(2)]] by blast
  then show ?case using H rtranclp_trans by fast
qed blast

text \<open>C3: The orchestrator over Postgres is safe at the granularity of single database calls: however
  the calls of concurrent requests and the statements of the workers interleave, the database stays
  consistent, no task is lost or altered except that its status may move forward, every outbox row
  keeps its life, and what a request has read earlier is out of date in the status only.\<close>

theorem interleaved_requests_safe:
  assumes "pg_ok x" "live_steps x (pg_empty, {}) (s, H)" "live_step x (s, H) (s', H')"
  shows "pg_inv x s' \<and> ob_inv s' \<and> no_chain_tasks s'
    \<and> (pg_task_of x s k = Some t \<longrightarrow>
         (\<exists>st. pg_task_of x s' k = Some (t\<lparr>st_status := st\<rparr>) \<and> st_status t \<le> st))
    \<and> life_step (lives s) (lives s')
    \<and> (h \<in> H' \<longrightarrow> (\<exists>l st. pg_key x (st_id h) = Some l
         \<and> pg_task_of x s' l = Some (h\<lparr>st_status := st\<rparr>) \<and> st_status h \<le> st))"
  using live_step_invariant [OF assms(3,1) live_reach_inv [OF assms(2,1)]]
  by (simp add: live_inv_def sys_inv_def held_in_def tasks_le_def)

theorem interleaved_requests_safe_witness:
  "\<exists>s' st. op_upsert_task (pg_ops ref_pg) (calm 100) (demo_task 1 2\<lparr>st_status := Completed\<rparr>)
        demo_submitted = Ok s'
    \<and> pg_inv ref_pg s' \<and> pg_task_of ref_pg s' 2 = Some ((demo_task 1 2)\<lparr>st_status := st\<rparr>)"
proof -
  have inv: "pg_inv ref_pg demo_submitted"
    using sys_reach_inv [OF demo_system ref_pg_ok] by (simp add: sys_inv_def)
  obtain s' where s': "op_upsert_task (pg_ops ref_pg) (calm 100)
      (demo_task 1 2\<lparr>st_status := Completed\<rparr>) demo_submitted = Ok s'"
    using pgs.upsert_task_total [OF ref_pg_ok calm_healthy inv demo_stays_storable] by blast
  have key: "pg_key ref_pg (uuid_to_string ref_libs 2) = Some 2" by (rule ref_key)
  have "op_get_task (pg_ops ref_pg) (calm 100) (uuid_to_string ref_libs 2) demo_submitted
      = Ok (demo_task 1 2)"
    using pgs.get_task [OF ref_pg_ok calm_healthy inv key] demo_stored by simp
  then have read: "live_step ref_pg (demo_submitted, H) (demo_submitted, insert (demo_task 1 2) H)" for H
    by (intro Live_Call Micro_Read)
  obtain H where "live_steps ref_pg (pg_empty, {}) (demo_submitted, H)"
    using sys_reach_live [OF demo_system ref_pg_ok] by blast
  then have "live_steps ref_pg (pg_empty, {}) (demo_submitted, insert (demo_task 1 2) H)"
    using read by (rule rtranclp.rtrancl_into_rtrancl)
  moreover have "live_step ref_pg (demo_submitted, insert (demo_task 1 2) H) (s', insert (demo_task 1 2) H)"
    by (intro Live_Call Micro_Complete [OF _ s']) simp
  ultimately show ?thesis
    using s' interleaved_requests_safe [OF ref_pg_ok, of demo_submitted "insert (demo_task 1 2) H"
        s' "insert (demo_task 1 2) H" 2 "demo_task 1 2" "demo_task 1 2"] demo_stored
    by blast
qed

end
