(* ===== verification/Directory.thy ===== *)
theory Directory
  imports Backends Handler_Payloads
begin

text \<open>
  What the server promises about agents and tasks, without any store: a directory of agents by
  name and of tasks by the UUID that the server drew. \<open>dir_answer\<close> gives the reply to each
  request; the locale \<open>directory_backend\<close> proves that an application over any backend gives the
  same replies. The correlation id of a reply is left out: it depends on whether the outbox row
  could be written.
\<close>

section \<open>The abstract service\<close>

record directory =
  dir_agents :: "string \<Rightarrow> agent_registration option"
  dir_tasks :: "uuid \<Rightarrow> stored_task option"

definition dir_empty :: directory where
  "dir_empty = \<lparr>dir_agents = (\<lambda>_. None), dir_tasks = (\<lambda>_. None)\<rparr>"

text \<open>A task is looked up by the id that the server gave out.\<close>

datatype client_request =
    Register agent_registration
  | Submit task_submission
  | LookupAgent string
  | LookupTask uuid
  | AllTasks
  | Counts

datatype client_reply =
    AgentReply "api_error + agent_registration"
  | TaskReply "(api_error + task_view) run"
  | TasksReply "api_error + task_view set"
  | CountsReply "api_error + dashboard_view"

text \<open>A request with the UUIDs and the time that the server draws for it.\<close>

record visit =
  vi_request :: client_request
  vi_uuid :: "nat \<Rightarrow> uuid"
  vi_clock :: int

definition submitted :: "'j libs \<Rightarrow> visit \<Rightarrow> task_submission \<Rightarrow> api_error + stored_task" where
  "submitted L v sub =
     task_from_submission L (vi_uuid v 0) (vi_uuid v 1) (current_unix_timestamp (vi_clock v)) sub"

definition dir_answer :: "'j libs \<Rightarrow> visit \<Rightarrow> directory \<Rightarrow> client_reply \<times> directory" where
  "dir_answer L v d =
     (case vi_request v of
        Register a \<Rightarrow>
          if is_blank (ar_id a) then (AgentReply (Err (BadRequest ''agent id must not be empty'')), d)
          else if is_blank (ar_label a)
          then (AgentReply (Err (BadRequest ''agent label must not be empty'')), d)
          else (AgentReply (Ok a), d\<lparr>dir_agents := (dir_agents d)(ar_id a \<mapsto> a)\<rparr>)
      | Submit sub \<Rightarrow>
          (case submitted L v sub of
             Inl e \<Rightarrow> (TaskReply (Return (Err e)), d)
           | Inr t \<Rightarrow>
               (TaskReply (if unat (sub_max_budget sub) < 2 ^ 64 then Return (Ok (task_to_view t))
                           else Panic),
                d\<lparr>dir_tasks := (dir_tasks d)(vi_uuid v 1 \<mapsto> t)\<rparr>))
      | LookupAgent i \<Rightarrow> (AgentReply (ok_or (agent_not_found i) (dir_agents d i)), d)
      | LookupTask u \<Rightarrow>
          (TaskReply (Return (ok_or (task_not_found (uuid_to_string L u))
                                (map_option task_to_view (dir_tasks d u)))), d)
      | AllTasks \<Rightarrow> (TasksReply (Ok (task_to_view ` ran (dir_tasks d))), d)
      | Counts \<Rightarrow>
          (CountsReply (Ok
             \<lparr>dv_total_agents = card (dom (dir_agents d)), dv_total_tasks = card (dom (dir_tasks d)),
              dv_completed_tasks =
                card {u. \<exists>t. dir_tasks d u = Some t \<and> st_status t = Completed},
              dv_pending_tasks =
                card {u. \<exists>t. dir_tasks d u = Some t \<and> st_status t = Pending}\<rparr>), d))"

text \<open>
  The requests that a backend must serve: names and tasks that it can store, and a fresh UUID for
  a new task.
\<close>

definition admitted ::
    "(string \<Rightarrow> bool) \<Rightarrow> (stored_task \<Rightarrow> bool) \<Rightarrow> 'j libs \<Rightarrow> visit \<Rightarrow> directory \<Rightarrow> bool" where
  "admitted name_ok task_ok L v d =
     (case vi_request v of
        Register a \<Rightarrow> name_ok (ar_id a) \<and> name_ok (ar_label a)
      | Submit sub \<Rightarrow>
          (case submitted L v sub of
             Inl _ \<Rightarrow> True
           | Inr t \<Rightarrow> task_ok t \<and> dir_tasks d (vi_uuid v 1) = None)
      | LookupAgent i \<Rightarrow> name_ok i
      | _ \<Rightarrow> True)"

fun dir_answers :: "'j libs \<Rightarrow> visit list \<Rightarrow> directory \<Rightarrow> client_reply list" where
  "dir_answers L [] d = []"
| "dir_answers L (v # vs) d =
     (let (r, d') = dir_answer L v d in r # dir_answers L vs d')"

fun all_admitted ::
    "(string \<Rightarrow> bool) \<Rightarrow> (stored_task \<Rightarrow> bool) \<Rightarrow> 'j libs \<Rightarrow> visit list \<Rightarrow> directory \<Rightarrow> bool" where
  "all_admitted name_ok task_ok L [] d = True"
| "all_admitted name_ok task_ok L (v # vs) d =
     (admitted name_ok task_ok L v d \<and> all_admitted name_ok task_ok L vs (snd (dir_answer L v d)))"

lemma admitted_mono:
  "admitted P Q L v d \<Longrightarrow> admitted (\<lambda>_. True) (\<lambda>_. True) L v d"
  by (auto simp: admitted_def split: client_request.splits sum.splits)

lemma all_admitted_mono:
  "all_admitted P Q L vs d \<Longrightarrow> all_admitted (\<lambda>_. True) (\<lambda>_. True) L vs d"
  by (induction vs arbitrary: d) (auto intro: admitted_mono)

section \<open>The application as such a service\<close>

definition call_of :: "visit \<Rightarrow> (nat \<Rightarrow> 'e) \<Rightarrow> 'e call" where
  "call_of v env = \<lparr>cl_env = env, cl_uuid = vi_uuid v, cl_clock = vi_clock v\<rparr>"

definition answer ::
    "('j, 's, 'e) app_state \<Rightarrow> (nat \<Rightarrow> 'e) \<Rightarrow> visit \<Rightarrow> 's \<Rightarrow> client_reply \<times> 's" where
  "answer A env v s =
     (let c = call_of v env in
      case vi_request v of
        Register a \<Rightarrow>
          (let (r, s') = register_agent A c a s in (AgentReply (result_map rc_data r), s'))
      | Submit sub \<Rightarrow>
          (let (r, s') = submit_task A c sub s in (TaskReply (map_run (result_map rc_data) r), s'))
      | LookupAgent i \<Rightarrow> (AgentReply (get_agent A c i s), s)
      | LookupTask u \<Rightarrow> (TaskReply (Return (get_task A c (uuid_to_string (as_libs A) u) s)), s)
      | AllTasks \<Rightarrow> (TasksReply (result_map set (list_tasks A c s)), s)
      | Counts \<Rightarrow> (CountsReply (get_dashboard A c s), s))"

text \<open>A run of requests; \<open>env n\<close> is the environment of the calls of the \<open>n\<close>-th one.\<close>

fun answers ::
    "('j, 's, 'e) app_state \<Rightarrow> (nat \<Rightarrow> nat \<Rightarrow> 'e) \<Rightarrow> visit list \<Rightarrow> 's \<Rightarrow> client_reply list" where
  "answers A env [] s = []"
| "answers A env (v # vs) s =
     (let (r, s') = answer A (env 0) v s in r # answers A (\<lambda>n. env (Suc n)) vs s')"

text \<open>A store that files the task of UUID \<open>u\<close> under the key \<open>f u\<close>.\<close>

definition represents ::
    "(uuid \<Rightarrow> 'k) \<Rightarrow> (string \<Rightarrow> agent_registration option) \<Rightarrow> ('k \<Rightarrow> stored_task option)
     \<Rightarrow> directory \<Rightarrow> bool" where
  "represents f agents tasks d =
     (agents = dir_agents d \<and> (\<forall>u. tasks (f u) = dir_tasks d u) \<and> dom tasks \<subseteq> range f)"

lemma represents_image:
  assumes "represents f ag ts d"
  shows "{k. \<exists>t. ts k = Some t \<and> P t} = f ` {u. \<exists>t. dir_tasks d u = Some t \<and> P t}"
proof -
  have "k \<in> f ` {u. \<exists>t. dir_tasks d u = Some t \<and> P t}" if "ts k = Some t" "P t" for k t
  proof -
    obtain u where u: "k = f u" using assms \<open>ts k = Some t\<close> by (auto simp: represents_def)
    then show ?thesis using assms that by (auto simp: represents_def)
  qed
  then show ?thesis using assms by (auto simp: represents_def)
qed

lemma represents_card:
  assumes "represents f ag ts d" "inj f"
  shows "card {k. \<exists>t. ts k = Some t \<and> P t} = card {u. \<exists>t. dir_tasks d u = Some t \<and> P t}"
  unfolding represents_image [OF assms(1)] by (rule card_image) (rule inj_on_subset [OF assms(2)], simp)

lemma represents_dom:
  assumes "represents f ag ts d" "inj f"
  shows "card (dom ts) = card (dom (dir_tasks d))"
  using represents_card [OF assms, of "\<lambda>_. True"] by (simp add: dom_def)

lemma represents_ran:
  assumes "represents f ag ts d"
  shows "ran ts = ran (dir_tasks d)"
proof (intro equalityI subsetI)
  fix t assume "t \<in> ran ts"
  then obtain k where k: "ts k = Some t" by (auto simp: ran_def)
  then obtain u where "k = f u" using assms by (auto simp: represents_def)
  then have "dir_tasks d u = Some t" using assms k by (simp add: represents_def)
  then show "t \<in> ran (dir_tasks d)" by (rule ranI)
next
  fix t assume "t \<in> ran (dir_tasks d)"
  then obtain u where "dir_tasks d u = Some t" by (auto simp: ran_def)
  then have "ts (f u) = Some t" using assms by (simp add: represents_def)
  then show "t \<in> ran ts" by (rule ranI)
qed

lemma represents_put:
  assumes "represents f ag ts d" "inj f"
  shows "represents f ag (ts(f u \<mapsto> t)) (d\<lparr>dir_tasks := (dir_tasks d)(u \<mapsto> t)\<rparr>)"
  using assms by (auto simp: represents_def inj_eq)

section \<open>A backend implements the service\<close>

lemma task_budget:
  assumes "json_ok L" "submitted L v sub = Ok t"
  shows "(\<exists>j. task_payload L h (task_to_view t) = Some j) \<longleftrightarrow> unat (sub_max_budget sub) < 2 ^ 64"
proof -
  have "tv_max_budget (task_to_view t) = sub_max_budget sub"
    using assms(2)
    by (auto simp: submitted_def task_from_submission_def and_then_Ok_iff task_to_view_def
        build_core_task_def split: if_splits)
  then show ?thesis by (simp add: task_payload_Some_iff [OF assms(1)])
qed

locale directory_backend = backend S ok healthy inv key agent_of task_of bids_of results_of
    storable_name storable bid_free K libs_of bid_known
  for S :: "'x \<Rightarrow> ('s, 'e) storage_ops"
    and ok :: "'x \<Rightarrow> bool"
    and healthy :: "'e \<Rightarrow> bool"
    and inv :: "'x \<Rightarrow> 's \<Rightarrow> bool"
    and key :: "'x \<Rightarrow> string \<Rightarrow> 'k option"
    and agent_of :: "'s \<Rightarrow> string \<Rightarrow> agent_registration option"
    and task_of :: "'x \<Rightarrow> 's \<Rightarrow> 'k \<Rightarrow> stored_task option"
    and bids_of :: "'x \<Rightarrow> 's \<Rightarrow> 'k \<Rightarrow> stored_bid multiset"
    and results_of :: "'x \<Rightarrow> 's \<Rightarrow> 'k \<Rightarrow> stored_result set"
    and storable_name :: "'x \<Rightarrow> string \<Rightarrow> bool"
    and storable :: "'x \<Rightarrow> stored_task \<Rightarrow> bool"
    and bid_free :: "'x \<Rightarrow> 's \<Rightarrow> stored_bid \<Rightarrow> bool"
    and K :: "'x \<Rightarrow> ('s, 'e) sink_ops"
    and libs_of :: "'x \<Rightarrow> 'j libs"
    and bid_known :: "'x \<Rightarrow> 's \<Rightarrow> string \<Rightarrow> bool" +
  fixes slot :: "'x \<Rightarrow> uuid \<Rightarrow> 'k"
  assumes slot_key: "ok x \<Longrightarrow> key x (uuid_to_string (libs_of x) u) = Some (slot x u)"
    and slot_inj: "ok x \<Longrightarrow> uuid_ok (libs_of x) \<Longrightarrow> inj (slot x)"
begin

lemma register_refines:
  assumes "ok x" "inv x s" "as_storage A = S x" "as_sink A = K x" "healthy (cl_env c 0)"
    "storable_name x (ar_id a)" "storable_name x (ar_label a)"
    "\<not> is_blank (ar_id a)" "\<not> is_blank (ar_label a)"
    "register_agent A c a s = (r, s')"
  shows "result_map rc_data r = Ok a"
proof -
  obtain s1 where "op_register_agent (S x) (cl_env c 0) a s = Ok s1"
    using register_agent_total [OF assms(1,5,2,6,7)] by blast
  then show ?thesis
    using assms(3,8,9,10)
    by (auto simp: register_agent_def store_then_def with_correlation_def result_map_def)
qed

lemma submit_refines:
  assumes "ok x" "inv x s" "as_storage A = S x" "as_sink A = K x" "as_libs A = libs_of x"
    "healthy (env 0)" "represents (slot x) (agent_of s) (task_of x s) d"
    "submitted (libs_of x) v sub = Ok t" "storable x t" "dir_tasks d (vi_uuid v 1) = None"
    "submit_task A (call_of v env) sub s = (r, s')" "json_ok (libs_of x)" "uuid_ok (libs_of x)"
  shows "map_run (result_map rc_data) r =
      (if unat (sub_max_budget sub) < 2 ^ 64 then Return (Ok (task_to_view t)) else Panic)
    \<and> inv x s'
    \<and> represents (slot x) (agent_of s') (task_of x s')
        (d\<lparr>dir_tasks := (dir_tasks d)(vi_uuid v 1 \<mapsto> t)\<rparr>)"
proof -
  let ?c = "call_of v env"
  have c: "cl_uuid ?c = vi_uuid v" "cl_clock ?c = vi_clock v" "cl_env ?c = env"
    by (simp_all add: call_of_def)
  have t: "task_from_submission (as_libs A) (cl_uuid ?c 0) (cl_uuid ?c 1) (now_of ?c) sub = Ok t"
    using assms(5,8) c by (simp add: submitted_def)
  have id: "st_id t = uuid_to_string (libs_of x) (vi_uuid v 1)"
    using assms(8) by (auto simp: submitted_def task_from_submission_def and_then_Ok_iff split: if_splits)
  have key: "key x (st_id t) = Some (slot x (vi_uuid v 1))"
    using slot_key [OF assms(1)] id by simp
  have none: "task_of x s (slot x (vi_uuid v 1)) = None"
    using assms(7,10) by (simp add: represents_def)
  obtain s1 where ins: "op_insert_task (S x) (env 0) t s = Ok s1"
    using insert_task_total [OF assms(1,6,2,9)] by blast
  have s1: "inv x s1 \<and> task_of x s1 = (task_of x s)(slot x (vi_uuid v 1) \<mapsto> t)
      \<and> agent_of s1 = agent_of s"
    using insert_task [OF assms(1,2) ins key none] by blast
  let ?p = "task_payload (libs_of x) (spec_hash_of (libs_of x) t) (task_to_view t)"
  have fits: "(\<exists>j. ?p = Some j) \<longleftrightarrow> unat (sub_max_budget sub) < 2 ^ 64"
    by (rule task_budget [OF assms(12,8)])
  have reply: "map_run (result_map rc_data) r =
      (if unat (sub_max_budget sub) < 2 ^ 64 then Return (Ok (task_to_view t)) else Panic)"
    and kept: "inv x s' \<and> task_of x s' = task_of x s1 \<and> agent_of s' = agent_of s1"
  proof -
    have "r = (case ?p of None \<Rightarrow> Panic
        | Some j \<Rightarrow> Return (Ok \<lparr>rc_correlation_id = fst (enqueue A (env 1) (fresh_id A ?c 2)
            ''TaskMarket'' ''create_task'' (json_to_string (libs_of x) j) s1), rc_data = task_to_view t\<rparr>))
      \<and> (s' = s1 \<or> (\<exists>j co. enqueue A (env 1) (fresh_id A ?c 2) ''TaskMarket'' ''create_task''
            (json_to_string (libs_of x) j) s1 = (co, s')))"
      using assms(3,5,11) t ins c
      by (cases ?p) (auto simp: submit_task_def Let_def spec_hash_of_def split: prod.splits)
    then show "map_run (result_map rc_data) r =
        (if unat (sub_max_budget sub) < 2 ^ 64 then Return (Ok (task_to_view t)) else Panic)"
      "inv x s' \<and> task_of x s' = task_of x s1 \<and> agent_of s' = agent_of s1"
      using fits s1 enqueue_frame [OF _ assms(4)]
      by (auto simp: result_map_def kept_def split: option.splits)
  qed
  show ?thesis
    using reply kept s1 represents_put [OF assms(7) slot_inj [OF assms(1,13)]] by simp
qed

text \<open>One request: the reply of the service, and the store represents what it should.\<close>

lemma answer_refines:
  assumes "ok x" "inv x s" "as_storage A = S x" "as_sink A = K x" "as_libs A = libs_of x"
    "\<forall>n. healthy (env n)" "represents (slot x) (agent_of s) (task_of x s) d"
    "admitted (storable_name x) (storable x) (libs_of x) v d"
    "answer A env v s = (r, s')" "json_ok (libs_of x)" "uuid_ok (libs_of x)"
  shows "r = fst (dir_answer (libs_of x) v d) \<and> inv x s'
    \<and> represents (slot x) (agent_of s') (task_of x s') (snd (dir_answer (libs_of x) v d))"
proof -
  have h: "healthy (cl_env (call_of v env) 0)" using assms(6) by (simp add: call_of_def)
  have ag: "agent_of s = dir_agents d" and ts: "\<And>u. task_of x s (slot x u) = dir_tasks d u"
    using assms(7) by (simp_all add: represents_def)
  show ?thesis
  proof (cases "vi_request v")
    case (Register a)
    show ?thesis
    proof (cases "is_blank (ar_id a) \<or> is_blank (ar_label a)")
      case True
      then show ?thesis
        using Register assms(2,7,9)
        by (auto simp: answer_def dir_answer_def Let_def register_agent_def result_map_def split: if_splits)
    next
      case False
      obtain q where q: "register_agent A (call_of v env) a s = (q, s')" "r = AgentReply (result_map rc_data q)"
        using Register assms(9) by (auto simp: answer_def Let_def split: prod.splits)
      have ok: "result_map rc_data q = Ok a"
        by (rule register_refines [OF assms(1-4) h _ _ _ _ q(1)])
          (use Register assms(8) False in \<open>auto simp: admitted_def\<close>)
      then have "inv x s' \<and> task_of x s' = task_of x s \<and> agent_of s' = (agent_of s)(ar_id a \<mapsto> a)"
        using register_agent_spec [OF assms(1-4) q(1)] by (auto simp: result_map_def split: sum.splits)
      then show ?thesis
        using ok q(2) Register False assms(7) by (auto simp: dir_answer_def represents_def)
    qed
  next
    case (Submit sub)
    obtain q where q: "submit_task A (call_of v env) sub s = (q, s')"
        "r = TaskReply (map_run (result_map rc_data) q)"
      using Submit assms(9) by (auto simp: answer_def Let_def split: prod.splits)
    show ?thesis
    proof (cases "submitted (libs_of x) v sub")
      case (Inl e)
      then show ?thesis
        using Submit q assms(2,5,7)
        by (auto simp: dir_answer_def submitted_def submit_task_def call_of_def result_map_def)
    next
      case (Inr t)
      then have t: "storable x t" "dir_tasks d (vi_uuid v 1) = None"
        using Submit assms(8) by (simp_all add: admitted_def)
      have "healthy (env 0)" using assms(6) by simp
      from submit_refines [OF assms(1-5) this assms(7) Inr t q(1) assms(10,11)]
      show ?thesis using Submit Inr q(2) by (simp add: dir_answer_def)
    qed
  next
    case (LookupAgent i)
    then have "get_agent A (call_of v env) i s = ok_or (agent_not_found i) (dir_agents d i)"
      using get_agent [OF assms(1) h assms(2)] assms(3,8) ag by (simp add: get_agent_def admitted_def)
    then show ?thesis
      using LookupAgent assms(2,7,9) by (auto simp: answer_def dir_answer_def Let_def)
  next
    case (LookupTask u)
    let ?i = "uuid_to_string (libs_of x) u"
    have "get_task A (call_of v env) ?i s
        = ok_or (task_not_found ?i) (map_option task_to_view (dir_tasks d u))"
      using get_task [OF assms(1) h assms(2) slot_key [OF assms(1)]] assms(3) ts
      by (cases "dir_tasks d u") (simp_all add: get_task_def result_map_def)
    then show ?thesis
      using LookupTask assms(2,5,7,9) by (auto simp: answer_def dir_answer_def Let_def)
  next
    case AllTasks
    obtain ls where "op_list_tasks (S x) (cl_env (call_of v env) 0) s = Ok ls"
        "set ls = ran (task_of x s)"
      using list_tasks [OF assms(1) h assms(2)] by blast
    then have "result_map set (list_tasks A (call_of v env) s) = Ok (task_to_view ` ran (dir_tasks d))"
      using assms(3) represents_ran [OF assms(7)] by (simp add: list_tasks_def result_map_def)
    then show ?thesis
      using AllTasks assms(2,7,9) by (auto simp: answer_def dir_answer_def Let_def)
  next
    case Counts
    note inj = slot_inj [OF assms(1,11)]
    have "get_dashboard A (call_of v env) s = Ok
        \<lparr>dv_total_agents = card (dom (dir_agents d)), dv_total_tasks = card (dom (dir_tasks d)),
         dv_completed_tasks = card {u. \<exists>t. dir_tasks d u = Some t \<and> st_status t = Completed},
         dv_pending_tasks = card {u. \<exists>t. dir_tasks d u = Some t \<and> st_status t = Pending}\<rparr>"
      using dashboard [OF assms(1) h assms(2)] assms(3) ag represents_dom [OF assms(7) inj]
        represents_card [OF assms(7) inj, of "\<lambda>t. st_status t = Completed"]
        represents_card [OF assms(7) inj, of "\<lambda>t. st_status t = Pending"]
      by (simp add: get_dashboard_def result_map_def)
    then show ?thesis
      using Counts assms(2,7,9) by (auto simp: answer_def dir_answer_def Let_def)
  qed
qed

lemma answers_refine:
  assumes "ok x" "as_storage A = S x" "as_sink A = K x" "as_libs A = libs_of x"
    "\<forall>m n. healthy (env m n)" "inv x s" "represents (slot x) (agent_of s) (task_of x s) d"
    "all_admitted (storable_name x) (storable x) (libs_of x) vs d"
    "json_ok (libs_of x)" "uuid_ok (libs_of x)"
  shows "answers A env vs s = dir_answers (libs_of x) vs d"
  using assms(5-8)
proof (induction vs arbitrary: env s d)
  case (Cons v vs)
  obtain r s' where r: "answer A (env 0) v s = (r, s')" by fastforce
  have adm: "admitted (storable_name x) (storable x) (libs_of x) v d"
    "all_admitted (storable_name x) (storable x) (libs_of x) vs (snd (dir_answer (libs_of x) v d))"
    using Cons.prems(4) by simp_all
  have "\<forall>n. healthy (env 0 n)" using Cons.prems(1) by blast
  note step = answer_refines [OF assms(1) Cons.prems(2) assms(2-4) this Cons.prems(3) adm(1) r assms(9,10)]
  have "answers A (\<lambda>n. env (Suc n)) vs s' = dir_answers (libs_of x) vs (snd (dir_answer (libs_of x) v d))"
    by (rule Cons.IH) (use Cons.prems(1) step adm(2) in blast)+
  then show ?case using r step by (simp add: prod.case_eq_if)
qed simp

end

end
