(* ===== verification/Directory_Props.thy ===== *)
theory Directory_Props
  imports Directory Ref_App
begin

text \<open>
  Both applications implement the abstract service of \<open>Directory\<close>, so they agree with each other.
\<close>

section \<open>Both backends are directories\<close>



interpretation pgd: directory_backend pg_ops pg_ok pg_healthy pg_inv pg_key pg_agent_of pg_task_of
  pg_bids_of pg_results_of "\<lambda>_. pg_text" pg_storable_task pg_bid_free pg_sink pg_libs pg_bid_known
  "\<lambda>_ u. u"
  by unfold_locales (auto simp: pg_ok_def uuid_ok_def pg_key_def)


lemma pg_represents_empty: "represents (\<lambda>u. u) (pg_agent_of pg_empty) (pg_task_of x pg_empty) dir_empty"
  by (simp add: represents_def pg_empty_def dir_empty_def pg_agent_of_def pg_task_of_def fun_eq_iff)

section \<open>An example\<close>

definition demo_visit :: "client_request \<Rightarrow> visit" where
  "demo_visit r = \<lparr>vi_request = r, vi_uuid = (\<lambda>n. of_nat (Suc n)), vi_clock = 100\<rparr>"

definition demo_visits :: "visit list" where
  "demo_visits = map demo_visit [Submit demo_submission, LookupTask 2, LookupTask 7]"

lemma demo_submitted_visit: "submitted ref_libs (demo_visit (Submit demo_submission)) demo_submission = Ok (demo_task 1 2)"
  using demo_task_built [of 1 2]
  by (simp add: submitted_def demo_visit_def current_unix_timestamp_def numeral_2_eq_2 del: ref_libs_simps)

lemma demo_admitted: "all_admitted pg_text (pg_storable_task ref_pg) ref_libs demo_visits dir_empty"
  using demo_storable [of 1 2] demo_submitted_visit
  by (simp add: demo_visits_def admitted_def dir_empty_def demo_visit_def)

lemma demo_dir_answers:
  "dir_answers ref_libs demo_visits dir_empty =
     [TaskReply (Return (Ok (task_to_view (demo_task 1 2)))),
      TaskReply (Return (Ok (task_to_view (demo_task 1 2)))),
      TaskReply (Return (Err (task_not_found (uuid_to_string ref_libs 7))))]"
proof -
  have "sub_max_budget demo_submission = 500" by (simp add: demo_submission_def)
  then show ?thesis
    using demo_submitted_visit
    by (simp add: demo_visits_def dir_answer_def dir_empty_def demo_visit_def del: ref_libs_simps)
qed

section \<open>Refinement and agreement\<close>

text \<open>C6: The orchestrator over Postgres refines the abstract directory of agents and tasks: from any
  database that represents a directory, as long as the database answers, every run of registrations,
  submissions, lookups, listings and counts that Postgres can store gets exactly the replies of the
  directory.\<close>

theorem pg_refines_directory:
  assumes "pg_ok x" "json_ok (pg_libs x)" "\<forall>m n. pg_healthy (env m n)" "pg_inv x s"
    "represents (\<lambda>u. u) (pg_agent_of s) (pg_task_of x s) d"
    "all_admitted pg_text (pg_storable_task x) (pg_libs x) vs d"
  shows "answers (pg_app x en) env vs s = dir_answers (pg_libs x) vs d"
  by (rule pgd.answers_refine [OF assms(1) _ _ _ assms(3-6,2)])
    (use assms(1) in \<open>simp_all add: pg_ok_def\<close>)

theorem pg_refines_directory_witness:
  "answers demo_app (\<lambda>_ _. calm 100) demo_visits pg_empty =
     [TaskReply (Return (Ok (task_to_view (demo_task 1 2)))),
      TaskReply (Return (Ok (task_to_view (demo_task 1 2)))),
      TaskReply (Return (Err (task_not_found (uuid_to_string ref_libs 7))))]"
  using pg_refines_directory [OF ref_pg_ok, of "\<lambda>_ _. calm 100" pg_empty dir_empty demo_visits demo_engine]
    demo_admitted ref_json_ok demo_dir_answers
  by (simp add: pg_inv_empty pg_represents_empty del: ref_libs_simps)



end
