(* ===== verification/Server.thy ===== *)
theory Server
  imports Startup Handler_Payloads
begin

text \<open>
  The HTTP surface of src/orchestrator/api/src/main.rs as one function: the body limit, the route
  table, the extractors of the handlers, the handlers, and \<open>IntoResponse\<close> for their results. The
  extractors themselves (\<open>Json\<close>, \<open>Query\<close>) are axum's and serde's: the record \<open>extractors\<close> of
  functions, each of which gives a value or the status of its rejection. A reply is its status and
  its content before serialization.
\<close>

section \<open>Requests and responses\<close>

record 'j extractors =
  ex_registration :: "bytes \<Rightarrow> nat + agent_registration"
  ex_task :: "bytes \<Rightarrow> nat + task_submission"
  ex_bid :: "bytes \<Rightarrow> nat + bid_submission"
  ex_result :: "bytes \<Rightarrow> nat + result_submission"
  ex_value :: "bytes \<Rightarrow> nat + 'j"
  ex_outbound :: "bytes \<Rightarrow> nat + 'j outbound_request"
  ex_outbox_query :: "string \<Rightarrow> nat + outbox_query"

text \<open>The documented rejections: malformed, wrong media type, wrong shape, body too large.\<close>

definition rejection_status :: "nat set" where
  "rejection_status = {400, 413, 415, 422}"

definition extractors_ok :: "'j extractors \<Rightarrow> bool" where
  "extractors_ok X =
     ((\<forall>b e. ex_registration X b = Err e \<longrightarrow> e \<in> rejection_status)
      \<and> (\<forall>b e. ex_task X b = Err e \<longrightarrow> e \<in> rejection_status)
      \<and> (\<forall>b e. ex_bid X b = Err e \<longrightarrow> e \<in> rejection_status)
      \<and> (\<forall>b e. ex_result X b = Err e \<longrightarrow> e \<in> rejection_status)
      \<and> (\<forall>b e. ex_value X b = Err e \<longrightarrow> e \<in> rejection_status)
      \<and> (\<forall>b e. ex_outbound X b = Err e \<longrightarrow> e \<in> rejection_status)
      \<and> (\<forall>q e. ex_outbox_query X q = Err e \<longrightarrow> e \<in> rejection_status))"

record http_request =
  rq_method :: http_method
  rq_path :: "string list" \<comment> \<open>the segments, percent-decoded\<close>
  rq_query :: string
  rq_body :: bytes

datatype 'j content =
    Rejected
  | ErrorBody string string \<comment> \<open>category, message\<close>
  | HealthText string
  | DashboardBody dashboard_view
  | SyncBody sync_status_view
  | AgentsBody "agent_registration list"
  | AgentBody agent_registration
  | RegisteredBody "agent_registration response_with_correlation"
  | TasksBody "task_view list"
  | TaskBody task_view
  | SubmittedBody "task_view response_with_correlation"
  | BidBody "bid_view response_with_correlation"
  | BidsBody "bid_view list"
  | ResultBody "result_view response_with_correlation"
  | OneResultBody result_view
  | FaucetBody "'j response_with_correlation"
  | EnqueuedBody outbox_enqueue_response
  | OutboxBody "outbox_status_view list"
  | OutboxStatusBody outbox_status_view

type_synonym 'j response = "nat \<times> 'j content"

text \<open>\<open>Result<Json<_>, ApiError>\<close> as a response.\<close>

definition respond :: "('a \<Rightarrow> 'j content) \<Rightarrow> api_error + 'a \<Rightarrow> 'j response" where
  "respond f r =
     (case r of
        Inr v \<Rightarrow> (200, f v)
      | Inl err \<Rightarrow> (let (status, category, message) = into_response err
                   in (status, ErrorBody category message)))"

text \<open>A reading handler; a writing one; an extractor before a handler.\<close>

definition reading ::
    "('a \<Rightarrow> 'j content) \<Rightarrow> api_error + 'a \<Rightarrow> 's \<Rightarrow> 'j response option \<times> 's" where
  "reading f r s = (Some (respond f r), s)"

definition writing :: "('a \<Rightarrow> 'j content) \<Rightarrow> ('a, 's) reply \<Rightarrow> 'j response option \<times> 's" where
  "writing f rs = (Some (respond f (fst rs)), snd rs)"

definition extracted ::
    "nat + 'b \<Rightarrow> 's \<Rightarrow> ('b \<Rightarrow> 'j response option \<times> 's) \<Rightarrow> 'j response option \<times> 's" where
  "extracted x s k = (case x of Inl status \<Rightarrow> (Some (status, Rejected), s) | Inr v \<Rightarrow> k v)"

section \<open>The handlers behind the routes\<close>

text \<open>The \<open>Path\<close> extractor: the parameter of the route.\<close>

definition path_id ::
    "string list \<Rightarrow> 's \<Rightarrow> (string \<Rightarrow> 'j response option \<times> 's) \<Rightarrow> 'j response option \<times> 's" where
  "path_id vs s k = (case vs of [] \<Rightarrow> (Some (500, Rejected), s) | i # _ \<Rightarrow> k i)"

text \<open>A handler that panics drops the connection: no response.\<close>

definition submit_response ::
    "(api_error + task_view response_with_correlation) run \<times> 's \<Rightarrow> 'j response option \<times> 's" where
  "submit_response rs =
     (case rs of
        (Panic, s') \<Rightarrow> (None, s')
      | (Return r, s') \<Rightarrow> (Some (respond SubmittedBody r), s'))"

definition dispatch ::
    "'j extractors \<Rightarrow> ('j, 's, 'e) app_state \<Rightarrow> 'e call \<Rightarrow> http_request \<Rightarrow> endpoint \<Rightarrow> string list
     \<Rightarrow> 's \<Rightarrow> 'j response option \<times> 's" where
  "dispatch X A c req h vs s =
     (let body = rq_body req in
      case h of
        Health \<Rightarrow> (Some (200, HealthText health), s)
      | Dashboard \<Rightarrow> reading DashboardBody (get_dashboard A c s) s
      | SyncStatus \<Rightarrow> reading SyncBody (get_sync_status A c s) s
      | ListAgents \<Rightarrow> reading AgentsBody (list_agents A c s) s
      | RegisterAgent \<Rightarrow>
          extracted (ex_registration X body) s (\<lambda>a. writing RegisteredBody (register_agent A c a s))
      | GetAgent \<Rightarrow> path_id vs s (\<lambda>i. reading AgentBody (get_agent A c i s) s)
      | ListTasks \<Rightarrow> reading TasksBody (list_tasks A c s) s
      | SubmitTask \<Rightarrow>
          extracted (ex_task X body) s (\<lambda>sub. submit_response (submit_task A c sub s))
      | GetTask \<Rightarrow> path_id vs s (\<lambda>i. reading TaskBody (get_task A c i s) s)
      | SubmitBid \<Rightarrow> extracted (ex_bid X body) s (\<lambda>sub. writing BidBody (submit_bid A c sub s))
      | GetBids \<Rightarrow> path_id vs s (\<lambda>i. reading BidsBody (get_bids_for_task A c i s) s)
      | SubmitResult \<Rightarrow>
          extracted (ex_result X body) s (\<lambda>sub. writing ResultBody (submit_result A c sub s))
      | GetResult \<Rightarrow> path_id vs s (\<lambda>i. reading OneResultBody (get_task_result A c i s) s)
      | ExecuteLocal \<Rightarrow> path_id vs s (\<lambda>i. writing OneResultBody (execute_task_local A c i s))
      | Faucet \<Rightarrow> extracted (ex_value X body) s (\<lambda>v. writing FaucetBody (request_faucet A c v s))
      | EnqueueOutbox \<Rightarrow>
          extracted (ex_outbound X body) s (\<lambda>r. writing EnqueuedBody (enqueue_outbox A c r s))
      | ListOutbox \<Rightarrow>
          extracted (ex_outbox_query X (rq_query req)) s
            (\<lambda>q. reading OutboxBody (list_outbox A c q s) s)
      | OutboxStatus \<Rightarrow> path_id vs s (\<lambda>i. reading OutboxStatusBody (get_outbox_status A c i s) s))"

text \<open>
  The body limit comes first; a path that no route matches is 404, one that only the other method
  matches is 405.
\<close>

definition serve ::
    "'j extractors \<Rightarrow> ('j, 's, 'e) app_state \<Rightarrow> 'e call \<Rightarrow> http_request \<Rightarrow> 's
     \<Rightarrow> 'j response option \<times> 's" where
  "serve X A c req s =
     (if REQ_BODY_LIMIT_BYTES < length (rq_body req) then (Some (413, Rejected), s)
      else case handlers_for (rq_method req) (rq_path req) of
             (h, vs) # _ \<Rightarrow> dispatch X A c req h vs s
           | [] \<Rightarrow>
               (Some (if handlers_for GET (rq_path req) = [] \<and> handlers_for POST (rq_path req) = []
                      then 404 else 405, Rejected), s))"

section \<open>What a served request does\<close>

definition writes :: "endpoint \<Rightarrow> bool" where
  "writes h =
     (h \<in> {RegisterAgent, SubmitTask, SubmitBid, SubmitResult, ExecuteLocal, Faucet, EnqueueOutbox})"

lemma handlers_method:
  assumes "(h, vs) \<in> set (handlers_for m path)"
  shows "writes h \<longleftrightarrow> m = POST"
proof -
  have "list_all (\<lambda>(m, pat, h). writes h \<longleftrightarrow> m = POST) routes" by code_simp
  then show ?thesis
    using assms by (auto simp: handlers_for_def List.map_filter_def list_all_iff split: if_splits)
qed

lemma served_unwritten:
  assumes "dispatch X A c req h vs s = (r, s')" "\<not> writes h"
  shows "s' = s"
  using assms
  by (cases h) (auto simp: dispatch_def Let_def writes_def reading_def extracted_def path_id_def
      split: sum.splits list.splits)

lemma served_step:
  assumes "dispatch X A c req h vs s = (r, s')" "\<forall>n. fresh s (fresh_id A c n)"
  shows "s' = s \<or> app_step A fresh s s'"
proof (cases h)
  case RegisterAgent
  then show ?thesis
    using assms by (auto simp: dispatch_def writing_def extracted_def split: sum.splits
        intro: Step_Register [OF surjective_pairing])
next
  case SubmitTask
  then show ?thesis
    using assms by (auto simp: dispatch_def submit_response_def extracted_def
        split: sum.splits prod.splits run.splits intro: Step_Task)
next
  case SubmitBid
  then show ?thesis
    using assms by (auto simp: dispatch_def writing_def extracted_def split: sum.splits
        intro: Step_Bid [OF surjective_pairing])
next
  case SubmitResult
  then show ?thesis
    using assms by (auto simp: dispatch_def writing_def extracted_def split: sum.splits
        intro: Step_Result [OF surjective_pairing])
next
  case ExecuteLocal
  then show ?thesis
    using assms by (auto simp: dispatch_def writing_def path_id_def split: list.splits
        intro: Step_Execute [OF surjective_pairing])
next
  case Faucet
  then show ?thesis
    using assms by (auto simp: dispatch_def writing_def extracted_def split: sum.splits
        intro: Step_Faucet [OF surjective_pairing])
next
  case EnqueueOutbox
  then show ?thesis
    using assms by (auto simp: dispatch_def writing_def extracted_def split: sum.splits
        intro: Step_Enqueue [OF surjective_pairing])
qed (use served_unwritten [OF assms(1)] in \<open>simp_all add: writes_def\<close>)

lemma serve_cases:
  assumes "serve X A c req s = (r, s')"
  obtains (refused) st where "r = Some (st, Rejected)" "s' = s" "st \<in> {404, 405, 413}"
    | (routed) h vs where "(h, vs) \<in> set (handlers_for (rq_method req) (rq_path req))"
        "dispatch X A c req h vs s = (r, s')"
  using assms by (auto simp: serve_def split: if_splits list.splits)

lemma serve_step:
  assumes "serve X A c req s = (r, s')" "\<forall>n. fresh s (fresh_id A c n)"
  shows "s' = s \<or> rq_method req = POST \<and> app_step A fresh s s'"
  using assms(1)
proof (cases rule: serve_cases)
  case (routed h vs)
  then show ?thesis
    using served_step [where fresh = fresh, OF routed(2) assms(2)] served_unwritten [OF routed(2)]
      handlers_method [OF routed(1)] by blast
qed simp

text \<open>Statuses, and when there is no response.\<close>

lemma respond_status:
  assumes "respond f r = (st, b)"
  shows "st \<in> {200, 404, 500} \<union> rejection_status"
proof (cases r)
  case (Inl err)
  then show ?thesis using assms by (cases err) (auto simp: respond_def rejection_status_def)
qed (use assms in \<open>simp add: respond_def\<close>)

lemma served_status:
  assumes "dispatch X A c req h vs s = (Some (st, b), s')" "extractors_ok X"
  shows "st \<in> {200, 404, 500} \<union> rejection_status"
  using assms
  by (cases h) (auto simp: dispatch_def Let_def reading_def writing_def extracted_def path_id_def
      submit_response_def extractors_ok_def split: sum.splits list.splits prod.splits run.splits
      dest!: respond_status)

text \<open>Only the submission of a task can leave a request without a response.\<close>

lemma unanswered:
  assumes "dispatch X A c req h vs s = (None, s')"
  shows "h = SubmitTask
    \<and> (\<exists>sub. ex_task X (rq_body req) = Ok sub \<and> submit_task A c sub s = (Panic, s'))"
  using assms
  by (cases h) (auto simp: dispatch_def Let_def reading_def writing_def extracted_def path_id_def
      submit_response_def split: sum.splits list.splits prod.splits run.splits)

lemma submit_panics:
  assumes "json_ok (as_libs A)" "submit_task A c sub s = (Panic, s')"
  shows "2 ^ 64 \<le> unat (sub_max_budget sub)"
  using assms(2)
proof (cases rule: submit_task_cases)
  case (panicked t)
  have "tv_max_budget (task_to_view t) = sub_max_budget sub"
    using panicked(1)
    by (auto simp: task_from_submission_def and_then_Ok_iff task_to_view_def build_core_task_def
        split: if_splits)
  then show ?thesis
    using panicked(3) task_payload_Some_iff [OF assms(1), of "spec_hash_of (as_libs A) t" "task_to_view t"]
    by (simp add: not_less)
qed simp_all

end
