(* ===== verification/Server_Props.thy ===== *)
theory Server_Props
  imports Server Ref_App
begin

text \<open>
  The HTTP surface over the system of \<open>System\<close>: whatever is sent to the server is one of its steps.
\<close>

lemma submit_route:
  assumes "(SubmitTask, vs) \<in> set (handlers_for m path)"
  shows "m = POST \<and> path = [''v1'', ''tasks'']"
proof -
  have "list_all (\<lambda>(m, pat, h). h = SubmitTask \<longrightarrow> m = POST \<and> pat = [Lit ''v1'', Lit ''tasks'']) routes"
    by code_simp
  then obtain pat where "m = POST" "pat = [Lit ''v1'', Lit ''tasks'']" "match_path pat path = Some vs"
    using assms by (force simp: handlers_for_def List.map_filter_def list_all_iff split: if_splits)
  then show ?thesis
    by (cases path; cases "tl path"; cases "tl (tl path)") (auto split: if_splits)
qed

text \<open>C4: The server is safe against any HTTP request: from a reachable database of the orchestrator
  over Postgres, whatever the method, path, query and body, the database stays reachable, so every
  invariant of the system holds; a GET changes nothing; the status is one of the documented ones; and
  a request gets no response only when it submits a task with a budget beyond 64 bits.\<close>

theorem served_requests_safe:
  assumes "pg_ok x" "json_ok (pg_libs x)" "extractors_ok X" "sys_reach x en s"
    "\<forall>n. pg_fresh x s (fresh_id (pg_app x en) c n)"
    "serve X (pg_app x en) c req s = (r, s')"
  shows "sys_reach x en s' \<and> (rq_method req = GET \<longrightarrow> s' = s)
    \<and> (case r of
         Some (st, b) \<Rightarrow> st \<in> {200, 400, 404, 405, 413, 415, 422, 500}
       | None \<Rightarrow> rq_method req = POST \<and> rq_path req = [''v1'', ''tasks'']
           \<and> (\<exists>sub. ex_task X (rq_body req) = Ok sub \<and> 2 ^ 64 \<le> unat (sub_max_budget sub)))"
proof -
  note step = serve_step [where fresh = "pg_fresh x", OF assms(6,5)]
  have reach: "sys_reach x en s'"
    using step assms(4) by (auto intro: sys_next Sys_Request)
  have get: "rq_method req = GET \<longrightarrow> s' = s"
    using step by auto
  show ?thesis
    using assms(6)
  proof (cases rule: serve_cases)
    case (refused st)
    then show ?thesis using reach get by auto
  next
    case (routed h vs)
    show ?thesis
    proof (cases r)
      case None
      from unanswered [OF routed(2) [unfolded None]] obtain sub where
        sub: "h = SubmitTask" "ex_task X (rq_body req) = Ok sub"
          "submit_task (pg_app x en) c sub s = (Panic, s')" by blast
      have "2 ^ 64 \<le> unat (sub_max_budget sub)"
        by (rule submit_panics [OF _ sub(3)]) (use assms(2) in simp)
      then show ?thesis
        using None sub(2) submit_route [OF routed(1) [unfolded sub(1)]] reach by simp
    next
      case (Some sb)
      obtain st b where "sb = (st, b)" by fastforce
      then show ?thesis
        using Some served_status [OF _ assms(3), of "pg_app x en" c req h vs s st b s'] routed(2)
          reach get by (auto simp: rejection_status_def)
    qed
  qed
qed

definition demo_extractors :: "ref_json extractors" where
  "demo_extractors =
     \<lparr>ex_registration = (\<lambda>_. Inl 422), ex_task = (\<lambda>b. if b = [1] then Inr demo_submission else Inl 422),
      ex_bid = (\<lambda>_. Inl 422), ex_result = (\<lambda>_. Inl 422), ex_value = (\<lambda>_. Inl 400),
      ex_outbound = (\<lambda>_. Inl 422), ex_outbox_query = (\<lambda>_. Inl 400)\<rparr>"

definition demo_post :: http_request where
  "demo_post = \<lparr>rq_method = POST, rq_path = [''v1'', ''tasks''], rq_query = [], rq_body = [1]\<rparr>"

lemma demo_posted:
  "\<exists>y. serve demo_extractors demo_app (pg_demo_call 1) demo_post pg_empty
         = (Some (200, SubmittedBody y), demo_submitted)
     \<and> rc_data y = task_to_view (demo_task 1 2)"
proof -
  have "handlers_for POST [''v1'', ''tasks''] = [(SubmitTask, [])]" by code_simp
  then show ?thesis
    using demo_reply
    by (auto simp: serve_def demo_post_def demo_extractors_def dispatch_def Let_def extracted_def
        submit_response_def respond_def REQ_BODY_LIMIT_BYTES_def simp del: ref_libs_simps)
qed

theorem served_requests_safe_witness:
  "\<exists>r s'. serve demo_extractors demo_app (pg_demo_call 1) demo_post pg_empty = (r, s')
     \<and> r \<noteq> None \<and> sys_reach ref_pg demo_engine s' \<and> pg_task_of ref_pg s' 2 = Some (demo_task 1 2)"
proof -
  obtain y where y: "serve demo_extractors demo_app (pg_demo_call 1) demo_post pg_empty
      = (Some (200, SubmittedBody y), demo_submitted)"
    using demo_posted by blast
  have "extractors_ok demo_extractors"
    by (auto simp: extractors_ok_def demo_extractors_def rejection_status_def)
  then have "sys_reach ref_pg demo_engine demo_submitted"
    using served_requests_safe [OF ref_pg_ok _ _ sys_init _ y] ref_json_ok
    by (simp add: empty_fresh del: ref_libs_simps)
  then show ?thesis using y demo_stored by blast
qed

end
