(* ===== verification/Core_Traits.thy ===== *)
theory Core_Traits
  imports Complex_Main Core_Types
begin

text \<open>
  The remaining declarations of the crate \<open>ainur-core\<close>: the data types and the traits of
  src/crates/ainur-core/src/traits.rs, and the remaining constants of constants.rs. The repository
  implements none of the traits, so each is the record of its operations over a state \<open>'s\<close>: a
  method with \<open>&self\<close> reads it, one with \<open>&mut self\<close> returns it updated.
\<close>

section \<open>Floating point numbers\<close>

text \<open>
  An \<open>f64\<close> is its binary64 bit pattern: sign, 11 bits of exponent, 52 bits of fraction. The
  constants are written as the patterns of their literals; \<open>f64_nearest\<close> says that no other number
  of the same exponent is closer to the literal.
\<close>

type_synonym f64 = "64 word"

definition f64_exponent :: "f64 \<Rightarrow> nat" where
  "f64_exponent w = unat (w div 2 ^ 52 mod 2 ^ 11)"

definition f64_fraction :: "f64 \<Rightarrow> nat" where
  "f64_fraction w = unat (w mod 2 ^ 52)"

definition f64_ulp :: "f64 \<Rightarrow> rat" where
  "f64_ulp w = 2 powi (int (max 1 (f64_exponent w)) - 1075)"

definition f64_value :: "f64 \<Rightarrow> rat" where
  "f64_value w =
     (if w < 2 ^ 63 then 1 else - 1)
     * of_nat (f64_fraction w + (if f64_exponent w = 0 then 0 else 2 ^ 52)) * f64_ulp w"

definition f64_nearest :: "rat \<Rightarrow> f64 \<Rightarrow> bool" where
  "f64_nearest q w = (f64_exponent w < 2047 \<and> 2 * \<bar>f64_value w - q\<bar> \<le> f64_ulp w)"

type_synonym 'a core_result = "core_error + 'a"

section \<open>Executing, rating and verifying tasks\<close>

record execution_estimate =
  ee_completion_time :: u64
  ee_resource_estimate :: resource_usage
  ee_confidence :: u32

record 's task_executor =
  te_can_execute :: "'s \<Rightarrow> task \<Rightarrow> bool"
  te_estimate :: "'s \<Rightarrow> task \<Rightarrow> execution_estimate core_result"
  te_execute :: "'s \<Rightarrow> task \<Rightarrow> task_result core_result \<times> 's"

record 's reputation_system =
  rs_calculate_reputation :: "'s \<Rightarrow> agent_id \<Rightarrow> u64 \<Rightarrow> reputation core_result"
  rs_update_reputation :: "'s \<Rightarrow> agent_id \<Rightarrow> task_result \<Rightarrow> unit core_result \<times> 's"
  rs_apply_decay :: "'s \<Rightarrow> f64 \<Rightarrow> unit core_result \<times> 's"
  rs_get_top_agents :: "'s \<Rightarrow> domain \<Rightarrow> nat \<Rightarrow> (agent_id \<times> reputation) list core_result"

datatype verification_report =
    SimpleReport bool
  | DetailedReport "string list" bytes string \<comment> \<open>checks performed, evidence, notes\<close>

record verification_result =
  vr_is_valid :: bool
  vr_confidence :: u32
  vr_report :: verification_report

record 's verifier =
  ve_verify :: "'s \<Rightarrow> task \<Rightarrow> task_result \<Rightarrow> verification_result core_result"
  ve_verification_level :: "'s \<Rightarrow> verification_level"

section \<open>Auctions and economics\<close>

record allocation =
  al_task_id :: task_id
  al_agent_id :: agent_id
  al_bid :: bid

record auction_result =
  au_allocations :: "allocation list"
  au_payments :: "(agent_id \<times> u128) list"
  au_social_welfare :: u128

record 's auction_mechanism =
  am_add_bid :: "'s \<Rightarrow> bid \<Rightarrow> unit core_result \<times> 's"
  am_run_auction :: "'s \<Rightarrow> auction_result core_result"
  am_calculate_payments :: "'s \<Rightarrow> allocation \<Rightarrow> payment_schedule core_result"

record performance =
  pf_tasks_completed :: u64
  pf_avg_quality :: f64
  pf_on_time_rate :: f64

datatype violation =
  TaskFailure task_id | FalseInformation string | SLAViolation string | OtherViolation string

datatype transaction_type =
  TaskSubmission | BidPlacement | ResultSubmission | DisputeFiling | ReputationUpdate

record 's economic_mechanism =
  em_calculate_rewards :: "'s \<Rightarrow> performance \<Rightarrow> u128 core_result"
  em_calculate_penalty :: "'s \<Rightarrow> violation \<Rightarrow> u128 core_result"
  em_calculate_fees :: "'s \<Rightarrow> transaction_type \<Rightarrow> u128 core_result"

section \<open>Messages and consensus\<close>

record p2p_message =
  ms_from :: agent_id
  ms_to :: agent_id
  ms_payload :: bytes
  ms_ttl :: u8

datatype peer_id = PeerId bytes

record network_metrics =
  nm_latencies :: "(peer_id \<times> u64) list"
  nm_bandwidth :: "(peer_id \<times> u64) list"
  nm_reliability :: "(peer_id \<times> f64) list"

record 's message_router =
  mr_route_message :: "'s \<Rightarrow> p2p_message \<Rightarrow> unit core_result \<times> 's"
  mr_update_routing :: "'s \<Rightarrow> network_metrics \<Rightarrow> unit core_result \<times> 's"
  mr_get_next_hop :: "'s \<Rightarrow> agent_id \<Rightarrow> peer_id option"

datatype transaction = Transaction bytes

record consensus_block =
  cb_number :: u64
  cb_parent_hash :: bytes
  cb_transactions :: "transaction list"
  cb_state_root :: bytes

record 's consensus_participant =
  cp_propose_block :: "'s \<Rightarrow> transaction list \<Rightarrow> consensus_block core_result"
  cp_validate_block :: "'s \<Rightarrow> consensus_block \<Rightarrow> bool core_result"
  cp_finalize_block :: "'s \<Rightarrow> consensus_block \<Rightarrow> unit core_result \<times> 's"

section \<open>More protocol constants\<close>

definition DEFAULT_P2P_PORT :: "16 word" where "DEFAULT_P2P_PORT = 30333"
definition DEFAULT_RPC_PORT :: "16 word" where "DEFAULT_RPC_PORT = 9933"
definition DEFAULT_WS_PORT :: "16 word" where "DEFAULT_WS_PORT = 9944"
definition PEER_CONNECTION_TIMEOUT :: u64 where "PEER_CONNECTION_TIMEOUT = 30"
definition MAX_OUTPUT_SIZE :: nat where "MAX_OUTPUT_SIZE = 100 * 1024 * 1024"
definition MAX_CONCURRENT_BIDS :: nat where "MAX_CONCURRENT_BIDS = 100"
definition MAX_PROOF_SIZE :: nat where "MAX_PROOF_SIZE = 10 * 1024 * 1024"
definition VERIFICATION_TIMEOUT :: u64 where "VERIFICATION_TIMEOUT = 300"
definition MAX_CPU_TIME_MS :: u64 where "MAX_CPU_TIME_MS = 3600000"
definition MAX_INFLATION_RATE :: f64 where "MAX_INFLATION_RATE = 0x3FA999999999999A" \<comment> \<open>0.05\<close>
definition TRANSACTION_FEE_PERCENT :: f64 where
  "TRANSACTION_FEE_PERCENT = 0x3F50624DD2F1A9FC" \<comment> \<open>0.001\<close>
definition SLASHING_PERCENT :: f64 where "SLASHING_PERCENT = 0x3FB999999999999A" \<comment> \<open>0.10\<close>
definition DAILY_DECAY_RATE :: f64 where "DAILY_DECAY_RATE = 0x3F847AE147AE147B" \<comment> \<open>0.01\<close>
definition UPDATE_WEIGHT :: f64 where "UPDATE_WEIGHT = 0x3FB999999999999A" \<comment> \<open>0.1\<close>
definition BID_DEPOSIT_PERCENT :: f64 where
  "BID_DEPOSIT_PERCENT = 0x3F847AE147AE147B" \<comment> \<open>0.01\<close>
definition PROTOCOL_VERSION :: u32 where "PROTOCOL_VERSION = 1"
definition MIN_SUPPORTED_VERSION :: u32 where "MIN_SUPPORTED_VERSION = 1"
definition PROTOCOL_NAME :: string where "PROTOCOL_NAME = ''ainur''"

text \<open>The ports are distinct, and the protocol supports its own version.\<close>

lemma ports_distinct: "distinct [DEFAULT_P2P_PORT, DEFAULT_RPC_PORT, DEFAULT_WS_PORT]"
  by (simp add: DEFAULT_P2P_PORT_def DEFAULT_RPC_PORT_def DEFAULT_WS_PORT_def)

lemma versions_consistent: "MIN_SUPPORTED_VERSION \<le> PROTOCOL_VERSION"
  by (simp add: MIN_SUPPORTED_VERSION_def PROTOCOL_VERSION_def)

text \<open>The rates are the numbers nearest to their literals.\<close>

lemmas f64_defs = f64_nearest_def f64_value_def f64_ulp_def f64_exponent_def f64_fraction_def

lemma rates_nearest:
  "f64_nearest (5 / 100) MAX_INFLATION_RATE" "f64_nearest (1 / 1000) TRANSACTION_FEE_PERCENT"
  "f64_nearest (10 / 100) SLASHING_PERCENT" "f64_nearest (1 / 100) DAILY_DECAY_RATE"
  "f64_nearest (1 / 10) UPDATE_WEIGHT" "f64_nearest (1 / 100) BID_DEPOSIT_PERCENT"
  by (simp_all add: f64_defs MAX_INFLATION_RATE_def TRANSACTION_FEE_PERCENT_def SLASHING_PERCENT_def
      DAILY_DECAY_RATE_def UPDATE_WEIGHT_def BID_DEPOSIT_PERCENT_def power_int_def power_divide)

end
